(* ===== verification/Prelude.thy ===== *)
theory Prelude
  imports Main "HOL-Library.List_Lexorder" "HOL-Library.Char_ord" "HOL-Library.Sublist"
    "HOL-Library.AList"
begin

text \<open>
  What every component shares: the text operations of Python's \<^verbatim>\<open>str\<close> that the installer
  uses, its ordered dictionaries as association lists, and the collections of facts that
  carry the component proofs.

  Text is a \<^typ>\<open>string\<close>, a list of 8-bit characters. The character classes below
  (white space, digits, case) are Python's on the ASCII range, which is the range of every
  text the installer produces or compares.
\<close>

named_theorems text_simps \<open>evaluation of the text operations on constructors\<close>
named_theorems emits_intros \<open>introduction rules for what an action may run\<close>
named_theorems oblivious_intros \<open>introduction rules for independence of the passwords\<close>
named_theorems cfg_simps \<open>the constants and derived attributes of the configuration\<close>

subsection \<open>Characters\<close>

abbreviation NL :: string where "NL \<equiv> [CHR 0x0A]"
abbreviation TAB :: string where "TAB \<equiv> [CHR 0x09]"
abbreviation DQ :: string where "DQ \<equiv> [CHR 0x22]"
abbreviation SQ :: string where "SQ \<equiv> [CHR 0x27]"
abbreviation BSLASH :: string where "BSLASH \<equiv> [CHR 0x5C]"

definition is_space :: "char \<Rightarrow> bool" where
  "is_space c \<longleftrightarrow> c \<in> {CHR 0x20, CHR 0x09, CHR 0x0A, CHR 0x0B, CHR 0x0C, CHR 0x0D,
     CHR 0x1C, CHR 0x1D, CHR 0x1E, CHR 0x1F}"

definition is_digit :: "char \<Rightarrow> bool" where
  "is_digit c \<longleftrightarrow> CHR ''0'' \<le> c \<and> c \<le> CHR ''9''"

definition is_upper :: "char \<Rightarrow> bool" where
  "is_upper c \<longleftrightarrow> CHR ''A'' \<le> c \<and> c \<le> CHR ''Z''"

definition is_lower :: "char \<Rightarrow> bool" where
  "is_lower c \<longleftrightarrow> CHR ''a'' \<le> c \<and> c \<le> CHR ''z''"

definition lower_char :: "char \<Rightarrow> char" where
  "lower_char c = (if is_upper c then char_of (of_char c + (32::nat)) else c)"

definition lower :: "string \<Rightarrow> string" where
  "lower s = map lower_char s"

subsection \<open>Stripping and splitting\<close>

definition lstrip :: "string \<Rightarrow> string" where
  "lstrip s = dropWhile is_space s"

definition rstrip :: "string \<Rightarrow> string" where
  "rstrip s = rev (dropWhile is_space (rev s))"

definition strip :: "string \<Rightarrow> string" where
  "strip s = rstrip (lstrip s)"

definition lstrip_chars :: "char set \<Rightarrow> string \<Rightarrow> string" where
  "lstrip_chars cs s = dropWhile (\<lambda>c. c \<in> cs) s"

definition rstrip_chars :: "char set \<Rightarrow> string \<Rightarrow> string" where
  "rstrip_chars cs s = rev (dropWhile (\<lambda>c. c \<in> cs) (rev s))"

text \<open>\<^verbatim>\<open>s.center(width)\<close>, where the padding on the left is the longer one in an odd width.\<close>

definition centered :: "'a \<Rightarrow> int \<Rightarrow> 'a list \<Rightarrow> 'a list" where
  "centered blank width s =
     (let marg = width - int (length s);
          left = marg div 2 + (if odd marg \<and> odd width then 1 else 0)
      in if marg \<le> 0 then s else replicate (nat left) blank @ s @ replicate (nat (marg - left)) blank)"

text \<open>\<^verbatim>\<open>s.split()\<close>: the maximal runs of characters that are not white space.\<close>

function split_ws :: "string \<Rightarrow> string list" where
  "split_ws [] = []"
| "split_ws (c # cs) =
     (if is_space c then split_ws cs
      else (c # takeWhile (\<lambda>d. \<not> is_space d) cs) # split_ws (dropWhile (\<lambda>d. \<not> is_space d) cs))"
  by pat_completeness auto
termination
  by (relation "measure length") (auto simp: less_Suc_eq_le length_dropWhile_le)

text \<open>The first occurrence of a separator: the text before it and the text after it.\<close>

fun find_sep :: "string \<Rightarrow> string \<Rightarrow> (string \<times> string) option" where
  "find_sep sep [] = (if sep = [] then Some ([], []) else None)"
| "find_sep sep (c # cs) =
     (if prefix sep (c # cs) then Some ([], drop (length sep) (c # cs))
      else map_option (\<lambda>(a, b). (c # a, b)) (find_sep sep cs))"

lemma find_sep_append: "find_sep sep s = Some (a, b) \<Longrightarrow> s = a @ sep @ b"
proof (induction s arbitrary: a b)
  case Nil
  then show ?case by (simp split: if_splits)
next
  case (Cons c cs)
  show ?case
  proof (cases "prefix sep (c # cs)")
    case True
    with Cons.prems show ?thesis by (auto simp: prefix_def)
  next
    case False
    with Cons.prems obtain a' where "find_sep sep cs = Some (a', b)" and "a = c # a'"
      by auto
    with Cons.IH show ?thesis by simp
  qed
qed

text \<open>\<^verbatim>\<open>s.split(sep)\<close> for a separator that is not empty.\<close>

function split_on :: "string \<Rightarrow> string \<Rightarrow> string list" where
  "split_on sep s =
     (if sep = [] then [s]
      else case find_sep sep s of None \<Rightarrow> [s] | Some (a, b) \<Rightarrow> a # split_on sep b)"
  by pat_completeness auto
termination
  by (relation "measure (\<lambda>(sep, s). length s)") (auto dest!: find_sep_append)

declare split_on.simps [simp del, text_simps]

text \<open>\<^verbatim>\<open>s.rsplit(c, 1)[-1]\<close> and \<^verbatim>\<open>s.rsplit(c, 1)[0]\<close> for a separator of one character.\<close>

definition after_last :: "char \<Rightarrow> string \<Rightarrow> string" where
  "after_last c s = rev (takeWhile (\<lambda>d. d \<noteq> c) (rev s))"

definition before_last :: "char \<Rightarrow> string \<Rightarrow> string" where
  "before_last c s = (if c \<in> set s then rev (tl (dropWhile (\<lambda>d. d \<noteq> c) (rev s))) else s)"

definition is_line_break :: "char \<Rightarrow> bool" where
  "is_line_break c \<longleftrightarrow> c \<in> {CHR 0x0A, CHR 0x0D, CHR 0x0B, CHR 0x0C, CHR 0x1C, CHR 0x1D, CHR 0x1E}"

text \<open>\<^verbatim>\<open>s.splitlines()\<close>: a carriage return and the newline after it end one line.\<close>

fun drop_break :: "string \<Rightarrow> string" where
  "drop_break [] = []"
| "drop_break (c # cs) = (if c = CHR 0x0D \<and> prefix [CHR 0x0A] cs then drop 1 cs else cs)"

lemma length_drop_break: "length (drop_break s) \<le> length s - 1"
  by (cases s) auto

function splitlines :: "string \<Rightarrow> string list" where
  "splitlines [] = []"
| "splitlines (c # cs) =
     takeWhile (\<lambda>d. \<not> is_line_break d) (c # cs)
     # splitlines (drop_break (dropWhile (\<lambda>d. \<not> is_line_break d) (c # cs)))"
  by pat_completeness auto
termination
proof (relation "measure length")
  fix c :: char and cs :: string
  let ?rest = "dropWhile (\<lambda>d. \<not> is_line_break d) (c # cs)"
  have "length ?rest \<le> Suc (length cs)"
    using length_dropWhile_le [of "\<lambda>d. \<not> is_line_break d" "c # cs"] by simp
  with length_drop_break [of ?rest] show "(drop_break ?rest, c # cs) \<in> measure length"
    by simp
qed simp

fun join :: "string \<Rightarrow> string list \<Rightarrow> string" where
  "join sep [] = []"
| "join sep [x] = x"
| "join sep (x # y # ys) = x @ sep @ join sep (y # ys)"

fun contains :: "string \<Rightarrow> string \<Rightarrow> bool" where
  "contains p [] = (p = [])"
| "contains p (c # cs) = (prefix p (c # cs) \<or> contains p cs)"

text \<open>\<^verbatim>\<open>s.replace(old, new)\<close> for an \<^verbatim>\<open>old\<close> that is not empty, and its form that stops after one.\<close>

definition replace_all :: "string \<Rightarrow> string \<Rightarrow> string \<Rightarrow> string" where
  "replace_all old new s = join new (split_on old s)"

definition replace_first :: "string \<Rightarrow> string \<Rightarrow> string \<Rightarrow> string" where
  "replace_first old new s = (case find_sep old s of None \<Rightarrow> s | Some (a, b) \<Rightarrow> a @ new @ b)"

text \<open>A text written as a block of lines, each ended by a newline.\<close>

definition text_block :: "string list \<Rightarrow> string" where
  "text_block ls = concat (map (\<lambda>l. l @ NL) ls)"

subsection \<open>Numbers as text\<close>

definition digit_char :: "nat \<Rightarrow> char" where
  "digit_char d = char_of (48 + d)"

definition digit_value :: "char \<Rightarrow> nat" where
  "digit_value c = of_char c - 48"

fun string_of_nat :: "nat \<Rightarrow> string" where
  "string_of_nat n =
     (if n < 10 then [digit_char n] else string_of_nat (n div 10) @ [digit_char (n mod 10)])"

declare string_of_nat.simps [simp del, text_simps]

definition string_of_int :: "int \<Rightarrow> string" where
  "string_of_int i = (if i < 0 then ''-'' @ string_of_nat (nat (- i)) else string_of_nat (nat i))"

text \<open>\<^verbatim>\<open>s.isdigit()\<close>, and \<^verbatim>\<open>int(s)\<close> for a text of digits.\<close>

definition isdigit :: "string \<Rightarrow> bool" where
  "isdigit s \<longleftrightarrow> s \<noteq> [] \<and> list_all is_digit s"

definition nat_of_digits :: "string \<Rightarrow> nat" where
  "nat_of_digits s = foldl (\<lambda>n c. 10 * n + digit_value c) 0 s"

text \<open>
  \<^verbatim>\<open>int(text)\<close>: white space around an optional sign and digits, which single underscores
  may group; anything else raises \<^verbatim>\<open>ValueError\<close>.
\<close>

fun grouped_digits :: "string \<Rightarrow> bool" where
  "grouped_digits [] = False"
| "grouped_digits [c] = is_digit c"
| "grouped_digits (c # d # ds) =
     (is_digit c \<and> (if d = CHR ''_'' then grouped_digits ds else grouped_digits (d # ds)))"

definition py_int :: "string \<Rightarrow> int option" where
  "py_int text =
     (let s = strip text;
          negative = prefix ''-'' s;
          digits = (if negative \<or> prefix ''+'' s then drop 1 s else s);
          n = int (nat_of_digits (filter (\<lambda>c. c \<noteq> CHR ''_'') digits))
      in if grouped_digits digits then Some (if negative then - n else n) else None)"

text \<open>
  \<^verbatim>\<open>repr\<close> of an ASCII text and of a tuple of texts, as an f-string shows them: double quotes
  around a text with single quotes only, escapes for what is not printable.
\<close>

definition hex_digit :: "nat \<Rightarrow> char" where
  "hex_digit d = (if d < 10 then char_of (48 + d) else char_of (87 + d))"

definition repr_char :: "string \<Rightarrow> char \<Rightarrow> string" where
  "repr_char quote_mark ch =
     (if [ch] = quote_mark \<or> [ch] = BSLASH then BSLASH @ [ch]
      else if ch = CHR 0x0A then BSLASH @ ''n''
      else if ch = CHR 0x0D then BSLASH @ ''r''
      else if ch = CHR 0x09 then BSLASH @ ''t''
      else if ch < CHR 0x20 \<or> ch = CHR 0x7F
           then BSLASH @ ''x'' @ [hex_digit (of_char ch div 16), hex_digit (of_char ch mod 16)]
      else [ch])"

definition py_repr :: "string \<Rightarrow> string" where
  "py_repr s =
     (let quote_mark = (if contains SQ s \<and> \<not> contains DQ s then DQ else SQ)
      in quote_mark @ concat (map (repr_char quote_mark) s) @ quote_mark)"

fun tuple_repr :: "string list \<Rightarrow> string" where
  "tuple_repr [x] = ''('' @ py_repr x @ '',)''"
| "tuple_repr xs = ''('' @ join '', '' (map py_repr xs) @ '')''"

subsection \<open>Collections\<close>

text \<open>\<^verbatim>\<open>list(dict.fromkeys(xs))\<close>: the first occurrence of each item, in order.\<close>

fun keep_first :: "'a list \<Rightarrow> 'a list" where
  "keep_first [] = []"
| "keep_first (x # xs) = x # filter (\<lambda>y. y \<noteq> x) (keep_first xs)"

text \<open>\<^verbatim>\<open>sorted(set(xs))\<close>.\<close>

definition sorted_set :: "'a::linorder list \<Rightarrow> 'a list" where
  "sorted_set xs = sort (remdups xs)"

text \<open>
  A Python \<^verbatim>\<open>dict\<close> keeps its keys in insertion order: an association list with distinct
  keys. \<^const>\<open>map_of\<close> is \<^verbatim>\<open>d.get\<close>, \<^const>\<open>AList.update\<close> is \<^verbatim>\<open>d[k] = v\<close> (a known key
  keeps its place, a new one goes to the end).
\<close>

type_synonym ('k, 'v) dict = "('k \<times> 'v) list"

abbreviation keys :: "('k, 'v) dict \<Rightarrow> 'k list" where
  "keys d \<equiv> map fst d"

definition setdefault :: "'k \<Rightarrow> 'v \<Rightarrow> ('k, 'v) dict \<Rightarrow> ('k, 'v) dict" where
  "setdefault k v d = (if k \<in> set (keys d) then d else d @ [(k, v)])"

text \<open>\<^verbatim>\<open>a | b\<close> and \<^verbatim>\<open>a |= b\<close>: the entries of \<^verbatim>\<open>b\<close> stored into \<^verbatim>\<open>a\<close> one after the other.\<close>

definition dict_merge :: "('k, 'v) dict \<Rightarrow> ('k, 'v) dict \<Rightarrow> ('k, 'v) dict" where
  "dict_merge a b = foldl (\<lambda>d (k, v). AList.update k v d) a b"

subsection \<open>Facts about text\<close>

lemma prefix_append_same [simp]: "prefix s (s @ t)"
  by (simp add: prefix_def)

lemma contains_iff: "contains p s \<longleftrightarrow> (\<exists>a b. s = a @ p @ b)"
proof (induction s)
  case Nil
  then show ?case by auto
next
  case (Cons c cs)
  note IH = Cons.IH
  show ?case
  proof
    assume "contains p (c # cs)"
    then consider "prefix p (c # cs)" | "contains p cs" by auto
    then show "\<exists>a b. c # cs = a @ p @ b"
    proof cases
      case 1
      then show ?thesis by (metis append_Nil prefixE)
    next
      case 2
      with Cons.IH show ?thesis by (metis append_Cons)
    qed
  next
    assume "\<exists>a b. c # cs = a @ p @ b"
    then obtain a b where ab: "c # cs = a @ p @ b" by blast
    show "contains p (c # cs)"
    proof (cases a)
      case Nil
      with ab have "prefix p (c # cs)" by simp
      then show ?thesis by simp
    next
      case (Cons a' as)
      with ab have "cs = as @ p @ b" by simp
      with IH show ?thesis by auto
    qed
  qed
qed

lemma digit_chars [text_simps]:
  "digit_char 0 = CHR ''0''" "digit_char (Suc 0) = CHR ''1''" "digit_char 2 = CHR ''2''" "digit_char 3 = CHR ''3''"
  "digit_char 4 = CHR ''4''" "digit_char 5 = CHR ''5''" "digit_char 6 = CHR ''6''" "digit_char 7 = CHR ''7''"
  "digit_char 8 = CHR ''8''" "digit_char 9 = CHR ''9''"
  by code_simp+

lemma suffix_parts [simp]: "suffix p p" "suffix p s \<Longrightarrow> suffix p (r @ s)" "suffix p s \<Longrightarrow> suffix p (x # s)"
  by (auto simp: suffix_def)

lemma digit_char_is_digit: "d < 10 \<Longrightarrow> is_digit (digit_char d)"
  by (simp add: is_digit_def digit_char_def less_eq_char_def)

lemma digit_value_digit_char [simp]: "d < 10 \<Longrightarrow> digit_value (digit_char d) = d"
  by (simp add: digit_value_def digit_char_def)

lemma string_of_nat_not_Nil [simp]: "string_of_nat n \<noteq> []"
  by (subst string_of_nat.simps) simp

lemma string_of_nat_digits: "list_all is_digit (string_of_nat n)"
proof (induction n rule: string_of_nat.induct)
  case (1 n)
  then show ?case
    by (cases "n < 10") (subst string_of_nat.simps, simp add: digit_char_is_digit)+
qed

lemma isdigit_string_of_nat [simp]: "isdigit (string_of_nat n)"
  by (simp add: isdigit_def string_of_nat_digits)

lemma nat_of_digits_snoc: "nat_of_digits (s @ [c]) = 10 * nat_of_digits s + digit_value c"
  by (simp add: nat_of_digits_def)

lemma nat_of_digits_string_of_nat [simp]: "nat_of_digits (string_of_nat n) = n"
proof (induction n rule: string_of_nat.induct)
  case (1 n)
  show ?case
  proof (cases "n < 10")
    case True
    then show ?thesis by (subst string_of_nat.simps) (simp add: nat_of_digits_def)
  next
    case False
    with 1 show ?thesis by (subst string_of_nat.simps) (simp add: nat_of_digits_snoc)
  qed
qed

lemma grouped_digits_isdigit: "isdigit s \<Longrightarrow> grouped_digits s"
  by (induction s rule: grouped_digits.induct) (auto simp: isdigit_def is_digit_def less_eq_char_def)

lemma digits_not_grouping: "list_all is_digit s \<Longrightarrow> filter (\<lambda>c. c \<noteq> CHR ''_'') s = s"
  by (induction s) (auto simp: is_digit_def less_eq_char_def)

lemma string_of_nat_inject [simp]: "string_of_nat m = string_of_nat n \<longleftrightarrow> m = n"
  by (metis nat_of_digits_string_of_nat)

lemma is_digit_not_space: "is_digit c \<Longrightarrow> \<not> is_space c"
  by (auto simp: is_digit_def is_space_def less_eq_char_def)

lemma dropWhile_all_not: "list_all (\<lambda>c. \<not> P c) s \<Longrightarrow> dropWhile P s = s"
  by (cases s) auto

lemma strip_no_space: "list_all (\<lambda>c. \<not> is_space c) s \<Longrightarrow> strip s = s"
  by (simp add: strip_def lstrip_def rstrip_def dropWhile_all_not)

lemma py_int_string_of_nat [simp]: "py_int (string_of_nat n) = Some (int n)"
proof -
  note digits = string_of_nat_digits [of n]
  then have "list_all (\<lambda>c. \<not> is_space c) (string_of_nat n)"
    by (auto simp: list_all_iff dest: is_digit_not_space)
  moreover have "\<not> prefix ''-'' (string_of_nat n)" "\<not> prefix ''+'' (string_of_nat n)"
    using digits by (auto simp: prefix_def is_digit_def less_eq_char_def)
  ultimately show ?thesis
    using digits by (simp add: py_int_def strip_no_space Let_def grouped_digits_isdigit digits_not_grouping)
qed

lemma split_ws_no_space:
  assumes "s \<noteq> []" and "list_all (\<lambda>c. \<not> is_space c) s"
  shows "split_ws s = [s]"
proof -
  from assms(1) obtain c cs where s: "s = c # cs" by (cases s) auto
  with assms(2) have "takeWhile (\<lambda>d. \<not> is_space d) cs = cs"
    and drop: "dropWhile (\<lambda>d. \<not> is_space d) cs = []"
    by (simp_all add: list_all_iff)
  with s assms(2) show ?thesis by (simp add: drop del: dropWhile_eq_Nil_conv)
qed

lemma split_ws_words: "w \<in> set (split_ws s) \<Longrightarrow> w \<noteq> [] \<and> list_all (\<lambda>c. \<not> is_space c) w"
proof (induction s rule: split_ws.induct)
  case 1
  then show ?case by simp
next
  case (2 c cs)
  have taken: "list_all (\<lambda>d. \<not> is_space d) (takeWhile (\<lambda>d. \<not> is_space d) cs)"
    by (auto simp: list_all_iff dest: set_takeWhileD)
  show ?case
  proof (cases "is_space c")
    case True
    with 2 show ?thesis by simp
  next
    case False
    with 2 taken show ?thesis by auto
  qed
qed

subsection \<open>Splitting at one character\<close>

lemma find_sep_single:
  "find_sep [c] s = (if c \<in> set s then Some (takeWhile (\<lambda>d. d \<noteq> c) s, tl (dropWhile (\<lambda>d. d \<noteq> c) s)) else None)"
  by (induction s) auto

lemma split_on_fresh: "c \<notin> set s \<Longrightarrow> split_on [c] s = [s]"
  by (subst split_on.simps) (simp add: find_sep_single)

lemma split_on_append: "c \<notin> set s \<Longrightarrow> split_on [c] (s @ c # t) = s # split_on [c] t"
  by (subst split_on.simps) (simp add: find_sep_single takeWhile_append dropWhile_append)

lemma split_on_join:
  "xs \<noteq> [] \<Longrightarrow> (\<And>x. x \<in> set xs \<Longrightarrow> c \<notin> set x) \<Longrightarrow> split_on [c] (join [c] xs) = xs"
  by (induction "[c]" xs rule: join.induct) (simp_all add: split_on_fresh split_on_append)

lemma split_on_not_Nil: "split_on sep s \<noteq> []"
  by (subst split_on.simps) (simp split: option.split)

lemma join_Cons: "xs \<noteq> [] \<Longrightarrow> join sep (x # xs) = x @ sep @ join sep xs"
  by (cases xs) auto

lemma string_of_nat_set: "set (string_of_nat n) \<subseteq> {c. is_digit c}"
  using string_of_nat_digits [of n] by (auto simp: list_all_iff)

subsection \<open>Codecs\<close>

text \<open>A text or byte format with a reader: what is written is read back, so no two values share a text.\<close>

locale codec =
  fixes encode :: "'a \<Rightarrow> 'b list" and decode :: "'b list \<Rightarrow> 'a option"
  assumes decode_encode: "decode (encode x) = Some x"
begin

lemma encode_inject: "encode x = encode y \<longleftrightarrow> x = y"
  by (metis decode_encode option.inject)

lemma decode_eq: "t = encode x \<Longrightarrow> decode t = Some x"
  by (simp add: decode_encode)

lemma decode_all: "map (decode \<circ> encode) xs = map Some xs"
  by (simp add: decode_encode)

end

subsection \<open>Facts about collections\<close>

lemma set_keep_first [simp]: "set (keep_first xs) = set xs"
  by (induction xs) auto

lemma distinct_keep_first [simp]: "distinct (keep_first xs)"
  by (induction xs) auto

lemma keep_first_distinct: "distinct xs \<Longrightarrow> keep_first xs = xs"
  by (induction xs) (auto intro!: filter_True)

lemma set_sorted_set [simp]: "set (sorted_set xs) = set xs"
  by (simp add: sorted_set_def)

lemma sorted_sorted_set [simp]: "sorted (sorted_set xs)"
  by (simp add: sorted_set_def)

lemma distinct_sorted_set [simp]: "distinct (sorted_set xs)"
  by (simp add: sorted_set_def)

lemma keys_update: "set (keys (AList.update k v d)) = insert k (set (keys d))"
  by (simp add: dom_update)

lemma map_of_setdefault:
  "map_of (setdefault k v d) j = (if j = k \<and> map_of d k = None then Some v else map_of d j)"
  using map_of_eq_None_iff [of d k] by (auto simp: setdefault_def map_add_def split: option.splits)

end
