(* ===== verification/Errors.thy ===== *)
theory Errors
  imports Prelude
begin

text \<open>
  The exceptions an operation can raise (\<^verbatim>\<open>errors.py\<close> and the built-in exceptions the code
  raises or lets through), as values. Each keeps what the code puts into it.
\<close>

datatype error =
    Command_Error (failed_command: string) (failed_exit_code: int)
      (failed_stdout: string) (failed_stderr: string)
  | Configuration_Error string
  | Missing_Settings_Error "string list"
  | Migration_Error string
  | Usb_Boot_Drive_Error string
  | Runtime_Error string
  | Index_Error
  | Value_Error string
  | Type_Error string
  | Key_Error string
  | Keyboard_Interrupt string

text \<open>\<^verbatim>\<open>MissingSettingsError\<close> is a subclass of \<^verbatim>\<open>ConfigurationError\<close>, and both of \<^verbatim>\<open>ArchInstallerError\<close>.\<close>

fun is_configuration_error :: "error \<Rightarrow> bool" where
  "is_configuration_error (Configuration_Error _) = True"
| "is_configuration_error (Missing_Settings_Error _) = True"
| "is_configuration_error _ = False"

fun is_installer_error :: "error \<Rightarrow> bool" where
  "is_installer_error (Command_Error _ _ _ _) = True"
| "is_installer_error (Configuration_Error _) = True"
| "is_installer_error (Missing_Settings_Error _) = True"
| "is_installer_error (Migration_Error _) = True"
| "is_installer_error (Usb_Boot_Drive_Error _) = True"
| "is_installer_error _ = False"

text \<open>\<^verbatim>\<open>str(error)\<close> of a \<^verbatim>\<open>CommandError\<close>.\<close>

definition command_error_text :: "string \<Rightarrow> int \<Rightarrow> string \<Rightarrow> string \<Rightarrow> string" where
  "command_error_text command exit_code stdout stderr =
     ''Command '' @ SQ @ command @ SQ @ '' failed with exit code '' @ string_of_int exit_code @ NL @
     ''stdout: '' @ stdout @ NL @
     ''stderr: '' @ stderr"

lemma configuration_error_is_installer_error:
  "is_configuration_error e \<Longrightarrow> is_installer_error e"
  by (cases e) auto

subsection \<open>Results\<close>

text \<open>Code that raises without running commands: \<^verbatim>\<open>Inl\<close> the exception, \<^verbatim>\<open>Inr\<close> the value.\<close>

type_synonym 'a result = "error + 'a"

definition bindE :: "'a result \<Rightarrow> ('a \<Rightarrow> 'b result) \<Rightarrow> 'b result" where
  "bindE r f = (case r of Inl e \<Rightarrow> Inl e | Inr x \<Rightarrow> f x)"

fun mapE :: "('a \<Rightarrow> 'b result) \<Rightarrow> 'a list \<Rightarrow> 'b list result" where
  "mapE f [] = Inr []"
| "mapE f (x # xs) = bindE (f x) (\<lambda>y. bindE (mapE f xs) (\<lambda>ys. Inr (y # ys)))"

text \<open>A loop that changes a state and may raise.\<close>

fun foldE :: "('a \<Rightarrow> 's \<Rightarrow> 's result) \<Rightarrow> 'a list \<Rightarrow> 's \<Rightarrow> 's result" where
  "foldE f [] s = Inr s"
| "foldE f (x # xs) s = bindE (f x s) (foldE f xs)"

lemma bindE_simps [simp]:
  "bindE (Inl e) f = Inl e"
  "bindE (Inr x) f = f x"
  by (simp_all add: bindE_def)

lemma bindE_Inr_iff: "bindE r f = Inr y \<longleftrightarrow> (\<exists>x. r = Inr x \<and> f x = Inr y)"
  by (cases r) auto

lemma mapE_Inr_iff: "mapE f xs = Inr ys \<longleftrightarrow> list_all2 (\<lambda>x y. f x = Inr y) xs ys"
  by (induction xs arbitrary: ys) (auto simp: bindE_Inr_iff list_all2_Cons1)

lemma mapE_all_Inr: "(\<And>x. x \<in> set xs \<Longrightarrow> f x = Inr (g x)) \<Longrightarrow> mapE f xs = Inr (map g xs)"
  by (induction xs) auto

end
