(* ===== verification/Command_Runner.thy ===== *)
theory Command_Runner
  imports Errors
begin

text \<open>
  \<^verbatim>\<open>core/command.py\<close>: the only way the installer acts on the machine. Every step executor is
  an action over a \<^verbatim>\<open>CommandRunner\<close>.

  The machine behind \<^verbatim>\<open>subprocess.run\<close> is the parameter \<open>os\<close>: what the operating system
  answers to a command may depend on everything that was run before it, so \<open>os\<close> is any
  function from the history and the command to the answer. The state an action threads is
  that history; the theorems hold for every \<open>os\<close> unless they say otherwise.
\<close>

subsection \<open>Commands and their results\<close>

text \<open>A command is a shell line, or a list of arguments that runs without a shell.\<close>

datatype command = Shell string | Argv "string list"

fun command_text :: "command \<Rightarrow> string" where
  "command_text (Shell s) = s"
| "command_text (Argv ws) = join '' '' ws"

record request =
  req_command :: command
  req_capture_output :: bool
  req_env_variables :: "(string, string) dict option"
  req_working_directory :: "string option"
  req_input_data :: "string option"

text \<open>\<^verbatim>\<open>subprocess.run\<close> returns a completed process or raises \<^verbatim>\<open>FileNotFoundError\<close>.\<close>

datatype os_reply = Not_Found string | Completed int string string

datatype event = Ran request os_reply | Slept nat

type_synonym history = "event list"
type_synonym os = "history \<Rightarrow> request \<Rightarrow> os_reply"
type_synonym 'a action = "os \<Rightarrow> history \<Rightarrow> (error + 'a) \<times> history"

record execution_result =
  res_command :: string
  exit_code :: int
  stdout :: string
  stderr :: string

definition success :: "execution_result \<Rightarrow> bool" where
  "success r \<longleftrightarrow> exit_code r = 0"

definition combined_output :: "execution_result \<Rightarrow> string" where
  "combined_output r = strip (stdout r @ NL @ stderr r)"

subsection \<open>Sequencing actions\<close>

definition returnA :: "'a \<Rightarrow> 'a action" where
  "returnA x os h = (Inr x, h)"

definition raiseA :: "error \<Rightarrow> 'a action" where
  "raiseA e os h = (Inl e, h)"

definition bindA :: "'a action \<Rightarrow> ('a \<Rightarrow> 'b action) \<Rightarrow> 'b action" where
  "bindA m f os h = (case m os h of (Inl e, h') \<Rightarrow> (Inl e, h') | (Inr x, h') \<Rightarrow> f x os h')"

definition thenA :: "'a action \<Rightarrow> 'b action \<Rightarrow> 'b action" where
  "thenA m n = bindA m (\<lambda>_. n)"

text \<open>Statements one after the other, a statement under a condition, a \<^verbatim>\<open>for\<close> loop.\<close>

fun seqA :: "unit action list \<Rightarrow> unit action" where
  "seqA [] = returnA ()"
| "seqA (m # ms) = thenA m (seqA ms)"

definition whenA :: "bool \<Rightarrow> unit action \<Rightarrow> unit action" where
  "whenA b m = (if b then m else returnA ())"

fun forA :: "'a list \<Rightarrow> ('a \<Rightarrow> unit action) \<Rightarrow> unit action" where
  "forA [] f = returnA ()"
| "forA (x # xs) f = thenA (f x) (forA xs f)"

text \<open>A comprehension whose condition runs commands, as \<^verbatim>\<open>[x for x in xs if check(x)]\<close>.\<close>

fun filterA :: "('a \<Rightarrow> bool action) \<Rightarrow> 'a list \<Rightarrow> 'a list action" where
  "filterA p [] = returnA []"
| "filterA p (x # xs) =
     bindA (p x) (\<lambda>b. bindA (filterA p xs) (\<lambda>ys. returnA (if b then x # ys else ys)))"

text \<open>\<^verbatim>\<open>try: m finally: clean\<close>: an exception of \<^verbatim>\<open>clean\<close> replaces the outcome of \<^verbatim>\<open>m\<close>.\<close>

definition finallyA :: "'a action \<Rightarrow> unit action \<Rightarrow> 'a action" where
  "finallyA m clean os h =
     (case m os h of (r, h') \<Rightarrow>
        (case clean os h' of (Inl e, h'') \<Rightarrow> (Inl e, h'') | (Inr _, h'') \<Rightarrow> (r, h'')))"

definition sleep :: "nat \<Rightarrow> unit action" where
  "sleep n os h = (Inr (), h @ [Slept n])"

subsection \<open>The command runner\<close>

definition run :: "bool \<Rightarrow> request \<Rightarrow> execution_result action" where
  "run raise_on_nonzero_exit q os h =
     (let reply = os h q;
          h' = h @ [Ran q reply];
          text = command_text (req_command q)
      in case reply of
           Not_Found msg \<Rightarrow>
             (Inl (Command_Error text 127 [] (''Command not found: '' @ msg)), h')
         | Completed code out err \<Rightarrow>
             (let result = \<lparr>res_command = text, exit_code = code,
                  stdout = (if req_capture_output q then out else []),
                  stderr = (if req_capture_output q then err else [])\<rparr>
              in if raise_on_nonzero_exit \<and> \<not> success result
                 then (Inl (Command_Error text code (stdout result) (stderr result)), h')
                 else (Inr result, h')))"

definition run_as_chroot :: "bool \<Rightarrow> string \<Rightarrow> request \<Rightarrow> execution_result action" where
  "run_as_chroot raise_on_nonzero_exit chroot_path q =
     run raise_on_nonzero_exit
       (q\<lparr>req_command := Shell (''arch-chroot '' @ chroot_path @ '' '' @ command_text (req_command q)),
          req_working_directory := None\<rparr>)"

text \<open>
  The calls the executors make: a shell line with the default arguments. A name ending in
  \<open>_ok\<close> is the call with \<^verbatim>\<open>raise_on_nonzero_exit=False\<close>, one starting with \<open>do_\<close> drops the
  result.
\<close>

definition shell_request :: "string \<Rightarrow> request" where
  "shell_request s = \<lparr>req_command = Shell s, req_capture_output = True, req_env_variables = None,
     req_working_directory = None, req_input_data = None\<rparr>"

definition input_request :: "string \<Rightarrow> string \<Rightarrow> request" where
  "input_request s input = (shell_request s)\<lparr>req_input_data := Some input\<rparr>"

definition argv_request :: "string list \<Rightarrow> request" where
  "argv_request ws = (shell_request [])\<lparr>req_command := Argv ws\<rparr>"

definition sh :: "string \<Rightarrow> execution_result action" where
  "sh s = run True (shell_request s)"

definition sh_ok :: "string \<Rightarrow> execution_result action" where
  "sh_ok s = run False (shell_request s)"

definition sh_input :: "string \<Rightarrow> string \<Rightarrow> execution_result action" where
  "sh_input s input = run True (input_request s input)"

definition sh_input_ok :: "string \<Rightarrow> string \<Rightarrow> execution_result action" where
  "sh_input_ok s input = run False (input_request s input)"

definition chroot :: "string \<Rightarrow> execution_result action" where
  "chroot s = run_as_chroot True ''/mnt'' (shell_request s)"

definition chroot_ok :: "string \<Rightarrow> execution_result action" where
  "chroot_ok s = run_as_chroot False ''/mnt'' (shell_request s)"

definition chroot_input :: "string \<Rightarrow> string \<Rightarrow> execution_result action" where
  "chroot_input s input = run_as_chroot True ''/mnt'' (input_request s input)"

definition do_sh :: "string \<Rightarrow> unit action" where
  "do_sh s = thenA (sh s) (returnA ())"

definition do_sh_ok :: "string \<Rightarrow> unit action" where
  "do_sh_ok s = thenA (sh_ok s) (returnA ())"

definition do_sh_input :: "string \<Rightarrow> string \<Rightarrow> unit action" where
  "do_sh_input s input = thenA (sh_input s input) (returnA ())"

definition do_chroot :: "string \<Rightarrow> unit action" where
  "do_chroot s = thenA (chroot s) (returnA ())"

definition do_chroot_ok :: "string \<Rightarrow> unit action" where
  "do_chroot_ok s = thenA (chroot_ok s) (returnA ())"

definition do_chroot_input :: "string \<Rightarrow> string \<Rightarrow> unit action" where
  "do_chroot_input s input = thenA (chroot_input s input) (returnA ())"

text \<open>The two results the callers mostly ask for.\<close>

definition succeeds :: "execution_result action \<Rightarrow> bool action" where
  "succeeds m = bindA m (\<lambda>r. returnA (success r))"

definition stdout_of :: "execution_result action \<Rightarrow> string action" where
  "stdout_of m = bindA m (\<lambda>r. returnA (stdout r))"

end
