(* ===== verification/Action_Logic.thy ===== *)
theory Action_Logic
  imports Command_Runner
begin

text \<open>
  How the component proofs reason about actions, over every machine \<open>os\<close>:
  \<^item> \<open>emits P m\<close>: whatever happens, \<open>m\<close> only adds to the history, and every command it adds
    satisfies \<open>P\<close> (a safety property of each command);
  \<^item> \<open>valid os P m Q E\<close>: a Hoare triple over the history, with one postcondition for a normal
    end and one for an exception (for properties of the order of commands);
  \<^item> \<open>indist m m'\<close>: the two actions run the same commands and end the same way, up to the
    data sent to the commands' standard input (for secrecy).
\<close>

subsection \<open>Evaluation\<close>

lemma returnA_apply: "returnA x os h = (Inr x, h)"
  by (simp add: returnA_def)

lemma raiseA_apply: "raiseA e os h = (Inl e, h)"
  by (simp add: raiseA_def)

lemma sleep_apply: "sleep n os h = (Inr (), h @ [Slept n])"
  by (simp add: sleep_def)

lemmas action_apply = returnA_apply raiseA_apply sleep_apply

lemma bindA_Inr: "m os h = (Inr x, h') \<Longrightarrow> bindA m f os h = f x os h'"
  by (simp add: bindA_def)

lemma bindA_Inl: "m os h = (Inl e, h') \<Longrightarrow> bindA m f os h = (Inl e, h')"
  by (simp add: bindA_def)

lemma returnA_bindA [simp]: "bindA (returnA x) f = f x"
  by (simp add: bindA_def fun_eq_iff action_apply)

lemma raiseA_bindA [simp]: "bindA (raiseA e) f = raiseA e"
  by (simp add: bindA_def fun_eq_iff action_apply)

lemma bindA_returnA [simp]: "bindA m returnA = m"
  by (auto simp: bindA_def fun_eq_iff action_apply split: prod.splits sum.splits)

lemma bindA_assoc: "bindA (bindA m f) g = bindA m (\<lambda>x. bindA (f x) g)"
  by (auto simp: bindA_def fun_eq_iff split: prod.splits sum.splits)

lemma bindA_cases:
  assumes "bindA m f os h = (r, h')"
  obtains (raises) e where "m os h = (Inl e, h')" and "r = Inl e"
        | (continues) x h1 where "m os h = (Inr x, h1)" and "f x os h1 = (r, h')"
  using assms by (auto simp: bindA_def split: prod.splits sum.splits)

lemmas call_defs = sh_def sh_ok_def sh_input_def sh_input_ok_def chroot_def chroot_ok_def
  chroot_input_def do_sh_def do_sh_ok_def do_sh_input_def do_chroot_def do_chroot_ok_def
  do_chroot_input_def succeeds_def stdout_of_def

definition req_text :: "request \<Rightarrow> string" where
  "req_text q = command_text (req_command q)"

lemma req_text_simps [simp]:
  "req_text (shell_request s) = s"
  "req_text (input_request s i) = s"
  "req_text (argv_request ws) = join '' '' ws"
  by (simp_all add: req_text_def shell_request_def input_request_def argv_request_def)

text \<open>What \<^const>\<open>run\<close> promises: one event, an exception exactly when the call asks for it.\<close>

lemma run_history: "snd (run b q os h) = h @ [Ran q (os h q)]"
  by (simp add: run_def Let_def split: os_reply.split)

lemma run_result:
  "fst (run b q os h) =
     (case os h q of
        Not_Found msg \<Rightarrow> Inl (Command_Error (req_text q) 127 [] (''Command not found: '' @ msg))
      | Completed code out err \<Rightarrow>
          (let o' = (if req_capture_output q then out else []);
               e' = (if req_capture_output q then err else [])
           in if b \<and> code \<noteq> 0 then Inl (Command_Error (req_text q) code o' e')
              else Inr \<lparr>res_command = req_text q, exit_code = code, stdout = o', stderr = e'\<rparr>))"
  by (auto simp: run_def Let_def success_def req_text_def split: os_reply.split)

lemma run_apply: "run b q os h = (fst (run b q os h), h @ [Ran q (os h q)])"
  by (metis run_history prod.collapse)

lemma run_raising_success: "run True q os h = (Inr r, h') \<Longrightarrow> success r"
  by (auto simp: run_def Let_def success_def split: os_reply.splits if_splits)

subsection \<open>What an action may run\<close>

fun event_texts :: "event \<Rightarrow> string list" where
  "event_texts (Ran q r) = [req_text q]"
| "event_texts (Slept n) = []"

definition texts :: "history \<Rightarrow> string list" where
  "texts h = concat (map event_texts h)"

lemma texts_simps [simp]:
  "texts [] = []"
  "texts (Ran q r # h) = req_text q # texts h"
  "texts (Slept n # h) = texts h"
  "texts (h @ h') = texts h @ texts h'"
  by (simp_all add: texts_def)

definition emits :: "(string \<Rightarrow> bool) \<Rightarrow> 'a action \<Rightarrow> bool" where
  "emits P m \<longleftrightarrow> (\<forall>os h. \<exists>new. snd (m os h) = h @ new \<and> (\<forall>t \<in> set (texts new). P t))"

lemma emitsI:
  "(\<And>os h. \<exists>new. snd (m os h) = h @ new \<and> (\<forall>t \<in> set (texts new). P t)) \<Longrightarrow> emits P m"
  by (simp add: emits_def)

lemma emitsD:
  assumes "emits P m" and "m os h = (r, h')"
  obtains new where "h' = h @ new" and "\<forall>t \<in> set (texts new). P t"
  using assms by (metis emits_def snd_conv)

lemma emits_mono: "emits P m \<Longrightarrow> (\<And>t. P t \<Longrightarrow> Q t) \<Longrightarrow> emits Q m"
  unfolding emits_def by blast

lemma emits_conj: "emits P m \<Longrightarrow> emits Q m \<Longrightarrow> emits (\<lambda>t. P t \<and> Q t) m"
  unfolding emits_def by (metis append_eq_append_conv)

lemma emits_returnA [emits_intros]: "emits P (returnA x)"
  by (simp add: emits_def action_apply)

lemma emits_raiseA [emits_intros]: "emits P (raiseA e)"
  by (simp add: emits_def action_apply)

lemma emits_sleep [emits_intros]: "emits P (sleep n)"
  by (simp add: emits_def action_apply)

lemma emits_bindA_result:
  assumes m: "emits P m" and f: "\<And>os h x h'. m os h = (Inr x, h') \<Longrightarrow> emits P (f x)"
  shows "emits P (bindA m f)"
proof (rule emitsI)
  fix os h
  obtain r h1 where mr: "m os h = (r, h1)" by fastforce
  with m obtain new where new: "h1 = h @ new" "\<forall>t \<in> set (texts new). P t"
    by (rule emitsD)
  show "\<exists>new. snd (bindA m f os h) = h @ new \<and> (\<forall>t \<in> set (texts new). P t)"
  proof (cases r)
    case (Inl e)
    with mr new show ?thesis by (simp add: bindA_def)
  next
    case (Inr x)
    with mr have "emits P (f x)" by (auto intro: f)
    then obtain new' where "snd (f x os h1) = h1 @ new'" "\<forall>t \<in> set (texts new'). P t"
      unfolding emits_def by blast
    with mr new Inr show ?thesis
      by (intro exI [of _ "new @ new'"]) (auto simp: bindA_def)
  qed
qed

lemma emits_bindA [emits_intros]:
  "emits P m \<Longrightarrow> (\<And>x. emits P (f x)) \<Longrightarrow> emits P (bindA m f)"
  by (rule emits_bindA_result)

lemma emits_thenA [emits_intros]: "emits P m \<Longrightarrow> emits P n \<Longrightarrow> emits P (thenA m n)"
  by (simp add: thenA_def emits_bindA)

lemma emits_if [emits_intros]:
  "(b \<Longrightarrow> emits P m) \<Longrightarrow> (\<not> b \<Longrightarrow> emits P n) \<Longrightarrow> emits P (if b then m else n)"
  by simp

lemma emits_whenA [emits_intros]: "(b \<Longrightarrow> emits P m) \<Longrightarrow> emits P (whenA b m)"
  by (simp add: whenA_def emits_returnA)

lemma emits_case_option [emits_intros]:
  "(x = None \<Longrightarrow> emits P m) \<Longrightarrow> (\<And>y. x = Some y \<Longrightarrow> emits P (f y)) \<Longrightarrow>
   emits P (case x of None \<Rightarrow> m | Some y \<Rightarrow> f y)"
  by (cases x) auto

lemma emits_case_prod [emits_intros]:
  "(\<And>a b. x = (a, b) \<Longrightarrow> emits P (f a b)) \<Longrightarrow> emits P (case x of (a, b) \<Rightarrow> f a b)"
  by (cases x) auto

lemma emits_case_list [emits_intros]:
  "(xs = [] \<Longrightarrow> emits P m) \<Longrightarrow> (\<And>y ys. xs = y # ys \<Longrightarrow> emits P (f y ys)) \<Longrightarrow>
   emits P (case xs of [] \<Rightarrow> m | y # ys \<Rightarrow> f y ys)"
  by (cases xs) auto

lemma emits_Let [emits_intros]: "(\<And>x. x = t \<Longrightarrow> emits P (f x)) \<Longrightarrow> emits P (let x = t in f x)"
  by simp

lemma emits_seqA_Nil [emits_intros]: "emits P (seqA [])"
  by (simp add: emits_returnA)

lemma emits_seqA_Cons [emits_intros]:
  "emits P m \<Longrightarrow> emits P (seqA ms) \<Longrightarrow> emits P (seqA (m # ms))"
  by (simp add: emits_thenA)

lemma emits_forA [emits_intros]:
  "(\<And>x. x \<in> set xs \<Longrightarrow> emits P (f x)) \<Longrightarrow> emits P (forA xs f)"
  by (induction xs) (simp_all add: emits_returnA emits_thenA)

lemma emits_filterA [emits_intros]:
  "(\<And>x. x \<in> set xs \<Longrightarrow> emits P (p x)) \<Longrightarrow> emits P (filterA p xs)"
  by (induction xs) (simp_all add: emits_returnA emits_bindA)

lemma emits_finallyA [emits_intros]:
  assumes m: "emits P m" and c: "emits P c"
  shows "emits P (finallyA m c)"
proof (rule emitsI)
  fix os h
  obtain r h1 where mr: "m os h = (r, h1)" by fastforce
  with m obtain new where new: "h1 = h @ new" "\<forall>t \<in> set (texts new). P t"
    by (rule emitsD)
  obtain s h2 where cr: "c os h1 = (s, h2)" by fastforce
  with c obtain new' where new': "h2 = h1 @ new'" "\<forall>t \<in> set (texts new'). P t"
    by (rule emitsD)
  from mr cr have "snd (finallyA m c os h) = h2"
    by (simp add: finallyA_def split: sum.split)
  with new new' show "\<exists>new. snd (finallyA m c os h) = h @ new \<and> (\<forall>t \<in> set (texts new). P t)"
    by (intro exI [of _ "new @ new'"]) auto
qed

lemma emits_run [emits_intros]: "P (req_text q) \<Longrightarrow> emits P (run b q)"
  by (rule emitsI) (simp add: run_history)

lemma emits_run_as_chroot [emits_intros]:
  "P (''arch-chroot '' @ root @ '' '' @ req_text q) \<Longrightarrow> emits P (run_as_chroot b root q)"
  unfolding run_as_chroot_def by (rule emits_run) (simp add: req_text_def)

lemma emits_calls [emits_intros]:
  "P s \<Longrightarrow> emits P (sh s)"
  "P s \<Longrightarrow> emits P (sh_ok s)"
  "P s \<Longrightarrow> emits P (sh_input s i)"
  "P s \<Longrightarrow> emits P (sh_input_ok s i)"
  "P (''arch-chroot /mnt '' @ s) \<Longrightarrow> emits P (chroot s)"
  "P (''arch-chroot /mnt '' @ s) \<Longrightarrow> emits P (chroot_ok s)"
  "P (''arch-chroot /mnt '' @ s) \<Longrightarrow> emits P (chroot_input s i)"
  "P s \<Longrightarrow> emits P (do_sh s)"
  "P s \<Longrightarrow> emits P (do_sh_ok s)"
  "P s \<Longrightarrow> emits P (do_sh_input s i)"
  "P (''arch-chroot /mnt '' @ s) \<Longrightarrow> emits P (do_chroot s)"
  "P (''arch-chroot /mnt '' @ s) \<Longrightarrow> emits P (do_chroot_ok s)"
  "P (''arch-chroot /mnt '' @ s) \<Longrightarrow> emits P (do_chroot_input s i)"
  unfolding call_defs
  by (auto intro!: emits_run emits_run_as_chroot emits_thenA emits_returnA)

lemma emits_results [emits_intros]:
  "emits P m \<Longrightarrow> emits P (succeeds m)"
  "emits P m \<Longrightarrow> emits P (stdout_of m)"
  by (simp_all add: succeeds_def stdout_of_def emits_bindA emits_returnA)

lemma emits_history_grows: "emits P m \<Longrightarrow> m os h = (r, h') \<Longrightarrow> prefix h h'"
  by (metis emitsD prefixI)

subsection \<open>Hoare triples over the history\<close>

definition valid ::
  "os \<Rightarrow> (history \<Rightarrow> bool) \<Rightarrow> 'a action \<Rightarrow> ('a \<Rightarrow> history \<Rightarrow> bool) \<Rightarrow>
   (error \<Rightarrow> history \<Rightarrow> bool) \<Rightarrow> bool" where
  "valid os P m Q E \<longleftrightarrow>
     (\<forall>h. P h \<longrightarrow> (case m os h of (Inl e, h') \<Rightarrow> E e h' | (Inr x, h') \<Rightarrow> Q x h'))"

lemma validD_Inr: "valid os P m Q E \<Longrightarrow> P h \<Longrightarrow> m os h = (Inr x, h') \<Longrightarrow> Q x h'"
  by (fastforce simp: valid_def)

lemma validD_Inl: "valid os P m Q E \<Longrightarrow> P h \<Longrightarrow> m os h = (Inl e, h') \<Longrightarrow> E e h'"
  by (fastforce simp: valid_def)

lemma validI:
  "(\<And>h x h'. P h \<Longrightarrow> m os h = (Inr x, h') \<Longrightarrow> Q x h') \<Longrightarrow>
   (\<And>h e h'. P h \<Longrightarrow> m os h = (Inl e, h') \<Longrightarrow> E e h') \<Longrightarrow> valid os P m Q E"
  by (auto simp: valid_def split: prod.split sum.split)

lemma valid_conseq:
  assumes "valid os P' m Q' E'" and "\<And>h. P h \<Longrightarrow> P' h"
    and "\<And>x h. Q' x h \<Longrightarrow> Q x h" and "\<And>e h. E' e h \<Longrightarrow> E e h"
  shows "valid os P m Q E"
  using assms by (fastforce simp: valid_def split: prod.splits sum.splits)

lemma valid_returnA: "(\<And>h. P h \<Longrightarrow> Q x h) \<Longrightarrow> valid os P (returnA x) Q E"
  by (simp add: valid_def action_apply)

lemma valid_raiseA: "(\<And>h. P h \<Longrightarrow> E e h) \<Longrightarrow> valid os P (raiseA e) Q E"
  by (simp add: valid_def action_apply)

lemma valid_bindA:
  "valid os P m R E \<Longrightarrow> (\<And>x. valid os (R x) (f x) Q E) \<Longrightarrow> valid os P (bindA m f) Q E"
  by (fastforce simp: valid_def bindA_def split: prod.splits sum.splits)

lemma valid_thenA:
  "valid os P m (\<lambda>_. R) E \<Longrightarrow> valid os R n Q E \<Longrightarrow> valid os P (thenA m n) Q E"
  unfolding thenA_def by (rule valid_bindA)

lemma valid_seqA_Nil: "valid os P (seqA []) (\<lambda>_. P) E"
  by (simp add: valid_def action_apply)

lemma valid_seqA_Cons:
  "valid os P m (\<lambda>_. R) E \<Longrightarrow> valid os R (seqA ms) Q E \<Longrightarrow> valid os P (seqA (m # ms)) Q E"
  by (simp add: valid_thenA)

lemma valid_forA:
  "(\<And>x. x \<in> set xs \<Longrightarrow> valid os I (f x) (\<lambda>_. I) E) \<Longrightarrow> valid os I (forA xs f) (\<lambda>_. I) E"
proof (induction xs)
  case Nil
  then show ?case by (simp add: valid_def action_apply)
next
  case (Cons x xs)
  then show ?case by (auto intro!: valid_thenA)
qed

lemma valid_whenA:
  "(b \<Longrightarrow> valid os P m Q E) \<Longrightarrow> (\<not> b \<Longrightarrow> (\<And>h. P h \<Longrightarrow> Q () h)) \<Longrightarrow> valid os P (whenA b m) Q E"
  by (cases b) (auto simp: whenA_def valid_def action_apply)

lemma valid_finallyA:
  assumes m: "valid os P m Q E"
    and c1: "\<And>x. valid os (Q x) c (\<lambda>_. Q' x) E'"
    and c2: "\<And>e. valid os (E e) c (\<lambda>_. E' e) E'"
  shows "valid os P (finallyA m c) Q' E'"
  unfolding valid_def
proof (intro allI impI)
  fix h assume "P h"
  obtain r h1 where mr: "m os h = (r, h1)" by fastforce
  obtain s h2 where cr: "c os h1 = (s, h2)" by fastforce
  have "case r of Inl e \<Rightarrow> E e h1 | Inr x \<Rightarrow> Q x h1"
    using m \<open>P h\<close> mr by (auto simp: valid_def split: sum.splits)
  then show "case finallyA m c os h of (Inl e, h') \<Rightarrow> E' e h' | (Inr x, h') \<Rightarrow> Q' x h'"
    using mr cr c1 c2 by (fastforce simp: valid_def finallyA_def split: sum.splits)
qed

text \<open>An action that only emits commands satisfying \<open>P\<close> keeps whatever those commands keep.\<close>

lemma emits_keeps:
  assumes "emits P m"
    and "\<And>h new. I h \<Longrightarrow> (\<forall>t \<in> set (texts new). P t) \<Longrightarrow> I (h @ new)"
  shows "valid os I m (\<lambda>_. I) (\<lambda>_. I)"
  using assms by (intro validI) (metis emitsD)+

subsection \<open>Independence of the data on standard input\<close>

text \<open>
  Two histories an observer of the process list and of the debug log cannot tell apart: the
  same commands with the same answers, whatever was sent to their standard input.
\<close>

definition hide_input :: "request \<Rightarrow> request" where
  "hide_input q = q\<lparr>req_input_data := map_option (\<lambda>_. []) (req_input_data q)\<rparr>"

fun hide_event :: "event \<Rightarrow> event" where
  "hide_event (Ran q r) = Ran (hide_input q) r"
| "hide_event (Slept n) = Slept n"

definition visible :: "history \<Rightarrow> event list" where
  "visible h = map hide_event h"

lemma visible_simps [simp]:
  "visible [] = []"
  "visible (e # h) = hide_event e # visible h"
  "visible (h @ h') = visible h @ visible h'"
  by (simp_all add: visible_def)

text \<open>
  The machine answers two commands that differ only in their standard input alike: both
  passwords of a comparison are right, or both are wrong.
\<close>

definition input_blind :: "os \<Rightarrow> bool" where
  "input_blind os \<longleftrightarrow>
     (\<forall>h h' q q'. visible h = visible h' \<longrightarrow> hide_input q = hide_input q' \<longrightarrow> os h q = os h' q')"

definition indist :: "'a action \<Rightarrow> 'a action \<Rightarrow> bool" where
  "indist m m' \<longleftrightarrow>
     (\<forall>os h h'. input_blind os \<longrightarrow> visible h = visible h' \<longrightarrow>
        fst (m os h) = fst (m' os h') \<and> visible (snd (m os h)) = visible (snd (m' os h')))"

lemma indistD:
  assumes "indist m m'" and "input_blind os" and "visible h = visible h'"
    and "m os h = (r, k)" and "m' os h' = (r', k')"
  shows "r = r' \<and> visible k = visible k'"
  using assms unfolding indist_def by (metis fst_conv snd_conv)

lemma indist_returnA [oblivious_intros]: "indist (returnA x) (returnA x)"
  by (simp add: indist_def action_apply)

lemma indist_raiseA [oblivious_intros]: "indist (raiseA e) (raiseA e)"
  by (simp add: indist_def action_apply)

lemma indist_sleep [oblivious_intros]: "indist (sleep n) (sleep n)"
  by (simp add: indist_def action_apply)

lemma req_text_hide_input: "req_text (hide_input q) = req_text q"
  by (simp add: hide_input_def req_text_def)

lemma hide_input_text: "hide_input q = hide_input q' \<Longrightarrow> req_text q = req_text q'"
  using req_text_hide_input [of q] req_text_hide_input [of q'] by simp

lemma capture_hide_input: "req_capture_output (hide_input q) = req_capture_output q"
  by (simp add: hide_input_def)

lemma hide_input_capture:
  "hide_input q = hide_input q' \<Longrightarrow> req_capture_output q = req_capture_output q'"
  using capture_hide_input [of q] capture_hide_input [of q'] by simp

lemma indist_run: "hide_input q = hide_input q' \<Longrightarrow> indist (run b q) (run b q')"
  unfolding indist_def
proof (intro allI impI)
  fix os h h' assume q: "hide_input q = hide_input q'"
    and os: "input_blind os" and h: "visible h = visible h'"
  then have reply: "os h q = os h' q'" unfolding input_blind_def by blast
  show "fst (run b q os h) = fst (run b q' os h') \<and>
        visible (snd (run b q os h)) = visible (snd (run b q' os h'))"
    using q h hide_input_text [OF q] hide_input_capture [OF q]
    by (auto simp: run_result run_history reply split: os_reply.split)
qed

lemma indist_bindA [oblivious_intros]:
  assumes m: "indist m m'" and f: "\<And>x. indist (f x) (f' x)"
  shows "indist (bindA m f) (bindA m' f')"
  unfolding indist_def
proof (intro allI impI)
  fix os h h' assume os: "input_blind os" and h: "visible h = visible h'"
  obtain r k where mr: "m os h = (r, k)" by fastforce
  obtain r' k' where mr': "m' os h' = (r', k')" by fastforce
  from indistD [OF m os h mr mr'] have "r = r'" and "visible k = visible k'" by auto
  with mr mr' f os show "fst (bindA m f os h) = fst (bindA m' f' os h') \<and>
      visible (snd (bindA m f os h)) = visible (snd (bindA m' f' os h'))"
    by (cases r) (auto simp: bindA_def indist_def)
qed

lemma indist_thenA [oblivious_intros]:
  "indist m m' \<Longrightarrow> indist n n' \<Longrightarrow> indist (thenA m n) (thenA m' n')"
  unfolding thenA_def by (rule indist_bindA)

lemma indist_if [oblivious_intros]:
  "(b \<Longrightarrow> indist m m') \<Longrightarrow> (\<not> b \<Longrightarrow> indist n n') \<Longrightarrow>
   indist (if b then m else n) (if b then m' else n')"
  by simp

lemma indist_whenA [oblivious_intros]: "(b \<Longrightarrow> indist m m') \<Longrightarrow> indist (whenA b m) (whenA b m')"
  by (simp add: whenA_def indist_returnA)

lemma indist_case_option [oblivious_intros]:
  "(x = None \<Longrightarrow> indist m m') \<Longrightarrow> (\<And>y. x = Some y \<Longrightarrow> indist (f y) (f' y)) \<Longrightarrow>
   indist (case x of None \<Rightarrow> m | Some y \<Rightarrow> f y) (case x of None \<Rightarrow> m' | Some y \<Rightarrow> f' y)"
  by (cases x) auto

lemma indist_case_prod [oblivious_intros]:
  "(\<And>a b. x = (a, b) \<Longrightarrow> indist (f a b) (f' a b)) \<Longrightarrow>
   indist (case x of (a, b) \<Rightarrow> f a b) (case x of (a, b) \<Rightarrow> f' a b)"
  by (cases x) auto

lemma indist_case_list [oblivious_intros]:
  "(xs = [] \<Longrightarrow> indist m m') \<Longrightarrow> (\<And>y ys. xs = y # ys \<Longrightarrow> indist (f y ys) (f' y ys)) \<Longrightarrow>
   indist (case xs of [] \<Rightarrow> m | y # ys \<Rightarrow> f y ys) (case xs of [] \<Rightarrow> m' | y # ys \<Rightarrow> f' y ys)"
  by (cases xs) auto

lemma indist_seqA_Nil [oblivious_intros]: "indist (seqA []) (seqA [])"
  by (simp add: indist_returnA)

lemma indist_seqA_Cons [oblivious_intros]:
  "indist m m' \<Longrightarrow> indist (seqA ms) (seqA ms') \<Longrightarrow> indist (seqA (m # ms)) (seqA (m' # ms'))"
  by (simp add: indist_thenA)

lemma indist_forA [oblivious_intros]:
  "(\<And>x. indist (f x) (f' x)) \<Longrightarrow> indist (forA xs f) (forA xs f')"
  by (induction xs) (simp_all add: indist_returnA indist_thenA)

lemma indist_filterA [oblivious_intros]:
  "(\<And>x. indist (p x) (p' x)) \<Longrightarrow> indist (filterA p xs) (filterA p' xs)"
  by (induction xs) (simp_all add: indist_returnA indist_bindA)

lemma indist_finallyA [oblivious_intros]:
  assumes m: "indist m m'" and c: "indist c c'"
  shows "indist (finallyA m c) (finallyA m' c')"
  unfolding indist_def
proof (intro allI impI)
  fix os h h' assume os: "input_blind os" and h: "visible h = visible h'"
  obtain r k where mr: "m os h = (r, k)" by fastforce
  obtain r' k' where mr': "m' os h' = (r', k')" by fastforce
  from indistD [OF m os h mr mr'] have r: "r = r'" and k: "visible k = visible k'" by auto
  obtain s l where cr: "c os k = (s, l)" by fastforce
  obtain s' l' where cr': "c' os k' = (s', l')" by fastforce
  from indistD [OF c os k cr cr'] r mr mr' cr cr'
  show "fst (finallyA m c os h) = fst (finallyA m' c' os h') \<and>
      visible (snd (finallyA m c os h)) = visible (snd (finallyA m' c' os h'))"
    by (auto simp: finallyA_def split: sum.split)
qed

lemma indist_calls [oblivious_intros]:
  "indist (sh s) (sh s)"
  "indist (sh_ok s) (sh_ok s)"
  "indist (sh_input s i) (sh_input s i')"
  "indist (sh_input_ok s i) (sh_input_ok s i')"
  "indist (chroot s) (chroot s)"
  "indist (chroot_ok s) (chroot_ok s)"
  "indist (chroot_input s i) (chroot_input s i')"
  "indist (do_sh s) (do_sh s)"
  "indist (do_sh_ok s) (do_sh_ok s)"
  "indist (do_sh_input s i) (do_sh_input s i')"
  "indist (do_chroot s) (do_chroot s)"
  "indist (do_chroot_ok s) (do_chroot_ok s)"
  "indist (do_chroot_input s i) (do_chroot_input s i')"
  unfolding call_defs run_as_chroot_def
  by (auto intro!: indist_run indist_thenA indist_returnA simp: hide_input_def input_request_def
      shell_request_def)

lemma indist_results [oblivious_intros]:
  "indist m m' \<Longrightarrow> indist (succeeds m) (succeeds m')"
  "indist m m' \<Longrightarrow> indist (stdout_of m) (stdout_of m')"
  by (simp_all add: succeeds_def stdout_of_def indist_bindA indist_returnA)

subsection \<open>The order of commands\<close>

text \<open>\<open>ordered A B ts\<close>: once a command satisfies \<open>A\<close>, no later one satisfies \<open>B\<close>.\<close>

fun ordered :: "(string \<Rightarrow> bool) \<Rightarrow> (string \<Rightarrow> bool) \<Rightarrow> string list \<Rightarrow> bool" where
  "ordered A B [] = True"
| "ordered A B (t # ts) = ((A t \<longrightarrow> list_all (\<lambda>u. \<not> B u) ts) \<and> ordered A B ts)"

lemma ordered_append:
  "ordered A B (ts @ us) \<longleftrightarrow>
     ordered A B ts \<and> ordered A B us \<and> (list_ex A ts \<longrightarrow> list_all (\<lambda>u. \<not> B u) us)"
  by (induction ts) auto

lemma ordered_no_first: "list_all (\<lambda>t. \<not> A t) ts \<Longrightarrow> ordered A B ts"
  by (induction ts) auto

lemma ordered_no_second: "list_all (\<lambda>t. \<not> B t) ts \<Longrightarrow> ordered A B ts"
  by (induction ts) auto

definition never_after :: "(string \<Rightarrow> bool) \<Rightarrow> (string \<Rightarrow> bool) \<Rightarrow> 'a action \<Rightarrow> bool" where
  "never_after A B m \<longleftrightarrow>
     (\<forall>os h. \<exists>new. snd (m os h) = h @ new \<and> ordered A B (texts new))"

lemma never_afterD:
  assumes "never_after A B m" and "m os h = (r, h @ new)"
  shows "ordered A B (texts new)"
  using assms unfolding never_after_def by (metis same_append_eq snd_conv)

lemma never_after_no_first: "emits (\<lambda>t. \<not> A t) m \<Longrightarrow> never_after A B m"
  unfolding never_after_def emits_def by (metis list_all_iff ordered_no_first)

lemma never_after_no_second: "emits (\<lambda>t. \<not> B t) m \<Longrightarrow> never_after A B m"
  unfolding never_after_def emits_def by (metis list_all_iff ordered_no_second)

lemma never_after_obtain:
  assumes "never_after A B m" and "m os h = (r, h')"
  obtains new where "h' = h @ new" and "ordered A B (texts new)"
  using assms unfolding never_after_def by (metis snd_conv)

lemma never_after_bindA_first:
  assumes m: "emits (\<lambda>t. \<not> A t) m" and f: "\<And>x. never_after A B (f x)"
  shows "never_after A B (bindA m f)"
  unfolding never_after_def
proof (intro allI)
  fix os h
  obtain r h1 where mr: "m os h = (r, h1)" by fastforce
  with m obtain new where new: "h1 = h @ new" "\<forall>t \<in> set (texts new). \<not> A t" by (rule emitsD)
  then have o1: "ordered A B (texts new)" by (simp add: ordered_no_first list_all_iff)
  show "\<exists>new. snd (bindA m f os h) = h @ new \<and> ordered A B (texts new)"
  proof (cases r)
    case (Inl e)
    with mr new o1 show ?thesis by (auto simp: bindA_def)
  next
    case (Inr x)
    obtain s h2 where fr: "f x os h1 = (s, h2)" by fastforce
    with f obtain new' where "h2 = h1 @ new'" "ordered A B (texts new')" by (rule never_after_obtain)
    with mr Inr fr new o1 show ?thesis
      by (intro exI [of _ "new @ new'"]) (auto simp: bindA_def ordered_append list_ex_iff)
  qed
qed

lemma never_after_bindA_second:
  assumes m: "never_after A B m" and f: "\<And>x. emits (\<lambda>t. \<not> B t) (f x)"
  shows "never_after A B (bindA m f)"
  unfolding never_after_def
proof (intro allI)
  fix os h
  obtain r h1 where mr: "m os h = (r, h1)" by fastforce
  with m obtain new where new: "h1 = h @ new" and o1: "ordered A B (texts new)"
    by (rule never_after_obtain)
  show "\<exists>new. snd (bindA m f os h) = h @ new \<and> ordered A B (texts new)"
  proof (cases r)
    case (Inl e)
    with mr new o1 show ?thesis by (auto simp: bindA_def)
  next
    case (Inr x)
    obtain s h2 where fr: "f x os h1 = (s, h2)" by fastforce
    with f obtain new' where "h2 = h1 @ new'" "\<forall>t \<in> set (texts new'). \<not> B t" by (rule emitsD)
    with mr Inr fr new o1 show ?thesis
      by (intro exI [of _ "new @ new'"])
        (auto simp: bindA_def ordered_append ordered_no_second list_all_iff)
  qed
qed

lemma never_after_thenA_first:
  "emits (\<lambda>t. \<not> A t) m \<Longrightarrow> never_after A B n \<Longrightarrow> never_after A B (thenA m n)"
  unfolding thenA_def by (rule never_after_bindA_first)

lemma never_after_thenA_second:
  "never_after A B m \<Longrightarrow> emits (\<lambda>t. \<not> B t) n \<Longrightarrow> never_after A B (thenA m n)"
  unfolding thenA_def by (rule never_after_bindA_second)

lemma never_after_seqA_first:
  "emits (\<lambda>t. \<not> A t) m \<Longrightarrow> never_after A B (seqA ms) \<Longrightarrow> never_after A B (seqA (m # ms))"
  by (simp add: never_after_thenA_first)

lemma never_after_seqA_second:
  "never_after A B m \<Longrightarrow> emits (\<lambda>t. \<not> B t) (seqA ms) \<Longrightarrow> never_after A B (seqA (m # ms))"
  by (simp add: never_after_thenA_second)

lemma never_after_if:
  "(b \<Longrightarrow> never_after A B m) \<Longrightarrow> (\<not> b \<Longrightarrow> never_after A B n) \<Longrightarrow> never_after A B (if b then m else n)"
  by simp

subsection \<open>Commands on a machine with known answers\<close>

text \<open>
  \<open>emits_on os P m\<close> is \<^const>\<open>emits\<close> for one machine, so that what the machine answers can be
  used; \<open>answers os s code out\<close>: the machine always answers the shell line \<open>s\<close> that way.
\<close>

definition emits_on :: "os \<Rightarrow> (string \<Rightarrow> bool) \<Rightarrow> 'a action \<Rightarrow> bool" where
  "emits_on os P m \<longleftrightarrow> (\<forall>h. \<exists>new. snd (m os h) = h @ new \<and> (\<forall>t \<in> set (texts new). P t))"

definition answers :: "os \<Rightarrow> string \<Rightarrow> int \<Rightarrow> string \<Rightarrow> bool" where
  "answers os s code out \<longleftrightarrow> (\<forall>h. \<exists>err. os h (shell_request s) = Completed code out err)"

lemma emits_on_emits: "emits P m \<Longrightarrow> emits_on os P m"
  by (simp add: emits_def emits_on_def)

lemma emits_on_obtain:
  assumes "emits_on os P m" and "m os h = (r, h')"
  obtains new where "h' = h @ new" and "\<forall>t \<in> set (texts new). P t"
  using assms unfolding emits_on_def by (metis snd_conv)

lemma emits_on_bindA:
  assumes m: "emits_on os P m"
    and f: "\<And>h x h'. m os h = (Inr x, h') \<Longrightarrow> emits_on os P (f x)"
  shows "emits_on os P (bindA m f)"
  unfolding emits_on_def
proof
  fix h
  obtain r h1 where mr: "m os h = (r, h1)" by fastforce
  with m obtain new where new: "h1 = h @ new" "\<forall>t \<in> set (texts new). P t" by (rule emits_on_obtain)
  show "\<exists>new. snd (bindA m f os h) = h @ new \<and> (\<forall>t \<in> set (texts new). P t)"
  proof (cases r)
    case (Inl e)
    with mr new show ?thesis by (auto simp: bindA_def)
  next
    case (Inr x)
    obtain s h2 where fr: "f x os h1 = (s, h2)" by fastforce
    with f [of h x h1] mr Inr obtain new' where "h2 = h1 @ new'" "\<forall>t \<in> set (texts new'). P t"
      by (auto elim: emits_on_obtain)
    with mr Inr fr new show ?thesis
      by (intro exI [of _ "new @ new'"]) (auto simp: bindA_def)
  qed
qed

lemma emits_on_thenA: "emits_on os P m \<Longrightarrow> emits_on os P n \<Longrightarrow> emits_on os P (thenA m n)"
  unfolding thenA_def by (rule emits_on_bindA)

lemma emits_on_seqA_Nil: "emits_on os P (seqA [])"
  by (simp add: emits_on_emits emits_returnA)

lemma emits_on_seqA_Cons:
  "emits_on os P m \<Longrightarrow> emits_on os P (seqA ms) \<Longrightarrow> emits_on os P (seqA (m # ms))"
  by (simp add: emits_on_thenA)

lemma run_answered:
  "answers os s code out \<Longrightarrow> run False (shell_request s) os h = (Inr x, h') \<Longrightarrow>
   exit_code x = code \<and> stdout x = out"
proof -
  assume "answers os s code out" and x: "run False (shell_request s) os h = (Inr x, h')"
  then obtain err where "os h (shell_request s) = Completed code out err"
    unfolding answers_def by blast
  with x show ?thesis by (auto simp: run_def Let_def shell_request_def)
qed

lemma succeeds_answered:
  "answers os s code out \<Longrightarrow> succeeds (sh_ok s) os h = (Inr x, h') \<Longrightarrow> x = (code = 0)"
  by (auto simp: succeeds_def sh_ok_def success_def action_apply dest!: run_answered elim!: bindA_cases)

lemma stdout_answered:
  "answers os s code out \<Longrightarrow> stdout_of (sh_ok s) os h = (Inr x, h') \<Longrightarrow> x = out"
  by (auto simp: stdout_of_def sh_ok_def action_apply dest!: run_answered elim!: bindA_cases)

lemma emits_on_answered:
  assumes s: "answers os s code out" and P: "P s"
  shows "emits_on os P (f (code = 0)) \<Longrightarrow> emits_on os P (bindA (succeeds (sh_ok s)) f)"
    and "emits_on os P (g out) \<Longrightarrow> emits_on os P (bindA (stdout_of (sh_ok s)) g)"
proof -
  have call: "emits P (sh_ok s)" by (rule emits_calls) (rule P)
  show "emits_on os P (bindA (succeeds (sh_ok s)) f)" if f: "emits_on os P (f (code = 0))"
  proof (rule emits_on_bindA)
    show "emits_on os P (succeeds (sh_ok s))"
      by (rule emits_on_emits [OF emits_results(1) [OF call]])
    show "emits_on os P (f x)" if "succeeds (sh_ok s) os h = (Inr x, h')" for h x h'
      using succeeds_answered [OF s that] f by simp
  qed
  show "emits_on os P (bindA (stdout_of (sh_ok s)) g)" if g: "emits_on os P (g out)"
  proof (rule emits_on_bindA)
    show "emits_on os P (stdout_of (sh_ok s))"
      by (rule emits_on_emits [OF emits_results(2) [OF call]])
    show "emits_on os P (g x)" if "stdout_of (sh_ok s) os h = (Inr x, h')" for h x h'
      using stdout_answered [OF s that] g by simp
  qed
qed

lemma emits_on_if:
  "(b \<Longrightarrow> emits_on os P m) \<Longrightarrow> (\<not> b \<Longrightarrow> emits_on os P n) \<Longrightarrow> emits_on os P (if b then m else n)"
  by simp

lemma emits_on_whenA: "(b \<Longrightarrow> emits_on os P m) \<Longrightarrow> emits_on os P (whenA b m)"
  by (simp add: whenA_def emits_on_emits emits_returnA)

lemma succeeds_completed:
  assumes "os h q = Completed code out err" and "succeeds (run False q) os h = (Inr x, h')"
  shows "x = (code = 0)"
  using assms
  by (auto simp: succeeds_def run_def Let_def success_def action_apply elim!: bindA_cases)

lemma emits_onD:
  "emits_on os P m \<Longrightarrow> m os h = (r, h @ new) \<Longrightarrow> t \<in> set (texts new) \<Longrightarrow> P t"
  by (metis emits_on_obtain same_append_eq)

subsection \<open>Statements that end, and what they leave behind\<close>

lemma thenA_assoc: "thenA (thenA l m) n = thenA l (thenA m n)"
  by (simp add: thenA_def bindA_assoc)

lemma thenA_returnA_unit: "thenA m (returnA ()) = m" "thenA (returnA ()) n = n"
proof -
  have "(\<lambda>_::unit. returnA ()) = returnA" by (rule ext) simp
  then show "thenA m (returnA ()) = m" by (simp add: thenA_def)
qed (simp add: thenA_def)

lemma thenA_stops: "m os h = (Inl e, h') \<Longrightarrow> thenA m n os h = (Inl e, h')"
  by (simp add: thenA_def bindA_Inl)

lemma thenA_Inr: "thenA m n os h = (Inr y, h') \<Longrightarrow> \<exists>x h1. m os h = (Inr x, h1) \<and> n os h1 = (Inr y, h')"
  unfolding thenA_def by (erule bindA_cases) auto

lemma do_sh_history: "snd (do_sh s os h) = h @ [Ran (shell_request s) (os h (shell_request s))]"
  using run_apply [of True "shell_request s" os h]
  by (auto simp: do_sh_def sh_def thenA_def bindA_def returnA_apply split: prod.split sum.split)

lemma forA_append: "forA (xs @ ys) f = thenA (forA xs f) (forA ys f)"
  by (induction xs) (simp_all add: thenA_assoc thenA_returnA_unit)

lemma forA_stops:
  assumes "forA before f os h = (Inr (), h1)" and "f x os h1 = (Inl e, h2)"
  shows "forA (before @ x # after) f os h = (Inl e, h2)"
  using assms by (simp add: forA_append thenA_def bindA_def)

text \<open>Evaluating an action on a concrete machine.\<close>

lemmas run_evaluation = bindA_def thenA_def whenA_def finallyA_def call_defs run_def run_as_chroot_def
  Let_def shell_request_def input_request_def argv_request_def success_def action_apply req_text_def

end
