(* ===== verification/Config_Models.thy ===== *)
theory Config_Models
  imports Prelude
begin

text \<open>
  \<^verbatim>\<open>config/models.py\<close>: the frozen configuration the installer runs on, one record per
  dataclass and one datatype per \<^verbatim>\<open>StrEnum\<close>. A field keeps the name of the source with the
  name of its class in front where two classes share it. The members of a \<^verbatim>\<open>StrEnum\<close> are
  texts; \<open>*_text\<close> is the text of a member.
\<close>

subsection \<open>Enumerations\<close>

datatype wipe_method = Wipe_Quick | Wipe_Secure | Wipe_Discard | Wipe_Skip

fun wipe_method_text :: "wipe_method \<Rightarrow> string" where
  "wipe_method_text Wipe_Quick = ''quick''"
| "wipe_method_text Wipe_Secure = ''secure''"
| "wipe_method_text Wipe_Discard = ''discard''"
| "wipe_method_text Wipe_Skip = ''skip''"

datatype cpu_vendor = Cpu_Amd | Cpu_Intel | Cpu_Unknown

fun cpu_vendor_text :: "cpu_vendor \<Rightarrow> string" where
  "cpu_vendor_text Cpu_Amd = ''amd''"
| "cpu_vendor_text Cpu_Intel = ''intel''"
| "cpu_vendor_text Cpu_Unknown = ''''"

datatype gpu_vendor = Gpu_Amd | Gpu_Intel | Gpu_Nvidia | Gpu_None

fun gpu_vendor_text :: "gpu_vendor \<Rightarrow> string" where
  "gpu_vendor_text Gpu_Amd = ''amd''"
| "gpu_vendor_text Gpu_Intel = ''intel''"
| "gpu_vendor_text Gpu_Nvidia = ''nvidia''"
| "gpu_vendor_text Gpu_None = ''none''"

datatype gpu_driver = Driver_Nouveau | Driver_Nvidia_Open | Driver_Nvidia_Dkms | Driver_Vendor_Default

fun gpu_driver_text :: "gpu_driver \<Rightarrow> string" where
  "gpu_driver_text Driver_Nouveau = ''nouveau''"
| "gpu_driver_text Driver_Nvidia_Open = ''nvidia-open''"
| "gpu_driver_text Driver_Nvidia_Dkms = ''nvidia-dkms''"
| "gpu_driver_text Driver_Vendor_Default = ''''"

datatype firewall_policy = Policy_Allow | Policy_Deny | Policy_Reject

fun firewall_policy_text :: "firewall_policy \<Rightarrow> string" where
  "firewall_policy_text Policy_Allow = ''allow''"
| "firewall_policy_text Policy_Deny = ''deny''"
| "firewall_policy_text Policy_Reject = ''reject''"

datatype desktop = Kde | Gnome | Hyprland

fun desktop_text :: "desktop \<Rightarrow> string" where
  "desktop_text Kde = ''kde''"
| "desktop_text Gnome = ''gnome''"
| "desktop_text Hyprland = ''hyprland''"

datatype backup_category = Backup_Dotfiles | Backup_Keepass | Backup_Browser | Backup_System

fun backup_category_text :: "backup_category \<Rightarrow> string" where
  "backup_category_text Backup_Dotfiles = ''dotfiles''"
| "backup_category_text Backup_Keepass = ''keepass''"
| "backup_category_text Backup_Browser = ''browser''"
| "backup_category_text Backup_System = ''system''"

definition CRYPTROOT_MAPPER_NAME :: string where
  "CRYPTROOT_MAPPER_NAME = ''cryptroot''"

text \<open>The arguments of \<^verbatim>\<open>is_proprietary_nvidia\<close> are texts: enum members or what a source gave.\<close>

definition is_proprietary_nvidia :: "string \<Rightarrow> string \<Rightarrow> bool" where
  "is_proprietary_nvidia vendor driver \<longleftrightarrow>
     vendor = gpu_vendor_text Gpu_Nvidia \<and> driver \<noteq> gpu_driver_text Driver_Nouveau"

definition derive_partition_path :: "string \<Rightarrow> nat \<Rightarrow> string" where
  "derive_partition_path disk partition_number =
     (if disk = [] then []
      else if contains ''nvme'' disk \<or> contains ''loop'' disk
           then disk @ ''p'' @ string_of_nat partition_number
      else disk @ string_of_nat partition_number)"

subsection \<open>The sections of the configuration\<close>

record user_config =
  user_name :: string
  user_groups_of :: "string list"

record locale_config =
  locale_language :: string
  locale_encoding :: string
  locale_keymap :: string
  locale_monetary :: string
  locale_time_format :: string
  locale_numeric :: string
  locale_paper :: string

definition full_locale :: "locale_config \<Rightarrow> string" where
  "full_locale l = locale_language l @ ''.'' @ locale_encoding l"

record pacman_mirror_config =
  mirrors :: "string list"
  use_reflector :: bool
  reflector_countries :: "string list"

record system_config =
  hostname :: string
  timezone :: string
  sys_locale :: locale_config
  sys_user :: user_config
  sys_mirrors :: pacman_mirror_config
  cpu_vendor :: cpu_vendor

record luks_config =
  luks_type :: string
  luks_cipher :: string
  luks_key_size :: int
  luks_hash :: string
  luks_pbkdf :: string
  pbkdf_memory :: int
  pbkdf_parallel :: int
  pbkdf_time_ms :: int

record subvolume_config =
  subvol_name :: string
  subvol_mountpoint :: string
  subvol_nocow :: bool

record btrfs_config =
  btrfs_label :: string
  mount_options :: string
  subvolumes :: "subvolume_config list"

record swap_config =
  swap_enabled :: bool
  swap_size_mb :: int
  swap_path :: string
  swap_hibernation :: bool

record storage_config =
  target_disk :: string
  efi_size_mb :: int
  wipe_method :: wipe_method
  luks :: luks_config
  btrfs :: btrfs_config
  swap :: swap_config

definition cryptroot_device :: "storage_config \<Rightarrow> string" where
  "cryptroot_device s = ''/dev/mapper/'' @ CRYPTROOT_MAPPER_NAME"

record kernel_config =
  kernel_name :: string
  kernel_package :: string

record uki_variant_config =
  variant_suffix :: string
  variant_params :: string

record cmdline_hardening_config =
  lockdown :: string
  iommu :: string
  intel_iommu :: string
  amd_iommu :: string
  pti :: string
  spectre_v2 :: string
  spec_store_bypass_disable :: string
  l1tf :: string
  mds :: string
  srbds :: string
  tsx_async_abort :: string
  init_on_alloc :: int
  init_on_free :: int

record cmdline_config =
  rootflags :: string
  rootfstype :: string
  cmdline_rw :: bool
  cmdline_quiet :: bool
  hardening :: cmdline_hardening_config

record loader_config =
  loader_timeout :: int
  console_mode :: string
  loader_editor :: bool

record secure_boot_config =
  enroll_keys :: bool
  include_microsoft_keys :: bool

record boot_config =
  kernels :: "kernel_config list"
  selected_kernels :: "string list"
  variants :: "uki_variant_config list"
  cmdline :: cmdline_config
  loader :: loader_config
  hooks :: "string list"
  secure_boot :: secure_boot_config
  enable_snapshot_boot :: bool

definition kernel_packages :: "boot_config \<Rightarrow> string list" where
  "kernel_packages b =
     (if selected_kernels b \<noteq> [] then selected_kernels b else map kernel_package (kernels b))"

record desktop_packages =
  kde_packages :: "string list"
  gnome_packages :: "string list"
  hyprland_packages :: "string list"

fun packages_for :: "desktop_packages \<Rightarrow> desktop \<Rightarrow> string list" where
  "packages_for p Kde = kde_packages p"
| "packages_for p Gnome = gnome_packages p"
| "packages_for p Hyprland = hyprland_packages p"

definition configured_desktops :: "desktop_packages \<Rightarrow> desktop list" where
  "configured_desktops p = filter (\<lambda>d. packages_for p d \<noteq> []) [Kde, Gnome, Hyprland]"

record packages_config =
  base_packages :: "string list"
  desktops :: desktop_packages
  selected_desktops :: "desktop list"
  display_manager :: "string list"
  cataloged :: "string list"

record gpu_driver_packages =
  drivers_amd :: "string list"
  drivers_intel :: "string list"
  drivers_nouveau :: "string list"
  drivers_nvidia_dkms :: "string list"
  drivers_nvidia_open :: "string list"

record gpu_config =
  gpu_vendor :: gpu_vendor
  gpu_driver :: gpu_driver
  gpu_drivers :: gpu_driver_packages

definition uses_proprietary_nvidia_driver :: "gpu_config \<Rightarrow> bool" where
  "uses_proprietary_nvidia_driver g =
     is_proprietary_nvidia (gpu_vendor_text (gpu_vendor g)) (gpu_driver_text (gpu_driver g))"

record snapshot_retention =
  keep_hourly :: int
  keep_daily :: int
  keep_weekly :: int
  keep_monthly :: int
  keep_yearly :: int

record snapper_volume_config =
  volume_subvolume :: string
  snapshots_subvolume :: string
  snapshots_path :: string
  volume_timeline :: bool
  volume_cleanup :: bool
  number_limit :: int
  number_limit_important :: int
  volume_retention :: snapshot_retention

record snapper_config =
  snapper_enabled :: bool
  allow_groups :: "string list"
  snapper_root :: "snapper_volume_config option"
  snapper_home :: "snapper_volume_config option"
  snap_pac :: bool
  bootable_snapshot_count :: int

definition snapper_volumes :: "snapper_config \<Rightarrow> (string, snapper_volume_config) dict" where
  "snapper_volumes s =
     [(name, volume). (name, Some volume) \<leftarrow> [(''root'', snapper_root s), (''home'', snapper_home s)]]"

record notifications_config =
  notifications_enabled :: bool

record firewall_ssh_config =
  ssh_enabled :: bool
  ssh_port :: int
  ssh_allowed_from :: string

record firewall_allow_rule =
  rule_port :: int
  rule_protocol :: string

record firewall_config =
  firewall_enabled :: bool
  default_incoming :: firewall_policy
  default_outgoing :: firewall_policy
  firewall_logging :: bool
  block_icmp :: bool
  firewall_ssh :: firewall_ssh_config
  allow_rules :: "firewall_allow_rule list"

record docker_config =
  docker_enabled :: bool
  storage_driver :: string
  data_root :: string
  access_group :: string

record backup_item_config =
  item_name :: string
  item_source_path :: string
  item_description :: string

record sync_config =
  backup_partition :: string
  backup_items :: "backup_item_config list"
  backup_categories :: "backup_category list"

record migration_config =
  migration_enabled :: bool
  preserve_home :: bool
  preserve_secure_boot_keys :: bool
  additional_paths :: "string list"

definition USB_EFI_PARTITION_NUMBER :: nat where "USB_EFI_PARTITION_NUMBER = 1"
definition USB_LUKS_HEADER_PARTITION_NUMBER :: nat where "USB_LUKS_HEADER_PARTITION_NUMBER = 2"
definition USB_RECOVERY_PARTITION_NUMBER :: nat where "USB_RECOVERY_PARTITION_NUMBER = 3"

record usb_boot_config =
  usb_boot_enabled :: bool
  usb_device :: string
  recovery_system :: bool
  iso_path :: string

definition usb_efi_partition :: "usb_boot_config \<Rightarrow> string" where
  "usb_efi_partition u = derive_partition_path (usb_device u) USB_EFI_PARTITION_NUMBER"

definition usb_luks_header_partition :: "usb_boot_config \<Rightarrow> string" where
  "usb_luks_header_partition u =
     derive_partition_path (usb_device u) USB_LUKS_HEADER_PARTITION_NUMBER"

definition usb_recovery_partition :: "usb_boot_config \<Rightarrow> string" where
  "usb_recovery_partition u = derive_partition_path (usb_device u) USB_RECOVERY_PARTITION_NUMBER"

definition LUKS_PASSWORD_SECRET :: string where "LUKS_PASSWORD_SECRET = ''luks_password''"
definition USER_PASSWORD_SECRET :: string where "USER_PASSWORD_SECRET = ''user_password''"

record encrypted_secrets_config =
  luks_password_encrypted :: string
  user_password_encrypted :: string

definition secrets_configured :: "encrypted_secrets_config \<Rightarrow> bool" where
  "secrets_configured s \<longleftrightarrow> luks_password_encrypted s \<noteq> [] \<or> user_password_encrypted s \<noteq> []"

record credentials =
  luks_password :: string
  user_password :: string
  source_luks_password :: string

record installer_config =
  system :: system_config
  packages :: packages_config
  storage :: storage_config
  boot :: boot_config
  gpu :: gpu_config
  snapper :: snapper_config
  firewall :: firewall_config
  docker :: docker_config
  notifications :: notifications_config
  sync :: sync_config
  migration :: migration_config
  usb_boot :: usb_boot_config
  secrets :: encrypted_secrets_config
  credentials :: credentials

definition encrypted_device :: "installer_config \<Rightarrow> string" where
  "encrypted_device c =
     (if usb_boot_enabled (usb_boot c) then target_disk (storage c)
      else derive_partition_path (target_disk (storage c)) 2)"

definition efi_partition :: "installer_config \<Rightarrow> string" where
  "efi_partition c =
     (if usb_boot_enabled (usb_boot c) then usb_efi_partition (usb_boot c)
      else derive_partition_path (target_disk (storage c)) 1)"

definition luks_header_device :: "installer_config \<Rightarrow> string" where
  "luks_header_device c =
     (if usb_boot_enabled (usb_boot c) then usb_luks_header_partition (usb_boot c)
      else encrypted_device c)"

lemmas [cfg_simps] = CRYPTROOT_MAPPER_NAME_def cryptroot_device_def USB_EFI_PARTITION_NUMBER_def
  USB_LUKS_HEADER_PARTITION_NUMBER_def USB_RECOVERY_PARTITION_NUMBER_def
  LUKS_PASSWORD_SECRET_def USER_PASSWORD_SECRET_def

subsection \<open>Partition paths\<close>

lemma derive_partition_path_Nil [simp]: "derive_partition_path [] n = []"
  by (simp add: derive_partition_path_def)

lemma derive_partition_path_longer:
  "disk \<noteq> [] \<Longrightarrow> length disk < length (derive_partition_path disk n)"
  using string_of_nat_not_Nil [of n] by (auto simp: derive_partition_path_def)

lemma derive_partition_path_prefix: "prefix disk (derive_partition_path disk n)"
  by (simp add: derive_partition_path_def)

lemma derive_partition_path_inject:
  "disk \<noteq> [] \<Longrightarrow> derive_partition_path disk m = derive_partition_path disk n \<longleftrightarrow> m = n"
  by (auto simp: derive_partition_path_def)

lemma derive_partition_path_not_disk: "disk \<noteq> [] \<Longrightarrow> derive_partition_path disk n \<noteq> disk"
  using derive_partition_path_longer [of disk n] by fastforce

end
