(* ===== verification/Executor_Base.thy ===== *)
theory Executor_Base
  imports Action_Logic Config_Models
begin

text \<open>
  \<^verbatim>\<open>executors/base.py\<close>: the shell helpers the step executors share, and the contract of a
  step executor: the class \<^verbatim>\<open>StepExecutor\<close> with its one method \<^verbatim>\<open>execute\<close>.
\<close>

subsection \<open>Paths of the target system\<close>

definition TARGET_ROOT :: string where "TARGET_ROOT = ''/mnt''"
definition TARGET_EFI :: string where "TARGET_EFI = TARGET_ROOT @ ''/efi''"
definition SBCTL_DIRECTORY :: string where "SBCTL_DIRECTORY = ''/var/lib/sbctl''"
definition SBCTL_LEGACY_DIRECTORY :: string where "SBCTL_LEGACY_DIRECTORY = ''/usr/share/secureboot''"
definition SBCTL_PK_KEY :: string where "SBCTL_PK_KEY = SBCTL_DIRECTORY @ ''/keys/PK/PK.key''"
definition SBCTL_DB_KEY :: string where "SBCTL_DB_KEY = SBCTL_DIRECTORY @ ''/keys/db/db.key''"

lemmas [cfg_simps] = TARGET_ROOT_def TARGET_EFI_def SBCTL_DIRECTORY_def SBCTL_LEGACY_DIRECTORY_def
  SBCTL_PK_KEY_def SBCTL_DB_KEY_def

subsection \<open>Questions to the machine\<close>

definition is_mountpoint :: "string \<Rightarrow> bool action" where
  "is_mountpoint path = succeeds (sh_ok (''mountpoint -q '' @ path))"

definition path_exists :: "string \<Rightarrow> bool action" where
  "path_exists path = succeeds (sh_ok (''test -e '' @ path))"

definition file_exists :: "string \<Rightarrow> bool action" where
  "file_exists path = succeeds (sh_ok (''test -f '' @ path))"

definition directory_exists :: "string \<Rightarrow> bool action" where
  "directory_exists path = succeeds (sh_ok (''test -d '' @ path))"

definition write_file :: "string \<Rightarrow> string \<Rightarrow> unit action" where
  "write_file path content = do_sh_input (''cat > '' @ path) content"

definition detect_luks_uuid :: "string \<Rightarrow> string action" where
  "detect_luks_uuid header_device =
     bindA (sh_ok (''cryptsetup luksUUID '' @ header_device))
       (\<lambda>r. returnA (if success r then strip (stdout r) else []))"

definition partition_uuid :: "string \<Rightarrow> string action" where
  "partition_uuid part =
     bindA (stdout_of (sh_ok (''blkid -s PARTUUID -o value '' @ part)))
       (\<lambda>out. let uuid = strip out in
          if uuid = [] then raiseA (Runtime_Error (part @ '' has no GPT partition UUID''))
          else returnA uuid)"

definition UNIQUE_DISK_IDENTIFIER_PREFIXES :: "string list" where
  "UNIQUE_DISK_IDENTIFIER_PREFIXES = [''wwn-'', ''nvme-eui.'']"

definition has_unique_identifier :: "string \<Rightarrow> bool" where
  "has_unique_identifier link \<longleftrightarrow>
     list_ex (\<lambda>p. prefix p (after_last (CHR ''/'') link)) UNIQUE_DISK_IDENTIFIER_PREFIXES"

text \<open>The choice among the links: a unique hardware identifier first, then the order of the texts.\<close>

definition choose_disk_link :: "string list \<Rightarrow> string" where
  "choose_disk_link links =
     (let unique = filter has_unique_identifier links
      in if links = [] then [] else hd (sort (if unique \<noteq> [] then unique else links)))"

definition stable_disk_path :: "string \<Rightarrow> string action" where
  "stable_disk_path disk =
     bindA (stdout_of (sh_ok
       (''target=$(readlink -f '' @ disk @ ''); for link in /dev/disk/by-id/*; do '' @
        ''[ '' @ DQ @ ''$(readlink -f '' @ DQ @ ''$link'' @ DQ @ '')'' @ DQ @ '' = '' @ DQ @ ''$target'' @ DQ @
        '' ] && echo '' @ DQ @ ''$link'' @ DQ @ ''; done'')))
       (\<lambda>out. returnA (choose_disk_link (split_ws out)))"

subsection \<open>What the helpers run\<close>

lemma emits_helpers [emits_intros]:
  "P (''mountpoint -q '' @ path) \<Longrightarrow> emits P (is_mountpoint path)"
  "P (''test -e '' @ path) \<Longrightarrow> emits P (path_exists path)"
  "P (''test -f '' @ path) \<Longrightarrow> emits P (file_exists path)"
  "P (''test -d '' @ path) \<Longrightarrow> emits P (directory_exists path)"
  "P (''cat > '' @ path) \<Longrightarrow> emits P (write_file path content)"
  "P (''cryptsetup luksUUID '' @ path) \<Longrightarrow> emits P (detect_luks_uuid path)"
  "P (''blkid -s PARTUUID -o value '' @ path) \<Longrightarrow> emits P (partition_uuid path)"
  unfolding is_mountpoint_def path_exists_def file_exists_def directory_exists_def write_file_def
    detect_luks_uuid_def partition_uuid_def Let_def
  by (intro emits_intros; assumption)+

lemma emits_stable_disk_path [emits_intros]:
  "(\<And>rest. P (''target=$(readlink -f '' @ rest)) \<Longrightarrow> emits P (stable_disk_path disk)"
  unfolding stable_disk_path_def by (intro emits_intros) simp

lemma indist_helpers [oblivious_intros]:
  "indist (is_mountpoint path) (is_mountpoint path)"
  "indist (path_exists path) (path_exists path)"
  "indist (file_exists path) (file_exists path)"
  "indist (directory_exists path) (directory_exists path)"
  "indist (write_file path content) (write_file path content')"
  "indist (detect_luks_uuid path) (detect_luks_uuid path)"
  "indist (partition_uuid path) (partition_uuid path)"
  "indist (stable_disk_path path) (stable_disk_path path)"
  unfolding is_mountpoint_def path_exists_def file_exists_def directory_exists_def write_file_def
    detect_luks_uuid_def partition_uuid_def stable_disk_path_def Let_def
  by (intro oblivious_intros)+

text \<open>
  The commands that overwrite what a disk, a partition or a file system holds, run in the live system
  or inside the target system: every partitioning, formatting, wiping, filling or discarding program,
  whatever its arguments, and every writing of a device file. A \<^verbatim>\<open>dd\<close> that feeds a pipe with a
  range of bytes, the way the ISO image is inspected, is a reader.
\<close>

definition destructive_commands :: "string list" where
  "destructive_commands =
     [''wipefs '', ''sgdisk '', ''sfdisk '', ''gdisk '', ''fdisk '', ''cfdisk '', ''parted '', ''shred '',
      ''dd '', ''blkdiscard '', ''mkfs'', ''mke2fs '', ''mkswap '', ''truncate '', ''cryptsetup luksFormat '',
      ''cryptsetup reencrypt '', ''cryptsetup erase '', ''cryptsetup luksErase '', ''cat > /dev/'',
      ''tee /dev/'', ''cp /dev/'']"

definition reads_range :: "string \<Rightarrow> bool" where
  "reads_range t \<longleftrightarrow> prefix ''dd '' t \<and> contains '' iflag=skip_bytes,count_bytes status=none | '' t"

definition destructive :: "string \<Rightarrow> bool" where
  "destructive t \<longleftrightarrow>
     list_ex (\<lambda>p. prefix p t \<or> prefix (''arch-chroot /mnt '' @ p) t) destructive_commands \<and> \<not> reads_range t"

lemma reads_range_middle:
  "reads_range (''dd '' @ before @ '' iflag=skip_bytes,count_bytes status=none | '' @ after)"
  unfolding reads_range_def contains_iff by (intro conjI exI [of _ "''dd '' @ before"] exI [of _ after]) simp_all

lemmas destructive_simps = destructive_def destructive_commands_def cfg_simps

subsection \<open>The by-id link of a disk\<close>

lemma choose_disk_link_Nil [simp]: "choose_disk_link [] = []"
  by (simp add: choose_disk_link_def)

lemma hd_sort_in: "xs \<noteq> [] \<Longrightarrow> hd (sort xs) \<in> set xs"
  by (metis hd_in_set set_sort sort_key_simps(1) length_0_conv length_sort)

lemma hd_sort_least: "x \<in> set xs \<Longrightarrow> hd (sort xs) \<le> x"
  by (metis list.collapse list.set_cases set_ConsD set_sort sorted_sort sorted_simps(2) order_refl
      list.sel(1))

lemma choose_disk_link_in:
  assumes "links \<noteq> []"
  shows "choose_disk_link links \<in> set links"
  using assms hd_sort_in [of "filter has_unique_identifier links"] hd_sort_in [of links]
  by (auto simp: choose_disk_link_def Let_def)

lemma choose_disk_link_least:
  assumes "link \<in> set links" and "has_unique_identifier link \<or> \<not> list_ex has_unique_identifier links"
  shows "choose_disk_link links \<le> link"
  using assms hd_sort_least [of link "filter has_unique_identifier links"] hd_sort_least [of link links]
  by (auto simp: choose_disk_link_def Let_def list_ex_iff filter_empty_conv)

subsection \<open>The contract of a step executor\<close>

text \<open>
  A step of the installation is an executor for a configuration. What the installer relies
  on, whichever steps are enabled: an executor only adds to the history, and nothing it shows
  (its commands, their answers, its exception) depends on the passwords in the configuration.
\<close>

definition without_credentials :: "installer_config \<Rightarrow> installer_config" where
  "without_credentials c =
     c\<lparr>credentials := \<lparr>luks_password = [], user_password = [], source_luks_password = []\<rparr>\<rparr>"

lemma without_credentials_simps [simp]:
  "system (without_credentials c) = system c"
  "packages (without_credentials c) = packages c"
  "storage (without_credentials c) = storage c"
  "boot (without_credentials c) = boot c"
  "gpu (without_credentials c) = gpu c"
  "snapper (without_credentials c) = snapper c"
  "firewall (without_credentials c) = firewall c"
  "docker (without_credentials c) = docker c"
  "notifications (without_credentials c) = notifications c"
  "sync (without_credentials c) = sync c"
  "migration (without_credentials c) = migration c"
  "usb_boot (without_credentials c) = usb_boot c"
  "secrets (without_credentials c) = secrets c"
  "encrypted_device (without_credentials c) = encrypted_device c"
  "efi_partition (without_credentials c) = efi_partition c"
  "luks_header_device (without_credentials c) = luks_header_device c"
  by (simp_all add: without_credentials_def encrypted_device_def efi_partition_def
      luks_header_device_def)

locale step_executor =
  fixes execute :: "installer_config \<Rightarrow> unit action"
  assumes append_only: "emits (\<lambda>_. True) (execute c)"
    and keeps_secrets: "indist (execute c) (execute (without_credentials c))"
begin

lemma history_grows: "execute c os h = (r, h') \<Longrightarrow> prefix h h'"
  by (rule emits_history_grows [OF append_only])

lemma same_commands:
  assumes "input_blind os" and "without_credentials c = without_credentials c'"
    and "execute c os h = (r, k)" and "execute c' os h = (r', k')"
  shows "r = r' \<and> visible k = visible k'"
proof -
  obtain s l where e: "execute (without_credentials c) os h = (s, l)" by fastforce
  have "r = s \<and> visible k = visible l"
    by (rule indistD [OF keeps_secrets assms(1) refl assms(3) e])
  moreover have "r' = s \<and> visible k' = visible l"
    using indistD [OF keeps_secrets assms(1) refl assms(4)] e assms(2) by simp
  ultimately show ?thesis by simp
qed

end

end
