(* ===== verification/Storage.thy ===== *)
theory Storage
  imports Executor_Base
begin

text \<open>
  \<^verbatim>\<open>executors/storage.py\<close>: disk wipe, partitions, LUKS, BTRFS subvolumes, EFI partition and
  swapfile, one definition per method of \<^verbatim>\<open>StorageStepExecutor\<close>. With a USB boot drive the
  whole disk is the encrypted device and the LUKS header is on the drive.
\<close>

subsection \<open>Wiping\<close>

definition wipe_method_used :: "installer_config \<Rightarrow> wipe_method" where
  "wipe_method_used c =
     (if \<not> migration_enabled (migration c) then wipe_method (storage c)
      else if usb_boot_enabled (usb_boot c) then Wipe_Secure else Wipe_Quick)"

definition cleanup_stale_mounts :: "unit action" where
  "cleanup_stale_mounts = seqA [
     do_sh_ok (''umount -R '' @ TARGET_ROOT),
     do_sh_ok ''swapoff -a'',
     do_sh_ok (''cryptsetup close '' @ CRYPTROOT_MAPPER_NAME),
     do_sh_ok ''cryptsetup close container'',
     do_sh_ok ''dmsetup remove_all'']"

definition erase_partition_table :: "string \<Rightarrow> unit action" where
  "erase_partition_table disk = seqA [
     do_sh_ok (''wipefs -af '' @ disk),
     do_sh_ok (''sgdisk -Z '' @ disk),
     do_sh_ok (''wipefs -af '' @ disk)]"

definition random_fill :: "string \<Rightarrow> unit action" where
  "random_fill disk =
     bindA (succeeds (sh_ok (''shred -v -n 1 '' @ disk))) (\<lambda>shredded. seqA [
       whenA (\<not> shredded)
         (do_sh_ok (''dd bs=4M if=/dev/urandom of='' @ disk @ '' conv=fsync status=progress'')),
       do_sh ''sync'',
       do_sh_ok (''blockdev --flushbufs '' @ disk),
       sleep 2])"

definition forget_layout :: "string \<Rightarrow> unit action" where
  "forget_layout disk = seqA [
     do_sh_ok (''blockdev --rereadpt '' @ disk),
     do_sh_ok ''udevadm settle'',
     do_sh_ok (''partprobe '' @ disk),
     sleep 2]"

definition wipe_disk :: "installer_config \<Rightarrow> wipe_method \<Rightarrow> unit action" where
  "wipe_disk c how = (let disk = target_disk (storage c) in seqA [
     erase_partition_table disk,
     (case how of
        Wipe_Secure \<Rightarrow> random_fill disk
      | Wipe_Discard \<Rightarrow> do_sh_ok (''blkdiscard -f '' @ disk)
      | _ \<Rightarrow> returnA ()),
     forget_layout disk])"

subsection \<open>Partitions\<close>

fun all_listed :: "string list \<Rightarrow> bool action" where
  "all_listed [] = returnA True"
| "all_listed (p # ps) =
     bindA (succeeds (sh_ok (''lsblk '' @ p))) (\<lambda>b. if b then all_listed ps else returnA False)"

definition partitions_exist :: "installer_config \<Rightarrow> bool action" where
  "partitions_exist c = all_listed [efi_partition c, encrypted_device c]"

definition detached_header_option :: "installer_config \<Rightarrow> string" where
  "detached_header_option c =
     (if \<not> usb_boot_enabled (usb_boot c) then []
      else ''--header '' @ usb_luks_header_partition (usb_boot c) @ '' '')"

definition data_offset_option :: "installer_config \<Rightarrow> string" where
  "data_offset_option c =
     (if \<not> usb_boot_enabled (usb_boot c) then []
      else detached_header_option c @ ''--offset 0 '')"

definition luks_is_usable :: "installer_config \<Rightarrow> bool action" where
  "luks_is_usable c =
     bindA (succeeds (sh_ok (''cryptsetup isLuks '' @ luks_header_device c))) (\<lambda>valid_header.
       if \<not> valid_header then returnA False
       else succeeds (sh_input_ok
         (''cryptsetup open --test-passphrase '' @ detached_header_option c @ encrypted_device c)
         (luks_password (credentials c))))"

definition loop_device_size :: "string \<Rightarrow> string action" where
  "loop_device_size disk =
     bindA (stdout_of (sh_ok (''blockdev --getsize64 '' @ disk))) (\<lambda>out. returnA (strip out))"

definition prepare_loop_device :: "string \<Rightarrow> unit action" where
  "prepare_loop_device disk =
     bindA (loop_device_size disk) (\<lambda>size.
       if size \<in> {[], ''0''} then
         bindA (thenA (sh_ok (''losetup -c '' @ disk)) (loop_device_size disk)) (\<lambda>size.
           if size \<in> {[], ''0''}
           then raiseA (Runtime_Error (''Loop device '' @ disk @ '' has 0 size. Cannot partition.''))
           else returnA ())
       else returnA ())"

definition create_loop_partition_node :: "string \<Rightarrow> unit action" where
  "create_loop_partition_node line =
     (let parts = split_ws line in
      if 3 \<le> length parts \<and> parts ! 2 = ''part'' then
        (let device_node = ''/dev/'' @ parts ! 0 in
         bindA (path_exists device_node) (\<lambda>there.
           if there then returnA ()
           else case split_on '':'' (parts ! 1) of
             [major, minor] \<Rightarrow>
               do_sh (''mknod '' @ device_node @ '' b '' @ major @ '' '' @ minor)
           | _ \<Rightarrow> raiseA (Value_Error ''unpack'')))
      else returnA ())"

definition create_loop_partition_nodes :: "string \<Rightarrow> unit action" where
  "create_loop_partition_nodes disk =
     bindA (stdout_of (sh (''lsblk -r -n -o NAME,MAJ:MIN,TYPE '' @ disk))) (\<lambda>listing.
       forA (split_on NL (strip listing)) create_loop_partition_node)"

fun wait_for_encrypted_device :: "installer_config \<Rightarrow> nat \<Rightarrow> unit action" where
  "wait_for_encrypted_device c 0 =
     raiseA (Runtime_Error (''Partition '' @ encrypted_device c @ '' failed to appear''))"
| "wait_for_encrypted_device c (Suc n) =
     bindA (path_exists (encrypted_device c)) (\<lambda>there.
       if there then returnA ()
       else seqA [
         sleep 1,
         do_sh_ok (''partprobe '' @ target_disk (storage c)),
         wait_for_encrypted_device c n])"

definition wait_for_partitions :: "installer_config \<Rightarrow> unit action" where
  "wait_for_partitions c = wait_for_encrypted_device c 20"

definition create_partitions :: "installer_config \<Rightarrow> unit action" where
  "create_partitions c = (let disk = target_disk (storage c) in seqA [
     whenA (contains ''loop'' disk) (prepare_loop_device disk),
     do_sh (''sgdisk -Z '' @ disk),
     do_sh (''sgdisk -n1:0:+'' @ string_of_int (efi_size_mb (storage c)) @ ''M -t1:ef00 '' @ disk),
     do_sh (''sgdisk -n2:0:0 -t2:8304 '' @ disk),
     do_sh_ok (''partprobe '' @ disk),
     do_sh_ok (''blockdev --rereadpt '' @ disk),
     whenA (contains ''loop'' disk) (create_loop_partition_nodes disk),
     wait_for_partitions c])"

subsection \<open>LUKS\<close>

definition format_luks :: "installer_config \<Rightarrow> unit action" where
  "format_luks c = (let l = luks (storage c) in
     do_sh_input
       (''cryptsetup luksFormat --batch-mode '' @
        ''--type '' @ luks_type l @ '' '' @
        ''--cipher '' @ luks_cipher l @ '' '' @
        ''--key-size '' @ string_of_int (luks_key_size l) @ '' '' @
        ''--hash '' @ luks_hash l @ '' '' @
        ''--pbkdf '' @ luks_pbkdf l @ '' '' @
        ''--pbkdf-memory '' @ string_of_int (pbkdf_memory l) @ '' '' @
        ''--pbkdf-parallel '' @ string_of_int (pbkdf_parallel l) @ '' '' @
        ''--iter-time '' @ string_of_int (pbkdf_time_ms l) @ '' '' @
        data_offset_option c @
        ''--key-file - '' @ encrypted_device c)
       (luks_password (credentials c)))"

definition open_luks :: "installer_config \<Rightarrow> unit action" where
  "open_luks c = seqA [
     do_sh_input
       (''cryptsetup open '' @ detached_header_option c @
        ''--key-file - '' @ encrypted_device c @ '' '' @ CRYPTROOT_MAPPER_NAME)
       (luks_password (credentials c)),
     sleep 1,
     do_sh_ok ''udevadm settle'']"

text \<open>
  The devices of the \<^verbatim>\<open>device:\<close> lines of \<^verbatim>\<open>cryptsetup status\<close>. A line with that word has a
  last word.
\<close>

definition backing_devices :: "string \<Rightarrow> string list" where
  "backing_devices status =
     map (\<lambda>line. last (split_ws line)) (filter (contains ''device:'') (splitlines status))"

definition setup_luks :: "installer_config \<Rightarrow> unit action" where
  "setup_luks c =
     bindA (sh_ok (''cryptsetup status '' @ CRYPTROOT_MAPPER_NAME)) (\<lambda>status.
       if success status \<and> contains ''active'' (lower (stdout status)) then
         (if encrypted_device c \<in> set (backing_devices (stdout status)) then returnA ()
          else raiseA (Runtime_Error
            (CRYPTROOT_MAPPER_NAME @ '' is open but points to the wrong device'')))
       else
         bindA (succeeds (sh_ok (''cryptsetup isLuks '' @ luks_header_device c))) (\<lambda>has_header.
           seqA [whenA (\<not> has_header) (format_luks c), open_luks c]))"

subsection \<open>BTRFS\<close>

text \<open>The names in a listing whose lines look like \<^verbatim>\<open>ID 256 gen 7 top level 5 path @home\<close>.\<close>

definition listed_subvolumes :: "string \<Rightarrow> string list" where
  "listed_subvolumes listing =
     map (\<lambda>line. strip (last (split_on '' path '' line)))
       (filter (contains '' path '') (split_on NL (strip listing)))"

definition create_subvolumes :: "installer_config \<Rightarrow> unit action" where
  "create_subvolumes c =
     bindA (stdout_of (sh_ok (''btrfs subvolume list '' @ TARGET_ROOT))) (\<lambda>listing.
       forA (subvolumes (btrfs (storage c))) (\<lambda>subvolume.
         if subvol_name subvolume \<in> set (listed_subvolumes listing) then returnA ()
         else do_sh (''btrfs subvolume create '' @ TARGET_ROOT @ ''/'' @ subvol_name subvolume)))"

definition format_btrfs :: "installer_config \<Rightarrow> unit action" where
  "format_btrfs c = (let cryptroot = cryptroot_device (storage c) in seqA [
     do_sh_ok (''wipefs -af '' @ cryptroot),
     do_sh ''sync'',
     sleep 1,
     do_sh (''mkfs.btrfs -f -L '' @ DQ @ btrfs_label (btrfs (storage c)) @ DQ @ '' '' @ cryptroot)])"

definition setup_btrfs :: "installer_config \<Rightarrow> unit action" where
  "setup_btrfs c = (let cryptroot = cryptroot_device (storage c) in seqA [
     do_sh_ok ''udevadm settle'',
     bindA (stdout_of (sh_ok (''blkid '' @ cryptroot))) (\<lambda>out.
       if contains (''TYPE='' @ DQ @ ''btrfs'' @ DQ) out then returnA () else format_btrfs c),
     bindA (is_mountpoint TARGET_ROOT) (\<lambda>mounted.
       if mounted then returnA ()
       else do_sh (''mount -t btrfs '' @ cryptroot @ '' '' @ TARGET_ROOT)),
     create_subvolumes c,
     do_sh (''umount '' @ TARGET_ROOT)])"

subsection \<open>Mounting\<close>

definition mount_efi_partition :: "installer_config \<Rightarrow> unit action" where
  "mount_efi_partition c = seqA [
     bindA (stdout_of (sh_ok (''blkid '' @ efi_partition c))) (\<lambda>out.
       if contains (''TYPE='' @ DQ @ ''vfat'' @ DQ) out then returnA ()
       else do_sh (''mkfs.vfat -F32 -n EFI '' @ efi_partition c)),
     do_sh (''mkdir -p '' @ TARGET_EFI),
     do_sh (''mount -t vfat -o umask=0077 '' @ efi_partition c @ '' '' @ TARGET_EFI)]"

definition mount_subvolume :: "storage_config \<Rightarrow> subvolume_config \<Rightarrow> unit action" where
  "mount_subvolume s subvolume =
     (if subvol_name subvolume = ''@'' then returnA ()
      else let mountpoint = TARGET_ROOT @ subvol_mountpoint subvolume in seqA [
        do_sh_ok (''mkdir -p '' @ mountpoint),
        do_sh (''mount -t btrfs -o subvol='' @ subvol_name subvolume @ '','' @
          mount_options (btrfs s) @ '' '' @ cryptroot_device s @ '' '' @ mountpoint),
        whenA (subvol_nocow subvolume) (do_sh_ok (''chattr +C '' @ mountpoint))])"

definition mount_filesystems :: "installer_config \<Rightarrow> unit action" where
  "mount_filesystems c = (let s = storage c in seqA [
     do_sh (''mount -t btrfs -o subvol=@,'' @ mount_options (btrfs s) @ '' '' @
       cryptroot_device s @ '' '' @ TARGET_ROOT),
     forA (subvolumes (btrfs s)) (mount_subvolume s),
     mount_efi_partition c])"

definition create_swapfile :: "installer_config \<Rightarrow> unit action" where
  "create_swapfile c =
     (let path = TARGET_ROOT @ swap_path (swap (storage c));
          size = string_of_int (swap_size_mb (swap (storage c)))
      in bindA (file_exists path) (\<lambda>there.
        if there then do_sh_ok (''swapon '' @ path)
        else seqA [
          do_sh (''truncate -s 0 '' @ path),
          do_sh_ok (''chattr +C '' @ path),
          do_sh_ok (''btrfs property set '' @ path @ '' compression none''),
          bindA (succeeds (sh_ok (''fallocate -l '' @ size @ ''M '' @ path))) (\<lambda>allocated.
            whenA (\<not> allocated)
              (do_sh (''dd if=/dev/zero of='' @ path @ '' bs=1M count='' @ size))),
          do_sh (''chmod 600 '' @ path),
          do_sh (''mkswap '' @ path),
          do_sh (''swapon '' @ path)]))"

subsection \<open>The step\<close>

definition provision_disk :: "installer_config \<Rightarrow> unit action" where
  "provision_disk c = (let how = wipe_method_used c in
     if usb_boot_enabled (usb_boot c) then whenA (how \<noteq> Wipe_Skip) (wipe_disk c how)
     else if how \<noteq> Wipe_Skip then seqA [wipe_disk c how, create_partitions c]
     else bindA (partitions_exist c) (\<lambda>there.
       if \<not> there then create_partitions c
       else bindA (luks_is_usable c) (\<lambda>usable.
         if \<not> usable then seqA [wipe_disk c Wipe_Quick, create_partitions c]
         else returnA ())))"

definition storage_execute :: "installer_config \<Rightarrow> unit action" where
  "storage_execute c =
     bindA (is_mountpoint TARGET_ROOT) (\<lambda>mounted.
       if mounted then seqA [
         do_sh_ok (''findmnt -n -o SOURCE '' @ TARGET_ROOT),
         bindA (is_mountpoint TARGET_EFI) (\<lambda>_. returnA ())]
       else seqA [
         cleanup_stale_mounts,
         provision_disk c,
         setup_luks c,
         setup_btrfs c,
         mount_filesystems c,
         whenA (swap_enabled (swap (storage c)) \<and> 0 < swap_size_mb (swap (storage c)))
           (create_swapfile c)])"

subsection \<open>The contract of the step executors\<close>

lemmas storage_actions = storage_execute_def provision_disk_def create_swapfile_def
  mount_filesystems_def mount_subvolume_def mount_efi_partition_def setup_btrfs_def
  format_btrfs_def create_subvolumes_def setup_luks_def open_luks_def format_luks_def
  create_partitions_def wait_for_partitions_def create_loop_partition_nodes_def
  create_loop_partition_node_def prepare_loop_device_def loop_device_size_def luks_is_usable_def
  partitions_exist_def wipe_disk_def forget_layout_def random_fill_def erase_partition_table_def
  cleanup_stale_mounts_def

lemma wipe_method_rules [emits_intros]:
  "emits P m1 \<Longrightarrow> emits P m2 \<Longrightarrow> emits P m3 \<Longrightarrow> emits P m4 \<Longrightarrow>
   emits P (case how of Wipe_Quick \<Rightarrow> m1 | Wipe_Secure \<Rightarrow> m2 | Wipe_Discard \<Rightarrow> m3 | Wipe_Skip \<Rightarrow> m4)"
  by (cases how) auto

lemma wipe_method_oblivious [oblivious_intros]:
  "indist m1 m1' \<Longrightarrow> indist m2 m2' \<Longrightarrow> indist m3 m3' \<Longrightarrow> indist m4 m4' \<Longrightarrow>
   indist (case how of Wipe_Quick \<Rightarrow> m1 | Wipe_Secure \<Rightarrow> m2 | Wipe_Discard \<Rightarrow> m3 | Wipe_Skip \<Rightarrow> m4)
     (case how of Wipe_Quick \<Rightarrow> m1' | Wipe_Secure \<Rightarrow> m2' | Wipe_Discard \<Rightarrow> m3' | Wipe_Skip \<Rightarrow> m4')"
  by (cases how) auto

lemma all_listed_rules [emits_intros]:
  "(\<And>part. part \<in> set parts \<Longrightarrow> P (''lsblk '' @ part)) \<Longrightarrow> emits P (all_listed parts)"
  by (induction parts) (auto intro!: emits_intros)

lemma all_listed_oblivious [oblivious_intros]: "indist (all_listed parts) (all_listed parts)"
  by (induction parts) (auto intro!: oblivious_intros)

lemma wait_for_encrypted_device_rules [emits_intros]:
  "P (''test -e '' @ encrypted_device c) \<Longrightarrow> P (''partprobe '' @ target_disk (storage c)) \<Longrightarrow>
   emits P (wait_for_encrypted_device c n)"
  by (induction n) (auto intro!: emits_intros)

lemma wait_for_encrypted_device_oblivious [oblivious_intros]:
  "indist (wait_for_encrypted_device c n) (wait_for_encrypted_device (without_credentials c) n)"
  by (induction n) (auto intro!: oblivious_intros)

interpretation storage_step: step_executor storage_execute
proof
  fix c
  show "emits (\<lambda>_. True) (storage_execute c)"
    unfolding storage_actions Let_def by (intro emits_intros TrueI)
  show "indist (storage_execute c) (storage_execute (without_credentials c))"
    unfolding storage_actions wipe_method_used_def data_offset_option_def detached_header_option_def Let_def without_credentials_simps
    by (intro oblivious_intros)
qed

end
