(* ===== verification/Snapper.thy ===== *)
theory Snapper
  imports Executor_Base
begin

text \<open>
  \<^verbatim>\<open>executors/snapper.py\<close>: the snapper configurations, the bootable snapshot UKIs and the
  snapshot notifications.
\<close>

definition SNAPSHOT_MANAGER :: string where "SNAPSHOT_MANAGER = ''/usr/local/bin/manage-snapshot-ukis''"
definition SNAPSHOT_MANAGER_SETTINGS :: string where
  "SNAPSHOT_MANAGER_SETTINGS = ''/etc/default/manage-snapshot-ukis''"
definition SNAPSHOT_REFRESH_HOOK_SCRIPT :: string where
  "SNAPSHOT_REFRESH_HOOK_SCRIPT = ''/usr/local/bin/refresh-snapshot-ukis''"
definition MICROCODE_PACKAGE_TARGETS :: "string list" where "MICROCODE_PACKAGE_TARGETS = [''amd-ucode'', ''intel-ucode'']"

lemmas [cfg_simps] = SNAPSHOT_MANAGER_def SNAPSHOT_MANAGER_SETTINGS_def
  SNAPSHOT_REFRESH_HOOK_SCRIPT_def MICROCODE_PACKAGE_TARGETS_def

subsection \<open>The files of the steps\<close>

definition yes_no :: "bool \<Rightarrow> string" where
  "yes_no enabled = (if enabled then ''yes'' else ''no'')"

definition snapper_volume_file :: "snapper_volume_config \<Rightarrow> string list \<Rightarrow> string" where
  "snapper_volume_file v groups = text_block [
     ''# snapper config for '' @ volume_subvolume v,
     ''# created by arch_installer (D-Bus not available in chroot)'',
     [],
     ''SUBVOLUME='' @ DQ @ volume_subvolume v @ DQ,
     ''FSTYPE='' @ DQ @ ''btrfs'' @ DQ,
     ''ALLOW_USERS='' @ DQ @ DQ,
     ''ALLOW_GROUPS='' @ DQ @ join '','' groups @ DQ,
     ''SYNC_ACL='' @ DQ @ ''yes'' @ DQ,
     ''BACKGROUND_COMPARISON='' @ DQ @ ''yes'' @ DQ,
     [],
     ''NUMBER_CLEANUP='' @ DQ @ yes_no (volume_cleanup v) @ DQ,
     ''NUMBER_MIN_AGE='' @ DQ @ ''1800'' @ DQ,
     ''NUMBER_LIMIT='' @ DQ @ string_of_int (number_limit v) @ DQ,
     ''NUMBER_LIMIT_IMPORTANT='' @ DQ @ string_of_int (number_limit_important v) @ DQ,
     [],
     ''TIMELINE_CREATE='' @ DQ @ yes_no (volume_timeline v) @ DQ,
     ''TIMELINE_CLEANUP='' @ DQ @ yes_no (volume_cleanup v) @ DQ,
     ''TIMELINE_MIN_AGE='' @ DQ @ ''1800'' @ DQ,
     ''TIMELINE_LIMIT_HOURLY='' @ DQ @ string_of_int (keep_hourly (volume_retention v)) @ DQ,
     ''TIMELINE_LIMIT_DAILY='' @ DQ @ string_of_int (keep_daily (volume_retention v)) @ DQ,
     ''TIMELINE_LIMIT_WEEKLY='' @ DQ @ string_of_int (keep_weekly (volume_retention v)) @ DQ,
     ''TIMELINE_LIMIT_MONTHLY='' @ DQ @ string_of_int (keep_monthly (volume_retention v)) @ DQ,
     ''TIMELINE_LIMIT_YEARLY='' @ DQ @ string_of_int (keep_yearly (volume_retention v)) @ DQ,
     [],
     ''EMPTY_PRE_POST_CLEANUP='' @ DQ @ yes_no (volume_cleanup v) @ DQ,
     ''EMPTY_PRE_POST_MIN_AGE='' @ DQ @ ''1800'' @ DQ]"

definition SNAP_PAC_ROOT_CONFIG :: "string" where
  "SNAP_PAC_ROOT_CONFIG = text_block [
     ''[root]'',
     ''snapshot = yes'',
     ''cleanup = timeline'']"

definition snapshot_manager_settings :: "int \<Rightarrow> string \<Rightarrow> string" where
  "snapshot_manager_settings snapshot_count preferred_kernel = text_block [
     ''# read by manage-snapshot-ukis, generated by arch_installer from config.yaml'',
     ''SNAPSHOT_COUNT='' @ string_of_int snapshot_count,
     ''PREFERRED_KERNEL='' @ preferred_kernel]"

definition SNAPSHOT_BOOT_ENTRIES_SERVICE :: "string" where
  "SNAPSHOT_BOOT_ENTRIES_SERVICE = text_block [
     ''[Unit]'',
     ''Description=Refresh systemd-boot entries for BTRFS snapshots'',
     ''After=snapper-cleanup.service snapper-timeline.service'',
     [],
     ''[Service]'',
     ''Type=oneshot'',
     ''ExecStart='' @ SNAPSHOT_MANAGER @ '' refresh-settled'']"

definition SNAPSHOT_BOOT_ENTRIES_PATH :: "string" where
  "SNAPSHOT_BOOT_ENTRIES_PATH = text_block [
     ''[Unit]'',
     ''Description=Watch for snapper snapshot changes'',
     [],
     ''[Path]'',
     ''PathChanged=/.snapshots'',
     ''Unit=snapper-boot-entries.service'',
     [],
     ''[Install]'',
     ''WantedBy=multi-user.target'']"

definition snapshot_refresh_pacman_hook :: "string list \<Rightarrow> string" where
  "snapshot_refresh_pacman_hook kernel_pkgs = text_block [
     ''# refreshes bootable snapshot UKIs once a kernel or initramfs changed'',
     ''# runs after 90-mkinitcpio-install.hook, which rebuilds the system UKIs'',
     [],
     ''[Trigger]'',
     ''Type = Path'',
     ''Operation = Install'',
     ''Operation = Upgrade'',
     ''Target = usr/lib/modules/*/vmlinuz'',
     ''Target = usr/lib/initcpio/*'',
     [],
     ''[Trigger]'',
     ''Type = Package'',
     ''Operation = Install'',
     ''Operation = Upgrade'',
     join NL (map (\<lambda>package. ''Target = '' @ package) (kernel_pkgs @ MICROCODE_PACKAGE_TARGETS)),
     [],
     ''[Action]'',
     ''Description = Refreshing snapshot boot UKIs...'',
     ''When = PostTransaction'',
     ''Exec = '' @ SNAPSHOT_REFRESH_HOOK_SCRIPT,
     ''NeedsTargets'']"

definition SNAPSHOT_REFRESH_HOOK_SCRIPT_CONTENT :: "string" where
  "SNAPSHOT_REFRESH_HOOK_SCRIPT_CONTENT = text_block [
     ''#!/usr/bin/env bash'',
     ''# called by the pacman hook after kernel updates; never fails the transaction'',
     ''set -uo pipefail'',
     [],
     ''LOG_FILE='' @ DQ @ ''/var/log/snapshot-uki-refresh.log'' @ DQ,
     [],
     ''log() {'',
     ''    echo '' @ DQ @ ''[$(date '+%Y-%m-%d %H:%M:%S')] $*'' @ DQ @ '' | tee -a '' @ DQ @ ''$LOG_FILE'' @ DQ,
     ''}'',
     [],
     ''if [ ! -x '' @ DQ @ SNAPSHOT_MANAGER @ DQ @ '' ]; then'',
     ''    log '' @ DQ @ ''Warning: '' @ SNAPSHOT_MANAGER @ '' not found, skipping refresh'' @ DQ,
     ''    exit 0'',
     ''fi'',
     [],
     ''if [ ! -d '' @ DQ @ ''/.snapshots'' @ DQ @ '' ] || [ -z '' @ DQ @ ''$(ls -A /.snapshots 2>/dev/null)'' @ DQ @ '' ]; then'',
     ''    log '' @ DQ @ ''No snapshots found in /.snapshots, skipping UKI refresh'' @ DQ,
     ''    exit 0'',
     ''fi'',
     [],
     ''log '' @ DQ @ ''Refreshing snapshot UKIs after kernel update...'' @ DQ,
     ''if '' @ DQ @ SNAPSHOT_MANAGER @ DQ @ '' refresh >> '' @ DQ @ ''$LOG_FILE'' @ DQ @ '' 2>&1; then'',
     ''    log '' @ DQ @ ''Snapshot UKIs refreshed successfully'' @ DQ,
     ''else'',
     ''    log '' @ DQ @ ''Warning: Failed to refresh some snapshot UKIs'' @ DQ,
     ''fi'',
     ''exit 0'']"

definition SNAPPER_NOTIFY_SERVICE :: "string" where
  "SNAPPER_NOTIFY_SERVICE = text_block [
     ''[Unit]'',
     ''Description=Notify on snapper snapshot creation'',
     ''After=snapper-timeline.timer snap-pac.service'',
     [],
     ''[Service]'',
     ''Type=oneshot'',
     ''ExecStart=/usr/local/bin/snapper-notify'']"

definition SNAPPER_NOTIFY_PATH :: "string" where
  "SNAPPER_NOTIFY_PATH = text_block [
     ''[Unit]'',
     ''Description=Watch for new snapshots and notify'',
     [],
     ''[Path]'',
     ''PathChanged=/.snapshots'',
     ''Unit=snapper-notify.service'',
     [],
     ''[Install]'',
     ''WantedBy=multi-user.target'']"

definition SNAPPER_NOTIFY_SCRIPT :: "string" where
  "SNAPPER_NOTIFY_SCRIPT = text_block [
     ''#!/bin/bash'',
     ''# Desktop notification for snapper snapshot creation'',
     ''# Requires: libnotify (notify-send)'',
     [],
     ''set -euo pipefail'',
     [],
     ''SNAPSHOT_DIR='' @ DQ @ ''/.snapshots'' @ DQ,
     ''LAST_NOTIFIED_FILE='' @ DQ @ ''/tmp/snapper-last-notified'' @ DQ,
     [],
     ''latest_snapshot=$(ls -1t '' @ DQ @ ''$SNAPSHOT_DIR'' @ DQ @ '' 2>/dev/null | head -n1)'',
     ''[[ -z '' @ DQ @ ''$latest_snapshot'' @ DQ @ '' ]] && exit 0'',
     [],
     ''# avoid duplicate notifications'',
     ''if [[ -f '' @ DQ @ ''$LAST_NOTIFIED_FILE'' @ DQ @ '' ]]; then'',
     ''    last_notified=$(cat '' @ DQ @ ''$LAST_NOTIFIED_FILE'' @ DQ @ '')'',
     ''    [[ '' @ DQ @ ''$latest_snapshot'' @ DQ @ '' == '' @ DQ @ ''$last_notified'' @ DQ @ '' ]] && exit 0'',
     ''fi'',
     [],
     ''# get snapshot info'',
     ''info_file='' @ DQ @ ''$SNAPSHOT_DIR/$latest_snapshot/info.xml'' @ DQ,
     ''if [[ -f '' @ DQ @ ''$info_file'' @ DQ @ '' ]]; then'',
     ''    description=$(grep -oP '(?<=<description>).*(?=</description>)' '' @ DQ @ ''$info_file'' @ DQ @ '' 2>/dev/null || echo '' @ DQ @ DQ @ '')'',
     ''    snap_type=$(grep -oP '(?<=<type>).*(?=</type>)' '' @ DQ @ ''$info_file'' @ DQ @ '' 2>/dev/null || echo '' @ DQ @ ''single'' @ DQ @ '')'',
     ''else'',
     ''    description='' @ DQ @ DQ,
     ''    snap_type='' @ DQ @ ''single'' @ DQ,
     ''fi'',
     [],
     ''# send notification to logged-in user'',
     ''for uid in $(loginctl list-users --no-legend | awk '{print $1}'); do'',
     ''    user=$(id -nu '' @ DQ @ ''$uid'' @ DQ @ '' 2>/dev/null || continue)'',
     ''    export DISPLAY='' @ DQ @ '':0'' @ DQ,
     ''    export DBUS_SESSION_BUS_ADDRESS='' @ DQ @ ''unix:path=/run/user/$uid/bus'' @ DQ,
     [],
     ''    title='' @ DQ @ ''Snapshot #$latest_snapshot created'' @ DQ,
     ''    body='' @ DQ @ ''${description:-$snap_type snapshot}'' @ DQ,
     [],
     ''    sudo -u '' @ DQ @ ''$user'' @ DQ @ '' notify-send -i drive-harddisk -a '' @ DQ @ ''Snapper'' @ DQ @ '' '' @ DQ @ ''$title'' @ DQ @ '' '' @ DQ @ ''$body'' @ DQ @ '' 2>/dev/null || true'',
     ''done'',
     [],
     ''echo '' @ DQ @ ''$latest_snapshot'' @ DQ @ '' > '' @ DQ @ ''$LAST_NOTIFIED_FILE'' @ DQ]"

subsection \<open>The snapper step\<close>

definition prepare_snapshots_subvolume :: "installer_config \<Rightarrow> snapper_volume_config \<Rightarrow> unit action" where
  "prepare_snapshots_subvolume c v =
     (let snapshots_directory = TARGET_ROOT @ snapshots_path v in seqA [
        bindA (is_mountpoint snapshots_directory) (\<lambda>mounted.
          whenA mounted (do_sh (''umount '' @ snapshots_directory))),
        bindA (directory_exists snapshots_directory) (\<lambda>there.
          whenA there
            (bindA (succeeds (sh_ok (''btrfs subvolume show '' @ snapshots_directory))) (\<lambda>is_subvolume.
              if is_subvolume then do_sh_ok (''btrfs subvolume delete '' @ snapshots_directory)
              else do_sh_ok (''rmdir '' @ snapshots_directory)))),
        do_sh (''mkdir -p '' @ snapshots_directory),
        do_sh (''mount -t btrfs -o subvol='' @ snapshots_subvolume v @ '','' @
          mount_options (btrfs (storage c)) @ '' '' @ cryptroot_device (storage c) @ '' '' @
          snapshots_directory),
        do_sh (''chmod 750 '' @ snapshots_directory)])"

definition configure_volume :: "installer_config \<Rightarrow> string \<times> snapper_volume_config \<Rightarrow> unit action" where
  "configure_volume c = (\<lambda>(name, v).
     let config_file = TARGET_ROOT @ ''/etc/snapper/configs/'' @ name in
     bindA (file_exists config_file) (\<lambda>there. seqA [
       whenA (\<not> there) (prepare_snapshots_subvolume c v),
       write_file config_file (snapper_volume_file v (allow_groups (snapper c)))]))"

definition snapper_execute :: "installer_config \<Rightarrow> unit action" where
  "snapper_execute c =
     bindA (succeeds (chroot_ok ''pacman -Q snapper'')) (\<lambda>installed. seqA [
       whenA (\<not> installed) (do_chroot ''pacman -S --noconfirm snapper snap-pac''),
       do_sh (''mkdir -p '' @ TARGET_ROOT @ ''/etc/snapper/configs''),
       do_sh (''mkdir -p '' @ TARGET_ROOT @ ''/etc/conf.d''),
       forA (snapper_volumes (snapper c)) (configure_volume c),
       write_file (TARGET_ROOT @ ''/etc/conf.d/snapper'')
         (''SNAPPER_CONFIGS='' @ DQ @ join '' '' (keys (snapper_volumes (snapper c))) @ DQ @ NL),
       do_chroot ''systemctl enable snapper-timeline.timer'',
       do_chroot ''systemctl enable snapper-cleanup.timer'',
       whenA (snap_pac (snapper c)) (seqA [
         do_sh (''mkdir -p '' @ TARGET_ROOT @ ''/etc/snap-pac.d''),
         write_file (TARGET_ROOT @ ''/etc/snap-pac.d/root.conf'') SNAP_PAC_ROOT_CONFIG])])"

subsection \<open>Bootable snapshots and notifications\<close>

text \<open>The settings name the first kernel; a configuration without kernels raises an \<^verbatim>\<open>IndexError\<close>.\<close>

definition bootable_snapshots_execute :: "installer_config \<Rightarrow> unit action" where
  "bootable_snapshots_execute c =
     (let hook_script = TARGET_ROOT @ SNAPSHOT_REFRESH_HOOK_SCRIPT in
      case kernel_packages (boot c) of
        [] \<Rightarrow> raiseA Index_Error
      | preferred_kernel # _ \<Rightarrow> seqA [
          write_file (TARGET_ROOT @ SNAPSHOT_MANAGER_SETTINGS)
            (snapshot_manager_settings (bootable_snapshot_count (snapper c)) preferred_kernel),
          do_sh (''mkdir -p '' @ TARGET_ROOT @ ''/etc/pacman.d/hooks '' @ TARGET_ROOT @ ''/usr/local/bin''),
          write_file (TARGET_ROOT @ ''/etc/pacman.d/hooks/95-snapshot-uki-refresh.hook'')
            (snapshot_refresh_pacman_hook (kernel_packages (boot c))),
          write_file hook_script SNAPSHOT_REFRESH_HOOK_SCRIPT_CONTENT,
          do_sh (''chmod +x '' @ hook_script),
          write_file (TARGET_ROOT @ ''/etc/systemd/system/snapper-boot-entries.service'')
            SNAPSHOT_BOOT_ENTRIES_SERVICE,
          write_file (TARGET_ROOT @ ''/etc/systemd/system/snapper-boot-entries.path'')
            SNAPSHOT_BOOT_ENTRIES_PATH,
          do_chroot ''systemctl enable snapper-boot-entries.path''])"

definition snapshot_notifications_execute :: "installer_config \<Rightarrow> unit action" where
  "snapshot_notifications_execute c =
     (let notify_script = TARGET_ROOT @ ''/usr/local/bin/snapper-notify'' in seqA [
        do_sh (''mkdir -p '' @ TARGET_ROOT @ ''/usr/local/bin''),
        write_file notify_script SNAPPER_NOTIFY_SCRIPT,
        do_sh (''chmod +x '' @ notify_script),
        write_file (TARGET_ROOT @ ''/etc/systemd/system/snapper-notify.service'') SNAPPER_NOTIFY_SERVICE,
        write_file (TARGET_ROOT @ ''/etc/systemd/system/snapper-notify.path'') SNAPPER_NOTIFY_PATH,
        do_chroot ''systemctl enable snapper-notify.path''])"

subsection \<open>The contract of the step executors\<close>

lemmas snapper_actions = snapshot_notifications_execute_def bootable_snapshots_execute_def
  snapper_execute_def configure_volume_def prepare_snapshots_subvolume_def

interpretation snapper_step: step_executor snapper_execute
proof
  fix c
  show "emits (\<lambda>_. True) (snapper_execute c)"
    unfolding snapper_actions Let_def by (intro emits_intros TrueI)
  show "indist (snapper_execute c) (snapper_execute (without_credentials c))"
    unfolding snapper_actions Let_def without_credentials_simps
    by (intro oblivious_intros)
qed

interpretation bootable_snapshots_step: step_executor bootable_snapshots_execute
proof
  fix c
  show "emits (\<lambda>_. True) (bootable_snapshots_execute c)"
    unfolding snapper_actions Let_def by (intro emits_intros TrueI)
  show "indist (bootable_snapshots_execute c) (bootable_snapshots_execute (without_credentials c))"
    unfolding snapper_actions Let_def without_credentials_simps
    by (intro oblivious_intros)
qed

interpretation snapshot_notifications_step: step_executor snapshot_notifications_execute
proof
  fix c
  show "emits (\<lambda>_. True) (snapshot_notifications_execute c)"
    unfolding snapper_actions Let_def by (intro emits_intros TrueI)
  show "indist (snapshot_notifications_execute c) (snapshot_notifications_execute (without_credentials c))"
    unfolding snapper_actions Let_def without_credentials_simps
    by (intro oblivious_intros)
qed

end
