(* ===== verification/Usb_Boot.thy ===== *)
theory Usb_Boot
  imports Snapper
begin

text \<open>
  \<^verbatim>\<open>executors/usb_boot.py\<close>: preparing the USB boot drive, the safeguards on the installed
  system, and cloning a spare drive.
\<close>

definition MEBIBYTE :: int where "MEBIBYTE = 1024 * 1024"
definition LUKS_HEADER_PARTITION_SIZE_MB :: int where "LUKS_HEADER_PARTITION_SIZE_MB = 32"
definition PARTITION_TABLE_SIZE_MB :: int where "PARTITION_TABLE_SIZE_MB = 2"
definition RECOVERY_MOUNT :: string where "RECOVERY_MOUNT = ''/run/dali/usb-recovery''"
definition ARCHISO_DIRECTORY :: string where "ARCHISO_DIRECTORY = ''arch''"
definition ARCHISO_KERNEL :: string where "ARCHISO_KERNEL = ''arch/boot/x86_64/vmlinuz-linux''"
definition ARCHISO_INITRAMFS :: string where
  "ARCHISO_INITRAMFS = ''arch/boot/x86_64/initramfs-linux.img''"
definition ARCHISO_ROOT_IMAGE :: string where "ARCHISO_ROOT_IMAGE = ''arch/x86_64/airootfs.sfs''"
definition ARCHISO_VERSION_FILE :: string where "ARCHISO_VERSION_FILE = ''arch/version''"
definition ISO9660_SIGNATURE :: string where "ISO9660_SIGNATURE = ''CD001''"
definition ISO9660_SIGNATURE_OFFSET :: nat where "ISO9660_SIGNATURE_OFFSET = 32769"
definition ISO9660_BLOCK_COUNT_OFFSET :: nat where "ISO9660_BLOCK_COUNT_OFFSET = 32848"
definition ISO9660_BLOCK_SIZE_OFFSET :: nat where "ISO9660_BLOCK_SIZE_OFFSET = 32896"
definition USB_BOOT_SETTINGS_FILE :: string where
  "USB_BOOT_SETTINGS_FILE = ''/etc/default/usb-boot-drive''"
definition USB_BOOT_GUARD_SCRIPT :: string where
  "USB_BOOT_GUARD_SCRIPT = ''/usr/local/bin/check-usb-boot-drive''"
definition USB_BOOT_GUARD_HOOK :: string where
  "USB_BOOT_GUARD_HOOK = ''/etc/pacman.d/hooks/00-usb-boot-drive.hook''"
definition SNAPSHOT_CATCH_UP_SERVICE :: string where
  "SNAPSHOT_CATCH_UP_SERVICE = ''snapshot-ukis-catch-up.service''"
definition SNAPSHOT_CATCH_UP_RULE :: string where
  "SNAPSHOT_CATCH_UP_RULE = ''/etc/udev/rules.d/90-usb-boot-drive.rules''"
definition SNAPSHOT_REFRESH_PENDING_MARKER :: string where
  "SNAPSHOT_REFRESH_PENDING_MARKER = ''/var/lib/manage-snapshot-ukis/refresh-pending''"

definition REMOVABLE_EFI_MOUNT_OPTIONS :: string where
  "REMOVABLE_EFI_MOUNT_OPTIONS =
     ''umask=0077,noauto,nofail,x-systemd.automount,'' @
     ''x-systemd.idle-timeout=60s,x-systemd.device-timeout=5s''"

definition BOOT_FILE_TARGETS :: "string list" where
  "BOOT_FILE_TARGETS = [
     ''boot/*'', ''efi/*'', ''usr/lib/initcpio/*'', ''usr/lib/firmware/*'',
     ''usr/lib/modules/*/vmlinuz'', ''usr/lib/modules/*/extramodules/*'', ''usr/lib/modprobe.d/'',
     ''usr/src/*/dkms.conf'', ''usr/lib/systemd/systemd'', ''usr/lib/systemd/systemd-udevd'',
     ''usr/lib/**/efi/*.efi*'', ''usr/share/**/*.efi*'', ''usr/bin/cryptsetup'', ''usr/bin/lvm'',
     ''usr/bin/mdadm'', ''usr/bin/pdata_tools'', ''usr/lib/libcryptsetup.so'',
     ''usr/lib/libp11-kit.so'', ''usr/lib/libpcsclite.so'']"

lemmas [cfg_simps] = MEBIBYTE_def LUKS_HEADER_PARTITION_SIZE_MB_def PARTITION_TABLE_SIZE_MB_def
  RECOVERY_MOUNT_def ARCHISO_DIRECTORY_def ARCHISO_KERNEL_def ARCHISO_INITRAMFS_def
  ARCHISO_ROOT_IMAGE_def ARCHISO_VERSION_FILE_def ISO9660_SIGNATURE_def
  ISO9660_SIGNATURE_OFFSET_def ISO9660_BLOCK_COUNT_OFFSET_def ISO9660_BLOCK_SIZE_OFFSET_def
  USB_BOOT_SETTINGS_FILE_def USB_BOOT_GUARD_SCRIPT_def USB_BOOT_GUARD_HOOK_def
  SNAPSHOT_CATCH_UP_SERVICE_def SNAPSHOT_CATCH_UP_RULE_def SNAPSHOT_REFRESH_PENDING_MARKER_def
  REMOVABLE_EFI_MOUNT_OPTIONS_def

subsection \<open>The files of the installed system\<close>

definition efi_fstab_entry :: "string \<Rightarrow> string" where
  "efi_fstab_entry efi_partition_uuid =
     ''PARTUUID='' @ efi_partition_uuid @ TAB @ ''/efi'' @ TAB @ ''vfat'' @ TAB @
     REMOVABLE_EFI_MOUNT_OPTIONS @ TAB @ ''0 2''"

text \<open>\<^verbatim>\<open>line.split()[1:2] != ["/efi"]\<close>: the second word, if there is one, is another mount point.\<close>

definition mounts_efi :: "string \<Rightarrow> bool" where
  "mounts_efi line \<longleftrightarrow> take 1 (drop 1 (split_ws line)) = [''/efi'']"

definition removable_efi_fstab :: "string \<Rightarrow> string \<Rightarrow> string" where
  "removable_efi_fstab fstab efi_partition_uuid =
     (let kept_lines = filter (\<lambda>line. \<not> mounts_efi line) (splitlines fstab)
      in join NL (kept_lines @ [efi_fstab_entry efi_partition_uuid]) @ NL)"

definition usb_boot_settings :: "string \<Rightarrow> string" where
  "usb_boot_settings efi_partition_uuid =
     ''# the USB boot drive this system starts from, written by the DALI installer'' @ NL @
     ''EFI_PARTITION_UUID='' @ efi_partition_uuid @ NL"

definition USB_BOOT_GUARD_SCRIPT_CONTENT :: string where
  "USB_BOOT_GUARD_SCRIPT_CONTENT = text_block [
     ''#!/usr/bin/env bash'',
     ''# run by pacman before a transaction that rewrites boot files: they live on the USB boot'',
     ''# drive, and a kernel update without it would leave the drive's UKIs behind the modules'',
     ''set -uo pipefail'',
     [],
     ''. '' @ USB_BOOT_SETTINGS_FILE,
     [],
     ''# listing /efi mounts the drive (automount) when it is plugged in'',
     ''ls /efi >/dev/null 2>&1'',
     ''mounted_uuid=$(findmnt -n -t vfat -o PARTUUID --mountpoint /efi 2>/dev/null)'',
     ''if [ '' @ DQ @ ''$mounted_uuid'' @ DQ @ '' != '' @ DQ @ ''$EFI_PARTITION_UUID'' @ DQ @ '' ]; then'',
     ''    echo '' @ DQ @ ''The USB boot drive is not plugged in. This transaction rewrites boot files on'' @ DQ @ '' >&2'',
     ''    echo '' @ DQ @ ''its EFI partition (PARTUUID $EFI_PARTITION_UUID): plug it in and run it again.'' @ DQ @ '' >&2'',
     ''    exit 1'',
     ''fi'']"

definition usb_boot_guard_hook :: string where
  "usb_boot_guard_hook = text_block [
     ''# refuses transactions that rewrite boot files while the USB boot drive is unplugged'',
     ''# sorts before every other hook, so nothing (snap-pac included) runs before the check'',
     [],
     ''[Trigger]'',
     ''Type = Path'',
     ''Operation = Install'',
     ''Operation = Upgrade'',
     ''Operation = Remove'',
     join NL (map (\<lambda>target. ''Target = '' @ target) BOOT_FILE_TARGETS),
     [],
     ''[Trigger]'',
     ''Type = Package'',
     ''Operation = Install'',
     ''Operation = Upgrade'',
     ''Target = mkinitcpio'',
     [],
     ''[Action]'',
     ''Description = Checking that the USB boot drive is plugged in...'',
     ''When = PreTransaction'',
     ''Exec = '' @ USB_BOOT_GUARD_SCRIPT,
     ''AbortOnFail'']"

definition snapshot_catch_up_rule :: "string \<Rightarrow> string" where
  "snapshot_catch_up_rule efi_partition_uuid = text_block [
     ''# builds the snapshot UKIs skipped while the USB boot drive was unplugged'',
     ''ACTION=='' @ DQ @ ''add'' @ DQ @ '', SUBSYSTEM=='' @ DQ @ ''block'' @ DQ @
     '', ENV{ID_PART_ENTRY_UUID}=='' @ DQ @ efi_partition_uuid @ DQ @
     '', TAG+='' @ DQ @ ''systemd'' @ DQ @
     '', ENV{SYSTEMD_WANTS}+='' @ DQ @ SNAPSHOT_CATCH_UP_SERVICE @ DQ]"

definition SNAPSHOT_CATCH_UP_SERVICE_CONTENT :: string where
  "SNAPSHOT_CATCH_UP_SERVICE_CONTENT = text_block [
     ''[Unit]'',
     ''Description=Build the snapshot UKIs skipped while the USB boot drive was unplugged'',
     ''ConditionPathExists='' @ SNAPSHOT_REFRESH_PENDING_MARKER,
     [],
     ''[Service]'',
     ''Type=oneshot'',
     ''ExecStart='' @ SNAPSHOT_MANAGER @ '' refresh'']"

text \<open>
  \<^verbatim>\<open>math.ceil(n / MEBIBYTE)\<close> divides in floating point; dividing by a power of two is exact
  below \<open>2 ^ 53\<close>, and the size of an ISO image (a 32-bit count of blocks of a 16-bit size)
  is below \<open>2 ^ 48\<close>, so it is the exact ceiling.
\<close>

definition recovery_partition_size_mb :: "int \<Rightarrow> int" where
  "recovery_partition_size_mb iso_size_bytes =
     (let iso_size_mb = - ((- iso_size_bytes) div MEBIBYTE)
      in iso_size_mb + iso_size_mb div 10 + 64)"

subsection \<open>Inspecting a drive\<close>

definition int_of :: "string \<Rightarrow> int action" where
  "int_of text =
     (case py_int text of None \<Rightarrow> raiseA (Value_Error text) | Some n \<Rightarrow> returnA n)"

definition require_disk :: "string \<Rightarrow> unit action" where
  "require_disk device =
     bindA (sh_ok (''lsblk -dno TYPE '' @ device)) (\<lambda>result.
       if \<not> success result \<or> strip (stdout result) \<noteq> ''disk''
       then raiseA (Usb_Boot_Drive_Error (device @ '' is not a disk''))
       else do_sh_ok (''cat /sys/block/'' @ after_last (CHR ''/'') device @ ''/removable''))"

definition drive_size_bytes :: "string \<Rightarrow> int action" where
  "drive_size_bytes device =
     bindA (stdout_of (sh (''blockdev --getsize64 '' @ device))) (\<lambda>out. int_of (strip out))"

fun wait_for_partition_node :: "string \<Rightarrow> string \<Rightarrow> nat \<Rightarrow> unit action" where
  "wait_for_partition_node device part 0 =
     raiseA (Usb_Boot_Drive_Error (part @ '' did not appear on '' @ device))"
| "wait_for_partition_node device part (Suc n) =
     bindA (path_exists part) (\<lambda>there.
       if there then returnA ()
       else seqA [
         sleep 1,
         do_sh_ok (''partprobe '' @ device),
         wait_for_partition_node device part n])"

definition wait_for_partition :: "string \<Rightarrow> string \<Rightarrow> unit action" where
  "wait_for_partition device part = wait_for_partition_node device part 15"

definition holds_luks_header :: "string \<Rightarrow> bool action" where
  "holds_luks_header part = succeeds (sh_ok (''cryptsetup isLuks '' @ part))"

subsection \<open>The Arch ISO\<close>

definition iso_read :: "string \<Rightarrow> nat \<Rightarrow> nat \<Rightarrow> string \<Rightarrow> string action" where
  "iso_read source offset len format_command =
     bindA (stdout_of (sh
       (''dd if='' @ source @ '' bs=4096 skip='' @ string_of_nat offset @
        '' count='' @ string_of_nat len @
        '' iflag=skip_bytes,count_bytes status=none | '' @ format_command)))
       (\<lambda>out. returnA (strip out))"

definition iso_read_text :: "string \<Rightarrow> nat \<Rightarrow> nat \<Rightarrow> string action" where
  "iso_read_text source offset len = iso_read source offset len ''cat''"

definition iso_read_number :: "string \<Rightarrow> nat \<Rightarrow> nat \<Rightarrow> int action" where
  "iso_read_number source offset len =
     bindA (iso_read source offset len (''od -An -tu'' @ string_of_nat len)) int_of"

definition iso_size_bytes :: "string \<Rightarrow> int action" where
  "iso_size_bytes source =
     bindA (iso_read_text source ISO9660_SIGNATURE_OFFSET (length ISO9660_SIGNATURE)) (\<lambda>signature.
       if signature \<noteq> ISO9660_SIGNATURE
       then raiseA (Usb_Boot_Drive_Error (source @ '' is not an ISO 9660 image''))
       else bindA (succeeds (sh_ok
         (''bsdtar -tf '' @ source @ '' '' @ ARCHISO_KERNEL @ '' '' @ ARCHISO_INITRAMFS @ '' '' @
          ARCHISO_ROOT_IMAGE))) (\<lambda>listed.
         if \<not> listed
         then raiseA (Usb_Boot_Drive_Error
           (source @ '' is not an Arch Linux ISO ('' @ ARCHISO_KERNEL @ '', '' @ ARCHISO_INITRAMFS @
            '', '' @ ARCHISO_ROOT_IMAGE @ '')''))
         else bindA (iso_read_number source ISO9660_BLOCK_COUNT_OFFSET 4) (\<lambda>block_count.
           bindA (iso_read_number source ISO9660_BLOCK_SIZE_OFFSET 2) (\<lambda>block_size.
             returnA (block_count * block_size)))))"

definition extract_live_system :: "string \<Rightarrow> string \<Rightarrow> unit action" where
  "extract_live_system source directory = seqA [
     do_sh (''bsdtar -xf '' @ source @ '' -C '' @ directory @ '' '' @ ARCHISO_DIRECTORY),
     do_sh (''sync -f '' @ directory)]"

subsection \<open>Preparing the drive\<close>

definition keeps_existing_drive :: "installer_config \<Rightarrow> bool action" where
  "keeps_existing_drive c =
     bindA (is_mountpoint TARGET_ROOT) (\<lambda>mounted.
       let resuming = mounted \<or>
             (wipe_method (storage c) = Wipe_Skip \<and> \<not> migration_enabled (migration c))
       in if resuming then holds_luks_header (usb_luks_header_partition (usb_boot c))
          else returnA False)"

definition needed_drive_mb :: "installer_config \<Rightarrow> int \<Rightarrow> int" where
  "needed_drive_mb c recovery_size_mb =
     PARTITION_TABLE_SIZE_MB + efi_size_mb (storage c) + LUKS_HEADER_PARTITION_SIZE_MB + recovery_size_mb"

definition require_capacity :: "installer_config \<Rightarrow> int \<Rightarrow> unit action" where
  "require_capacity c recovery_size_mb =
     (let device = usb_device (usb_boot c); needed_mb = needed_drive_mb c recovery_size_mb in
      bindA (drive_size_bytes device) (\<lambda>bytes.
        let available_mb = bytes div MEBIBYTE in
        if available_mb < needed_mb
        then raiseA (Usb_Boot_Drive_Error
          (device @ '' holds '' @ string_of_int available_mb @ '' MiB, the USB boot drive needs '' @
           string_of_int needed_mb @ '' MiB''))
        else returnA ()))"

definition release_drive :: "installer_config \<Rightarrow> unit action" where
  "release_drive c = seqA [
     do_sh_ok (''umount -R '' @ TARGET_ROOT),
     do_sh_ok (''umount '' @ RECOVERY_MOUNT),
     do_sh_ok ''swapoff -a'',
     do_sh_ok (''cryptsetup close '' @ CRYPTROOT_MAPPER_NAME),
     forA [usb_efi_partition (usb_boot c), usb_recovery_partition (usb_boot c)]
       (\<lambda>part. do_sh_ok (''umount '' @ part))]"

definition partition_drive :: "installer_config \<Rightarrow> int \<Rightarrow> unit action" where
  "partition_drive c recovery_size_mb =
     (let device = usb_device (usb_boot c);
          header = usb_luks_header_partition (usb_boot c);
          last_partition = (if recovery_size_mb \<noteq> 0 then usb_recovery_partition (usb_boot c) else header)
      in seqA [
        do_sh_ok (''wipefs -af '' @ device),
        do_sh (''sgdisk -Z '' @ device),
        do_sh (''sgdisk -n1:0:+'' @ string_of_int (efi_size_mb (storage c)) @ ''M -t1:ef00 '' @ device),
        do_sh (''sgdisk -n2:0:+'' @ string_of_int LUKS_HEADER_PARTITION_SIZE_MB @ ''M -t2:8300 '' @ device),
        whenA (recovery_size_mb \<noteq> 0)
          (do_sh (''sgdisk -n3:0:+'' @ string_of_int recovery_size_mb @ ''M -t3:8300 '' @ device)),
        do_sh_ok (''partprobe '' @ device),
        do_sh_ok ''udevadm settle'',
        wait_for_partition device last_partition,
        do_sh_ok (''wipefs -af '' @ header)])"

definition store_recovery_system :: "installer_config \<Rightarrow> unit action" where
  "store_recovery_system c =
     (let recovery_partition = usb_recovery_partition (usb_boot c) in seqA [
        do_sh (''mkfs.ext4 -F -m 0 -L RECOVERY '' @ recovery_partition),
        do_sh (''mkdir -p '' @ RECOVERY_MOUNT),
        do_sh (''mount -t ext4 '' @ recovery_partition @ '' '' @ RECOVERY_MOUNT),
        finallyA (extract_live_system (iso_path (usb_boot c)) RECOVERY_MOUNT)
          (do_sh_ok (''umount '' @ RECOVERY_MOUNT))])"

definition write_drive :: "installer_config \<Rightarrow> unit action" where
  "write_drive c =
     bindA (if recovery_system (usb_boot c) then iso_size_bytes (iso_path (usb_boot c)) else returnA 0)
       (\<lambda>iso_bytes.
         let recovery_size_mb = (if iso_bytes \<noteq> 0 then recovery_partition_size_mb iso_bytes else 0) in
         seqA [
           require_capacity c recovery_size_mb,
           release_drive c,
           partition_drive c recovery_size_mb,
           do_sh (''mkfs.vfat -F32 -n EFI '' @ usb_efi_partition (usb_boot c)),
           whenA (recovery_system (usb_boot c)) (store_recovery_system c)])"

definition usb_boot_drive_execute :: "installer_config \<Rightarrow> unit action" where
  "usb_boot_drive_execute c =
     (let device = usb_device (usb_boot c); disk = target_disk (storage c) in
      if device = disk
      then raiseA (Usb_Boot_Drive_Error (device @ '' is the target disk, not a USB drive''))
      else thenA (require_disk device)
        (bindA (stable_disk_path disk) (\<lambda>path.
          if path = []
          then raiseA (Usb_Boot_Drive_Error
            (disk @ '' has no /dev/disk/by-id name. Without a partition table the '' @
             ''boot finds the disk only by that name''))
          else bindA (keeps_existing_drive c) (\<lambda>keeps.
            if keeps then returnA () else write_drive c))))"

subsection \<open>Safeguards of the installed system\<close>

definition mount_efi_on_demand :: "string \<Rightarrow> unit action" where
  "mount_efi_on_demand efi_partition_uuid =
     (let fstab_path = TARGET_ROOT @ ''/etc/fstab'' in
      bindA (stdout_of (sh (''cat '' @ fstab_path))) (\<lambda>fstab.
        write_file fstab_path (removable_efi_fstab fstab efi_partition_uuid)))"

definition install_update_guard :: "string \<Rightarrow> unit action" where
  "install_update_guard efi_partition_uuid =
     (let guard_script = TARGET_ROOT @ USB_BOOT_GUARD_SCRIPT in seqA [
        write_file (TARGET_ROOT @ USB_BOOT_SETTINGS_FILE) (usb_boot_settings efi_partition_uuid),
        do_sh (''mkdir -p '' @ TARGET_ROOT @ ''/etc/pacman.d/hooks '' @ TARGET_ROOT @ ''/usr/local/bin''),
        write_file guard_script USB_BOOT_GUARD_SCRIPT_CONTENT,
        do_sh (''chmod 755 '' @ guard_script),
        write_file (TARGET_ROOT @ USB_BOOT_GUARD_HOOK) usb_boot_guard_hook])"

definition install_snapshot_catch_up :: "string \<Rightarrow> unit action" where
  "install_snapshot_catch_up efi_partition_uuid = seqA [
     do_sh (''mkdir -p '' @ TARGET_ROOT @ ''/etc/udev/rules.d''),
     write_file (TARGET_ROOT @ SNAPSHOT_CATCH_UP_RULE) (snapshot_catch_up_rule efi_partition_uuid),
     write_file (TARGET_ROOT @ ''/etc/systemd/system/'' @ SNAPSHOT_CATCH_UP_SERVICE)
       SNAPSHOT_CATCH_UP_SERVICE_CONTENT]"

definition usb_boot_safeguards_execute :: "installer_config \<Rightarrow> unit action" where
  "usb_boot_safeguards_execute c =
     bindA (partition_uuid (usb_efi_partition (usb_boot c))) (\<lambda>efi_partition_uuid. seqA [
       mount_efi_on_demand efi_partition_uuid,
       install_update_guard efi_partition_uuid,
       whenA (enable_snapshot_boot (boot c)) (install_snapshot_catch_up efi_partition_uuid)])"

subsection \<open>Cloning a spare drive\<close>

definition existing_partitions :: "string \<Rightarrow> string list action" where
  "existing_partitions device = filterA path_exists (map (derive_partition_path device) [1, 2, 3])"

definition copy_partition :: "string \<Rightarrow> string \<times> string \<Rightarrow> unit action" where
  "copy_partition spare_device = (\<lambda>(source_partition, spare_partition). seqA [
     wait_for_partition spare_device spare_partition,
     do_sh (''dd if='' @ source_partition @ '' of='' @ spare_partition @ '' bs=4M conv=fsync status=none'')])"

definition copy_drive :: "string \<Rightarrow> string \<Rightarrow> string list \<Rightarrow> unit action" where
  "copy_drive source_device spare_device source_partitions =
     (let spare_partitions =
        map (derive_partition_path spare_device) [1 ..< length source_partitions + 1]
      in seqA [
        do_sh_ok (''wipefs -af '' @ spare_device),
        do_sh (''sgdisk --replicate='' @ spare_device @ '' '' @ source_device),
        do_sh_ok (''sgdisk -e '' @ spare_device),
        do_sh_ok (''partprobe '' @ spare_device),
        do_sh_ok ''udevadm settle'',
        forA (zip source_partitions spare_partitions) (copy_partition spare_device),
        do_sh (''cmp '' @ source_partitions ! 1 @ '' '' @ spare_partitions ! 1)])"

definition clone_drive :: "string \<Rightarrow> string \<Rightarrow> unit action" where
  "clone_drive source_device spare_device =
     (if source_device = spare_device
      then raiseA (Usb_Boot_Drive_Error
        ''The spare drive must be another drive than the USB boot drive'')
      else thenA (require_disk source_device) (thenA (require_disk spare_device)
        (bindA (existing_partitions source_device) (\<lambda>source_partitions.
          bindA (if length source_partitions < 2 then returnA False
                 else holds_luks_header (source_partitions ! 1)) (\<lambda>is_boot_drive.
            if \<not> is_boot_drive
            then raiseA (Usb_Boot_Drive_Error
              (source_device @ '' is not a USB boot drive (no LUKS header)''))
            else bindA (stdout_of (sh (''lsblk -nro MOUNTPOINT '' @ spare_device))) (\<lambda>mountpoints.
              if strip mountpoints \<noteq> []
              then raiseA (Usb_Boot_Drive_Error (spare_device @ '' has mounted partitions''))
              else copy_drive source_device spare_device source_partitions))))))"

subsection \<open>The contract of the step executors\<close>

lemmas usb_boot_actions = clone_drive_def copy_drive_def copy_partition_def
  existing_partitions_def usb_boot_safeguards_execute_def install_snapshot_catch_up_def
  install_update_guard_def mount_efi_on_demand_def usb_boot_drive_execute_def write_drive_def
  store_recovery_system_def partition_drive_def release_drive_def require_capacity_def
  keeps_existing_drive_def extract_live_system_def iso_size_bytes_def iso_read_number_def
  iso_read_text_def iso_read_def holds_luks_header_def wait_for_partition_def drive_size_bytes_def
  require_disk_def int_of_def

text \<open>Inspecting the ISO image only reads it.\<close>

lemma iso_inspection_reads:
  "reads_range (''dd if='' @ source @ '' bs=4096 skip='' @ offset @ '' count='' @ len @
     '' iflag=skip_bytes,count_bytes status=none | '' @ format_command)"
  using reads_range_middle [of "''if='' @ source @ '' bs=4096 skip='' @ offset @ '' count='' @ len" format_command]
  by simp

lemmas iso_inspection [simp] = iso_inspection_reads [simplified]

lemma wait_for_partition_node_rules [emits_intros]:
  "P (''test -e '' @ part) \<Longrightarrow> P (''partprobe '' @ device) \<Longrightarrow>
   emits P (wait_for_partition_node device part n)"
  by (induction n) (auto intro!: emits_intros)

lemma wait_for_partition_node_oblivious [oblivious_intros]:
  "indist (wait_for_partition_node device part n) (wait_for_partition_node device part n)"
  by (induction n) (auto intro!: oblivious_intros)

interpretation usb_boot_drive_step: step_executor usb_boot_drive_execute
proof
  fix c
  show "emits (\<lambda>_. True) (usb_boot_drive_execute c)"
    unfolding usb_boot_actions Let_def by (intro emits_intros TrueI)
  show "indist (usb_boot_drive_execute c) (usb_boot_drive_execute (without_credentials c))"
    unfolding usb_boot_actions needed_drive_mb_def Let_def without_credentials_simps
    by (intro oblivious_intros)
qed

interpretation usb_boot_safeguards_step: step_executor usb_boot_safeguards_execute
proof
  fix c
  show "emits (\<lambda>_. True) (usb_boot_safeguards_execute c)"
    unfolding usb_boot_actions Let_def by (intro emits_intros TrueI)
  show "indist (usb_boot_safeguards_execute c) (usb_boot_safeguards_execute (without_credentials c))"
    unfolding usb_boot_actions needed_drive_mb_def Let_def without_credentials_simps
    by (intro oblivious_intros)
qed

end
