(* ===== verification/Sample_Config.thy ===== *)
theory Sample_Config
  imports Executor_Base
begin

text \<open>
  A small configuration on which the witnesses evaluate the model, one with a USB boot drive
  and one that migrates an existing installation; and machines that refuse, or accept, every command.
\<close>

definition sample_volume :: snapper_volume_config where
  "sample_volume = \<lparr>volume_subvolume = ''/'', snapshots_subvolume = ''@snapshots'',
     snapshots_path = ''/.snapshots'', volume_timeline = True, volume_cleanup = True,
     number_limit = 50, number_limit_important = 10,
     volume_retention = \<lparr>keep_hourly = 5, keep_daily = 7, keep_weekly = 0, keep_monthly = 0,
       keep_yearly = 0\<rparr>\<rparr>"

definition sample_config :: installer_config where
  "sample_config = \<lparr>
     system = \<lparr>hostname = ''arch'', timezone = ''Europe/Helsinki'',
       sys_locale = \<lparr>locale_language = ''en_US'', locale_encoding = ''UTF-8'', locale_keymap = ''us'',
         locale_monetary = [], locale_time_format = [], locale_numeric = [], locale_paper = []\<rparr>,
       sys_user = \<lparr>user_name = ''user'', user_groups_of = [''wheel'']\<rparr>,
       sys_mirrors = \<lparr>mirrors = [], use_reflector = False, reflector_countries = []\<rparr>,
       cpu_vendor = Cpu_Intel\<rparr>,
     packages = \<lparr>base_packages = [''base'', ''linux'', ''linux-lts'', ''amd-ucode'', ''intel-ucode''],
       desktops = \<lparr>kde_packages = [''plasma-desktop''], gnome_packages = [], hyprland_packages = []\<rparr>,
       selected_desktops = [Kde], display_manager = [''sddm''], cataloged = [''base'']\<rparr>,
     storage = \<lparr>target_disk = ''/dev/sda'', efi_size_mb = 1024, wipe_method = Wipe_Secure,
       luks = \<lparr>luks_type = ''luks2'', luks_cipher = ''aes-xts-plain64'', luks_key_size = 512,
         luks_hash = ''sha512'', luks_pbkdf = ''argon2id'', pbkdf_memory = 1048576, pbkdf_parallel = 4,
         pbkdf_time_ms = 4000\<rparr>,
       btrfs = \<lparr>btrfs_label = ''arch'', mount_options = ''noatime'',
         subvolumes = [\<lparr>subvol_name = ''@'', subvol_mountpoint = ''/'', subvol_nocow = False\<rparr>]\<rparr>,
       swap = \<lparr>swap_enabled = False, swap_size_mb = 4096, swap_path = ''/swap/swapfile'',
         swap_hibernation = False\<rparr>\<rparr>,
     boot = \<lparr>kernels = [\<lparr>kernel_name = ''default'', kernel_package = ''linux''\<rparr>,
         \<lparr>kernel_name = ''lts'', kernel_package = ''linux-lts''\<rparr>],
       selected_kernels = [''linux''],
       variants = [],
       cmdline = \<lparr>rootflags = ''subvol=@'', rootfstype = ''btrfs'', cmdline_rw = True, cmdline_quiet = True,
         hardening = \<lparr>lockdown = [], iommu = [], intel_iommu = ''on'', amd_iommu = [], pti = ''on'',
           spectre_v2 = [], spec_store_bypass_disable = [], l1tf = [], mds = [], srbds = [],
           tsx_async_abort = [], init_on_alloc = 1, init_on_free = 0\<rparr>\<rparr>,
       loader = \<lparr>loader_timeout = 3, console_mode = ''max'', loader_editor = False\<rparr>,
       hooks = [''base'', ''systemd'', ''sd-encrypt''],
       secure_boot = \<lparr>enroll_keys = True, include_microsoft_keys = True\<rparr>,
       enable_snapshot_boot = False\<rparr>,
     gpu = \<lparr>gpu_vendor = Gpu_Intel, gpu_driver = Driver_Vendor_Default,
       gpu_drivers = \<lparr>drivers_amd = [], drivers_intel = [''mesa''], drivers_nouveau = [],
         drivers_nvidia_dkms = [], drivers_nvidia_open = []\<rparr>\<rparr>,
     snapper = \<lparr>snapper_enabled = True, allow_groups = [''wheel''], snapper_root = Some sample_volume,
       snapper_home = None, snap_pac = True, bootable_snapshot_count = 5\<rparr>,
     firewall = \<lparr>firewall_enabled = True, default_incoming = Policy_Deny, default_outgoing = Policy_Allow,
       firewall_logging = True, block_icmp = True,
       firewall_ssh = \<lparr>ssh_enabled = True, ssh_port = 22, ssh_allowed_from = []\<rparr>,
       allow_rules = []\<rparr>,
     docker = \<lparr>docker_enabled = False, storage_driver = ''btrfs'', data_root = ''/var/lib/docker'',
       access_group = ''docker-users''\<rparr>,
     notifications = \<lparr>notifications_enabled = False\<rparr>,
     sync = \<lparr>backup_partition = [], backup_items = [], backup_categories = []\<rparr>,
     migration = \<lparr>migration_enabled = False, preserve_home = True, preserve_secure_boot_keys = True,
       additional_paths = []\<rparr>,
     usb_boot = \<lparr>usb_boot_enabled = False, usb_device = [], recovery_system = False, iso_path = []\<rparr>,
     secrets = \<lparr>luks_password_encrypted = [], user_password_encrypted = []\<rparr>,
     credentials = \<lparr>luks_password = ''disk'', user_password = ''login'', source_luks_password = []\<rparr>\<rparr>"

definition sample_usb_config :: installer_config where
  "sample_usb_config = sample_config\<lparr>usb_boot := \<lparr>usb_boot_enabled = True, usb_device = ''/dev/sdb'',
     recovery_system = False, iso_path = []\<rparr>\<rparr>"

text \<open>What the storage steps read of the configuration with a USB boot drive.\<close>

lemma usb_attributes:
  "target_disk (storage sample_usb_config) = ''/dev/sda''"
  "encrypted_device sample_usb_config = ''/dev/sda''"
  "luks_header_device sample_usb_config = ''/dev/sdb2''"
  "usb_luks_header_partition (usb_boot sample_usb_config) = ''/dev/sdb2''"
  "cryptroot_device (storage sample_usb_config) = ''/dev/mapper/cryptroot''"
  "btrfs_label (btrfs (storage sample_usb_config)) = ''arch''"
  "efi_partition sample_usb_config = ''/dev/sdb1''"
  "usb_efi_partition (usb_boot sample_usb_config) = ''/dev/sdb1''"
  "usb_recovery_partition (usb_boot sample_usb_config) = ''/dev/sdb3''"
  "usb_device (usb_boot sample_usb_config) = ''/dev/sdb''"
  "\<not> recovery_system (usb_boot sample_usb_config)"
  "efi_size_mb (storage sample_usb_config) = 1024"
  "wipe_method (storage sample_usb_config) = Wipe_Secure"
  "\<not> migration_enabled (migration sample_usb_config)"
  "usb_boot_enabled (usb_boot sample_usb_config)"
  "luks (storage sample_usb_config) = \<lparr>luks_type = ''luks2'', luks_cipher = ''aes-xts-plain64'', luks_key_size = 512,
     luks_hash = ''sha512'', luks_pbkdf = ''argon2id'', pbkdf_memory = 1048576, pbkdf_parallel = 4,
     pbkdf_time_ms = 4000\<rparr>"
  by (simp_all add: sample_usb_config_def sample_config_def cfg_simps encrypted_device_def luks_header_device_def
      usb_luks_header_partition_def derive_partition_path_def efi_partition_def usb_efi_partition_def usb_recovery_partition_def text_simps)

definition sample_migration_config :: installer_config where
  "sample_migration_config = sample_config\<lparr>migration := \<lparr>migration_enabled = True,
     preserve_home = True, preserve_secure_boot_keys = True, additional_paths = []\<rparr>\<rparr>"

definition refusing_machine :: os where
  "refusing_machine h q = Completed 1 [] []"

definition accepting_machine :: os where
  "accepting_machine h q = Completed 0 [] []"

end
