(* ===== verification/Storage_Properties.thy ===== *)
theory Storage_Properties
  imports Storage Usb_Boot Sample_Config
begin

text \<open>
  What the storage step is trusted with: it destroys nothing on a disk that an earlier run has
  provisioned, it never gives the internal disk of a USB boot installation a partition table,
  it never overwrites the random fill with the known bytes of a partition table, and its
  waiting loops end.
\<close>

subsection \<open>Resuming on a provisioned disk\<close>

text \<open>
  A disk provisioned by an earlier run: both partitions are listed, the LUKS header is valid and
  the password opens it, the file systems are there, and so is the swap file.
\<close>

definition provisioned :: "os \<Rightarrow> installer_config \<Rightarrow> bool" where
  "provisioned os c \<longleftrightarrow>
     (\<exists>out. answers os (''lsblk '' @ efi_partition c) 0 out) \<and>
     (\<exists>out. answers os (''lsblk '' @ encrypted_device c) 0 out) \<and>
     (\<exists>out. answers os (''cryptsetup isLuks '' @ luks_header_device c) 0 out) \<and>
     (\<forall>h. \<exists>out err. os h (input_request
        (''cryptsetup open --test-passphrase '' @ detached_header_option c @ encrypted_device c)
        (luks_password (credentials c))) = Completed 0 out err) \<and>
     (\<exists>out. answers os (''blkid '' @ cryptroot_device (storage c)) 0 out \<and>
        contains (''TYPE='' @ DQ @ ''btrfs'' @ DQ) out) \<and>
     (\<exists>out. answers os (''blkid '' @ efi_partition c) 0 out \<and>
        contains (''TYPE='' @ DQ @ ''vfat'' @ DQ) out) \<and>
     (\<exists>out. answers os (''test -f '' @ TARGET_ROOT @ swap_path (swap (storage c))) 0 out)"

lemma harmless_storage_parts:
  "emits (\<lambda>t. \<not> destructive t) cleanup_stale_mounts"
  "emits (\<lambda>t. \<not> destructive t) (open_luks c)"
  "emits (\<lambda>t. \<not> destructive t) (mount_subvolume s v)"
  "emits (\<lambda>t. \<not> destructive t) (create_subvolumes c)"
  unfolding cleanup_stale_mounts_def open_luks_def mount_subvolume_def create_subvolumes_def Let_def
  by (intro emits_intros; simp add: destructive_simps)+

lemma usable_header:
  assumes "provisioned os c" and "luks_is_usable c os h = (Inr usable, h')"
  shows "usable"
proof -
  have a: "\<exists>out. answers os (''cryptsetup isLuks '' @ luks_header_device c) 0 out" 
    and b: "\<And>h. \<exists>out err. os h (input_request
        (''cryptsetup open --test-passphrase '' @ detached_header_option c @ encrypted_device c)
        (luks_password (credentials c))) = Completed 0 out err"
    using assms(1) by (auto simp: provisioned_def)
  obtain out where out: "answers os (''cryptsetup isLuks '' @ luks_header_device c) 0 out" using a by blast
  show ?thesis
    using assms(2) unfolding luks_is_usable_def
  proof (cases rule: bindA_cases)
    case (continues x h1)
    with succeeds_answered [OF out] have "x" by blast
    obtain o' e' where os: "os h1 (input_request
        (''cryptsetup open --test-passphrase '' @ detached_header_option c @ encrypted_device c)
        (luks_password (credentials c))) = Completed 0 o' e'" using b by blast
    from continues(2) \<open>x\<close> show ?thesis
      unfolding sh_input_ok_def using succeeds_completed [of os h1, OF os] by simp
  qed auto
qed

lemma all_listed_answered:
  assumes "\<And>p. p \<in> set ps \<Longrightarrow> \<exists>out. answers os (''lsblk '' @ p) 0 out"
    and "all_listed ps os h = (Inr b, h')"
  shows b
  using assms
proof (induction ps arbitrary: h)
  case Nil
  then show ?case by (simp add: action_apply)
next
  case (Cons p ps)
  obtain out where out: "answers os (''lsblk '' @ p) 0 out" using Cons.prems(1) [of p] by auto
  show ?case
    using Cons.prems(2) unfolding all_listed.simps
  proof (cases rule: bindA_cases)
    case (continues x h1)
    with succeeds_answered [OF out] have "x" by blast
    with continues Cons show ?thesis by simp
  qed auto
qed

lemma provision_spares:
  assumes "provisioned os c" and "wipe_method_used c = Wipe_Skip"
  shows "emits_on os (\<lambda>t. \<not> destructive t) (provision_disk c)"
proof (cases "usb_boot_enabled (usb_boot c)")
  case True
  with assms show ?thesis by (simp add: provision_disk_def whenA_def emits_on_emits emits_returnA)
next
  case False
  have parts: "emits (\<lambda>t. \<not> destructive t) (partitions_exist c)"
    unfolding partitions_exist_def by (intro emits_intros) (simp add: destructive_simps)
  have usable_emits: "emits (\<lambda>t. \<not> destructive t) (luks_is_usable c)"
    unfolding luks_is_usable_def by (intro emits_intros) (simp_all add: destructive_simps)
  have usable: "b = True" if "luks_is_usable c os h = (Inr b, h')" for b h h'
    using usable_header [OF assms(1) that] by simp
  have there: "b = True" if "partitions_exist c os h = (Inr b, h')" for b h h'
  proof (rule eqTrueI, rule all_listed_answered [OF _ that [unfolded partitions_exist_def]])
    show "\<exists>out. answers os (''lsblk '' @ part) 0 out"
      if "part \<in> set [efi_partition c, encrypted_device c]" for part
      using that assms(1) by (auto simp: provisioned_def)
  qed
  show ?thesis
    unfolding provision_disk_def using False assms(2)
    by (auto simp: Let_def intro!: emits_on_bindA emits_on_emits [OF parts] emits_on_emits [OF usable_emits]
        emits_on_emits [OF emits_returnA] dest!: there usable)
qed

lemma setup_spares:
  assumes "provisioned os c"
  shows "emits_on os (\<lambda>t. \<not> destructive t) (setup_luks c)"
proof -
  obtain out where out: "answers os (''cryptsetup isLuks '' @ luks_header_device c) 0 out"
    using assms by (auto simp: provisioned_def)
  have format_skipped: "emits_on os (\<lambda>t. \<not> destructive t)
      (bindA (succeeds (sh_ok (''cryptsetup isLuks '' @ luks_header_device c)))
        (\<lambda>has_header. seqA [whenA (\<not> has_header) (format_luks c), open_luks c]))"
  proof (rule emits_on_answered(1) [OF out])
    show "emits_on os (\<lambda>t. \<not> destructive t) (seqA [whenA (\<not> (0::int) = 0) (format_luks c), open_luks c])"
      using harmless_storage_parts(2) by (simp add: whenA_def thenA_def emits_on_emits emits_bindA emits_returnA)
  qed (simp add: destructive_simps)
  show ?thesis
    unfolding setup_luks_def
  proof (rule emits_on_bindA)
    show "emits_on os (\<lambda>t. \<not> destructive t) (sh_ok (''cryptsetup status '' @ CRYPTROOT_MAPPER_NAME))"
      by (rule emits_on_emits, intro emits_intros, simp add: destructive_simps)
  qed (rule emits_on_if, rule emits_on_emits, intro emits_intros, rule format_skipped)
qed

lemma skipped_format:
  assumes "answers os s 0 out" and "contains needle out" and "P s"
  shows "emits_on os P (bindA (stdout_of (sh_ok s)) (\<lambda>out. if contains needle out then returnA () else m))"
  by (rule emits_on_answered(2) [OF assms(1), where P = P, OF assms(3)]) (simp add: assms(2) emits_on_emits emits_returnA)

lemma filesystems_spare:
  assumes "provisioned os c"
  shows "emits_on os (\<lambda>t. \<not> destructive t) (setup_btrfs c)"
    and "emits_on os (\<lambda>t. \<not> destructive t) (mount_efi_partition c)"
    and "emits_on os (\<lambda>t. \<not> destructive t) (create_swapfile c)"
proof -
  note parts = assms [unfolded provisioned_def]
  obtain root where root: "answers os (''blkid '' @ cryptroot_device (storage c)) 0 root"
    "contains (''TYPE='' @ DQ @ ''btrfs'' @ DQ) root" using parts by blast
  obtain efi where efi: "answers os (''blkid '' @ efi_partition c) 0 efi"
    "contains (''TYPE='' @ DQ @ ''vfat'' @ DQ) efi" using parts by blast
  obtain out where out: "answers os (''test -f '' @ TARGET_ROOT @ swap_path (swap (storage c))) 0 out"
    using parts by blast
  show "emits_on os (\<lambda>t. \<not> destructive t) (setup_btrfs c)"
    unfolding setup_btrfs_def Let_def
    by (intro emits_on_seqA_Cons emits_on_seqA_Nil skipped_format [OF root];
        (intro emits_on_emits emits_intros harmless_storage_parts)?; simp add: destructive_simps)
  show "emits_on os (\<lambda>t. \<not> destructive t) (mount_efi_partition c)"
    unfolding mount_efi_partition_def Let_def
    by (intro emits_on_seqA_Cons emits_on_seqA_Nil skipped_format [OF efi];
        (intro emits_on_emits emits_intros)?; simp add: destructive_simps)
  show "emits_on os (\<lambda>t. \<not> destructive t) (create_swapfile c)"
    unfolding create_swapfile_def Let_def file_exists_def
    by (rule emits_on_answered(1) [OF out], simp add: destructive_simps, simp, rule emits_on_emits,
        intro emits_intros, simp add: destructive_simps)
qed

lemma skip_spares:
  assumes "provisioned os c" and "wipe_method_used c = Wipe_Skip"
  shows "emits_on os (\<lambda>t. \<not> destructive t) (storage_execute c)"
proof -
  have mounting: "emits_on os (\<lambda>t. \<not> destructive t) (mount_filesystems c)"
    unfolding mount_filesystems_def Let_def
    by (intro emits_on_seqA_Cons emits_on_seqA_Nil filesystems_spare [OF assms(1)];
        (intro emits_on_emits emits_intros harmless_storage_parts)?; simp add: destructive_simps)
  show ?thesis
    unfolding storage_execute_def is_mountpoint_def
    by (intro emits_on_bindA emits_on_if emits_on_seqA_Cons emits_on_seqA_Nil emits_on_whenA
        provision_spares [OF assms] setup_spares [OF assms(1)] filesystems_spare [OF assms(1)] mounting;
        (intro emits_on_emits emits_intros harmless_storage_parts)?; simp add: destructive_simps)
qed


subsection \<open>Waiting for a device node\<close>

text \<open>
  Both waiting loops of the program ask for a node, retry when it is missing and give up after a
  fixed number of attempts.
\<close>

locale bounded_wait =
  fixes wait :: "nat \<Rightarrow> unit action" and check :: "bool action" and retry :: "unit action"
    and failure :: error
  assumes no_attempt_left: "wait 0 = raiseA failure"
    and one_attempt: "wait (Suc n) = bindA check (\<lambda>there. if there then returnA () else thenA retry (wait n))"
begin

lemma found_at_once: "check os h = (Inr True, h') \<Longrightarrow> wait (Suc n) os h = (Inr (), h')"
  by (simp add: one_attempt bindA_def action_apply)

lemma keeps_waiting:
  "check os h = (Inr False, h1) \<Longrightarrow> retry os h1 = (Inr (), h2) \<Longrightarrow> wait (Suc n) os h = wait n os h2"
  by (simp add: one_attempt bindA_def thenA_def)

text \<open>\<open>k\<close> attempts in a row find nothing.\<close>

inductive misses :: "os \<Rightarrow> nat \<Rightarrow> history \<Rightarrow> history \<Rightarrow> bool" for os where
  none: "misses os 0 h h"
| another: "check os h = (Inr False, h1) \<Longrightarrow> retry os h1 = (Inr (), h2) \<Longrightarrow> misses os k h2 h3 \<Longrightarrow>
    misses os (Suc k) h h3"

lemma after_misses: "misses os k h h' \<Longrightarrow> wait (k + n) os h = wait n os h'"
  by (induction rule: misses.induct) (simp_all add: keeps_waiting)

lemma found_in_time:
  "misses os k h h1 \<Longrightarrow> k < n \<Longrightarrow> check os h1 = (Inr True, h2) \<Longrightarrow> wait n os h = (Inr (), h2)"
  using after_misses [of os k h h1 "n - k"] found_at_once [of os h1 h2 "n - Suc k"]
  by (simp add: Suc_diff_Suc)

lemma gives_up: "misses os n h h' \<Longrightarrow> wait n os h = (Inl failure, h')"
  using after_misses [of os n h h' 0] by (simp add: no_attempt_left action_apply)

lemma returns_only_if_found:
  "wait n os h = (Inr (), h') \<Longrightarrow> \<exists>k h1. k < n \<and> misses os k h h1 \<and> check os h1 = (Inr True, h')"
proof (induction n arbitrary: h)
  case 0
  then show ?case by (simp add: no_attempt_left action_apply)
next
  case (Suc n)
  from Suc.prems [unfolded one_attempt] show ?case
  proof (cases rule: bindA_cases)
    case (raises e)
    then show ?thesis by simp
  next
    case (continues there h1)
    show ?thesis
    proof (cases there)
      case True
      with continues show ?thesis by (auto simp: action_apply intro: none)
    next
      case False
      with continues have "bindA retry (\<lambda>_. wait n) os h1 = (Inr (), h')" by (simp add: thenA_def)
      then show ?thesis
      proof (cases rule: bindA_cases)
        case (raises e)
        then show ?thesis by simp
      next
        case (continues u h2)
        with Suc.IH obtain k h3 where "k < n" "misses os k h2 h3" "check os h3 = (Inr True, h')"
          by blast
        with \<open>check os h = (Inr there, h1)\<close> False continues show ?thesis
          by (intro exI [of _ "Suc k"]) (auto intro: another)
      qed
    qed
  qed
qed

lemma returns_iff:
  "(\<exists>h'. wait n os h = (Inr (), h')) \<longleftrightarrow>
     (\<exists>k h1 h2. k < n \<and> misses os k h h1 \<and> check os h1 = (Inr True, h2))"
  (is "?returns \<longleftrightarrow> ?found")
proof
  show ?found if ?returns using that returns_only_if_found by blast
  show ?returns if ?found using that found_in_time by blast
qed

end

interpretation encrypted_device_wait: bounded_wait "wait_for_encrypted_device c"
    "path_exists (encrypted_device c)"
    "seqA [sleep 1, do_sh_ok (''partprobe '' @ target_disk (storage c))]"
    "Runtime_Error (''Partition '' @ encrypted_device c @ '' failed to appear'')" for c
  by unfold_locales (simp_all add: thenA_assoc thenA_returnA_unit cong: if_cong)

interpretation usb_partition_wait: bounded_wait "wait_for_partition_node device part" "path_exists part"
    "seqA [sleep 1, do_sh_ok (''partprobe '' @ device)]"
    "Usb_Boot_Drive_Error (part @ '' did not appear on '' @ device)" for device part
  by unfold_locales (simp_all add: thenA_assoc thenA_returnA_unit cong: if_cong)


subsection \<open>Properties\<close>

definition provisioned_machine :: os where
  "provisioned_machine h q =
     (if prefix ''mountpoint'' (req_text q) then Completed 1 [] []
      else Completed 0 (''TYPE='' @ DQ @ ''btrfs'' @ DQ @ '' TYPE='' @ DQ @ ''vfat'' @ DQ) [])"

definition resumed_config :: installer_config where
  "resumed_config = sample_config\<lparr>storage := (storage sample_config)\<lparr>wipe_method := Wipe_Skip\<rparr>\<rparr>"

lemma resumed_machine: "provisioned provisioned_machine resumed_config"
  by (simp add: provisioned_def provisioned_machine_def answers_def)

text \<open>
  C1: On a disk that an earlier run has provisioned (both partitions, a LUKS header the password
  opens, the btrfs and the vfat file system, the swap file), the storage step with the wipe
  method \<^verbatim>\<open>skip\<close>, and without a migration, runs no command that overwrites data: resuming a partial
  installation is safe.
\<close>

theorem skip_keeps_provisioned_disk:
  assumes "provisioned os c" and "\<not> migration_enabled (migration c)"
    and "wipe_method (storage c) = Wipe_Skip"
    and "storage_execute c os h = (r, h @ new)" and "t \<in> set (texts new)"
  shows "\<not> destructive t"
proof -
  have "wipe_method_used c = Wipe_Skip" using assms by (simp add: wipe_method_used_def)
  from emits_onD [OF skip_spares [OF assms(1) this] assms(4,5)] show ?thesis .
qed

theorem skip_keeps_provisioned_disk_witness:
  "\<exists>r new. storage_execute resumed_config provisioned_machine [] = (r, new) \<and>
     list_all (\<lambda>t. \<not> destructive t) (texts new)"
proof -
  obtain r new where run: "storage_execute resumed_config provisioned_machine [] = (r, new)" by fastforce
  have "\<not> destructive t" if "t \<in> set (texts new)" for t
    using skip_keeps_provisioned_disk [OF resumed_machine, of "[]" r new t] run that
    by (simp add: resumed_config_def sample_config_def)
  with run show ?thesis by (auto simp: list_all_iff)
qed

text \<open>
  C7: With a USB boot drive the storage step never gives the internal disk a partition: no
  \<^verbatim>\<open>sgdisk -n\<close> runs, whatever the wipe method and whatever the machine answers.
\<close>

theorem usb_boot_leaves_disk_unpartitioned:
  assumes "usb_boot_enabled (usb_boot c)" and "storage_execute c os h = (r, h @ new)"
    and "t \<in> set (texts new)"
  shows "\<not> prefix ''sgdisk -n'' t"
proof -
  have "emits (\<lambda>t. \<not> prefix ''sgdisk -n'' t) (storage_execute c)"
    unfolding storage_actions Let_def using assms(1) by (intro emits_intros) simp_all
  from emits_onD [OF emits_on_emits [OF this] assms(2,3)] show ?thesis .
qed

text \<open>
  What may still be overwritten once the random fill of the disk has begun: the disk with more random
  bytes; the LUKS header, by a format that puts it on the drive and leaves the data at offset zero;
  the file system inside the opened container; the EFI partition of the drive; the swap file.
\<close>

definition writes_after_fill :: "installer_config \<Rightarrow> string \<Rightarrow> bool" where
  "writes_after_fill c t \<longleftrightarrow>
     (let swapfile = TARGET_ROOT @ swap_path (swap (storage c)) in
      t \<in> set [''dd bs=4M if=/dev/urandom of='' @ target_disk (storage c) @ '' conv=fsync status=progress'',
        ''wipefs -af '' @ cryptroot_device (storage c),
        ''mkfs.btrfs -f -L '' @ DQ @ btrfs_label (btrfs (storage c)) @ DQ @ '' '' @ cryptroot_device (storage c),
        ''mkfs.vfat -F32 -n EFI '' @ efi_partition c,
        ''truncate -s 0 '' @ swapfile,
        ''dd if=/dev/zero of='' @ swapfile @ '' bs=1M count='' @ string_of_int (swap_size_mb (swap (storage c))),
        ''mkswap '' @ swapfile]) \<or>
     (prefix ''cryptsetup luksFormat '' t \<and>
      contains (''--header '' @ usb_luks_header_partition (usb_boot c) @ '' --offset 0 '') t)"

definition spoils_fill :: "installer_config \<Rightarrow> string \<Rightarrow> bool" where
  "spoils_fill c t \<longleftrightarrow> destructive t \<and> \<not> writes_after_fill c t"

lemmas spoils_fill_simps = spoils_fill_def writes_after_fill_def Let_def destructive_simps

lemma contains_later: "contains p s \<Longrightarrow> contains p (r @ s)"
  unfolding contains_iff by (metis append_assoc)

lemma contains_here: "contains p (p @ s)"
  unfolding contains_iff by blast

lemma never_after_question: "never_after A B (succeeds (sh_ok s))"
  unfolding never_after_def
proof (intro allI)
  fix os h
  have "snd (run False (shell_request s) os h) = h @ [Ran (shell_request s) (os h (shell_request s))]"
    by (rule run_history)
  then have "snd (succeeds (sh_ok s) os h) = h @ [Ran (shell_request s) (os h (shell_request s))]"
    by (auto simp: succeeds_def sh_ok_def bindA_def returnA_apply split: prod.split sum.split)
  then show "\<exists>new. snd (succeeds (sh_ok s) os h) = h @ new \<and> ordered A B (texts new)"
    by simp
qed

lemma fill_spoiled_by_nothing:
  "never_after (\<lambda>t. prefix ''shred '' t) (spoils_fill c) (random_fill (target_disk (storage c)))"
  unfolding random_fill_def
  by (rule never_after_bindA_second [OF never_after_question], intro emits_intros; simp add: spoils_fill_simps)

lemma wipe_fills_last:
  "never_after (\<lambda>t. prefix ''shred '' t) (spoils_fill c) (wipe_disk c how)"
proof -
  have forget: "emits (\<lambda>t. \<not> spoils_fill c t) (seqA [forget_layout (target_disk (storage c))])"
    "emits (\<lambda>t. \<not> prefix ''shred '' t) (seqA [forget_layout (target_disk (storage c))])"
    unfolding forget_layout_def by (intro emits_intros; simp add: spoils_fill_simps)+
  have erase: "emits (\<lambda>t. \<not> prefix ''shred '' t) (erase_partition_table (target_disk (storage c)))"
    unfolding erase_partition_table_def by (intro emits_intros) simp_all
  show ?thesis
  proof (cases "how = Wipe_Secure")
    case True
    then show ?thesis
      unfolding wipe_disk_def Let_def
      by simp (intro never_after_thenA_first [OF erase] never_after_thenA_second [OF fill_spoiled_by_nothing]
          forget [simplified])
  next
    case False
    then have "emits (\<lambda>t. \<not> prefix ''shred '' t) (wipe_disk c how)"
      unfolding wipe_disk_def Let_def
      by (cases how; simp; intro emits_thenA erase forget [simplified] emits_intros; simp)
    then show ?thesis by (rule never_after_no_first)
  qed
qed

lemma provision_fills_last:
  assumes "usb_boot_enabled (usb_boot c)"
  shows "never_after (\<lambda>t. prefix ''shred '' t) (spoils_fill c) (provision_disk c)"
  using assms wipe_fills_last
  by (simp add: provision_disk_def Let_def whenA_def never_after_no_first emits_returnA)

lemma format_keeps_fill:
  assumes "usb_boot_enabled (usb_boot c)"
  shows "emits (\<lambda>t. \<not> spoils_fill c t) (format_luks c)"
proof -
  have header: "data_offset_option c = ''--header '' @ usb_luks_header_partition (usb_boot c) @ '' --offset 0 ''"
    using assms by (simp add: data_offset_option_def detached_header_option_def)
  show ?thesis
    unfolding format_luks_def Let_def spoils_fill_def writes_after_fill_def header [symmetric]
    by (intro emits_intros, simp only: not_not de_Morgan_conj,
        intro disjI2 conjI contains_later contains_here) simp
qed

lemma later_parts_keep_fill:
  assumes "usb_boot_enabled (usb_boot c)"
  shows "emits (\<lambda>t. \<not> spoils_fill c t)
     (seqA [setup_luks c, setup_btrfs c, mount_filesystems c,
        whenA (swap_enabled (swap (storage c)) \<and> 0 < swap_size_mb (swap (storage c)))
          (create_swapfile c)])"
  unfolding setup_luks_def open_luks_def setup_btrfs_def format_btrfs_def create_subvolumes_def
    mount_filesystems_def mount_efi_partition_def mount_subvolume_def create_swapfile_def Let_def
  by (intro emits_intros format_keeps_fill [OF assms]; simp add: spoils_fill_simps)

text \<open>
  C8: With a USB boot drive, whose internal disk has no header and hides among random bytes, nothing
  overwrites the random fill once it has begun: after the first \<^verbatim>\<open>shred\<close>, each command that
  partitions, formats, wipes, fills or discards anything is the fallback fill with random bytes, the
  LUKS format whose header goes to the drive, or writes a file system or the swap file inside the
  opened container, or the EFI partition of the drive.
\<close>

theorem random_fill_is_last:
  assumes "usb_boot_enabled (usb_boot c)"
    and "storage_execute c os h = (r, h @ new)" and "texts new = before @ t # after"
    and "prefix ''shred '' t"
  shows "list_all (writes_after_fill c) (filter destructive after)"
proof -
  have "never_after (\<lambda>t. prefix ''shred '' t) (spoils_fill c) (storage_execute c)"
    unfolding storage_execute_def
  proof (rule never_after_bindA_first)
    show "emits (\<lambda>t. \<not> prefix ''shred '' t) (is_mountpoint TARGET_ROOT)"
      by (intro emits_intros) simp
  next
    fix mounted
    have steps: "never_after (\<lambda>t. prefix ''shred '' t) (spoils_fill c)
       (seqA [cleanup_stale_mounts, provision_disk c, setup_luks c, setup_btrfs c, mount_filesystems c,
         whenA (swap_enabled (swap (storage c)) \<and> 0 < swap_size_mb (swap (storage c)))
           (create_swapfile c)])"
      by (rule never_after_seqA_first, unfold cleanup_stale_mounts_def, (intro emits_intros; simp),
          rule never_after_seqA_second [OF provision_fills_last [OF assms(1)]
            later_parts_keep_fill [OF assms(1)]])
    have queries: "never_after (\<lambda>t. prefix ''shred '' t) (spoils_fill c)
       (seqA [do_sh_ok (''findmnt -n -o SOURCE '' @ TARGET_ROOT),
         bindA (is_mountpoint TARGET_EFI) (\<lambda>_. returnA ())])"
      by (rule never_after_no_first) (intro emits_intros; simp)
    show "never_after (\<lambda>t. prefix ''shred '' t) (spoils_fill c)
       (if mounted then seqA [do_sh_ok (''findmnt -n -o SOURCE '' @ TARGET_ROOT),
           bindA (is_mountpoint TARGET_EFI) (\<lambda>_. returnA ())]
        else seqA [cleanup_stale_mounts, provision_disk c, setup_luks c, setup_btrfs c,
           mount_filesystems c,
           whenA (swap_enabled (swap (storage c)) \<and> 0 < swap_size_mb (swap (storage c)))
             (create_swapfile c)])"
      by (rule never_after_if) (rule queries, rule steps)
  qed
  from never_afterD [OF this assms(2)] assms(3,4) show ?thesis
    by (auto simp: ordered_append list_all_iff spoils_fill_def)
qed

text \<open>A machine with a disk that is not formatted yet, and that fails to mount it.\<close>

definition blank_machine :: os where
  "blank_machine h q =
     (if prefix ''mount'' (req_text q) \<or> prefix ''cryptsetup status'' (req_text q) \<or>
         prefix ''cryptsetup isLuks'' (req_text q) then Completed 1 [] []
      else Completed 0 [] [])"

lemma blank_usb_run:
  "texts (snd (storage_execute sample_usb_config blank_machine [])) =
     [''mountpoint -q /mnt'', ''umount -R /mnt'', ''swapoff -a'', ''cryptsetup close cryptroot'',
      ''cryptsetup close container'', ''dmsetup remove_all'', ''wipefs -af /dev/sda'',
      ''sgdisk -Z /dev/sda'', ''wipefs -af /dev/sda''] @ ''shred -v -n 1 /dev/sda'' #
     [''sync'', ''blockdev --flushbufs /dev/sda'', ''blockdev --rereadpt /dev/sda'', ''udevadm settle'',
      ''partprobe /dev/sda'', ''cryptsetup status cryptroot'', ''cryptsetup isLuks /dev/sdb2'',
      ''cryptsetup luksFormat --batch-mode --type luks2 --cipher aes-xts-plain64 --key-size 512 --hash sha512 '' @
      ''--pbkdf argon2id --pbkdf-memory 1048576 --pbkdf-parallel 4 --iter-time 4000 --header /dev/sdb2 '' @
      ''--offset 0 --key-file - /dev/sda'',
      ''cryptsetup open --header /dev/sdb2 --key-file - /dev/sda cryptroot'', ''udevadm settle'',
      ''udevadm settle'', ''blkid /dev/mapper/cryptroot'', ''wipefs -af /dev/mapper/cryptroot'', ''sync'',
      ''mkfs.btrfs -f -L '' @ DQ @ ''arch'' @ DQ @ '' /dev/mapper/cryptroot'', ''mountpoint -q /mnt'',
      ''mount -t btrfs /dev/mapper/cryptroot /mnt'']"
  unfolding storage_execute_def provision_disk_def wipe_disk_def erase_partition_table_def random_fill_def
    forget_layout_def setup_luks_def format_luks_def open_luks_def setup_btrfs_def format_btrfs_def
    cleanup_stale_mounts_def data_offset_option_def detached_header_option_def
  by (simp add: run_evaluation blank_machine_def cfg_simps is_mountpoint_def usb_attributes text_simps string_of_int_def
      wipe_method_used_def)

lemma blank_usb_fill:
  "\<exists>before after. texts (snd (storage_execute sample_usb_config blank_machine [])) =
       before @ ''shred -v -n 1 /dev/sda'' # after \<and> ''wipefs -af /dev/mapper/cryptroot'' \<in> set after"
  by (rule exI, rule exI, rule conjI, rule blank_usb_run, simp)

lemma refused_usb_run:
  "texts (snd (storage_execute sample_usb_config refusing_machine [])) =
     [''mountpoint -q /mnt'', ''umount -R /mnt'', ''swapoff -a'', ''cryptsetup close cryptroot'',
      ''cryptsetup close container'', ''dmsetup remove_all'', ''wipefs -af /dev/sda'',
      ''sgdisk -Z /dev/sda'', ''wipefs -af /dev/sda'', ''shred -v -n 1 /dev/sda'',
      ''dd bs=4M if=/dev/urandom of=/dev/sda conv=fsync status=progress'', ''sync'']"
  unfolding storage_actions Let_def sample_usb_config_def sample_config_def
  by (simp add: run_evaluation refusing_machine_def cfg_simps is_mountpoint_def wipe_method_used_def)

theorem usb_boot_leaves_disk_unpartitioned_witness:
  "list_all (\<lambda>t. \<not> prefix ''sgdisk -n'' t) (texts (snd (storage_execute sample_usb_config refusing_machine [])))"
  unfolding list_all_iff
proof
  fix t assume t: "t \<in> set (texts (snd (storage_execute sample_usb_config refusing_machine [])))"
  obtain r new where run: "storage_execute sample_usb_config refusing_machine [] = (r, new)" by fastforce
  show "\<not> prefix ''sgdisk -n'' t"
    by (rule usb_boot_leaves_disk_unpartitioned [of sample_usb_config refusing_machine "[]" r new])
      (use t run in \<open>simp_all add: sample_usb_config_def\<close>)
qed

theorem random_fill_is_last_witness:
  "\<exists>before after. texts (snd (storage_execute sample_usb_config blank_machine [])) =
       before @ ''shred -v -n 1 /dev/sda'' # after \<and>
     list_all (writes_after_fill sample_usb_config) (filter destructive after) \<and>
     ''wipefs -af /dev/mapper/cryptroot'' \<in> set (filter destructive after)"
proof -
  obtain r new where run: "storage_execute sample_usb_config blank_machine [] = (r, new)" by fastforce
  obtain before after where new: "texts new = before @ ''shred -v -n 1 /dev/sda'' # after"
    and wiped: "''wipefs -af /dev/mapper/cryptroot'' \<in> set after"
    using blank_usb_fill run by auto
  have "list_all (writes_after_fill sample_usb_config) (filter destructive after)"
    by (rule random_fill_is_last [of sample_usb_config blank_machine "[]" r new before "''shred -v -n 1 /dev/sda''"])
      (use run new in \<open>simp_all add: usb_attributes\<close>)
  with run new wiped show ?thesis by (auto simp: destructive_simps reads_range_def)
qed

text \<open>
  C9: The waits for a device node end: waiting for the partitions returns exactly when one of
  the first 20 looks finds the encrypted device (15 for a partition of the USB drive), after
  looks that found nothing and retries that were run; otherwise the installation stops.
\<close>

theorem waits_are_bounded:
  "((\<exists>h'. wait_for_partitions c os h = (Inr (), h')) \<longleftrightarrow>
     (\<exists>k h1 h2. k < 20 \<and> encrypted_device_wait.misses c os k h h1 \<and>
        path_exists (encrypted_device c) os h1 = (Inr True, h2))) \<and>
   ((\<exists>h'. wait_for_partition device part os h = (Inr (), h')) \<longleftrightarrow>
     (\<exists>k h1 h2. k < 15 \<and> usb_partition_wait.misses part device os k h h1 \<and>
        path_exists part os h1 = (Inr True, h2)))"
  unfolding wait_for_partitions_def wait_for_partition_def
  by (rule conjI, rule encrypted_device_wait.returns_iff, rule usb_partition_wait.returns_iff)

end
