(* ===== verification/Cleanup.thy ===== *)
theory Cleanup
  imports Action_Logic
begin

text \<open>
  Reasoning about \<^verbatim>\<open>try ... finally\<close>: what an action acquires (a mount, a mapping, a file) is
  released on every way out of it.
\<close>

text \<open>
  Clean-up: \<open>followed A B es\<close> when every event that satisfies \<open>A\<close> has a later one that satisfies
  \<open>B\<close>; \<open>cleans_up os A B m\<close> when \<open>m\<close> leaves such a history on every way out of it.
\<close>

fun followed :: "(event \<Rightarrow> bool) \<Rightarrow> (event \<Rightarrow> bool) \<Rightarrow> history \<Rightarrow> bool" where
  "followed A B [] = True"
| "followed A B (e # es) = ((A e \<longrightarrow> list_ex B es) \<and> followed A B es)"

definition cleans_up :: "os \<Rightarrow> (event \<Rightarrow> bool) \<Rightarrow> (event \<Rightarrow> bool) \<Rightarrow> 'a action \<Rightarrow> bool" where
  "cleans_up os A B m \<longleftrightarrow> (\<forall>h. \<exists>new. snd (m os h) = h @ new \<and> followed A B new)"

fun ran :: "(string \<Rightarrow> bool) \<Rightarrow> event \<Rightarrow> bool" where
  "ran P (Ran q r) = P (req_text q)"
| "ran P (Slept n) = False"

fun succeeded :: "(string \<Rightarrow> bool) \<Rightarrow> event \<Rightarrow> bool" where
  "succeeded P (Ran q (Completed code out err)) = (P (req_text q) \<and> code = 0)"
| "succeeded P _ = False"

text \<open>\<open>releases os B m\<close>: every way out of \<open>m\<close> has run a command that satisfies \<open>B\<close>.\<close>

definition releases :: "os \<Rightarrow> (event \<Rightarrow> bool) \<Rightarrow> 'a action \<Rightarrow> bool" where
  "releases os B m \<longleftrightarrow> (\<forall>h. \<exists>new. snd (m os h) = h @ new \<and> list_ex B new)"

lemma succeeded_ran: "succeeded P e \<Longrightarrow> ran P e"
  by (cases "(P, e)" rule: succeeded.cases) simp_all

lemma ran_text: "ran P e \<Longrightarrow> e \<in> set es \<Longrightarrow> \<exists>t \<in> set (texts es). P t"
  unfolding texts_def by (cases e) force+

lemma followed_append: "followed A B es \<Longrightarrow> followed A B fs \<Longrightarrow> followed A B (es @ fs)"
  by (induction es) auto

lemma followed_end: "list_ex B fs \<Longrightarrow> followed A B fs \<Longrightarrow> followed A B (es @ fs)"
  by (induction es) auto

lemma followed_none: "list_all (\<lambda>e. \<not> A e) es \<Longrightarrow> followed A B es"
  by (induction es) auto

lemma cleans_up_obtain:
  assumes "cleans_up os A B m" and "m os h = (r, h')"
  obtains new where "h' = h @ new" and "followed A B new"
  using assms unfolding cleans_up_def by (metis snd_conv)

lemma cleans_upD: "cleans_up os A B m \<Longrightarrow> m os h = (r, h @ new) \<Longrightarrow> followed A B new"
  by (metis cleans_up_obtain same_append_eq)

lemma releases_obtain:
  assumes "releases os B m" and "m os h = (r, h')"
  obtains new where "h' = h @ new" and "list_ex B new"
  using assms unfolding releases_def by (metis snd_conv)

lemma cleans_up_unused:
  assumes "emits (\<lambda>t. \<not> P t) m" and "\<And>e. A e \<Longrightarrow> ran P e"
  shows "cleans_up os A B m"
  unfolding cleans_up_def
proof
  fix h
  obtain new where "snd (m os h) = h @ new" "\<forall>t \<in> set (texts new). \<not> P t"
    using assms(1) unfolding emits_def by blast
  moreover from this have "followed A B new"
    by (intro followed_none) (auto simp: list_all_iff dest: assms(2) ran_text)
  ultimately show "\<exists>new. snd (m os h) = h @ new \<and> followed A B new" by blast
qed

lemma cleans_up_bindA:
  assumes m: "cleans_up os A B m" and f: "\<And>x. cleans_up os A B (f x)"
  shows "cleans_up os A B (bindA m f)"
  unfolding cleans_up_def
proof
  fix h
  obtain r h1 where mr: "m os h = (r, h1)" by fastforce
  with m obtain new where new: "h1 = h @ new" "followed A B new" by (rule cleans_up_obtain)
  show "\<exists>new. snd (bindA m f os h) = h @ new \<and> followed A B new"
  proof (cases r)
    case (Inl e)
    with mr new show ?thesis by (auto simp: bindA_def)
  next
    case (Inr x)
    obtain s h2 where fr: "f x os h1 = (s, h2)" by fastforce
    with f obtain new' where "h2 = h1 @ new'" "followed A B new'" by (rule cleans_up_obtain)
    with mr Inr fr new show ?thesis
      by (intro exI [of _ "new @ new'"]) (auto simp: bindA_def followed_append)
  qed
qed

lemma cleans_up_thenA: "cleans_up os A B m \<Longrightarrow> cleans_up os A B n \<Longrightarrow> cleans_up os A B (thenA m n)"
  unfolding thenA_def by (rule cleans_up_bindA)

lemma cleans_up_if:
  "(b \<Longrightarrow> cleans_up os A B m) \<Longrightarrow> (\<not> b \<Longrightarrow> cleans_up os A B n) \<Longrightarrow> cleans_up os A B (if b then m else n)"
  by simp

lemma cleans_up_finallyA:
  assumes m: "emits (\<lambda>_. True) m" and r: "releases os B c" and c: "cleans_up os A B c"
  shows "cleans_up os A B (finallyA m c)" and "releases os B (finallyA m c)"
proof -
  have "\<exists>new. snd (finallyA m c os h) = h @ new \<and> followed A B new \<and> list_ex B new" for h
  proof -
    obtain x h1 where mr: "m os h = (x, h1)" by fastforce
    with m obtain new where new: "h1 = h @ new" by (rule emitsD)
    obtain y h2 where cr: "c os h1 = (y, h2)" by fastforce
    with c obtain new' where new': "h2 = h1 @ new'" "followed A B new'" by (rule cleans_up_obtain)
    from r cr new'(1) have "list_ex B new'" by (metis releases_obtain same_append_eq)
    moreover from mr cr have "snd (finallyA m c os h) = h2" by (simp add: finallyA_def split: sum.split)
    ultimately show ?thesis using new new'
      by (intro exI [of _ "new @ new'"]) (auto simp: followed_end)
  qed
  then show "cleans_up os A B (finallyA m c)" and "releases os B (finallyA m c)"
    unfolding cleans_up_def releases_def by blast+
qed

lemma cleans_up_both:
  assumes m: "cleans_up os A B m" and c: "cleans_up os A B c"
  shows "cleans_up os A B (finallyA m c)"
  unfolding cleans_up_def
proof
  fix h
  obtain x h1 where mr: "m os h = (x, h1)" by fastforce
  with m obtain new where new: "h1 = h @ new" "followed A B new" by (rule cleans_up_obtain)
  obtain y h2 where cr: "c os h1 = (y, h2)" by fastforce
  with c obtain new' where new': "h2 = h1 @ new'" "followed A B new'" by (rule cleans_up_obtain)
  from mr cr have "snd (finallyA m c os h) = h2" by (simp add: finallyA_def split: sum.split)
  with new new' show "\<exists>new. snd (finallyA m c os h) = h @ new \<and> followed A B new"
    by (intro exI [of _ "new @ new'"]) (simp add: followed_append)
qed

lemma releases_bindA:
  assumes m: "releases os B m" and f: "\<And>x. emits (\<lambda>_. True) (f x)"
  shows "releases os B (bindA m f)"
  unfolding releases_def
proof
  fix h
  obtain r h1 where mr: "m os h = (r, h1)" by fastforce
  with m obtain new where new: "h1 = h @ new" "list_ex B new" by (rule releases_obtain)
  show "\<exists>new. snd (bindA m f os h) = h @ new \<and> list_ex B new"
  proof (cases r)
    case (Inl e)
    with mr new show ?thesis by (auto simp: bindA_def)
  next
    case (Inr x)
    obtain s h2 where fr: "f x os h1 = (s, h2)" by fastforce
    with f obtain new' where "h2 = h1 @ new'" by (rule emitsD)
    with mr Inr fr new show ?thesis
      by (intro exI [of _ "new @ new'"]) (auto simp: bindA_def)
  qed
qed

lemma releases_thenA: "releases os B m \<Longrightarrow> emits (\<lambda>_. True) n \<Longrightarrow> releases os B (thenA m n)"
  unfolding thenA_def by (rule releases_bindA)

lemma do_sh_ok_history: "snd (do_sh_ok s os h) = h @ [Ran (shell_request s) (os h (shell_request s))]"
  using run_apply [of False "shell_request s" os h]
  by (auto simp: do_sh_ok_def sh_ok_def thenA_def bindA_def returnA_apply split: prod.split sum.split)

lemma releases_do_sh_ok: "P s \<Longrightarrow> releases os (ran P) (do_sh_ok s)"
  by (simp add: releases_def do_sh_ok_history)

text \<open>A command that acquires something, if it succeeds, before code that releases it.\<close>

lemma cleans_up_acquire:
  assumes "cleans_up os (succeeded P) B n" and "releases os B n"
  shows "cleans_up os (succeeded P) B (thenA (do_sh s) n)"
  unfolding cleans_up_def
proof
  fix h
  have run: "run True (shell_request s) os h = (fst (run True (shell_request s) os h),
      h @ [Ran (shell_request s) (os h (shell_request s))])" by (rule run_apply)
  show "\<exists>new. snd (thenA (do_sh s) n os h) = h @ new \<and> followed (succeeded P) B new"
  proof (cases "fst (run True (shell_request s) os h)")
    case (Inl e)
    then have "\<not> succeeded P (Ran (shell_request s) (os h (shell_request s)))"
      by (auto simp: run_result Let_def split: os_reply.splits if_splits)
    with run Inl show ?thesis
      by (simp add: do_sh_def sh_def thenA_def bindA_def)
  next
    case (Inr x)
    let ?h1 = "h @ [Ran (shell_request s) (os h (shell_request s))]"
    obtain r h2 where n: "n os ?h1 = (r, h2)" by fastforce
    with assms(1) obtain new where new: "h2 = ?h1 @ new" "followed (succeeded P) B new"
      by (rule cleans_up_obtain)
    from assms(2) n new(1) have "list_ex B new" by (metis releases_obtain same_append_eq)
    with run Inr n new show ?thesis
      by (intro exI [of _ "[Ran (shell_request s) (os h (shell_request s))] @ new"])
        (auto simp: do_sh_def sh_def thenA_def bindA_def returnA_apply)
  qed
qed

lemma cleans_up_attempt_run:
  assumes good: "\<And>r. success r \<Longrightarrow> cleans_up os (succeeded P) B (f r) \<and> releases os B (f r)"
    and bad: "\<And>r. \<not> success r \<Longrightarrow> cleans_up os (succeeded P) B (f r)"
  shows "cleans_up os (succeeded P) B (bindA (run False q) f)"
  unfolding cleans_up_def
proof
  fix h
  let ?e = "Ran q (os h q)"
  have run: "run False q os h = (fst (run False q os h), h @ [?e])"
    by (rule run_apply)
  show "\<exists>new. snd (bindA (run False q) f os h) = h @ new \<and> followed (succeeded P) B new"
  proof (cases "fst (run False q os h)")
    case (Inl e)
    then have "\<not> succeeded P ?e"
      by (auto simp: run_result Let_def split: os_reply.splits if_splits)
    with run Inl show ?thesis by (simp add: bindA_def)
  next
    case (Inr x)
    then have e: "succeeded P ?e \<Longrightarrow> success x"
      by (auto simp: run_result Let_def success_def split: os_reply.splits if_splits)
    obtain r h2 where n: "f x os (h @ [?e]) = (r, h2)" by fastforce
    have "cleans_up os (succeeded P) B (f x)" using good bad by blast
    from this n obtain new where new: "h2 = (h @ [?e]) @ new" "followed (succeeded P) B new"
      by (rule cleans_up_obtain)
    have "list_ex B new" if "succeeded P ?e"
      using good [OF e [OF that]] n new(1) by (metis releases_obtain same_append_eq)
    with run Inr n new show ?thesis
      by (intro exI [of _ "[?e] @ new"]) (auto simp: bindA_def)
  qed
qed

lemma cleans_up_attempt:
  assumes "\<And>r. success r \<Longrightarrow> cleans_up os (succeeded P) B (f r) \<and> releases os B (f r)"
    and "\<And>r. \<not> success r \<Longrightarrow> cleans_up os (succeeded P) B (f r)"
  shows "cleans_up os (succeeded P) B (bindA (sh_ok s) f)"
    and "cleans_up os (succeeded P) B (bindA (sh_input_ok s i) f)"
  unfolding sh_ok_def sh_input_ok_def using assms by (blast intro: cleans_up_attempt_run)+

text \<open>A command whose exception counts as a release, before code that releases.\<close>

lemma releases_after_run:
  assumes f: "\<And>x. releases os B (f x)"
    and stop: "\<And>h e. fst (run b q os h) = Inl e \<Longrightarrow> B (Ran q (os h q))"
  shows "releases os B (bindA (run b q) f)"
  unfolding releases_def
proof
  fix h
  have run: "run b q os h = (fst (run b q os h), h @ [Ran q (os h q)])" by (rule run_apply)
  show "\<exists>new. snd (bindA (run b q) f os h) = h @ new \<and> list_ex B new"
  proof (cases "fst (run b q os h)")
    case (Inl e)
    from stop [OF this] have "list_ex B [Ran q (os h q)]" by simp
    with run Inl show ?thesis by (auto simp: bindA_def)
  next
    case (Inr x)
    obtain r h2 where n: "f x os (h @ [Ran q (os h q)]) = (r, h2)" by fastforce
    with f obtain new where "h2 = (h @ [Ran q (os h q)]) @ new" "list_ex B new" by (rule releases_obtain)
    with run Inr n show ?thesis by (intro exI [of _ "[Ran q (os h q)] @ new"]) (auto simp: bindA_def)
  qed
qed

lemma do_sh_then:
  "thenA (do_sh s) n = bindA (run True (shell_request s)) (\<lambda>_. n)"
  "thenA (do_sh_ok s) n = bindA (run False (shell_request s)) (\<lambda>_. n)"
  by (simp_all add: do_sh_def sh_def do_sh_ok_def sh_ok_def thenA_def bindA_assoc)

text \<open>A mount, the code that uses it with its \<^verbatim>\<open>finally\<close>, and what comes after.\<close>

lemma cleans_up_guarded:
  assumes m: "emits (\<lambda>_. True) m" and r: "releases os B c" and c: "cleans_up os (succeeded P) B c"
    and f: "\<And>x. emits (\<lambda>t. \<not> P t) (f x)"
  shows "cleans_up os (succeeded P) B (thenA (do_sh s) (bindA (finallyA m c) f))"
proof (rule cleans_up_acquire)
  note last = cleans_up_finallyA [OF m r c]
  show "cleans_up os (succeeded P) B (bindA (finallyA m c) f)"
    by (intro cleans_up_bindA last cleans_up_unused [OF f]) (rule succeeded_ran)
  show "releases os B (bindA (finallyA m c) f)"
    by (intro releases_bindA last emits_mono [OF f]) simp
qed

lemma spares:
  assumes "emits (\<lambda>t. \<not> P t) m"
  shows "cleans_up os (succeeded P) B m" and "cleans_up os (ran P) B m"
  by (rule cleans_up_unused [OF assms], erule succeeded_ran) (rule cleans_up_unused [OF assms])

end
