(* ===== verification/Checked_Commands.thy ===== *)
theory Checked_Commands
  imports Cleanup Executor_Base
begin

text \<open>
  Which commands' failures are never overlooked: \<open>checked P m\<close> holds when a normal end of \<open>m\<close>
  means that every command it ran that satisfies \<open>P\<close> has succeeded.
\<close>

named_theorems checked_intros

definition all_succeeded :: "(string \<Rightarrow> bool) \<Rightarrow> history \<Rightarrow> bool" where
  "all_succeeded P es \<longleftrightarrow> list_all (\<lambda>e. ran P e \<longrightarrow> succeeded P e) es"

definition checked :: "(string \<Rightarrow> bool) \<Rightarrow> 'a action \<Rightarrow> bool" where
  "checked P m \<longleftrightarrow>
     (\<forall>os h x h'. m os h = (Inr x, h') \<longrightarrow> (\<exists>new. h' = h @ new \<and> all_succeeded P new))"

lemma all_succeeded_simps [simp]:
  "all_succeeded P []"
  "all_succeeded P (e # es) \<longleftrightarrow> (ran P e \<longrightarrow> succeeded P e) \<and> all_succeeded P es"
  "all_succeeded P (es @ fs) \<longleftrightarrow> all_succeeded P es \<and> all_succeeded P fs"
  by (simp_all add: all_succeeded_def)

lemma checkedD: "checked P m \<Longrightarrow> m os h = (Inr x, h @ new) \<Longrightarrow> all_succeeded P new"
  unfolding checked_def by (metis same_append_eq)

lemma checked_obtain:
  assumes "checked P m" and "m os h = (Inr x, h')"
  obtains new where "h' = h @ new" and "all_succeeded P new"
  using assms unfolding checked_def by blast

lemma checked_returnA [checked_intros]: "checked P (returnA x)"
  by (simp add: checked_def action_apply)

lemma checked_raiseA [checked_intros]: "checked P (raiseA e)"
  by (simp add: checked_def action_apply)

lemma checked_sleep [checked_intros]: "checked P (sleep n)"
  by (simp add: checked_def action_apply)

lemma checked_bindA [checked_intros]:
  assumes m: "checked P m" and f: "\<And>x. checked P (f x)"
  shows "checked P (bindA m f)"
  unfolding checked_def
proof (intro allI impI)
  fix os h y h' assume "bindA m f os h = (Inr y, h')"
  then obtain x h1 where "m os h = (Inr x, h1)" and "f x os h1 = (Inr y, h')"
    by (rule bindA_cases) auto
  with m f obtain new new' where "h1 = h @ new" "all_succeeded P new" "h' = h1 @ new'" "all_succeeded P new'"
    unfolding checked_def by meson
  then show "\<exists>new. h' = h @ new \<and> all_succeeded P new" by (intro exI [of _ "new @ new'"]) simp
qed

lemma checked_thenA [checked_intros]: "checked P m \<Longrightarrow> checked P n \<Longrightarrow> checked P (thenA m n)"
  unfolding thenA_def by (rule checked_bindA)

lemma checked_if [checked_intros]:
  "(b \<Longrightarrow> checked P m) \<Longrightarrow> (\<not> b \<Longrightarrow> checked P n) \<Longrightarrow> checked P (if b then m else n)"
  by simp

lemma checked_whenA [checked_intros]: "(b \<Longrightarrow> checked P m) \<Longrightarrow> checked P (whenA b m)"
  by (simp add: whenA_def checked_returnA)

lemma checked_case_option [checked_intros]:
  "(x = None \<Longrightarrow> checked P m) \<Longrightarrow> (\<And>y. x = Some y \<Longrightarrow> checked P (f y)) \<Longrightarrow>
   checked P (case x of None \<Rightarrow> m | Some y \<Rightarrow> f y)"
  by (cases x) auto

lemma checked_case_prod [checked_intros]:
  "(\<And>a b. x = (a, b) \<Longrightarrow> checked P (f a b)) \<Longrightarrow> checked P (case x of (a, b) \<Rightarrow> f a b)"
  by (cases x) auto

lemma checked_case_list [checked_intros]:
  "(xs = [] \<Longrightarrow> checked P m) \<Longrightarrow> (\<And>y ys. xs = y # ys \<Longrightarrow> checked P (f y ys)) \<Longrightarrow>
   checked P (case xs of [] \<Rightarrow> m | y # ys \<Rightarrow> f y ys)"
  by (cases xs) auto

lemma checked_Let [checked_intros]: "(\<And>x. x = t \<Longrightarrow> checked P (f x)) \<Longrightarrow> checked P (let x = t in f x)"
  by simp

lemma checked_seqA_Nil [checked_intros]: "checked P (seqA [])"
  by (simp add: checked_returnA)

lemma checked_seqA_Cons [checked_intros]:
  "checked P m \<Longrightarrow> checked P (seqA ms) \<Longrightarrow> checked P (seqA (m # ms))"
  by (simp add: checked_thenA)

lemma checked_forA [checked_intros]: "(\<And>x. x \<in> set xs \<Longrightarrow> checked P (f x)) \<Longrightarrow> checked P (forA xs f)"
  by (induction xs) (simp_all add: checked_returnA checked_thenA)

lemma checked_filterA [checked_intros]:
  "(\<And>x. x \<in> set xs \<Longrightarrow> checked P (p x)) \<Longrightarrow> checked P (filterA p xs)"
  by (induction xs) (simp_all add: checked_returnA checked_bindA)

lemma checked_finallyA [checked_intros]:
  assumes m: "checked P m" and c: "checked P c"
  shows "checked P (finallyA m c)"
  unfolding checked_def
proof (intro allI impI)
  fix os h y h' assume run: "finallyA m c os h = (Inr y, h')"
  obtain r h1 where mr: "m os h = (r, h1)" by fastforce
  obtain s h2 where cr: "c os h1 = (s, h2)" by fastforce
  from run mr cr have "r = Inr y" "h2 = h'" "\<exists>u. s = Inr u"
    by (auto simp: finallyA_def split: sum.splits)
  with mr cr m c obtain new new' where "h1 = h @ new" "all_succeeded P new" "h' = h1 @ new'" "all_succeeded P new'"
    unfolding checked_def by metis
  then show "\<exists>new. h' = h @ new \<and> all_succeeded P new" by (intro exI [of _ "new @ new'"]) simp
qed

text \<open>A command that raises is checked; one that does not must not satisfy the predicate.\<close>

lemma checked_run: "b \<or> \<not> P (req_text q) \<Longrightarrow> checked P (run b q)"
  unfolding checked_def
proof (intro allI impI)
  fix os h x h' assume b: "b \<or> \<not> P (req_text q)" and run: "run b q os h = (Inr x, h')"
  then have "h' = h @ [Ran q (os h q)]" using run_history [of b q os h] by simp
  moreover have "all_succeeded P [Ran q (os h q)]"
    using b run by (auto simp: run_def Let_def success_def split: os_reply.splits if_splits)
  ultimately show "\<exists>new. h' = h @ new \<and> all_succeeded P new" by blast
qed

lemma checked_run_as_chroot:
  "b \<or> \<not> P (''arch-chroot '' @ root @ '' '' @ req_text q) \<Longrightarrow> checked P (run_as_chroot b root q)"
  unfolding run_as_chroot_def by (rule checked_run) (simp add: req_text_def)

lemma checked_calls [checked_intros]:
  "checked P (sh s)"
  "\<not> P s \<Longrightarrow> checked P (sh_ok s)"
  "checked P (sh_input s i)"
  "\<not> P s \<Longrightarrow> checked P (sh_input_ok s i)"
  "checked P (chroot s)"
  "\<not> P (''arch-chroot /mnt '' @ s) \<Longrightarrow> checked P (chroot_ok s)"
  "checked P (chroot_input s i)"
  "checked P (do_sh s)"
  "\<not> P s \<Longrightarrow> checked P (do_sh_ok s)"
  "checked P (do_sh_input s i)"
  "checked P (do_chroot s)"
  "\<not> P (''arch-chroot /mnt '' @ s) \<Longrightarrow> checked P (do_chroot_ok s)"
  "checked P (do_chroot_input s i)"
  unfolding call_defs
  by (auto intro!: checked_run checked_run_as_chroot checked_thenA checked_returnA)

lemma checked_results [checked_intros]:
  "checked P m \<Longrightarrow> checked P (succeeds m)"
  "checked P m \<Longrightarrow> checked P (stdout_of m)"
  by (simp_all add: succeeds_def stdout_of_def checked_bindA checked_returnA)

lemma checked_helpers [checked_intros]:
  "\<not> P (''mountpoint -q '' @ path) \<Longrightarrow> checked P (is_mountpoint path)"
  "\<not> P (''test -e '' @ path) \<Longrightarrow> checked P (path_exists path)"
  "\<not> P (''test -f '' @ path) \<Longrightarrow> checked P (file_exists path)"
  "\<not> P (''test -d '' @ path) \<Longrightarrow> checked P (directory_exists path)"
  "checked P (write_file path content)"
  "\<not> P (''cryptsetup luksUUID '' @ path) \<Longrightarrow> checked P (detect_luks_uuid path)"
  "\<not> P (''blkid -s PARTUUID -o value '' @ path) \<Longrightarrow> checked P (partition_uuid path)"
  unfolding is_mountpoint_def path_exists_def file_exists_def directory_exists_def write_file_def
    detect_luks_uuid_def partition_uuid_def Let_def
  by (intro checked_intros; assumption)+

lemma checked_stable_disk_path [checked_intros]:
  "(\<And>rest. \<not> P (''target=$(readlink -f '' @ rest)) \<Longrightarrow> checked P (stable_disk_path disk)"
  unfolding stable_disk_path_def by (intro checked_intros) simp

text \<open>\<open>ends_with P m\<close>: the last command of a normal end of \<open>m\<close> satisfies \<open>P\<close>.\<close>

definition ends_with :: "(string \<Rightarrow> bool) \<Rightarrow> 'a action \<Rightarrow> bool" where
  "ends_with P m \<longleftrightarrow>
     (\<forall>os h x h'. m os h = (Inr x, h') \<longrightarrow> (\<exists>new e. h' = h @ new @ [e] \<and> ran P e))"

lemma ends_with_bindA:
  assumes m: "emits (\<lambda>_. True) m" and f: "\<And>x. ends_with P (f x)"
  shows "ends_with P (bindA m f)"
  unfolding ends_with_def
proof (intro allI impI)
  fix os h y h' assume "bindA m f os h = (Inr y, h')"
  then obtain x h1 where m1: "m os h = (Inr x, h1)" and f1: "f x os h1 = (Inr y, h')"
    by (rule bindA_cases) auto
  from m m1 obtain new where "h1 = h @ new" by (rule emitsD)
  moreover from f f1 obtain new' e where "h' = h1 @ new' @ [e]" "ran P e"
    unfolding ends_with_def by meson
  ultimately show "\<exists>new e. h' = h @ new @ [e] \<and> ran P e" by (intro exI [of _ "new @ new'"]) auto
qed

lemma ends_with_thenA: "emits (\<lambda>_. True) m \<Longrightarrow> ends_with P n \<Longrightarrow> ends_with P (thenA m n)"
  unfolding thenA_def by (rule ends_with_bindA)

lemma ends_with_if: "(b \<Longrightarrow> ends_with P m) \<Longrightarrow> (\<not> b \<Longrightarrow> ends_with P n) \<Longrightarrow> ends_with P (if b then m else n)"
  by simp

lemma ends_with_raiseA: "ends_with P (raiseA e)"
  by (simp add: ends_with_def raiseA_apply)

lemma ends_with_do_sh: "P s \<Longrightarrow> ends_with P (do_sh s)"
  unfolding ends_with_def using do_sh_history [of s] by (fastforce dest: arg_cong [of _ _ snd])

lemma ends_withD: "ends_with P m \<Longrightarrow> m os h = (Inr x, h @ new) \<Longrightarrow> new \<noteq> [] \<and> ran P (last new)"
  unfolding ends_with_def by fastforce

subsection \<open>The exact commands of a normal end\<close>

text \<open>
  \<open>leaves P m ts\<close>: the commands of a normal end of \<open>m\<close> that satisfy \<open>P\<close> are exactly \<open>ts\<close>, in that order.
\<close>

definition leaves :: "(string \<Rightarrow> bool) \<Rightarrow> 'a action \<Rightarrow> string list \<Rightarrow> bool" where
  "leaves P m ts \<longleftrightarrow>
     (\<forall>os h x h'. m os h = (Inr x, h') \<longrightarrow> (\<exists>new. h' = h @ new \<and> filter P (texts new) = ts))"

lemma leavesD: "leaves P m ts \<Longrightarrow> m os h = (Inr x, h @ new) \<Longrightarrow> filter P (texts new) = ts"
  unfolding leaves_def by (metis same_append_eq)

lemma leaves_none: "emits (\<lambda>t. \<not> P t) m \<Longrightarrow> leaves P m []"
  unfolding leaves_def by (metis emitsD filter_False)

lemma leaves_bindA:
  assumes m: "leaves P m ts" and f: "\<And>x. leaves P (f x) us"
  shows "leaves P (bindA m f) (ts @ us)"
  unfolding leaves_def
proof (intro allI impI)
  fix os h y h' assume "bindA m f os h = (Inr y, h')"
  then obtain x h1 where "m os h = (Inr x, h1)" and "f x os h1 = (Inr y, h')"
    by (rule bindA_cases) auto
  with m f obtain new new' where "h1 = h @ new" "filter P (texts new) = ts" "h' = h1 @ new'" "filter P (texts new') = us"
    unfolding leaves_def by meson
  then show "\<exists>new. h' = h @ new \<and> filter P (texts new) = ts @ us" by (intro exI [of _ "new @ new'"]) simp
qed

lemma leaves_thenA: "leaves P m ts \<Longrightarrow> leaves P n us \<Longrightarrow> leaves P (thenA m n) (ts @ us)"
  unfolding thenA_def by (rule leaves_bindA)

lemma leaves_do_sh: "P s \<Longrightarrow> leaves P (do_sh s) [s]"
  unfolding leaves_def using do_sh_history [of s] by (fastforce dest: arg_cong [of _ _ snd])

lemma leaves_forA:
  "(\<And>x. x \<in> set xs \<Longrightarrow> leaves P (f x) [g x]) \<Longrightarrow> leaves P (forA xs f) (map g xs)"
proof (induction xs)
  case Nil
  show ?case by (simp add: leaves_none emits_returnA)
next
  case (Cons x xs)
  then show ?case using leaves_thenA [of P "f x" "[g x]" "forA xs f" "map g xs"] by simp
qed

end
