(* ===== verification/Usb_Boot_Properties.thy ===== *)
theory Usb_Boot_Properties
  imports Usb_Boot Checked_Commands Sample_Config
begin

text \<open>
  What the USB boot drive step, the clone of a spare drive and the files of a USB boot system
  promise: only the drive is written, and only after every check; the copy never writes its
  source; the mount of \<^verbatim>\<open>/efi\<close> is rewritten once.
\<close>

subsection \<open>What the step writes\<close>

text \<open>The command's last word is the drive or one of its three partitions.\<close>

definition writes_drive :: "installer_config \<Rightarrow> string \<Rightarrow> bool" where
  "writes_drive c t \<longleftrightarrow> list_ex (\<lambda>target. suffix ('' '' @ target) t)
     [usb_device (usb_boot c), usb_efi_partition (usb_boot c), usb_luks_header_partition (usb_boot c),
      usb_recovery_partition (usb_boot c)]"

lemma drive_step_emits: "emits (\<lambda>t. destructive t \<longrightarrow> writes_drive c t) (usb_boot_drive_execute c)"
  unfolding usb_boot_actions Let_def
  by (intro emits_intros) (auto simp: destructive_simps writes_drive_def)

text \<open>
  C10: Whatever the machine answers, a command of the USB boot drive step that overwrites data
  ends in the drive or one of the drive's partitions; and a drive that is the target disk is
  refused before any command.
\<close>

theorem drive_step_writes_only_the_drive:
  assumes "usb_boot_drive_execute c os h = (r, h @ new)"
  shows "list_all (writes_drive c) (filter destructive (texts new)) \<and>
    (usb_device (usb_boot c) = target_disk (storage c) \<longrightarrow> new = [] \<and>
       r = Inl (Usb_Boot_Drive_Error (usb_device (usb_boot c) @ '' is the target disk, not a USB drive'')))"
  using emits_onD [OF emits_on_emits [OF drive_step_emits] assms] assms
  by (auto simp: list_all_iff usb_boot_drive_execute_def action_apply)

text \<open>A machine with a drive of eight gigabytes.\<close>

definition drive_machine :: os where
  "drive_machine h q =
     (if prefix ''mountpoint'' (req_text q) then Completed 1 [] []
      else if prefix ''blockdev'' (req_text q) then Completed 0 ''8000000000'' []
      else Completed 0 ''disk'' [])"

lemma machine_size: "py_int ''8000000000'' = Some 8000000000"
  by (simp add: py_int_def strip_def lstrip_def rstrip_def is_space_def is_digit_def less_eq_char_def
      nat_of_digits_def digit_value_def)

lemma first_look:
  "wait_for_partition_node device part 15 =
     bindA (path_exists part) (\<lambda>there.
       if there then returnA ()
       else seqA [sleep 1, do_sh_ok (''partprobe '' @ device), wait_for_partition_node device part 14])"
  using wait_for_partition_node.simps(2) [of device part 14] by simp

lemma drive_texts:
  "texts (snd (usb_boot_drive_execute sample_usb_config drive_machine [])) =
     [''lsblk -dno TYPE /dev/sdb'', ''cat /sys/block/sdb/removable'',
      ''target=$(readlink -f /dev/sda); for link in /dev/disk/by-id/*; do '' @
        ''[ '' @ DQ @ ''$(readlink -f '' @ DQ @ ''$link'' @ DQ @ '')'' @ DQ @ '' = '' @ DQ @ ''$target'' @ DQ @
        '' ] && echo '' @ DQ @ ''$link'' @ DQ @ ''; done'',
      ''mountpoint -q /mnt'', ''blockdev --getsize64 /dev/sdb'', ''umount -R /mnt'', ''umount /run/dali/usb-recovery'',
      ''swapoff -a'', ''cryptsetup close cryptroot'', ''umount /dev/sdb1'', ''umount /dev/sdb3'',
      ''wipefs -af /dev/sdb'', ''sgdisk -Z /dev/sdb'', ''sgdisk -n1:0:+1024M -t1:ef00 /dev/sdb'',
      ''sgdisk -n2:0:+32M -t2:8300 /dev/sdb'', ''partprobe /dev/sdb'', ''udevadm settle'', ''test -e /dev/sdb2'',
      ''wipefs -af /dev/sdb2'', ''mkfs.vfat -F32 -n EFI /dev/sdb1'']"
  unfolding usb_boot_actions Let_def stable_disk_path_def
  by (simp add: run_evaluation drive_machine_def cfg_simps is_mountpoint_def needed_drive_mb_def path_exists_def
     split_ws.simps machine_size strip_def lstrip_def rstrip_def is_space_def choose_disk_link_def first_look
     usb_attributes after_last_def string_of_int_def string_of_nat.simps digit_chars [unfolded One_nat_def])

lemma drive_run:
  "filter destructive (texts (snd (usb_boot_drive_execute sample_usb_config drive_machine []))) =
     [''wipefs -af /dev/sdb'', ''sgdisk -Z /dev/sdb'', ''sgdisk -n1:0:+1024M -t1:ef00 /dev/sdb'',
      ''sgdisk -n2:0:+32M -t2:8300 /dev/sdb'', ''wipefs -af /dev/sdb2'', ''mkfs.vfat -F32 -n EFI /dev/sdb1'']"
  unfolding drive_texts by (simp add: destructive_simps reads_range_def)

theorem drive_step_writes_only_the_drive_witness:
  "list_all (writes_drive sample_usb_config)
     [''wipefs -af /dev/sdb'', ''sgdisk -Z /dev/sdb'', ''sgdisk -n1:0:+1024M -t1:ef00 /dev/sdb'',
      ''sgdisk -n2:0:+32M -t2:8300 /dev/sdb'', ''wipefs -af /dev/sdb2'', ''mkfs.vfat -F32 -n EFI /dev/sdb1'']"
proof -
  obtain r new where run: "usb_boot_drive_execute sample_usb_config drive_machine [] = (r, new)" by fastforce
  with drive_step_writes_only_the_drive [of sample_usb_config drive_machine "[]" r new]
  have "list_all (writes_drive sample_usb_config) (filter destructive (texts new))" by simp
  moreover have "filter destructive (texts new) =
     [''wipefs -af /dev/sdb'', ''sgdisk -Z /dev/sdb'', ''sgdisk -n1:0:+1024M -t1:ef00 /dev/sdb'',
      ''sgdisk -n2:0:+32M -t2:8300 /dev/sdb'', ''wipefs -af /dev/sdb2'', ''mkfs.vfat -F32 -n EFI /dev/sdb1'']"
    using drive_run run by simp
  ultimately show ?thesis by simp
qed

subsection \<open>Refusals\<close>

lemma emits_on_never_returns:
  assumes "emits_on os P m" and "\<And>h x h'. m os h \<noteq> (Inr x, h')"
  shows "emits_on os P (bindA m f)"
  using assms by (auto intro: emits_on_bindA)

text \<open>The ISO image the recovery system comes from reads as one of \<open>image_size\<close> bytes.\<close>

definition iso_holds :: "os \<Rightarrow> string \<Rightarrow> int \<Rightarrow> bool" where
  "iso_holds os path image_size \<longleftrightarrow> (\<forall>h x h'. iso_size_bytes path os h = (Inr x, h') \<longrightarrow> x = image_size)"

text \<open>The size of all partitions the drive needs, that of the recovery system included.\<close>

definition whole_drive_mb :: "installer_config \<Rightarrow> int \<Rightarrow> int" where
  "whole_drive_mb c image_size =
     needed_drive_mb c (if recovery_system (usb_boot c) \<and> image_size \<noteq> 0 then recovery_partition_size_mb image_size else 0)"

lemma small_drive_raises:
  assumes "answers os (''blockdev --getsize64 '' @ usb_device (usb_boot c)) 0 out"
    and "py_int (strip out) = Some bytes" and "bytes div MEBIBYTE < needed_drive_mb c mb"
  shows "require_capacity c mb os h \<noteq> (Inr x, h')"
proof
  assume run: "require_capacity c mb os h = (Inr x, h')"
  obtain err where "os h (shell_request (''blockdev --getsize64 '' @ usb_device (usb_boot c))) = Completed 0 out err"
    using assms(1) unfolding answers_def by blast
  with run assms(2,3) show False
    by (simp add: require_capacity_def drive_size_bytes_def stdout_of_def sh_def bindA_def run_def Let_def
        success_def returnA_apply raiseA_apply int_of_def)
      (simp add: shell_request_def returnA_apply raiseA_apply)
qed

lemma small_drive_write:
  assumes "answers os (''blockdev --getsize64 '' @ usb_device (usb_boot c)) 0 out"
    and "py_int (strip out) = Some bytes" and "bytes div MEBIBYTE < whole_drive_mb c image_size"
    and "recovery_system (usb_boot c) \<Longrightarrow> iso_holds os (iso_path (usb_boot c)) image_size"
  shows "emits_on os (\<lambda>t. \<not> destructive t) (write_drive c)" and "write_drive c os h \<noteq> (Inr x, h')"
proof -
  define read_size where
    "read_size = (if recovery_system (usb_boot c) then iso_size_bytes (iso_path (usb_boot c)) else returnA 0)"
  define write_rest where "write_rest iso_bytes =
     (let recovery_size_mb = (if iso_bytes \<noteq> 0 then recovery_partition_size_mb iso_bytes else 0) in
       seqA [require_capacity c recovery_size_mb, release_drive c, partition_drive c recovery_size_mb,
         do_sh (''mkfs.vfat -F32 -n EFI '' @ usb_efi_partition (usb_boot c)),
         whenA (recovery_system (usb_boot c)) (store_recovery_system c)])" for iso_bytes
  have written: "write_drive c = bindA read_size write_rest"
    by (simp add: write_drive_def read_size_def write_rest_def [abs_def] Let_def)
  have raises: "require_capacity c (if iso_bytes \<noteq> 0 then recovery_partition_size_mb iso_bytes else 0) os h \<noteq> (Inr y, h')"
    if "read_size os h1 = (Inr iso_bytes, h2)" for iso_bytes h1 h2 h y h'
  proof (rule small_drive_raises [OF assms(1,2)])
    show "bytes div MEBIBYTE < needed_drive_mb c (if iso_bytes \<noteq> 0 then recovery_partition_size_mb iso_bytes else 0)"
      using that assms(3,4) by (auto simp: read_size_def whole_drive_mb_def iso_holds_def returnA_apply split: if_splits)
  qed
  have reading: "emits (\<lambda>t. \<not> destructive t) read_size"
    unfolding read_size_def usb_boot_actions Let_def by (intro emits_intros) (simp_all add: destructive_simps)
  have capacity: "emits (\<lambda>t. \<not> destructive t) (require_capacity c mb)" for mb
    unfolding usb_boot_actions Let_def by (intro emits_intros) (simp_all add: destructive_simps)
  show "emits_on os (\<lambda>t. \<not> destructive t) (write_drive c)"
    unfolding written
  proof (rule emits_on_bindA [OF emits_on_emits [OF reading]])
    fix h1 iso_bytes h2
    assume "read_size os h1 = (Inr iso_bytes, h2)"
    from emits_on_never_returns [OF emits_on_emits [OF capacity] raises [OF this]]
    show "emits_on os (\<lambda>t. \<not> destructive t) (write_rest iso_bytes)"
      unfolding write_rest_def Let_def seqA.simps thenA_def .
  qed
  show "write_drive c os h \<noteq> (Inr x, h')"
    unfolding written using raises by (fastforce simp: write_rest_def Let_def dest: thenA_Inr elim!: bindA_cases)
qed

text \<open>
  C11: A drive that cannot hold its partitions is refused and keeps its data: when its size is below that
  of the partition table, the EFI partition, the header partition and, with a recovery system, the
  partition for the ISO image, the step overwrites nothing and raises, unless the drive was
  prepared before and is kept as it is.
\<close>

theorem small_drive_is_untouched:
  assumes "answers os (''blockdev --getsize64 '' @ usb_device (usb_boot c)) 0 out"
    and "py_int (strip out) = Some bytes" and "bytes div MEBIBYTE < whole_drive_mb c image_size"
    and "recovery_system (usb_boot c) \<Longrightarrow> iso_holds os (iso_path (usb_boot c)) image_size"
    and "usb_boot_drive_execute c os h = (r, h @ new)"
  shows "list_all (\<lambda>t. \<not> destructive t) (texts new) \<and>
    ((\<exists>err. r = Inl err) \<or> (\<exists>h1 h2. keeps_existing_drive c os h1 = (Inr True, h2)))"
proof
  note writing = small_drive_write(1) [OF assms(1-4)] and refused = small_drive_write(2) [OF assms(1-4)]
  have "emits_on os (\<lambda>t. \<not> destructive t) (usb_boot_drive_execute c)"
    unfolding usb_boot_drive_execute_def require_disk_def stable_disk_path_def keeps_existing_drive_def
      holds_luks_header_def Let_def
    by (intro emits_on_if emits_on_bindA emits_on_thenA writing;
        (intro emits_on_emits emits_intros)?; simp add: destructive_simps)
  from emits_onD [OF this assms(5)] show "list_all (\<lambda>t. \<not> destructive t) (texts new)" by (auto simp: list_all_iff)
  show "(\<exists>err. r = Inl err) \<or> (\<exists>h1 h2. keeps_existing_drive c os h1 = (Inr True, h2))"
  proof (cases r)
    case (Inr u)
    with assms(5) obtain h1 keeps h2 where "keeps_existing_drive c os h1 = (Inr keeps, h2)"
      and "(if keeps then returnA () else write_drive c) os h2 = (Inr u, h @ new)"
      by (auto simp: usb_boot_drive_execute_def Let_def raiseA_apply split: if_splits dest!: thenA_Inr elim!: bindA_cases)
    then show ?thesis using refused by (cases keeps) auto
  qed simp
qed

text \<open>A drive that holds a boot drive, but not the recovery system too; the ISO has 400 megabytes.\<close>

definition recovery_config :: installer_config where
  "recovery_config = sample_usb_config\<lparr>usb_boot := (usb_boot sample_usb_config)\<lparr>recovery_system := True, iso_path := ''/iso''\<rparr>\<rparr>"

definition small_drive_machine :: os where
  "small_drive_machine h q =
     (if prefix ''mountpoint'' (req_text q) then Completed 1 [] []
      else if prefix ''blockdev'' (req_text q) then Completed 0 ''1300000000'' []
      else if prefix ''dd'' (req_text q) then Completed 0 (if prefix ''dd if=/iso bs=4096 skip=32769'' (req_text q) then ''CD001'' else ''20000'') []
      else Completed 0 ''disk'' [])"

lemma small_machine_numbers:
  "py_int ''1300000000'' = Some 1300000000" "py_int ''20000'' = Some 20000"
  by (simp_all add: py_int_def strip_def lstrip_def rstrip_def is_space_def is_digit_def less_eq_char_def
      nat_of_digits_def digit_value_def)

lemma small_machine_iso: "iso_holds small_drive_machine ''/iso'' 400000000"
  unfolding iso_holds_def iso_size_bytes_def iso_read_text_def iso_read_number_def iso_read_def int_of_def
  by (simp add: run_evaluation small_drive_machine_def cfg_simps strip_def lstrip_def rstrip_def is_space_def
      small_machine_numbers text_simps)

theorem small_drive_is_untouched_witness:
  "list_all (\<lambda>t. \<not> destructive t) (texts (snd (usb_boot_drive_execute recovery_config small_drive_machine []))) \<and>
   (\<exists>err. fst (usb_boot_drive_execute recovery_config small_drive_machine []) = Inl err)"
proof -
  obtain r new where run: "usb_boot_drive_execute recovery_config small_drive_machine [] = (r, [] @ new)" by fastforce
  have "list_all (\<lambda>t. \<not> destructive t) (texts new) \<and>
    ((\<exists>err. r = Inl err) \<or> (\<exists>h1 h2. keeps_existing_drive recovery_config small_drive_machine h1 = (Inr True, h2)))"
  proof (rule small_drive_is_untouched [OF _ _ _ _ run])
    show "answers small_drive_machine (''blockdev --getsize64 '' @ usb_device (usb_boot recovery_config)) 0 ''1300000000''"
      by (simp add: answers_def small_drive_machine_def)
    show "py_int (strip ''1300000000'') = Some 1300000000"
      by (simp add: strip_def lstrip_def rstrip_def is_space_def small_machine_numbers)
    show "1300000000 div MEBIBYTE < whole_drive_mb recovery_config 400000000"
      by (simp add: cfg_simps whole_drive_mb_def needed_drive_mb_def recovery_config_def usb_attributes
          recovery_partition_size_mb_def)
    show "iso_holds small_drive_machine (iso_path (usb_boot recovery_config)) 400000000"
      using small_machine_iso by (simp add: recovery_config_def)
  qed
  moreover have "keeps_existing_drive recovery_config small_drive_machine h1 \<noteq> (Inr True, h2)" for h1 h2
    by (simp add: keeps_existing_drive_def is_mountpoint_def run_evaluation small_drive_machine_def
        recovery_config_def usb_attributes)
  ultimately show ?thesis using run by auto
qed

text \<open>
  C12: Resuming never wipes a prepared drive: when the target system is still mounted, or the wipe method
  is \<^verbatim>\<open>skip\<close> and nothing is migrated, and the drive's header partition holds a LUKS header, the step
  overwrites nothing.
\<close>

theorem prepared_drive_is_kept:
  assumes "(\<exists>mounted. answers os (''mountpoint -q '' @ TARGET_ROOT) 0 mounted) \<or>
      (wipe_method (storage c) = Wipe_Skip \<and> \<not> migration_enabled (migration c))"
    and "answers os (''cryptsetup isLuks '' @ usb_luks_header_partition (usb_boot c)) 0 out"
    and "usb_boot_drive_execute c os h = (r, h @ new)" and "t \<in> set (texts new)"
  shows "\<not> destructive t"
proof -
  have keeping: "emits (\<lambda>t. \<not> destructive t) (keeps_existing_drive c)"
    unfolding usb_boot_actions Let_def by (intro emits_intros) (simp_all add: destructive_simps)
  have header: "b" if "succeeds (sh_ok (''cryptsetup isLuks '' @ usb_luks_header_partition (usb_boot c))) os h = (Inr b, h')"
    for b h h' using succeeds_answered [OF assms(2) that] by simp
  have mount: "b" if "answers os (''mountpoint -q '' @ TARGET_ROOT) 0 mounted"
      and "succeeds (sh_ok (''mountpoint -q '' @ TARGET_ROOT)) os h = (Inr b, h')" for mounted b h h'
    using succeeds_answered [OF that] by simp
  have keeps: "keeps = True" if "keeps_existing_drive c os h = (Inr keeps, h')" for keeps h h'
    using that [unfolded keeps_existing_drive_def is_mountpoint_def holds_luks_header_def Let_def]
  proof (cases rule: bindA_cases)
    case (continues mounted h1)
    have "mounted \<or> (wipe_method (storage c) = Wipe_Skip \<and> \<not> migration_enabled (migration c))"
      using assms(1) mount continues(1) by blast
    with continues(2) header show ?thesis by simp
  qed simp
  have "emits_on os (\<lambda>t. \<not> destructive t) (usb_boot_drive_execute c)"
    unfolding usb_boot_drive_execute_def require_disk_def stable_disk_path_def Let_def
    by (intro emits_on_if emits_on_thenA emits_on_bindA emits_on_emits [OF keeping];
        (drule keeps)?; (simp add: emits_on_emits [OF emits_returnA]; fail)?;
        (intro emits_on_emits emits_intros)?; simp add: destructive_simps)
  from emits_onD [OF this assms(3,4)] show ?thesis .
qed

definition mounted_again_machine :: os where
  "mounted_again_machine h q = Completed 0 ''disk'' []"

definition unmounted_machine :: os where
  "unmounted_machine h q = (if prefix ''mountpoint'' (req_text q) then Completed 1 [] [] else Completed 0 ''disk'' [])"

definition resumed_usb_config :: installer_config where
  "resumed_usb_config = sample_usb_config\<lparr>storage := (storage sample_usb_config)\<lparr>wipe_method := Wipe_Skip\<rparr>\<rparr>"

theorem prepared_drive_is_kept_witness:
  "list_all (\<lambda>t. \<not> destructive t) (texts (snd (usb_boot_drive_execute resumed_usb_config unmounted_machine []))) \<and>
   list_all (\<lambda>t. \<not> destructive t) (texts (snd (usb_boot_drive_execute sample_usb_config mounted_again_machine [])))"
proof
  obtain r new where run: "usb_boot_drive_execute resumed_usb_config unmounted_machine [] = (r, new)" by fastforce
  have "\<not> destructive t" if "t \<in> set (texts new)" for t
    by (rule prepared_drive_is_kept [of unmounted_machine resumed_usb_config "''disk''" "[]" r new])
      (use that run in \<open>simp_all add: resumed_usb_config_def usb_attributes answers_def unmounted_machine_def\<close>)
  with run show "list_all (\<lambda>t. \<not> destructive t) (texts (snd (usb_boot_drive_execute resumed_usb_config unmounted_machine [])))"
    by (auto simp: list_all_iff)
next
  obtain r new where run: "usb_boot_drive_execute sample_usb_config mounted_again_machine [] = (r, new)" by fastforce
  have "\<not> destructive t" if "t \<in> set (texts new)" for t
    by (rule prepared_drive_is_kept [of mounted_again_machine sample_usb_config "''disk''" "[]" r new])
      (use that run in \<open>simp_all add: answers_def mounted_again_machine_def\<close>)
  with run show "list_all (\<lambda>t. \<not> destructive t) (texts (snd (usb_boot_drive_execute sample_usb_config mounted_again_machine [])))"
    by (auto simp: list_all_iff)
qed

subsection \<open>The size of the recovery partition\<close>

text \<open>
  C13: The recovery partition holds the ISO with a margin of at least 63 MiB and at most an eighth of the
  ISO and 66 MiB, for an ISO of any size.
\<close>

theorem recovery_partition_size_bounds:
  assumes "0 \<le> iso_bytes"
  shows "iso_bytes + iso_bytes div 10 + 63 * MEBIBYTE \<le> recovery_partition_size_mb iso_bytes * MEBIBYTE \<and>
    recovery_partition_size_mb iso_bytes * MEBIBYTE \<le> iso_bytes + iso_bytes div 8 + 66 * MEBIBYTE"
proof -
  define mb where "mb = - ((- iso_bytes) div 1048576)"
  have lower: "iso_bytes \<le> mb * 1048576" and upper: "mb * 1048576 < iso_bytes + 1048576"
    unfolding mb_def by linarith+
  have size: "recovery_partition_size_mb iso_bytes = mb + mb div 10 + 64"
    by (simp add: recovery_partition_size_mb_def MEBIBYTE_def mb_def Let_def)
  have tenth: "10 * (mb div 10) \<le> mb" "mb < 10 * (mb div 10) + 10" by linarith+
  have parts: "10 * (iso_bytes div 10) \<le> iso_bytes" "iso_bytes < 8 * (iso_bytes div 8) + 8" by linarith+
  have "iso_bytes + iso_bytes div 10 + 63 * 1048576 \<le> (mb + mb div 10 + 64) * 1048576"
    using lower tenth(2) parts(1) by (simp add: distrib_right)
  moreover have "(mb + mb div 10 + 64) * 1048576 \<le> iso_bytes + iso_bytes div 8 + 66 * 1048576"
    using upper tenth(1) parts(2) assms by (simp add: distrib_right)
  ultimately show ?thesis by (simp only: size MEBIBYTE_def) simp
qed

theorem recovery_partition_size_bounds_witness:
  "recovery_partition_size_mb 1200000000 * MEBIBYTE \<le> 1350000000 + 66 * MEBIBYTE"
  using recovery_partition_size_bounds [of 1200000000] by simp

subsection \<open>The mount of \<^verbatim>\<open>/efi\<close>\<close>

definition no_breaks :: "string \<Rightarrow> bool" where
  "no_breaks s \<longleftrightarrow> list_all (\<lambda>ch. \<not> is_line_break ch) s"

lemma splitlines_line:
  assumes "no_breaks s" and "s \<noteq> []"
  shows "splitlines (s @ NL @ rest) = s # splitlines rest"
proof -
  from assms(2) obtain x xs where s: "s = x # xs" by (cases s) auto
  have "takeWhile (\<lambda>d. \<not> is_line_break d) (s @ NL @ rest) = s"
    and "dropWhile (\<lambda>d. \<not> is_line_break d) (s @ NL @ rest) = NL @ rest"
    using assms(1) by (auto simp: no_breaks_def list_all_iff takeWhile_append dropWhile_append is_line_break_def)
  then show ?thesis using s by simp
qed

lemma splitlines_break: "splitlines (NL @ rest) = [] # splitlines rest"
  by (simp add: is_line_break_def)

lemma splitlines_lines:
  "\<forall>s \<in> set ls. no_breaks s \<Longrightarrow> splitlines (text_block ls) = ls"
proof (induction ls)
  case Nil
  then show ?case by (simp add: text_block_def)
next
  case (Cons s ls)
  then show ?case
    using splitlines_line [of s "text_block ls"] splitlines_break [of "text_block ls"]
    by (cases "s = []") (auto simp: text_block_def)
qed

lemma splitlines_no_breaks: "s \<in> set (splitlines t) \<Longrightarrow> no_breaks s"
proof (induction t rule: splitlines.induct)
  case 1
  then show ?case by simp
next
  case (2 c cs)
  from 2(2) consider "s = takeWhile (\<lambda>d. \<not> is_line_break d) (c # cs)"
    | "s \<in> set (splitlines (drop_break (dropWhile (\<lambda>d. \<not> is_line_break d) (c # cs))))"
    by (auto simp del: takeWhile.simps dropWhile.simps)
  then show ?case
  proof cases
    case 1
    then show ?thesis by (auto simp: no_breaks_def list_all_iff dest: set_takeWhileD)
  next
    case 2
    with "2.IH" show ?thesis by blast
  qed
qed

lemma join_text_block: "ls \<noteq> [] \<Longrightarrow> join NL ls @ NL = text_block ls"
  unfolding text_block_def by (induction NL ls rule: join.induct) simp_all

lemma fstab_block:
  "removable_efi_fstab fstab uuid =
     text_block (filter (\<lambda>line. \<not> mounts_efi line) (splitlines fstab) @ [efi_fstab_entry uuid])"
  by (simp add: removable_efi_fstab_def Let_def join_text_block del: append_assoc)

definition is_uuid :: "string \<Rightarrow> bool" where
  "is_uuid uuid \<longleftrightarrow> uuid \<noteq> [] \<and> list_all (\<lambda>ch. \<not> is_space ch) uuid"

lemma line_break_is_space: "is_line_break ch \<Longrightarrow> is_space ch"
  by (auto simp: is_line_break_def is_space_def)

lemma entry_facts:
  assumes "is_uuid uuid"
  shows "no_breaks (efi_fstab_entry uuid)" and "mounts_efi (efi_fstab_entry uuid)"
proof -
  have "no_breaks uuid"
    using assms line_break_is_space by (auto simp: is_uuid_def no_breaks_def list_all_iff)
  then show "no_breaks (efi_fstab_entry uuid)"
    by (simp add: no_breaks_def efi_fstab_entry_def REMOVABLE_EFI_MOUNT_OPTIONS_def is_line_break_def)
  have "split_ws (''PARTUUID='' @ uuid @ TAB @ ''/efi'' @ rest) = (''PARTUUID='' @ uuid) # split_ws (''/efi'' @ rest)" for rest
    using assms by (simp add: is_uuid_def list_all_iff takeWhile_append dropWhile_append is_space_def)
  then show "mounts_efi (efi_fstab_entry uuid)"
    unfolding mounts_efi_def efi_fstab_entry_def by (simp add: is_space_def)
qed

lemma removable_efi_lines:
  assumes "is_uuid uuid"
  shows "splitlines (removable_efi_fstab fstab uuid) =
    filter (\<lambda>line. \<not> mounts_efi line) (splitlines fstab) @ [efi_fstab_entry uuid]"
  unfolding fstab_block
  by (rule splitlines_lines) (use entry_facts(1) [OF assms] in \<open>auto dest: splitlines_no_breaks\<close>)



subsection \<open>Cloning a spare drive\<close>

text \<open>The commands that write, with what they write to.\<close>

definition clone_writes :: "string \<Rightarrow> string \<Rightarrow> string set" where
  "clone_writes source spare =
     {''wipefs -af '' @ spare, ''sgdisk --replicate='' @ spare @ '' '' @ source, ''sgdisk -e '' @ spare} \<union>
     {''dd if='' @ derive_partition_path source i @ '' of='' @ derive_partition_path spare j @
        '' bs=4M conv=fsync status=none'' |i j. i \<in> {1, 2, 3} \<and> j \<in> {1, 2, 3}}"

lemma filterA_subset: "filterA p xs os h = (Inr ys, h') \<Longrightarrow> set ys \<subseteq> set xs \<and> length ys \<le> length xs"
proof (induction xs arbitrary: ys h)
  case Nil
  then show ?case by (simp add: returnA_apply)
next
  case (Cons x xs)
  from Cons.prems obtain b h1 zs where "filterA p xs os h1 = (Inr zs, h')" "ys = (if b then x # zs else zs)"
    by (auto simp: returnA_apply elim!: bindA_cases)
  with Cons.IH [of h1 zs] show ?case by auto
qed

lemma existing_partitions_result:
  "existing_partitions device os h = (Inr parts, h') \<Longrightarrow>
     set parts \<subseteq> derive_partition_path device ` {1, 2, 3} \<and> length parts \<le> 3"
  unfolding existing_partitions_def by (drule filterA_subset) auto

lemma copy_drive_emits:
  assumes "set parts \<subseteq> derive_partition_path source ` {1, 2, 3}" and "length parts \<le> 3"
  shows "emits (\<lambda>t. destructive t \<or> prefix ''dd '' t \<longrightarrow> t \<in> clone_writes source spare) (copy_drive source spare parts)"
proof -
  have copies: "''dd if='' @ part @ '' of='' @ target @ '' bs=4M conv=fsync status=none'' \<in> clone_writes source spare"
    if "(part, target) \<in> set (zip parts (map (derive_partition_path spare) [1 ..< length parts + 1]))" for part target
  proof -
    have "part \<in> set parts" using that by (rule set_zip_leftD)
    moreover have "target \<in> derive_partition_path spare ` {1 ..< length parts + 1}"
      using set_zip_rightD [OF that] by (simp only: set_map set_upt)
    ultimately obtain i j where "part = derive_partition_path source i" "i \<in> {1, 2, 3}"
      and "target = derive_partition_path spare j" "1 \<le> j" "j < length parts + 1"
      using assms(1) by auto
    moreover from this have "j \<in> {1, 2, 3}" using assms(2) by auto
    ultimately show ?thesis unfolding clone_writes_def by blast
  qed
  have "emits (\<lambda>t. destructive t \<or> prefix ''dd '' t \<longrightarrow> t \<in> clone_writes source spare) (copy_partition spare pair)"
    if "pair \<in> set (zip parts (map (derive_partition_path spare) [1 ..< length parts + 1]))" for pair
  proof (cases pair)
    case (Pair part target)
    then show ?thesis
      unfolding copy_partition_def wait_for_partition_def prod.case using copies that
      by (intro emits_intros) (simp_all add: destructive_simps)
  qed
  then show ?thesis
    unfolding copy_drive_def Let_def
    by (intro emits_intros; (assumption)?; simp add: destructive_simps clone_writes_def)
qed

lemma clone_emits:
  "emits (\<lambda>t. destructive t \<or> prefix ''dd '' t \<longrightarrow> t \<in> clone_writes source spare) (clone_drive source spare)"
  unfolding clone_drive_def require_disk_def holds_luks_header_def
proof (intro emits_if emits_thenA emits_raiseA, goal_cases)
  case 3
  show ?case
  proof (rule emits_bindA_result, goal_cases)
    case 1
    show ?case unfolding existing_partitions_def by (intro emits_intros) (simp add: destructive_simps)
  next
    case (2 os h parts h')
    note copy = copy_drive_emits [OF conjunct1 conjunct2, OF existing_partitions_result existing_partitions_result, OF 2 2]
    show ?case by (intro emits_intros copy; simp add: destructive_simps)
  qed
qed (intro emits_intros; simp add: destructive_simps)+

text \<open>
  C15: Cloning a USB boot drive writes the spare drive only: each command that overwrites data wipes the
  spare, replicates the partition table onto it, moves its backup table, or copies a partition of
  the source onto a partition of the spare. The same drive twice is refused before any command.
\<close>

theorem clone_writes_only_the_spare:
  assumes "clone_drive source spare os h = (r, h @ new)"
  shows "set (filter (\<lambda>t. destructive t \<or> prefix ''dd '' t) (texts new)) \<subseteq> clone_writes source spare \<and>
    (source = spare \<longrightarrow> new = [])"
  using emits_onD [OF emits_on_emits [OF clone_emits] assms] assms
  by (auto simp: clone_drive_def raiseA_apply)

definition spare_machine :: os where
  "spare_machine h q =
     (if prefix ''lsblk -nro'' (req_text q) then Completed 0 [] [] else Completed 0 ''disk'' [])"

lemma clone_run:
  "fst (clone_drive ''/dev/sdb'' ''/dev/sdc'' spare_machine []) = Inr ()"
  "filter (\<lambda>t. destructive t \<or> prefix ''dd '' t) (texts (snd (clone_drive ''/dev/sdb'' ''/dev/sdc'' spare_machine []))) =
     [''wipefs -af /dev/sdc'', ''sgdisk --replicate=/dev/sdc /dev/sdb'', ''sgdisk -e /dev/sdc'',
      ''dd if=/dev/sdb1 of=/dev/sdc1 bs=4M conv=fsync status=none'',
      ''dd if=/dev/sdb2 of=/dev/sdc2 bs=4M conv=fsync status=none'',
      ''dd if=/dev/sdb3 of=/dev/sdc3 bs=4M conv=fsync status=none'']"
  unfolding clone_drive_def copy_drive_def existing_partitions_def copy_partition_def require_disk_def
    holds_luks_header_def wait_for_partition_def Let_def
  by (simp_all add: run_evaluation spare_machine_def path_exists_def first_look strip_def lstrip_def rstrip_def is_space_def
     destructive_simps reads_range_def derive_partition_path_def string_of_nat.simps digit_chars [unfolded numeral_2_eq_2 numeral_3_eq_3 One_nat_def] digit_chars upt_rec)

theorem clone_writes_only_the_spare_witness:
  "''dd if=/dev/sdb2 of=/dev/sdc2 bs=4M conv=fsync status=none'' \<in> clone_writes ''/dev/sdb'' ''/dev/sdc''"
proof -
  obtain r new where run: "clone_drive ''/dev/sdb'' ''/dev/sdc'' spare_machine [] = (r, new)" by fastforce
  have written: "set (filter (\<lambda>t. destructive t \<or> prefix ''dd '' t) (texts new)) \<subseteq> clone_writes ''/dev/sdb'' ''/dev/sdc''"
    by (rule conjunct1 [OF clone_writes_only_the_spare [of "''/dev/sdb''" "''/dev/sdc''" spare_machine "[]" r]])
      (use run in simp)
  show ?thesis by (rule subsetD [OF written [unfolded clone_run(2) [unfolded run snd_conv]]]) simp
qed

lemma stdout_of_sh_answered:
  assumes "answers os s code out" and "stdout_of (sh s) os h = (Inr x, h')"
  shows "x = out"
proof -
  obtain err where "os h (shell_request s) = Completed code out err" using assms(1) unfolding answers_def by blast
  then show ?thesis using assms(2)
    by (auto simp: stdout_of_def sh_def run_def Let_def returnA_apply shell_request_def success_def
      split: if_splits elim!: bindA_cases)
qed

text \<open>
  A drive with a mounted partition is not cloned onto: the clone raises before it writes anything.
\<close>

lemma mounted_spare_is_refused:
  assumes "answers os (''lsblk -nro MOUNTPOINT '' @ spare) 0 out" and "strip out \<noteq> []"
    and "clone_drive source spare os h = (r, h @ new)"
  shows "list_all (\<lambda>t. \<not> destructive t \<and> \<not> prefix ''dd '' t) (texts new) \<and> (\<exists>err. r = Inl err)"
proof
  note mounted = stdout_of_sh_answered [OF assms(1)] stdout_of_sh_answered [OF assms(1), simplified]
  have checks: "emits (\<lambda>t. \<not> destructive t \<and> \<not> prefix ''dd '' t) (require_disk device)"
    "emits (\<lambda>t. \<not> destructive t \<and> \<not> prefix ''dd '' t) (existing_partitions device)"
    "emits (\<lambda>t. \<not> destructive t \<and> \<not> prefix ''dd '' t) (holds_luks_header device)"
    "emits (\<lambda>t. \<not> destructive t \<and> \<not> prefix ''dd '' t) (stdout_of (sh (''lsblk -nro MOUNTPOINT '' @ device)))" for device
    unfolding require_disk_def existing_partitions_def holds_luks_header_def
    by (intro emits_intros; simp add: destructive_simps)+
  have "emits_on os (\<lambda>t. \<not> destructive t \<and> \<not> prefix ''dd '' t) (clone_drive source spare)"
    unfolding clone_drive_def using assms(2)
    by (auto intro!: emits_on_if emits_on_thenA emits_on_bindA checks [THEN emits_on_emits]
        emits_on_emits [OF emits_raiseA] emits_on_emits [OF emits_returnA] dest!: mounted)
  from emits_onD [OF this assms(3)]
  show "list_all (\<lambda>t. \<not> destructive t \<and> \<not> prefix ''dd '' t) (texts new)" by (auto simp: list_all_iff)
  show "\<exists>err. r = Inl err"
  proof (rule ccontr)
    assume "\<nexists>err. r = Inl err"
    then obtain u where "clone_drive source spare os h = (Inr u, h @ new)" using assms(3) by (cases r) auto
    with assms(2) show False
      by (auto simp: clone_drive_def raiseA_apply split: if_splits dest!: thenA_Inr mounted elim!: bindA_cases)
  qed
qed

definition mounted_machine :: os where
  "mounted_machine h q =
     (if prefix ''lsblk -nro'' (req_text q) then Completed 0 ''/mnt'' [] else Completed 0 ''disk'' [])"

lemma mounted_spare_is_refused_witness:
  "list_all (\<lambda>t. \<not> destructive t) (texts (snd (clone_drive ''/dev/sdb'' ''/dev/sdc'' mounted_machine [])))"
proof -
  obtain r new where run: "clone_drive ''/dev/sdb'' ''/dev/sdc'' mounted_machine [] = (r, new)" by fastforce
  have "list_all (\<lambda>t. \<not> destructive t \<and> \<not> prefix ''dd '' t) (texts new)"
    by (rule conjunct1 [OF mounted_spare_is_refused [of mounted_machine "''/dev/sdc''" "''/mnt''" "''/dev/sdb''" "[]" r]])
      (use run in \<open>simp_all add: answers_def mounted_machine_def strip_def lstrip_def rstrip_def is_space_def\<close>)
  with run show ?thesis by (simp add: list_all_iff)
qed

text \<open>What a clone must have done for the partitions the source has: the commands, in their order.\<close>

definition clone_commands :: "string \<Rightarrow> bool" where
  "clone_commands t \<longleftrightarrow> prefix ''sgdisk --replicate='' t \<or> prefix ''dd '' t \<or> prefix ''cmp '' t"

definition copies_of :: "string \<Rightarrow> string list \<Rightarrow> string list" where
  "copies_of spare parts =
     map (\<lambda>(i, part). ''dd if='' @ part @ '' of='' @ derive_partition_path spare i @ '' bs=4M conv=fsync status=none'')
       (zip [1 ..< length parts + 1] parts)"

definition complete_clone :: "string \<Rightarrow> string \<Rightarrow> string list \<Rightarrow> string list" where
  "complete_clone source spare parts =
     [''sgdisk --replicate='' @ spare @ '' '' @ source] @ copies_of spare parts @
     [''cmp '' @ parts ! 1 @ '' '' @ derive_partition_path spare 2]"

lemma checked_waiting [checked_intros]: "checked clone_commands (wait_for_partition_node device part n)"
  by (induction n; simp; intro checked_intros; simp add: clone_commands_def)

lemma checked_clone: "checked clone_commands (clone_drive source spare)"
  unfolding clone_drive_def copy_drive_def copy_partition_def existing_partitions_def require_disk_def
    holds_luks_header_def wait_for_partition_def Let_def
  by (intro checked_intros; simp add: clone_commands_def)

lemma copy_leaves:
  "leaves clone_commands (copy_partition spare (part, target))
     [''dd if='' @ part @ '' of='' @ target @ '' bs=4M conv=fsync status=none'']"
proof -
  have "leaves clone_commands (wait_for_partition spare target) []"
    unfolding wait_for_partition_def by (intro leaves_none emits_intros) (simp_all add: clone_commands_def)
  from leaves_thenA [OF this leaves_do_sh] show ?thesis
    by (simp add: copy_partition_def clone_commands_def thenA_returnA_unit)
qed

lemma map_zip_numbered:
  "map (\<lambda>(x, y). g x y) (zip xs (map f ns)) = map (\<lambda>(n, x). g x (f n)) (zip ns xs)"
proof (induction xs arbitrary: ns)
  case Nil
  show ?case by simp
next
  case (Cons x xs)
  then show ?case by (cases ns) simp_all
qed

lemma copy_drive_leaves:
  assumes "2 \<le> length parts"
  shows "leaves clone_commands (copy_drive source spare parts) (complete_clone source spare parts)"
proof -
  let ?targets = "map (derive_partition_path spare) [1 ..< length parts + 1]"
  have quiet: "leaves clone_commands (do_sh_ok s) []" if "\<not> clone_commands s" for s
    using that by (intro leaves_none emits_intros)
  have table: "leaves clone_commands (do_sh (''sgdisk --replicate='' @ spare @ '' '' @ source))
      [''sgdisk --replicate='' @ spare @ '' '' @ source]"
    by (rule leaves_do_sh) (simp add: clone_commands_def)
  have comparison: "leaves clone_commands (do_sh (''cmp '' @ parts ! 1 @ '' '' @ ?targets ! 1))
      [''cmp '' @ parts ! 1 @ '' '' @ ?targets ! 1]"
    by (rule leaves_do_sh) (simp add: clone_commands_def)
  have copies: "leaves clone_commands (forA (zip parts ?targets) (copy_partition spare))
      (map (\<lambda>(part, target). ''dd if='' @ part @ '' of='' @ target @ '' bs=4M conv=fsync status=none'') (zip parts ?targets))"
  proof (rule leaves_forA)
    show "leaves clone_commands (copy_partition spare x)
        [case x of (part, target) \<Rightarrow> ''dd if='' @ part @ '' of='' @ target @ '' bs=4M conv=fsync status=none'']" for x
      by (cases x) (simp only: prod.case copy_leaves)
  qed
  have same: "map (\<lambda>(part, target). ''dd if='' @ part @ '' of='' @ target @ '' bs=4M conv=fsync status=none'') (zip parts ?targets) =
      copies_of spare parts"
    unfolding copies_of_def by (rule map_zip_numbered)
  have target: "?targets ! 1 = derive_partition_path spare 2"
    using assms by (subst nth_map) (simp_all add: numeral_2_eq_2 del: upt_Suc)
  note steps = leaves_thenA [OF quiet [of "''wipefs -af '' @ spare"] leaves_thenA [OF table
      leaves_thenA [OF quiet [of "''sgdisk -e '' @ spare"] leaves_thenA [OF quiet [of "''partprobe '' @ spare"]
      leaves_thenA [OF quiet [of "''udevadm settle''"] leaves_thenA [OF copies comparison]]]]]]
  show ?thesis
    unfolding copy_drive_def Let_def seqA.simps thenA_returnA_unit complete_clone_def same [symmetric] target [symmetric]
    using steps by (simp add: clone_commands_def)
qed

text \<open>
  C16: A clone that ends normally is complete: for the partitions found on the source, at least the EFI and
  the header partition, it has replicated the partition table, copied each of them to the partition of the
  same place of the spare drive, compared the two header partitions, in this order, and every one of
  these commands has succeeded.
\<close>

theorem finished_clone_is_complete:
  assumes "clone_drive source spare os h = (Inr (), h @ new)"
  shows "\<exists>parts h1 h2. existing_partitions source os h1 = (Inr parts, h2) \<and> 2 \<le> length parts \<and>
    filter clone_commands (texts new) = complete_clone source spare parts \<and> all_succeeded clone_commands new"
proof -
  have disk: "emits (\<lambda>t. \<not> clone_commands t) (require_disk device)"
    "emits (\<lambda>t. \<not> clone_commands t) (existing_partitions device)"
    "emits (\<lambda>t. \<not> clone_commands t) (holds_luks_header part)"
    "emits (\<lambda>t. \<not> clone_commands t) (stdout_of (sh (''lsblk -nro MOUNTPOINT '' @ device)))" for device part
    unfolding require_disk_def existing_partitions_def holds_luks_header_def
    by (intro emits_intros; simp add: clone_commands_def)+
  obtain h1 h2 h3 h4 h5 parts mountpoints where
    source: "require_disk source os h = (Inr (), h1)" and target: "require_disk spare os h1 = (Inr (), h2)"
    and found: "existing_partitions source os h2 = (Inr parts, h3)" and two: "2 \<le> length parts"
    and header: "holds_luks_header (parts ! 1) os h3 = (Inr True, h4)"
    and unmounted: "stdout_of (sh (''lsblk -nro MOUNTPOINT '' @ spare)) os h4 = (Inr mountpoints, h5)"
    and copied: "copy_drive source spare parts os h5 = (Inr (), h @ new)"
    using assms unfolding clone_drive_def
    by (auto simp: raiseA_apply returnA_apply not_less split: if_splits dest!: thenA_Inr elim!: bindA_cases)
  obtain n1 where n1: "h1 = h @ n1" "\<forall>t \<in> set (texts n1). \<not> clone_commands t" by (rule emitsD [OF disk(1) source])
  obtain n2 where n2: "h2 = h1 @ n2" "\<forall>t \<in> set (texts n2). \<not> clone_commands t" by (rule emitsD [OF disk(1) target])
  obtain n3 where n3: "h3 = h2 @ n3" "\<forall>t \<in> set (texts n3). \<not> clone_commands t" by (rule emitsD [OF disk(2) found])
  obtain n4 where n4: "h4 = h3 @ n4" "\<forall>t \<in> set (texts n4). \<not> clone_commands t" by (rule emitsD [OF disk(3) header])
  obtain n5 where n5: "h5 = h4 @ n5" "\<forall>t \<in> set (texts n5). \<not> clone_commands t" by (rule emitsD [OF disk(4) unmounted])
  from copy_drive_leaves [OF two] copied obtain n where "h @ new = h5 @ n"
    and "filter clone_commands (texts n) = complete_clone source spare parts"
    unfolding leaves_def by blast
  with n1 n2 n3 n4 n5 have "filter clone_commands (texts new) = complete_clone source spare parts" by simp
  with found two checkedD [OF checked_clone assms] show ?thesis by blast
qed

theorem finished_clone_is_complete_witness:
  "filter clone_commands (texts (snd (clone_drive ''/dev/sdb'' ''/dev/sdc'' spare_machine []))) =
     complete_clone ''/dev/sdb'' ''/dev/sdc'' [''/dev/sdb1'', ''/dev/sdb2'', ''/dev/sdb3'']"
proof -
  obtain r new where run: "clone_drive ''/dev/sdb'' ''/dev/sdc'' spare_machine [] = (r, new)" by fastforce
  with clone_run(1) have "r = Inr ()" by simp
  with run finished_clone_is_complete [of "''/dev/sdb''" "''/dev/sdc''" spare_machine "[]" new]
  obtain parts h1 h2 where parts: "existing_partitions ''/dev/sdb'' spare_machine h1 = (Inr parts, h2)"
    and copied: "filter clone_commands (texts new) = complete_clone ''/dev/sdb'' ''/dev/sdc'' parts" by auto
  from parts have "parts = [''/dev/sdb1'', ''/dev/sdb2'', ''/dev/sdb3'']"
    by (simp add: existing_partitions_def path_exists_def run_evaluation spare_machine_def derive_partition_path_def
        text_simps)
  with copied run show ?thesis by simp
qed

subsection \<open>The name of the disk\<close>

lemma least_of_same_set: "set xs = set ys \<Longrightarrow> xs \<noteq> [] \<Longrightarrow> hd (sort xs) = hd (sort ys)"
  by (metis hd_sort_in hd_sort_least order_antisym set_empty)

text \<open>
  C17: The \<^verbatim>\<open>/dev/disk/by-id\<close> name the boot of a USB boot system finds the disk by does not depend on the
  order in which the machine lists the links, is one of them, and is a unique hardware identifier
  whenever the disk has one.
\<close>

theorem disk_link_is_canonical:
  assumes "set links = set links'" and "links \<noteq> []"
  shows "choose_disk_link links = choose_disk_link links' \<and> choose_disk_link links \<in> set links \<and>
    (list_ex has_unique_identifier links \<longrightarrow> has_unique_identifier (choose_disk_link links))"
proof (intro conjI impI)
  have unique: "set (filter has_unique_identifier links) = set (filter has_unique_identifier links')"
    using assms(1) by simp
  then have nil: "filter has_unique_identifier links = [] \<longleftrightarrow> filter has_unique_identifier links' = []"
    by (metis set_empty)
  show "choose_disk_link links = choose_disk_link links'"
    using assms nil least_of_same_set [OF assms] least_of_same_set [OF unique]
    by (auto simp: choose_disk_link_def Let_def)
  show "choose_disk_link links \<in> set links" by (rule choose_disk_link_in [OF assms(2)])
  show "has_unique_identifier (choose_disk_link links)" if "list_ex has_unique_identifier links"
    using that assms(2) hd_sort_in [of "filter has_unique_identifier links"]
    by (auto simp: choose_disk_link_def Let_def list_ex_iff filter_empty_conv)
qed

theorem disk_link_is_canonical_witness:
  "choose_disk_link [''/dev/disk/by-id/ata-X'', ''/dev/disk/by-id/wwn-0x5''] =
   choose_disk_link [''/dev/disk/by-id/wwn-0x5'', ''/dev/disk/by-id/ata-X'']"
  using disk_link_is_canonical [of "[''/dev/disk/by-id/ata-X'', ''/dev/disk/by-id/wwn-0x5'']"
    "[''/dev/disk/by-id/wwn-0x5'', ''/dev/disk/by-id/ata-X'']"] by auto

end
