(* ===== verification/Migration.thy ===== *)
theory Migration
  imports Usb_Boot
begin

text \<open>
  \<^verbatim>\<open>executors/migration.py\<close>: staging the data of an existing encrypted btrfs install before the
  disk is wiped, and restoring it after the packages step.
\<close>

definition STAGING_DIRECTORY :: string where "STAGING_DIRECTORY = ''/tmp/migration-staging''"
definition OLD_MOUNT_DIRECTORY :: string where "OLD_MOUNT_DIRECTORY = ''/tmp/old-system''"
definition OLD_MAPPER_NAME :: string where "OLD_MAPPER_NAME = ''oldcryptroot''"
definition STAGING_HEADROOM_MB :: nat where "STAGING_HEADROOM_MB = 256"

lemmas [cfg_simps] = STAGING_DIRECTORY_def OLD_MOUNT_DIRECTORY_def OLD_MAPPER_NAME_def
  STAGING_HEADROOM_MB_def

definition path_in_old_root :: "string \<Rightarrow> string" where
  "path_in_old_root path = OLD_MOUNT_DIRECTORY @ ''/@/'' @ lstrip_chars {CHR ''/''} path"

text \<open>
  \<^verbatim>\<open>PurePath\<close> for POSIX, as far as the code uses it: repeated slashes and \<^verbatim>\<open>.\<close> components
  vanish, \<^verbatim>\<open>name\<close> is the last component, \<^verbatim>\<open>parent\<close> drops it. Two leading slashes are kept.
\<close>

definition path_parts :: "string \<Rightarrow> string list" where
  "path_parts path = filter (\<lambda>p. p \<noteq> [] \<and> p \<noteq> ''.'') (split_on ''/'' path)"

definition path_root :: "string \<Rightarrow> string" where
  "path_root path =
     (if prefix ''//'' path \<and> \<not> prefix ''///'' path then ''//''
      else if prefix ''/'' path then ''/'' else [])"

definition path_name :: "string \<Rightarrow> string" where
  "path_name path = (if path_parts path = [] then [] else last (path_parts path))"

definition path_text :: "string \<Rightarrow> string list \<Rightarrow> string" where
  "path_text root parts =
     (if root = [] \<and> parts = [] then ''.'' else root @ join ''/'' parts)"

definition path_parent :: "string \<Rightarrow> string" where
  "path_parent path = path_text (path_root path) (butlast (path_parts path))"

record existing_install_info =
  info_disk :: string
  info_root_partition :: string
  info_home_subvolume :: string
  info_home_size_mb :: nat
  info_secure_boot_directory :: string

subsection \<open>Staging\<close>

definition listed_partitions :: "string \<Rightarrow> string \<Rightarrow> string list" where
  "listed_partitions disk listing =
     map (\<lambda>name. ''/dev/'' @ strip name)
       (filter (\<lambda>name. strip name \<noteq> [] \<and> strip name \<noteq> path_name disk) (split_on NL listing))"

fun first_luks :: "string \<Rightarrow> string list \<Rightarrow> string action" where
  "first_luks disk [] =
     raiseA (Migration_Error (''No LUKS partition found on '' @ disk @ '', nothing to migrate''))"
| "first_luks disk (p # ps) =
     bindA (succeeds (sh_ok (''cryptsetup isLuks '' @ p)))
       (\<lambda>b. if b then returnA p else first_luks disk ps)"

definition find_luks_partition :: "string \<Rightarrow> string action" where
  "find_luks_partition disk =
     bindA (stdout_of (sh_ok (''lsblk -ln -o NAME '' @ disk)))
       (\<lambda>listing. first_luks disk (listed_partitions disk listing))"

definition open_and_mount :: "installer_config \<Rightarrow> string \<Rightarrow> unit action" where
  "open_and_mount c part =
     bindA (sh_input_ok (''cryptsetup open --key-file - '' @ part @ '' '' @ OLD_MAPPER_NAME)
       (source_luks_password (credentials c))) (\<lambda>unlocked.
         if \<not> success unlocked
         then raiseA (Migration_Error
           (''Could not unlock '' @ part @ '' with the old LUKS password: '' @ strip (stderr unlocked)))
         else thenA (do_sh (''mkdir -p '' @ OLD_MOUNT_DIRECTORY))
           (bindA (sh_ok (''mount -t btrfs -o subvolid=5 /dev/mapper/'' @ OLD_MAPPER_NAME @ '' '' @
                     OLD_MOUNT_DIRECTORY)) (\<lambda>mounted.
             if \<not> success mounted
             then thenA (do_sh_ok (''cryptsetup close '' @ OLD_MAPPER_NAME))
               (raiseA (Migration_Error
                 (''Could not mount the existing system: '' @ strip (stderr mounted))))
             else returnA ())))"

definition unmount_and_close :: "unit action" where
  "unmount_and_close = seqA [
     do_sh_ok (''umount '' @ OLD_MOUNT_DIRECTORY),
     do_sh_ok (''cryptsetup close '' @ OLD_MAPPER_NAME),
     do_sh_ok (''rmdir '' @ OLD_MOUNT_DIRECTORY)]"

definition size_mb :: "string \<Rightarrow> nat action" where
  "size_mb path =
     bindA (stdout_of (sh_ok (''du -sm '' @ path))) (\<lambda>out. returnA
       (case split_ws out of [] \<Rightarrow> 0 | w # _ \<Rightarrow> if isdigit w then nat_of_digits w else 0))"

fun find_secure_boot_directory :: "string list \<Rightarrow> string action" where
  "find_secure_boot_directory [] = returnA []"
| "find_secure_boot_directory (d # ds) =
     (let candidate = path_in_old_root d in
      bindA (directory_exists (candidate @ ''/keys''))
        (\<lambda>b. if b then returnA candidate else find_secure_boot_directory ds))"

definition inspect_mounted_system :: "string \<Rightarrow> string \<Rightarrow> existing_install_info action" where
  "inspect_mounted_system disk root_partition =
     bindA (stdout_of (sh_ok (''btrfs subvolume list '' @ OLD_MOUNT_DIRECTORY))) (\<lambda>listing.
       let home_subvolume = (if contains ''@home'' listing then ''@home'' else []) in
       bindA (if home_subvolume \<noteq> [] then size_mb (OLD_MOUNT_DIRECTORY @ ''/'' @ home_subvolume)
              else returnA 0) (\<lambda>home_size.
         bindA (find_secure_boot_directory [SBCTL_DIRECTORY, SBCTL_LEGACY_DIRECTORY]) (\<lambda>directory.
           returnA \<lparr>info_disk = disk, info_root_partition = root_partition,
             info_home_subvolume = home_subvolume, info_home_size_mb = home_size,
             info_secure_boot_directory = directory\<rparr>)))"

fun additional_size_mb :: "string list \<Rightarrow> nat action" where
  "additional_size_mb [] = returnA 0"
| "additional_size_mb (p # ps) =
     bindA (size_mb (path_in_old_root p)) (\<lambda>n. bindA (additional_size_mb ps) (\<lambda>m. returnA (n + m)))"

definition available_mb :: "string \<Rightarrow> nat" where
  "available_mb df_output =
     (let field = strip (last (split_on NL (strip df_output)))
      in if isdigit field then nat_of_digits field else 0)"

definition ensure_staging_space :: "installer_config \<Rightarrow> existing_install_info \<Rightarrow> unit action" where
  "ensure_staging_space c existing =
     bindA (additional_size_mb (additional_paths (migration c))) (\<lambda>additional.
       let required = STAGING_HEADROOM_MB
             + (if preserve_home (migration c) then info_home_size_mb existing else 0) + additional;
           staging_parent = path_parent STAGING_DIRECTORY
       in bindA (stdout_of (sh_ok (''df --output=avail -m '' @ staging_parent))) (\<lambda>df_output.
            if available_mb df_output < required
            then raiseA (Migration_Error
              (''Not enough space to stage the migration in '' @ staging_parent @ '': '' @
               ''need ~'' @ string_of_nat required @ ''MB, '' @
               string_of_nat (available_mb df_output) @ ''MB available''))
            else returnA ()))"

definition copy_into_staging :: "string \<Rightarrow> string \<Rightarrow> unit action" where
  "copy_into_staging source_directory staging_name = seqA [
     do_sh (''mkdir -p '' @ STAGING_DIRECTORY @ ''/'' @ staging_name),
     do_sh (''cp -a '' @ source_directory @ ''/. '' @ STAGING_DIRECTORY @ ''/'' @ staging_name @ ''/'')]"

definition copy_additional :: "string \<Rightarrow> unit action" where
  "copy_additional path =
     (let source = path_in_old_root path;
          destination = STAGING_DIRECTORY @ ''/additional/'' @ lstrip_chars {CHR ''/''} path
      in bindA (path_exists source) (\<lambda>there. whenA there (seqA [
           do_sh (''mkdir -p '' @ path_parent destination),
           do_sh (''cp -a '' @ source @ '' '' @ destination)])))"

definition copy_to_staging :: "installer_config \<Rightarrow> existing_install_info \<Rightarrow> unit action" where
  "copy_to_staging c existing = seqA [
     do_sh (''rm -rf '' @ STAGING_DIRECTORY),
     do_sh (''mkdir -p '' @ STAGING_DIRECTORY),
     whenA (preserve_home (migration c) \<and> info_home_subvolume existing \<noteq> [])
       (copy_into_staging (OLD_MOUNT_DIRECTORY @ ''/'' @ info_home_subvolume existing) ''home''),
     whenA (preserve_secure_boot_keys (migration c) \<and> info_secure_boot_directory existing \<noteq> [])
       (copy_into_staging (info_secure_boot_directory existing) ''sbctl''),
     forA (additional_paths (migration c)) copy_additional]"

definition migration_staging_execute :: "installer_config \<Rightarrow> unit action" where
  "migration_staging_execute c = (let disk = target_disk (storage c) in
     bindA (find_luks_partition disk) (\<lambda>luks_partition.
       thenA (open_and_mount c luks_partition)
         (finallyA
           (bindA (inspect_mounted_system disk luks_partition) (\<lambda>existing.
              thenA (ensure_staging_space c existing) (copy_to_staging c existing)))
           unmount_and_close)))"

subsection \<open>Restoring\<close>

definition staged_destinations :: "(string \<times> string) list" where
  "staged_destinations = [
     (STAGING_DIRECTORY @ ''/home'', TARGET_ROOT @ ''/home''),
     (STAGING_DIRECTORY @ ''/sbctl'', TARGET_ROOT @ SBCTL_DIRECTORY),
     (STAGING_DIRECTORY @ ''/additional'', TARGET_ROOT)]"

definition restore_staged :: "string \<times> string \<Rightarrow> unit action" where
  "restore_staged = (\<lambda>(staged_directory, destination).
     bindA (directory_exists staged_directory) (\<lambda>there. whenA there (seqA [
       do_sh (''mkdir -p '' @ destination),
       do_sh (''cp -a '' @ staged_directory @ ''/. '' @ destination @ ''/'')])))"

definition report_restored_data :: "installer_config \<Rightarrow> unit action" where
  "report_restored_data c = seqA [
     whenA (preserve_home (migration c)) (do_sh_ok (''ls -A '' @ TARGET_ROOT @ ''/home'')),
     whenA (preserve_secure_boot_keys (migration c))
       (bindA (directory_exists (TARGET_ROOT @ SBCTL_DIRECTORY @ ''/keys'')) (\<lambda>_. returnA ()))]"

definition migration_restore_execute :: "installer_config \<Rightarrow> unit action" where
  "migration_restore_execute c =
     bindA (directory_exists STAGING_DIRECTORY) (\<lambda>staged.
       if \<not> staged then returnA ()
       else seqA [
         forA staged_destinations restore_staged,
         report_restored_data c,
         do_sh (''rm -rf '' @ STAGING_DIRECTORY)])"

text \<open>The command that unlocks the old system, whichever partition it is on.\<close>

definition unlocks_old_system :: "string \<Rightarrow> bool" where
  "unlocks_old_system t \<longleftrightarrow> prefix ''cryptsetup open --key-file - '' t \<and> suffix '' oldcryptroot'' t"

subsection \<open>The contract of the step executors\<close>

lemmas migration_actions = migration_restore_execute_def report_restored_data_def
  restore_staged_def migration_staging_execute_def copy_to_staging_def copy_additional_def
  copy_into_staging_def ensure_staging_space_def inspect_mounted_system_def size_mb_def
  unmount_and_close_def open_and_mount_def find_luks_partition_def

lemma first_luks_rules [emits_intros]:
  "(\<And>part. part \<in> set parts \<Longrightarrow> P (''cryptsetup isLuks '' @ part)) \<Longrightarrow> emits P (first_luks disk parts)"
  by (induction parts) (auto intro!: emits_intros)

lemma first_luks_oblivious [oblivious_intros]: "indist (first_luks disk parts) (first_luks disk parts)"
  by (induction parts) (auto intro!: oblivious_intros)

lemma find_secure_boot_directory_rules [emits_intros]:
  "(\<And>d. d \<in> set ds \<Longrightarrow> P (''test -d '' @ path_in_old_root d @ ''/keys'')) \<Longrightarrow>
   emits P (find_secure_boot_directory ds)"
  by (induction ds) (auto simp: Let_def intro!: emits_intros)

lemma find_secure_boot_directory_oblivious [oblivious_intros]:
  "indist (find_secure_boot_directory ds) (find_secure_boot_directory ds)"
  by (induction ds) (auto simp: Let_def intro!: oblivious_intros)

lemma additional_size_mb_rules [emits_intros]:
  "(\<And>path. path \<in> set paths \<Longrightarrow> P (''du -sm '' @ path_in_old_root path)) \<Longrightarrow>
   emits P (additional_size_mb paths)"
  by (induction paths) (auto simp: size_mb_def intro!: emits_intros)

lemma additional_size_mb_oblivious [oblivious_intros]:
  "indist (additional_size_mb paths) (additional_size_mb paths)"
  by (induction paths) (auto simp: size_mb_def intro!: oblivious_intros)

interpretation migration_staging_step: step_executor migration_staging_execute
proof
  fix c
  show "emits (\<lambda>_. True) (migration_staging_execute c)"
    unfolding migration_actions Let_def by (intro emits_intros TrueI)
  show "indist (migration_staging_execute c) (migration_staging_execute (without_credentials c))"
    unfolding migration_actions Let_def without_credentials_simps
    by (intro oblivious_intros)
qed

interpretation migration_restore_step: step_executor migration_restore_execute
proof
  fix c
  show "emits (\<lambda>_. True) (migration_restore_execute c)"
    unfolding migration_actions Let_def by (intro emits_intros TrueI)
  show "indist (migration_restore_execute c) (migration_restore_execute (without_credentials c))"
    unfolding migration_actions Let_def without_credentials_simps
    by (intro oblivious_intros)
qed

end
