(* ===== verification/Recovery.thy ===== *)
theory Recovery
  imports Usb_Boot
begin

text \<open>
  \<^verbatim>\<open>executors/recovery.py\<close>: the signed recovery UKI on the USB boot drive, built from the Arch
  ISO on the recovery partition.
\<close>

definition RECOVERY_UKI :: string where "RECOVERY_UKI = ''/efi/EFI/recovery/arch-recovery.efi''"
definition RECOVERY_ENTRY :: string where "RECOVERY_ENTRY = ''/efi/loader/entries/arch-recovery.conf''"
definition RECOVERY_BUILD_DIRECTORY :: string where
  "RECOVERY_BUILD_DIRECTORY = ''/var/tmp/recovery-system''"
definition RECOVERY_SIGNING_DIRECTORY :: string where
  "RECOVERY_SIGNING_DIRECTORY = ''/run/dali/recovery-signing''"
definition SIGNING_CERTIFICATE_DAYS :: nat where "SIGNING_CERTIFICATE_DAYS = 36500"
definition ARCHISO_CERTIFICATE_FILES :: "string list" where
  "ARCHISO_CERTIFICATE_FILES = [''codesign.crt'', ''codesign_CA.crt'']"
definition CERTIFICATE_INITRAMFS :: string where "CERTIFICATE_INITRAMFS = ''codesign-initramfs.cpio''"

lemmas [cfg_simps] = RECOVERY_UKI_def RECOVERY_ENTRY_def RECOVERY_BUILD_DIRECTORY_def
  RECOVERY_SIGNING_DIRECTORY_def SIGNING_CERTIFICATE_DAYS_def ARCHISO_CERTIFICATE_FILES_def
  CERTIFICATE_INITRAMFS_def

definition recovery_cmdline :: "string \<Rightarrow> string" where
  "recovery_cmdline recovery_filesystem_uuid =
     ''archisobasedir='' @ ARCHISO_DIRECTORY @ '' '' @
     ''archisodevice=UUID='' @ recovery_filesystem_uuid @ '' cms_verify=y''"

text \<open>\<^verbatim>\<open>s.removeprefix(p)\<close>.\<close>

definition removeprefix :: "string \<Rightarrow> string \<Rightarrow> string" where
  "removeprefix p s = (if prefix p s then drop (length p) s else s)"

definition recovery_entry :: "string \<Rightarrow> string" where
  "recovery_entry live_system_version = text_block [
     ''title    Arch Linux recovery ('' @ live_system_version @ '')'',
     ''sort-key recovery'',
     ''efi      '' @ removeprefix ''/efi'' RECOVERY_UKI]"

definition certificate_file :: "nat \<Rightarrow> string" where
  "certificate_file i = ARCHISO_CERTIFICATE_FILES ! i"

definition sign_root_image :: "string \<Rightarrow> unit action" where
  "sign_root_image build_directory =
     (let signing = RECOVERY_SIGNING_DIRECTORY;
          root_image = RECOVERY_MOUNT @ ''/'' @ ARCHISO_ROOT_IMAGE
      in seqA [
        do_sh (''rm -rf '' @ signing),
        do_sh (''mkdir -p -m 700 '' @ signing),
        finallyA
          (seqA [
            do_sh (''openssl req -x509 -newkey ec -pkeyopt ec_paramgen_curve:prime256v1 -nodes '' @
              ''-keyout '' @ signing @ ''/key.pem -out '' @ signing @ ''/'' @ certificate_file 0 @ '' '' @
              ''-days '' @ string_of_nat SIGNING_CERTIFICATE_DAYS @ '' -subj '' @ SQ @
              ''/CN=DALI recovery system'' @ SQ @ '' '' @
              ''-addext keyUsage=critical,digitalSignature '' @
              ''-addext extendedKeyUsage=codeSigning,emailProtection''),
            do_sh (''openssl cms -sign -binary -noattr -in '' @ root_image @ '' '' @
              ''-signer '' @ signing @ ''/'' @ certificate_file 0 @ '' -inkey '' @ signing @ ''/key.pem '' @
              ''-outform DER -out '' @ root_image @ ''.cms.sig'')])
          (do_sh_ok (''rm -f '' @ signing @ ''/key.pem'')),
        do_sh (''cp '' @ signing @ ''/'' @ certificate_file 0 @ '' '' @ signing @ ''/'' @ certificate_file 1),
        do_sh (''bsdtar --format newc -cf '' @ build_directory @ ''/'' @ CERTIFICATE_INITRAMFS @ '' '' @
          ''-C '' @ signing @ '' '' @ join '' '' ARCHISO_CERTIFICATE_FILES),
        do_sh_ok (''rm -rf '' @ signing)])"

definition build_uki :: "string \<Rightarrow> unit action" where
  "build_uki cmdline_text = (let build = RECOVERY_BUILD_DIRECTORY in seqA [
     do_sh (''mkdir -p '' @ TARGET_ROOT @ before_last (CHR ''/'') RECOVERY_UKI),
     do_chroot
       (''ukify build '' @
        ''--linux='' @ build @ ''/'' @ after_last (CHR ''/'') ARCHISO_KERNEL @ '' '' @
        ''--initrd='' @ build @ ''/'' @ after_last (CHR ''/'') ARCHISO_INITRAMFS @ '' '' @
        ''--initrd='' @ build @ ''/'' @ CERTIFICATE_INITRAMFS @ '' '' @
        ''--cmdline='' @ SQ @ cmdline_text @ SQ @ '' '' @
        ''--output='' @ RECOVERY_UKI)])"

definition sign_recovery_uki :: "unit action" where
  "sign_recovery_uki =
     bindA (file_exists (TARGET_ROOT @ SBCTL_DB_KEY)) (\<lambda>keys_exist.
       if \<not> keys_exist then returnA () else do_chroot (''sbctl sign -s '' @ RECOVERY_UKI))"

definition recovery_system_execute :: "installer_config \<Rightarrow> unit action" where
  "recovery_system_execute c =
     (let recovery_partition = usb_recovery_partition (usb_boot c);
          build_directory = TARGET_ROOT @ RECOVERY_BUILD_DIRECTORY
      in bindA (stdout_of (sh (''blkid -s UUID -o value '' @ recovery_partition))) (\<lambda>uuid.
         thenA (do_sh (''mkdir -p '' @ RECOVERY_MOUNT @ '' '' @ build_directory))
         (thenA (do_sh (''mount -t ext4 '' @ recovery_partition @ '' '' @ RECOVERY_MOUNT))
         (bindA
           (finallyA
             (bindA (stdout_of (sh (''cat '' @ RECOVERY_MOUNT @ ''/'' @ ARCHISO_VERSION_FILE))) (\<lambda>version.
               thenA (sign_root_image build_directory)
               (thenA (forA [ARCHISO_KERNEL, ARCHISO_INITRAMFS] (\<lambda>boot_file.
                  do_sh (''cp '' @ RECOVERY_MOUNT @ ''/'' @ boot_file @ '' '' @ build_directory @ ''/'')))
               (thenA (build_uki (recovery_cmdline (strip uuid))) (returnA (strip version))))))
             (seqA [
               do_sh_ok (''umount '' @ RECOVERY_MOUNT),
               do_sh_ok (''rm -rf '' @ build_directory)]))
           (\<lambda>live_system_version. seqA [
             write_file (TARGET_ROOT @ RECOVERY_ENTRY) (recovery_entry live_system_version),
             sign_recovery_uki])))))"

subsection \<open>The contract of the step executors\<close>

lemmas recovery_actions = recovery_system_execute_def sign_recovery_uki_def build_uki_def
  sign_root_image_def

interpretation recovery_system_step: step_executor recovery_system_execute
proof
  fix c
  show "emits (\<lambda>_. True) (recovery_system_execute c)"
    unfolding recovery_actions Let_def by (intro emits_intros TrueI)
  show "indist (recovery_system_execute c) (recovery_system_execute (without_credentials c))"
    unfolding recovery_actions Let_def without_credentials_simps
    by (intro oblivious_intros)
qed

end
