(* ===== verification/Plain_Values.thy ===== *)
theory Plain_Values
  imports Prelude
begin

text \<open>
  The values a setting can have before its type is known: what \<^verbatim>\<open>yaml.safe_load\<close> returns, what
  the environment and the interactive setup provide, what \<^verbatim>\<open>yaml.safe_dump\<close> writes; and the
  types the configuration classes declare for their fields.
\<close>

text \<open>
  \<open>PList\<close> is a list, \<open>PTuple\<close> the tuple a field of the configuration holds. A member of a
  \<^verbatim>\<open>StrEnum\<close> is a text and equal to it, so it is a \<open>PStr\<close>; an instance of a dataclass is the
  \<open>PDict\<close> of its fields. A YAML file can
  also hold numbers with a fraction, dates and binary data; no setting has such a type, so
  \<open>POther t s b\<close> keeps the name of the type, the text of the value and whether it counts as
  true. The keys of a mapping are texts.
\<close>

datatype pyval =
    PNone
  | PBool bool
  | PInt int
  | PStr string
  | PList "pyval list"
  | PTuple "pyval list"
  | PDict "(string \<times> pyval) list"
  | POther string string bool

text \<open>The truth value of \<^verbatim>\<open>if value\<close>, and \<^verbatim>\<open>type(value).__name__\<close>.\<close>

fun truthy :: "pyval \<Rightarrow> bool" where
  "truthy PNone = False"
| "truthy (PBool b) = b"
| "truthy (PInt n) = (n \<noteq> 0)"
| "truthy (PStr s) = (s \<noteq> [])"
| "truthy (PList xs) = (xs \<noteq> [])"
| "truthy (PTuple xs) = (xs \<noteq> [])"
| "truthy (PDict d) = (d \<noteq> [])"
| "truthy (POther t s b) = b"

fun type_name :: "pyval \<Rightarrow> string" where
  "type_name PNone = ''NoneType''"
| "type_name (PBool b) = ''bool''"
| "type_name (PInt n) = ''int''"
| "type_name (PStr s) = ''str''"
| "type_name (PList xs) = ''list''"
| "type_name (PTuple xs) = ''tuple''"
| "type_name (PDict d) = ''dict''"
| "type_name (POther t s b) = t"

text \<open>\<^verbatim>\<open>repr(value)\<close> as the messages show it.\<close>

fun value_repr :: "pyval \<Rightarrow> string" where
  "value_repr PNone = ''None''"
| "value_repr (PBool b) = (if b then ''True'' else ''False'')"
| "value_repr (PInt n) = string_of_int n"
| "value_repr (PStr s) = py_repr s"
| "value_repr (PList xs) = ''['' @ join '', '' (map value_repr xs) @ '']''"
| "value_repr (PTuple xs) =
     ''('' @ join '', '' (map value_repr xs) @ (if length xs = 1 then '',)'' else '')'')"
| "value_repr (PDict d) =
     ''{'' @ join '', '' (map (\<lambda>(k, v). py_repr k @ '': '' @ value_repr v) d) @ ''}''"
| "value_repr (POther t s b) = s"

text \<open>\<^verbatim>\<open>str(value)\<close>: a text itself, the \<^verbatim>\<open>repr\<close> of anything else.\<close>

fun value_str :: "pyval \<Rightarrow> string" where
  "value_str (PStr s) = s"
| "value_str v = value_repr v"

text \<open>
  \<^verbatim>\<open>a == b\<close>: a truth value equals the number 0 or 1, a list never equals a tuple, a mapping is
  compared without the order of its keys.
\<close>

definition number_of :: "pyval \<Rightarrow> int option" where
  "number_of v = (case v of PBool b \<Rightarrow> Some (if b then 1 else 0) | PInt n \<Rightarrow> Some n | _ \<Rightarrow> None)"

function py_eq :: "pyval \<Rightarrow> pyval \<Rightarrow> bool" and
  py_eq_list :: "pyval list \<Rightarrow> pyval list \<Rightarrow> bool" and
  py_eq_entries :: "(string \<times> pyval) list \<Rightarrow> (string \<times> pyval) list \<Rightarrow> bool" where
  "py_eq a b =
     (case (a, b) of
        (PNone, PNone) \<Rightarrow> True
      | (PStr s, PStr t) \<Rightarrow> s = t
      | (PList xs, PList ys) \<Rightarrow> py_eq_list xs ys
      | (PTuple xs, PTuple ys) \<Rightarrow> py_eq_list xs ys
      | (PDict d, PDict e) \<Rightarrow> length d = length e \<and> py_eq_entries d e
      | (POther t s p, POther t' s' p') \<Rightarrow> t = t' \<and> s = s'
      | _ \<Rightarrow> number_of a \<noteq> None \<and> number_of a = number_of b)"
| "py_eq_list [] ys = (ys = [])"
| "py_eq_list (x # xs) ys = (case ys of [] \<Rightarrow> False | y # ys' \<Rightarrow> py_eq x y \<and> py_eq_list xs ys')"
| "py_eq_entries [] e = True"
| "py_eq_entries ((k, v) # d) e =
     ((case map_of e k of None \<Rightarrow> False | Some w \<Rightarrow> py_eq v w) \<and> py_eq_entries d e)"
  by pat_completeness auto
termination
  by (relation "measure (\<lambda>x. case x of Inl (a, b) \<Rightarrow> 2 * size a
        | Inr (Inl (xs, ys)) \<Rightarrow> 2 * size_list size xs + 1
        | Inr (Inr (d, e)) \<Rightarrow> 2 * size_list (size_prod (\<lambda>_. 0) size) d + 1)") auto

subsection \<open>Declared types\<close>

text \<open>
  The types the fields of the configuration classes declare: \<^verbatim>\<open>str\<close>, \<^verbatim>\<open>int\<close>, \<^verbatim>\<open>bool\<close>, an enum with
  the texts of its members, \<^verbatim>\<open>tuple[t, ...]\<close>, \<^verbatim>\<open>t | None\<close>, and a dataclass with its fields.
\<close>

datatype ty =
    TStr
  | TInt
  | TBool
  | TEnum "string list"
  | TTuple ty
  | TOptional ty
  | TClass "(string \<times> ty) list"

fun has_type :: "ty \<Rightarrow> pyval \<Rightarrow> bool" and
  fields_have_type :: "(string \<times> ty) list \<Rightarrow> (string \<times> pyval) list \<Rightarrow> bool" where
  "has_type TStr v = (case v of PStr s \<Rightarrow> True | _ \<Rightarrow> False)"
| "has_type TInt v = (case v of PInt n \<Rightarrow> True | _ \<Rightarrow> False)"
| "has_type TBool v = (case v of PBool b \<Rightarrow> True | _ \<Rightarrow> False)"
| "has_type (TEnum members) v = (case v of PStr s \<Rightarrow> s \<in> set members | _ \<Rightarrow> False)"
| "has_type (TTuple t) v = (case v of PTuple xs \<Rightarrow> list_all (has_type t) xs | _ \<Rightarrow> False)"
| "has_type (TOptional t) v = (v = PNone \<or> has_type t v)"
| "has_type (TClass fs) v = (case v of PDict d \<Rightarrow> fields_have_type fs d | _ \<Rightarrow> False)"
| "fields_have_type [] d = (d = [])"
| "fields_have_type ((name, t) # fs) d =
     (case d of [] \<Rightarrow> False
      | (key, v) # d' \<Rightarrow> key = name \<and> has_type t v \<and> fields_have_type fs d')"

lemma has_type_iffs:
  "has_type TStr v \<longleftrightarrow> (\<exists>s. v = PStr s)"
  "has_type TInt v \<longleftrightarrow> (\<exists>n. v = PInt n)"
  "has_type TBool v \<longleftrightarrow> (\<exists>b. v = PBool b)"
  "has_type (TEnum members) v \<longleftrightarrow> (\<exists>s. v = PStr s \<and> s \<in> set members)"
  "has_type (TTuple t) v \<longleftrightarrow> (\<exists>xs. v = PTuple xs \<and> list_all (has_type t) xs)"
  "fields_have_type [] d \<longleftrightarrow> d = []"
  "has_type (TClass fs) v \<longleftrightarrow> (\<exists>d. v = PDict d \<and> fields_have_type fs d)"
  "fields_have_type ((name, t) # fs) d \<longleftrightarrow>
     (\<exists>v d'. d = (name, v) # d' \<and> has_type t v \<and> fields_have_type fs d')"
  by (auto split: pyval.splits list.splits)

text \<open>Reading the fields of an instance: \<^verbatim>\<open>value.name\<close>, and the values as what they hold.\<close>

definition field_at :: "string \<Rightarrow> pyval \<Rightarrow> pyval" where
  "field_at name v = (case v of PDict d \<Rightarrow> (case map_of d name of Some w \<Rightarrow> w | None \<Rightarrow> PNone) | _ \<Rightarrow> PNone)"

fun text_of :: "pyval \<Rightarrow> string" where "text_of (PStr s) = s" | "text_of _ = []"
fun whole_of :: "pyval \<Rightarrow> int" where "whole_of (PInt n) = n" | "whole_of _ = 0"
fun flag_of :: "pyval \<Rightarrow> bool" where "flag_of (PBool b) = b" | "flag_of _ = False"
fun items_of :: "pyval \<Rightarrow> pyval list" where
  "items_of (PTuple xs) = xs" | "items_of (PList xs) = xs" | "items_of _ = []"

definition optional_of :: "(pyval \<Rightarrow> 'a) \<Rightarrow> pyval \<Rightarrow> 'a option" where
  "optional_of f v = (if v = PNone then None else Some (f v))"

definition optional_value :: "('a \<Rightarrow> pyval) \<Rightarrow> 'a option \<Rightarrow> pyval" where
  "optional_value f x = (case x of None \<Rightarrow> PNone | Some y \<Rightarrow> f y)"

definition member_of :: "('a \<Rightarrow> string) \<Rightarrow> 'a list \<Rightarrow> string \<Rightarrow> 'a" where
  "member_of text members s = the (List.find (\<lambda>m. text m = s) members)"

text \<open>
  What the fields of a class promise: instances and well-typed values are the same thing. The
  builder of the configuration rests on it.
\<close>

locale dataclass =
  fixes declared :: ty and asdict :: "'a \<Rightarrow> pyval" and instance_of :: "pyval \<Rightarrow> 'a"
  assumes asdict_typed: "has_type declared (asdict r)"
    and instance_of_asdict: "instance_of (asdict r) = r"
    and asdict_instance_of: "has_type declared v \<Longrightarrow> asdict (instance_of v) = v"
    and never_none: "\<not> has_type declared PNone"
begin

lemma asdict_inject: "asdict r = asdict r' \<longleftrightarrow> r = r'"
  by (metis instance_of_asdict)

lemma typed_iff_instance: "has_type declared v \<longleftrightarrow> (\<exists>r. v = asdict r)"
  by (metis asdict_typed asdict_instance_of)

lemma tuple_laws:
  "list_all (has_type declared) (map asdict rs)"
  "map (instance_of \<circ> asdict) rs = rs"
  "list_all (has_type declared) vs \<Longrightarrow> map (asdict \<circ> instance_of) vs = vs"
  by (simp_all add: list_all_iff map_idI asdict_typed instance_of_asdict asdict_instance_of)

lemma asdict_not_none: "asdict r \<noteq> PNone"
  using asdict_typed [of r] never_none by auto

lemma optional_laws:
  "has_type (TOptional declared) (optional_value asdict r)"
  "optional_of instance_of (optional_value asdict r) = r"
  "has_type (TOptional declared) v \<Longrightarrow> optional_value asdict (optional_of instance_of v) = v"
  using asdict_not_none never_none
  by (auto simp: optional_value_def optional_of_def asdict_typed instance_of_asdict
      asdict_instance_of split: option.splits)

end

end
