(* ===== verification/Config_Schema.thy ===== *)
theory Config_Schema
  imports Config_Models Plain_Values
begin

text \<open>
  The classes of \<^verbatim>\<open>config/models.py\<close> as the configuration builder sees them: for each class the
  declared types of its fields (\<open>*_ty\<close>), the value an instance is (\<open>*_asdict\<close>, as
  \<^verbatim>\<open>dataclasses.asdict\<close>) and the instance a value with those fields makes (\<open>*_of\<close>, as the
  call of the class with its arguments). An instance and its value are interchangeable: the
  laws of \<open>dataclass\<close>, one interpretation per class.
\<close>

named_theorems dataclass_simps \<open>the laws of the configuration classes\<close>

lemma member_of_text: "s \<in> set (map text members) \<Longrightarrow> text (member_of text members s) = s"
  by (induction members) (auto simp: member_of_def)

lemma list_all_typed_inverse:
  "(\<And>v. P v \<Longrightarrow> f (g v) = v) \<Longrightarrow> list_all P vs \<Longrightarrow> map (f \<circ> g) vs = vs"
  by (simp add: list_all_iff map_idI)

lemma map_PStr_texts: "list_all (has_type TStr) vs \<Longrightarrow> map (PStr \<circ> text_of) vs = vs"
  by (rule list_all_typed_inverse) (auto split: pyval.splits)

lemma map_texts_PStr: "map (text_of \<circ> PStr) ss = ss"
  by (induction ss) auto

lemma list_all_PStr: "list_all (has_type TStr) (map PStr ss)"
  by (simp add: list_all_iff)

lemmas class_laws = has_type_iffs field_at_def map_PStr_texts map_texts_PStr list_all_PStr

subsection \<open>Enumerations\<close>

definition wipe_method_members :: "wipe_method list" where
  "wipe_method_members = [Wipe_Quick, Wipe_Secure, Wipe_Discard, Wipe_Skip]"

definition wipe_method_ty :: ty where
  "wipe_method_ty = TEnum (map wipe_method_text wipe_method_members)"

lemma wipe_method_laws [dataclass_simps]:
  "has_type wipe_method_ty (PStr (wipe_method_text m))"
  "member_of wipe_method_text wipe_method_members (wipe_method_text m) = m"
  "has_type wipe_method_ty v \<longleftrightarrow> (\<exists>m. v = PStr (wipe_method_text m))"
  "list_all (has_type wipe_method_ty) (map (PStr \<circ> wipe_method_text) ms)"
  "map (member_of wipe_method_text wipe_method_members \<circ> text_of \<circ> (PStr \<circ> wipe_method_text)) ms = ms"
  "list_all (has_type wipe_method_ty) vs \<Longrightarrow>
   map (PStr \<circ> wipe_method_text \<circ> (member_of wipe_method_text wipe_method_members \<circ> text_of)) vs = vs"
proof -
  show typed: "has_type wipe_method_ty (PStr (wipe_method_text m))" for m
    by (cases m) (simp_all add: wipe_method_ty_def wipe_method_members_def)
  show inverse: "member_of wipe_method_text wipe_method_members (wipe_method_text m) = m" for m
    by (cases m) (simp_all add: wipe_method_members_def member_of_def)
  show iff: "has_type wipe_method_ty v \<longleftrightarrow> (\<exists>m. v = PStr (wipe_method_text m))" for v
    using typed by (auto simp: wipe_method_ty_def split: pyval.splits)
  show "list_all (has_type wipe_method_ty) (map (PStr \<circ> wipe_method_text) ms)"
    by (simp add: list_all_iff typed)
  show "map (member_of wipe_method_text wipe_method_members \<circ> text_of \<circ> (PStr \<circ> wipe_method_text)) ms = ms"
    by (simp add: map_idI inverse)
  show "map (PStr \<circ> wipe_method_text \<circ> (member_of wipe_method_text wipe_method_members \<circ> text_of)) vs = vs"
    if "list_all (has_type wipe_method_ty) vs"
    using that by (auto intro!: map_idI simp: list_all_iff iff inverse)
qed

definition cpu_vendor_members :: "cpu_vendor list" where
  "cpu_vendor_members = [Cpu_Amd, Cpu_Intel, Cpu_Unknown]"

definition cpu_vendor_ty :: ty where
  "cpu_vendor_ty = TEnum (map cpu_vendor_text cpu_vendor_members)"

lemma cpu_vendor_laws [dataclass_simps]:
  "has_type cpu_vendor_ty (PStr (cpu_vendor_text m))"
  "member_of cpu_vendor_text cpu_vendor_members (cpu_vendor_text m) = m"
  "has_type cpu_vendor_ty v \<longleftrightarrow> (\<exists>m. v = PStr (cpu_vendor_text m))"
  "list_all (has_type cpu_vendor_ty) (map (PStr \<circ> cpu_vendor_text) ms)"
  "map (member_of cpu_vendor_text cpu_vendor_members \<circ> text_of \<circ> (PStr \<circ> cpu_vendor_text)) ms = ms"
  "list_all (has_type cpu_vendor_ty) vs \<Longrightarrow>
   map (PStr \<circ> cpu_vendor_text \<circ> (member_of cpu_vendor_text cpu_vendor_members \<circ> text_of)) vs = vs"
proof -
  show typed: "has_type cpu_vendor_ty (PStr (cpu_vendor_text m))" for m
    by (cases m) (simp_all add: cpu_vendor_ty_def cpu_vendor_members_def)
  show inverse: "member_of cpu_vendor_text cpu_vendor_members (cpu_vendor_text m) = m" for m
    by (cases m) (simp_all add: cpu_vendor_members_def member_of_def)
  show iff: "has_type cpu_vendor_ty v \<longleftrightarrow> (\<exists>m. v = PStr (cpu_vendor_text m))" for v
    using typed by (auto simp: cpu_vendor_ty_def split: pyval.splits)
  show "list_all (has_type cpu_vendor_ty) (map (PStr \<circ> cpu_vendor_text) ms)"
    by (simp add: list_all_iff typed)
  show "map (member_of cpu_vendor_text cpu_vendor_members \<circ> text_of \<circ> (PStr \<circ> cpu_vendor_text)) ms = ms"
    by (simp add: map_idI inverse)
  show "map (PStr \<circ> cpu_vendor_text \<circ> (member_of cpu_vendor_text cpu_vendor_members \<circ> text_of)) vs = vs"
    if "list_all (has_type cpu_vendor_ty) vs"
    using that by (auto intro!: map_idI simp: list_all_iff iff inverse)
qed

definition gpu_vendor_members :: "gpu_vendor list" where
  "gpu_vendor_members = [Gpu_Amd, Gpu_Intel, Gpu_Nvidia, Gpu_None]"

definition gpu_vendor_ty :: ty where
  "gpu_vendor_ty = TEnum (map gpu_vendor_text gpu_vendor_members)"

lemma gpu_vendor_laws [dataclass_simps]:
  "has_type gpu_vendor_ty (PStr (gpu_vendor_text m))"
  "member_of gpu_vendor_text gpu_vendor_members (gpu_vendor_text m) = m"
  "has_type gpu_vendor_ty v \<longleftrightarrow> (\<exists>m. v = PStr (gpu_vendor_text m))"
  "list_all (has_type gpu_vendor_ty) (map (PStr \<circ> gpu_vendor_text) ms)"
  "map (member_of gpu_vendor_text gpu_vendor_members \<circ> text_of \<circ> (PStr \<circ> gpu_vendor_text)) ms = ms"
  "list_all (has_type gpu_vendor_ty) vs \<Longrightarrow>
   map (PStr \<circ> gpu_vendor_text \<circ> (member_of gpu_vendor_text gpu_vendor_members \<circ> text_of)) vs = vs"
proof -
  show typed: "has_type gpu_vendor_ty (PStr (gpu_vendor_text m))" for m
    by (cases m) (simp_all add: gpu_vendor_ty_def gpu_vendor_members_def)
  show inverse: "member_of gpu_vendor_text gpu_vendor_members (gpu_vendor_text m) = m" for m
    by (cases m) (simp_all add: gpu_vendor_members_def member_of_def)
  show iff: "has_type gpu_vendor_ty v \<longleftrightarrow> (\<exists>m. v = PStr (gpu_vendor_text m))" for v
    using typed by (auto simp: gpu_vendor_ty_def split: pyval.splits)
  show "list_all (has_type gpu_vendor_ty) (map (PStr \<circ> gpu_vendor_text) ms)"
    by (simp add: list_all_iff typed)
  show "map (member_of gpu_vendor_text gpu_vendor_members \<circ> text_of \<circ> (PStr \<circ> gpu_vendor_text)) ms = ms"
    by (simp add: map_idI inverse)
  show "map (PStr \<circ> gpu_vendor_text \<circ> (member_of gpu_vendor_text gpu_vendor_members \<circ> text_of)) vs = vs"
    if "list_all (has_type gpu_vendor_ty) vs"
    using that by (auto intro!: map_idI simp: list_all_iff iff inverse)
qed

definition gpu_driver_members :: "gpu_driver list" where
  "gpu_driver_members = [Driver_Nouveau, Driver_Nvidia_Open, Driver_Nvidia_Dkms, Driver_Vendor_Default]"

definition gpu_driver_ty :: ty where
  "gpu_driver_ty = TEnum (map gpu_driver_text gpu_driver_members)"

lemma gpu_driver_laws [dataclass_simps]:
  "has_type gpu_driver_ty (PStr (gpu_driver_text m))"
  "member_of gpu_driver_text gpu_driver_members (gpu_driver_text m) = m"
  "has_type gpu_driver_ty v \<longleftrightarrow> (\<exists>m. v = PStr (gpu_driver_text m))"
  "list_all (has_type gpu_driver_ty) (map (PStr \<circ> gpu_driver_text) ms)"
  "map (member_of gpu_driver_text gpu_driver_members \<circ> text_of \<circ> (PStr \<circ> gpu_driver_text)) ms = ms"
  "list_all (has_type gpu_driver_ty) vs \<Longrightarrow>
   map (PStr \<circ> gpu_driver_text \<circ> (member_of gpu_driver_text gpu_driver_members \<circ> text_of)) vs = vs"
proof -
  show typed: "has_type gpu_driver_ty (PStr (gpu_driver_text m))" for m
    by (cases m) (simp_all add: gpu_driver_ty_def gpu_driver_members_def)
  show inverse: "member_of gpu_driver_text gpu_driver_members (gpu_driver_text m) = m" for m
    by (cases m) (simp_all add: gpu_driver_members_def member_of_def)
  show iff: "has_type gpu_driver_ty v \<longleftrightarrow> (\<exists>m. v = PStr (gpu_driver_text m))" for v
    using typed by (auto simp: gpu_driver_ty_def split: pyval.splits)
  show "list_all (has_type gpu_driver_ty) (map (PStr \<circ> gpu_driver_text) ms)"
    by (simp add: list_all_iff typed)
  show "map (member_of gpu_driver_text gpu_driver_members \<circ> text_of \<circ> (PStr \<circ> gpu_driver_text)) ms = ms"
    by (simp add: map_idI inverse)
  show "map (PStr \<circ> gpu_driver_text \<circ> (member_of gpu_driver_text gpu_driver_members \<circ> text_of)) vs = vs"
    if "list_all (has_type gpu_driver_ty) vs"
    using that by (auto intro!: map_idI simp: list_all_iff iff inverse)
qed

definition firewall_policy_members :: "firewall_policy list" where
  "firewall_policy_members = [Policy_Allow, Policy_Deny, Policy_Reject]"

definition firewall_policy_ty :: ty where
  "firewall_policy_ty = TEnum (map firewall_policy_text firewall_policy_members)"

lemma firewall_policy_laws [dataclass_simps]:
  "has_type firewall_policy_ty (PStr (firewall_policy_text m))"
  "member_of firewall_policy_text firewall_policy_members (firewall_policy_text m) = m"
  "has_type firewall_policy_ty v \<longleftrightarrow> (\<exists>m. v = PStr (firewall_policy_text m))"
  "list_all (has_type firewall_policy_ty) (map (PStr \<circ> firewall_policy_text) ms)"
  "map (member_of firewall_policy_text firewall_policy_members \<circ> text_of \<circ> (PStr \<circ> firewall_policy_text)) ms = ms"
  "list_all (has_type firewall_policy_ty) vs \<Longrightarrow>
   map (PStr \<circ> firewall_policy_text \<circ> (member_of firewall_policy_text firewall_policy_members \<circ> text_of)) vs = vs"
proof -
  show typed: "has_type firewall_policy_ty (PStr (firewall_policy_text m))" for m
    by (cases m) (simp_all add: firewall_policy_ty_def firewall_policy_members_def)
  show inverse: "member_of firewall_policy_text firewall_policy_members (firewall_policy_text m) = m" for m
    by (cases m) (simp_all add: firewall_policy_members_def member_of_def)
  show iff: "has_type firewall_policy_ty v \<longleftrightarrow> (\<exists>m. v = PStr (firewall_policy_text m))" for v
    using typed by (auto simp: firewall_policy_ty_def split: pyval.splits)
  show "list_all (has_type firewall_policy_ty) (map (PStr \<circ> firewall_policy_text) ms)"
    by (simp add: list_all_iff typed)
  show "map (member_of firewall_policy_text firewall_policy_members \<circ> text_of \<circ> (PStr \<circ> firewall_policy_text)) ms = ms"
    by (simp add: map_idI inverse)
  show "map (PStr \<circ> firewall_policy_text \<circ> (member_of firewall_policy_text firewall_policy_members \<circ> text_of)) vs = vs"
    if "list_all (has_type firewall_policy_ty) vs"
    using that by (auto intro!: map_idI simp: list_all_iff iff inverse)
qed

definition desktop_members :: "desktop list" where
  "desktop_members = [Kde, Gnome, Hyprland]"

definition desktop_ty :: ty where
  "desktop_ty = TEnum (map desktop_text desktop_members)"

lemma desktop_laws [dataclass_simps]:
  "has_type desktop_ty (PStr (desktop_text m))"
  "member_of desktop_text desktop_members (desktop_text m) = m"
  "has_type desktop_ty v \<longleftrightarrow> (\<exists>m. v = PStr (desktop_text m))"
  "list_all (has_type desktop_ty) (map (PStr \<circ> desktop_text) ms)"
  "map (member_of desktop_text desktop_members \<circ> text_of \<circ> (PStr \<circ> desktop_text)) ms = ms"
  "list_all (has_type desktop_ty) vs \<Longrightarrow>
   map (PStr \<circ> desktop_text \<circ> (member_of desktop_text desktop_members \<circ> text_of)) vs = vs"
proof -
  show typed: "has_type desktop_ty (PStr (desktop_text m))" for m
    by (cases m) (simp_all add: desktop_ty_def desktop_members_def)
  show inverse: "member_of desktop_text desktop_members (desktop_text m) = m" for m
    by (cases m) (simp_all add: desktop_members_def member_of_def)
  show iff: "has_type desktop_ty v \<longleftrightarrow> (\<exists>m. v = PStr (desktop_text m))" for v
    using typed by (auto simp: desktop_ty_def split: pyval.splits)
  show "list_all (has_type desktop_ty) (map (PStr \<circ> desktop_text) ms)"
    by (simp add: list_all_iff typed)
  show "map (member_of desktop_text desktop_members \<circ> text_of \<circ> (PStr \<circ> desktop_text)) ms = ms"
    by (simp add: map_idI inverse)
  show "map (PStr \<circ> desktop_text \<circ> (member_of desktop_text desktop_members \<circ> text_of)) vs = vs"
    if "list_all (has_type desktop_ty) vs"
    using that by (auto intro!: map_idI simp: list_all_iff iff inverse)
qed

definition backup_category_members :: "backup_category list" where
  "backup_category_members = [Backup_Dotfiles, Backup_Keepass, Backup_Browser, Backup_System]"

definition backup_category_ty :: ty where
  "backup_category_ty = TEnum (map backup_category_text backup_category_members)"

lemma backup_category_laws [dataclass_simps]:
  "has_type backup_category_ty (PStr (backup_category_text m))"
  "member_of backup_category_text backup_category_members (backup_category_text m) = m"
  "has_type backup_category_ty v \<longleftrightarrow> (\<exists>m. v = PStr (backup_category_text m))"
  "list_all (has_type backup_category_ty) (map (PStr \<circ> backup_category_text) ms)"
  "map (member_of backup_category_text backup_category_members \<circ> text_of \<circ> (PStr \<circ> backup_category_text)) ms = ms"
  "list_all (has_type backup_category_ty) vs \<Longrightarrow>
   map (PStr \<circ> backup_category_text \<circ> (member_of backup_category_text backup_category_members \<circ> text_of)) vs = vs"
proof -
  show typed: "has_type backup_category_ty (PStr (backup_category_text m))" for m
    by (cases m) (simp_all add: backup_category_ty_def backup_category_members_def)
  show inverse: "member_of backup_category_text backup_category_members (backup_category_text m) = m" for m
    by (cases m) (simp_all add: backup_category_members_def member_of_def)
  show iff: "has_type backup_category_ty v \<longleftrightarrow> (\<exists>m. v = PStr (backup_category_text m))" for v
    using typed by (auto simp: backup_category_ty_def split: pyval.splits)
  show "list_all (has_type backup_category_ty) (map (PStr \<circ> backup_category_text) ms)"
    by (simp add: list_all_iff typed)
  show "map (member_of backup_category_text backup_category_members \<circ> text_of \<circ> (PStr \<circ> backup_category_text)) ms = ms"
    by (simp add: map_idI inverse)
  show "map (PStr \<circ> backup_category_text \<circ> (member_of backup_category_text backup_category_members \<circ> text_of)) vs = vs"
    if "list_all (has_type backup_category_ty) vs"
    using that by (auto intro!: map_idI simp: list_all_iff iff inverse)
qed

subsection \<open>Classes\<close>

definition user_config_ty :: ty where
  "user_config_ty = TClass [
     (''name'', TStr),
     (''groups'', TTuple TStr)]"

definition user_config_asdict :: "user_config \<Rightarrow> pyval" where
  "user_config_asdict r = PDict [
     (''name'', PStr (user_name r)),
     (''groups'', PTuple (map PStr (user_groups_of r)))]"

definition user_config_of :: "pyval \<Rightarrow> user_config" where
  "user_config_of v = \<lparr>
     user_name = text_of (field_at ''name'' v),
     user_groups_of = map text_of (items_of (field_at ''groups'' v))\<rparr>"

interpretation user_config_class: dataclass user_config_ty user_config_asdict user_config_of
  by (rule dataclass.intro)
    (auto simp del: has_type.simps fields_have_type.simps
      simp add: user_config_ty_def user_config_asdict_def user_config_of_def class_laws dataclass_simps)

lemmas [dataclass_simps] = user_config_class.asdict_typed user_config_class.instance_of_asdict
  user_config_class.asdict_instance_of user_config_class.tuple_laws user_config_class.optional_laws

definition locale_config_ty :: ty where
  "locale_config_ty = TClass [
     (''language'', TStr),
     (''encoding'', TStr),
     (''keymap'', TStr),
     (''monetary'', TStr),
     (''time_format'', TStr),
     (''numeric'', TStr),
     (''paper'', TStr)]"

definition locale_config_asdict :: "locale_config \<Rightarrow> pyval" where
  "locale_config_asdict r = PDict [
     (''language'', PStr (locale_language r)),
     (''encoding'', PStr (locale_encoding r)),
     (''keymap'', PStr (locale_keymap r)),
     (''monetary'', PStr (locale_monetary r)),
     (''time_format'', PStr (locale_time_format r)),
     (''numeric'', PStr (locale_numeric r)),
     (''paper'', PStr (locale_paper r))]"

definition locale_config_of :: "pyval \<Rightarrow> locale_config" where
  "locale_config_of v = \<lparr>
     locale_language = text_of (field_at ''language'' v),
     locale_encoding = text_of (field_at ''encoding'' v),
     locale_keymap = text_of (field_at ''keymap'' v),
     locale_monetary = text_of (field_at ''monetary'' v),
     locale_time_format = text_of (field_at ''time_format'' v),
     locale_numeric = text_of (field_at ''numeric'' v),
     locale_paper = text_of (field_at ''paper'' v)\<rparr>"

interpretation locale_config_class: dataclass locale_config_ty locale_config_asdict locale_config_of
  by (rule dataclass.intro)
    (auto simp del: has_type.simps fields_have_type.simps
      simp add: locale_config_ty_def locale_config_asdict_def locale_config_of_def class_laws dataclass_simps)

lemmas [dataclass_simps] = locale_config_class.asdict_typed locale_config_class.instance_of_asdict
  locale_config_class.asdict_instance_of locale_config_class.tuple_laws locale_config_class.optional_laws

definition pacman_mirror_config_ty :: ty where
  "pacman_mirror_config_ty = TClass [
     (''mirrors'', TTuple TStr),
     (''use_reflector'', TBool),
     (''reflector_countries'', TTuple TStr)]"

definition pacman_mirror_config_asdict :: "pacman_mirror_config \<Rightarrow> pyval" where
  "pacman_mirror_config_asdict r = PDict [
     (''mirrors'', PTuple (map PStr (mirrors r))),
     (''use_reflector'', PBool (use_reflector r)),
     (''reflector_countries'', PTuple (map PStr (reflector_countries r)))]"

definition pacman_mirror_config_of :: "pyval \<Rightarrow> pacman_mirror_config" where
  "pacman_mirror_config_of v = \<lparr>
     mirrors = map text_of (items_of (field_at ''mirrors'' v)),
     use_reflector = flag_of (field_at ''use_reflector'' v),
     reflector_countries = map text_of (items_of (field_at ''reflector_countries'' v))\<rparr>"

interpretation pacman_mirror_config_class: dataclass pacman_mirror_config_ty pacman_mirror_config_asdict pacman_mirror_config_of
  by (rule dataclass.intro)
    (auto simp del: has_type.simps fields_have_type.simps
      simp add: pacman_mirror_config_ty_def pacman_mirror_config_asdict_def pacman_mirror_config_of_def class_laws dataclass_simps)

lemmas [dataclass_simps] = pacman_mirror_config_class.asdict_typed pacman_mirror_config_class.instance_of_asdict
  pacman_mirror_config_class.asdict_instance_of pacman_mirror_config_class.tuple_laws pacman_mirror_config_class.optional_laws

definition system_config_ty :: ty where
  "system_config_ty = TClass [
     (''hostname'', TStr),
     (''timezone'', TStr),
     (''locale'', locale_config_ty),
     (''user'', user_config_ty),
     (''mirrors'', pacman_mirror_config_ty),
     (''cpu_vendor'', cpu_vendor_ty)]"

definition system_config_asdict :: "system_config \<Rightarrow> pyval" where
  "system_config_asdict r = PDict [
     (''hostname'', PStr (hostname r)),
     (''timezone'', PStr (timezone r)),
     (''locale'', locale_config_asdict (sys_locale r)),
     (''user'', user_config_asdict (sys_user r)),
     (''mirrors'', pacman_mirror_config_asdict (sys_mirrors r)),
     (''cpu_vendor'', PStr (cpu_vendor_text (cpu_vendor r)))]"

definition system_config_of :: "pyval \<Rightarrow> system_config" where
  "system_config_of v = \<lparr>
     hostname = text_of (field_at ''hostname'' v),
     timezone = text_of (field_at ''timezone'' v),
     sys_locale = locale_config_of (field_at ''locale'' v),
     sys_user = user_config_of (field_at ''user'' v),
     sys_mirrors = pacman_mirror_config_of (field_at ''mirrors'' v),
     cpu_vendor = member_of cpu_vendor_text cpu_vendor_members (text_of (field_at ''cpu_vendor'' v))\<rparr>"

interpretation system_config_class: dataclass system_config_ty system_config_asdict system_config_of
  by (rule dataclass.intro)
    (auto simp del: has_type.simps fields_have_type.simps
      simp add: system_config_ty_def system_config_asdict_def system_config_of_def class_laws dataclass_simps)

lemmas [dataclass_simps] = system_config_class.asdict_typed system_config_class.instance_of_asdict
  system_config_class.asdict_instance_of system_config_class.tuple_laws system_config_class.optional_laws

definition luks_config_ty :: ty where
  "luks_config_ty = TClass [
     (''type'', TStr),
     (''cipher'', TStr),
     (''key_size'', TInt),
     (''hash'', TStr),
     (''pbkdf'', TStr),
     (''pbkdf_memory'', TInt),
     (''pbkdf_parallel'', TInt),
     (''pbkdf_time_ms'', TInt)]"

definition luks_config_asdict :: "luks_config \<Rightarrow> pyval" where
  "luks_config_asdict r = PDict [
     (''type'', PStr (luks_type r)),
     (''cipher'', PStr (luks_cipher r)),
     (''key_size'', PInt (luks_key_size r)),
     (''hash'', PStr (luks_hash r)),
     (''pbkdf'', PStr (luks_pbkdf r)),
     (''pbkdf_memory'', PInt (pbkdf_memory r)),
     (''pbkdf_parallel'', PInt (pbkdf_parallel r)),
     (''pbkdf_time_ms'', PInt (pbkdf_time_ms r))]"

definition luks_config_of :: "pyval \<Rightarrow> luks_config" where
  "luks_config_of v = \<lparr>
     luks_type = text_of (field_at ''type'' v),
     luks_cipher = text_of (field_at ''cipher'' v),
     luks_key_size = whole_of (field_at ''key_size'' v),
     luks_hash = text_of (field_at ''hash'' v),
     luks_pbkdf = text_of (field_at ''pbkdf'' v),
     pbkdf_memory = whole_of (field_at ''pbkdf_memory'' v),
     pbkdf_parallel = whole_of (field_at ''pbkdf_parallel'' v),
     pbkdf_time_ms = whole_of (field_at ''pbkdf_time_ms'' v)\<rparr>"

interpretation luks_config_class: dataclass luks_config_ty luks_config_asdict luks_config_of
  by (rule dataclass.intro)
    (auto simp del: has_type.simps fields_have_type.simps
      simp add: luks_config_ty_def luks_config_asdict_def luks_config_of_def class_laws dataclass_simps)

lemmas [dataclass_simps] = luks_config_class.asdict_typed luks_config_class.instance_of_asdict
  luks_config_class.asdict_instance_of luks_config_class.tuple_laws luks_config_class.optional_laws

definition subvolume_config_ty :: ty where
  "subvolume_config_ty = TClass [
     (''name'', TStr),
     (''mountpoint'', TStr),
     (''nocow'', TBool)]"

definition subvolume_config_asdict :: "subvolume_config \<Rightarrow> pyval" where
  "subvolume_config_asdict r = PDict [
     (''name'', PStr (subvol_name r)),
     (''mountpoint'', PStr (subvol_mountpoint r)),
     (''nocow'', PBool (subvol_nocow r))]"

definition subvolume_config_of :: "pyval \<Rightarrow> subvolume_config" where
  "subvolume_config_of v = \<lparr>
     subvol_name = text_of (field_at ''name'' v),
     subvol_mountpoint = text_of (field_at ''mountpoint'' v),
     subvol_nocow = flag_of (field_at ''nocow'' v)\<rparr>"

interpretation subvolume_config_class: dataclass subvolume_config_ty subvolume_config_asdict subvolume_config_of
  by (rule dataclass.intro)
    (auto simp del: has_type.simps fields_have_type.simps
      simp add: subvolume_config_ty_def subvolume_config_asdict_def subvolume_config_of_def class_laws dataclass_simps)

lemmas [dataclass_simps] = subvolume_config_class.asdict_typed subvolume_config_class.instance_of_asdict
  subvolume_config_class.asdict_instance_of subvolume_config_class.tuple_laws subvolume_config_class.optional_laws

definition btrfs_config_ty :: ty where
  "btrfs_config_ty = TClass [
     (''label'', TStr),
     (''mount_options'', TStr),
     (''subvolumes'', TTuple subvolume_config_ty)]"

definition btrfs_config_asdict :: "btrfs_config \<Rightarrow> pyval" where
  "btrfs_config_asdict r = PDict [
     (''label'', PStr (btrfs_label r)),
     (''mount_options'', PStr (mount_options r)),
     (''subvolumes'', PTuple (map subvolume_config_asdict (subvolumes r)))]"

definition btrfs_config_of :: "pyval \<Rightarrow> btrfs_config" where
  "btrfs_config_of v = \<lparr>
     btrfs_label = text_of (field_at ''label'' v),
     mount_options = text_of (field_at ''mount_options'' v),
     subvolumes = map subvolume_config_of (items_of (field_at ''subvolumes'' v))\<rparr>"

interpretation btrfs_config_class: dataclass btrfs_config_ty btrfs_config_asdict btrfs_config_of
  by (rule dataclass.intro)
    (auto simp del: has_type.simps fields_have_type.simps
      simp add: btrfs_config_ty_def btrfs_config_asdict_def btrfs_config_of_def class_laws dataclass_simps)

lemmas [dataclass_simps] = btrfs_config_class.asdict_typed btrfs_config_class.instance_of_asdict
  btrfs_config_class.asdict_instance_of btrfs_config_class.tuple_laws btrfs_config_class.optional_laws

definition swap_config_ty :: ty where
  "swap_config_ty = TClass [
     (''enabled'', TBool),
     (''size_mb'', TInt),
     (''path'', TStr),
     (''hibernation'', TBool)]"

definition swap_config_asdict :: "swap_config \<Rightarrow> pyval" where
  "swap_config_asdict r = PDict [
     (''enabled'', PBool (swap_enabled r)),
     (''size_mb'', PInt (swap_size_mb r)),
     (''path'', PStr (swap_path r)),
     (''hibernation'', PBool (swap_hibernation r))]"

definition swap_config_of :: "pyval \<Rightarrow> swap_config" where
  "swap_config_of v = \<lparr>
     swap_enabled = flag_of (field_at ''enabled'' v),
     swap_size_mb = whole_of (field_at ''size_mb'' v),
     swap_path = text_of (field_at ''path'' v),
     swap_hibernation = flag_of (field_at ''hibernation'' v)\<rparr>"

interpretation swap_config_class: dataclass swap_config_ty swap_config_asdict swap_config_of
  by (rule dataclass.intro)
    (auto simp del: has_type.simps fields_have_type.simps
      simp add: swap_config_ty_def swap_config_asdict_def swap_config_of_def class_laws dataclass_simps)

lemmas [dataclass_simps] = swap_config_class.asdict_typed swap_config_class.instance_of_asdict
  swap_config_class.asdict_instance_of swap_config_class.tuple_laws swap_config_class.optional_laws

definition storage_config_ty :: ty where
  "storage_config_ty = TClass [
     (''target_disk'', TStr),
     (''efi_size_mb'', TInt),
     (''wipe_method'', wipe_method_ty),
     (''luks'', luks_config_ty),
     (''btrfs'', btrfs_config_ty),
     (''swap'', swap_config_ty)]"

definition storage_config_asdict :: "storage_config \<Rightarrow> pyval" where
  "storage_config_asdict r = PDict [
     (''target_disk'', PStr (target_disk r)),
     (''efi_size_mb'', PInt (efi_size_mb r)),
     (''wipe_method'', PStr (wipe_method_text (wipe_method r))),
     (''luks'', luks_config_asdict (luks r)),
     (''btrfs'', btrfs_config_asdict (btrfs r)),
     (''swap'', swap_config_asdict (swap r))]"

definition storage_config_of :: "pyval \<Rightarrow> storage_config" where
  "storage_config_of v = \<lparr>
     target_disk = text_of (field_at ''target_disk'' v),
     efi_size_mb = whole_of (field_at ''efi_size_mb'' v),
     wipe_method = member_of wipe_method_text wipe_method_members (text_of (field_at ''wipe_method'' v)),
     luks = luks_config_of (field_at ''luks'' v),
     btrfs = btrfs_config_of (field_at ''btrfs'' v),
     swap = swap_config_of (field_at ''swap'' v)\<rparr>"

interpretation storage_config_class: dataclass storage_config_ty storage_config_asdict storage_config_of
  by (rule dataclass.intro)
    (auto simp del: has_type.simps fields_have_type.simps
      simp add: storage_config_ty_def storage_config_asdict_def storage_config_of_def class_laws dataclass_simps)

lemmas [dataclass_simps] = storage_config_class.asdict_typed storage_config_class.instance_of_asdict
  storage_config_class.asdict_instance_of storage_config_class.tuple_laws storage_config_class.optional_laws

definition kernel_config_ty :: ty where
  "kernel_config_ty = TClass [
     (''name'', TStr),
     (''package'', TStr)]"

definition kernel_config_asdict :: "kernel_config \<Rightarrow> pyval" where
  "kernel_config_asdict r = PDict [
     (''name'', PStr (kernel_name r)),
     (''package'', PStr (kernel_package r))]"

definition kernel_config_of :: "pyval \<Rightarrow> kernel_config" where
  "kernel_config_of v = \<lparr>
     kernel_name = text_of (field_at ''name'' v),
     kernel_package = text_of (field_at ''package'' v)\<rparr>"

interpretation kernel_config_class: dataclass kernel_config_ty kernel_config_asdict kernel_config_of
  by (rule dataclass.intro)
    (auto simp del: has_type.simps fields_have_type.simps
      simp add: kernel_config_ty_def kernel_config_asdict_def kernel_config_of_def class_laws dataclass_simps)

lemmas [dataclass_simps] = kernel_config_class.asdict_typed kernel_config_class.instance_of_asdict
  kernel_config_class.asdict_instance_of kernel_config_class.tuple_laws kernel_config_class.optional_laws

definition uki_variant_config_ty :: ty where
  "uki_variant_config_ty = TClass [
     (''suffix'', TStr),
     (''params'', TStr)]"

definition uki_variant_config_asdict :: "uki_variant_config \<Rightarrow> pyval" where
  "uki_variant_config_asdict r = PDict [
     (''suffix'', PStr (variant_suffix r)),
     (''params'', PStr (variant_params r))]"

definition uki_variant_config_of :: "pyval \<Rightarrow> uki_variant_config" where
  "uki_variant_config_of v = \<lparr>
     variant_suffix = text_of (field_at ''suffix'' v),
     variant_params = text_of (field_at ''params'' v)\<rparr>"

interpretation uki_variant_config_class: dataclass uki_variant_config_ty uki_variant_config_asdict uki_variant_config_of
  by (rule dataclass.intro)
    (auto simp del: has_type.simps fields_have_type.simps
      simp add: uki_variant_config_ty_def uki_variant_config_asdict_def uki_variant_config_of_def class_laws dataclass_simps)

lemmas [dataclass_simps] = uki_variant_config_class.asdict_typed uki_variant_config_class.instance_of_asdict
  uki_variant_config_class.asdict_instance_of uki_variant_config_class.tuple_laws uki_variant_config_class.optional_laws

definition cmdline_hardening_config_ty :: ty where
  "cmdline_hardening_config_ty = TClass [
     (''lockdown'', TStr),
     (''iommu'', TStr),
     (''intel_iommu'', TStr),
     (''amd_iommu'', TStr),
     (''pti'', TStr),
     (''spectre_v2'', TStr),
     (''spec_store_bypass_disable'', TStr),
     (''l1tf'', TStr),
     (''mds'', TStr),
     (''srbds'', TStr),
     (''tsx_async_abort'', TStr),
     (''init_on_alloc'', TInt),
     (''init_on_free'', TInt)]"

definition cmdline_hardening_config_asdict :: "cmdline_hardening_config \<Rightarrow> pyval" where
  "cmdline_hardening_config_asdict r = PDict [
     (''lockdown'', PStr (lockdown r)),
     (''iommu'', PStr (iommu r)),
     (''intel_iommu'', PStr (intel_iommu r)),
     (''amd_iommu'', PStr (amd_iommu r)),
     (''pti'', PStr (pti r)),
     (''spectre_v2'', PStr (spectre_v2 r)),
     (''spec_store_bypass_disable'', PStr (spec_store_bypass_disable r)),
     (''l1tf'', PStr (l1tf r)),
     (''mds'', PStr (mds r)),
     (''srbds'', PStr (srbds r)),
     (''tsx_async_abort'', PStr (tsx_async_abort r)),
     (''init_on_alloc'', PInt (init_on_alloc r)),
     (''init_on_free'', PInt (init_on_free r))]"

definition cmdline_hardening_config_of :: "pyval \<Rightarrow> cmdline_hardening_config" where
  "cmdline_hardening_config_of v = \<lparr>
     lockdown = text_of (field_at ''lockdown'' v),
     iommu = text_of (field_at ''iommu'' v),
     intel_iommu = text_of (field_at ''intel_iommu'' v),
     amd_iommu = text_of (field_at ''amd_iommu'' v),
     pti = text_of (field_at ''pti'' v),
     spectre_v2 = text_of (field_at ''spectre_v2'' v),
     spec_store_bypass_disable = text_of (field_at ''spec_store_bypass_disable'' v),
     l1tf = text_of (field_at ''l1tf'' v),
     mds = text_of (field_at ''mds'' v),
     srbds = text_of (field_at ''srbds'' v),
     tsx_async_abort = text_of (field_at ''tsx_async_abort'' v),
     init_on_alloc = whole_of (field_at ''init_on_alloc'' v),
     init_on_free = whole_of (field_at ''init_on_free'' v)\<rparr>"

interpretation cmdline_hardening_config_class: dataclass cmdline_hardening_config_ty cmdline_hardening_config_asdict cmdline_hardening_config_of
  by (rule dataclass.intro)
    (auto simp del: has_type.simps fields_have_type.simps
      simp add: cmdline_hardening_config_ty_def cmdline_hardening_config_asdict_def cmdline_hardening_config_of_def class_laws dataclass_simps)

lemmas [dataclass_simps] = cmdline_hardening_config_class.asdict_typed cmdline_hardening_config_class.instance_of_asdict
  cmdline_hardening_config_class.asdict_instance_of cmdline_hardening_config_class.tuple_laws cmdline_hardening_config_class.optional_laws

definition cmdline_config_ty :: ty where
  "cmdline_config_ty = TClass [
     (''rootflags'', TStr),
     (''rootfstype'', TStr),
     (''rw'', TBool),
     (''quiet'', TBool),
     (''hardening'', cmdline_hardening_config_ty)]"

definition cmdline_config_asdict :: "cmdline_config \<Rightarrow> pyval" where
  "cmdline_config_asdict r = PDict [
     (''rootflags'', PStr (rootflags r)),
     (''rootfstype'', PStr (rootfstype r)),
     (''rw'', PBool (cmdline_rw r)),
     (''quiet'', PBool (cmdline_quiet r)),
     (''hardening'', cmdline_hardening_config_asdict (hardening r))]"

definition cmdline_config_of :: "pyval \<Rightarrow> cmdline_config" where
  "cmdline_config_of v = \<lparr>
     rootflags = text_of (field_at ''rootflags'' v),
     rootfstype = text_of (field_at ''rootfstype'' v),
     cmdline_rw = flag_of (field_at ''rw'' v),
     cmdline_quiet = flag_of (field_at ''quiet'' v),
     hardening = cmdline_hardening_config_of (field_at ''hardening'' v)\<rparr>"

interpretation cmdline_config_class: dataclass cmdline_config_ty cmdline_config_asdict cmdline_config_of
  by (rule dataclass.intro)
    (auto simp del: has_type.simps fields_have_type.simps
      simp add: cmdline_config_ty_def cmdline_config_asdict_def cmdline_config_of_def class_laws dataclass_simps)

lemmas [dataclass_simps] = cmdline_config_class.asdict_typed cmdline_config_class.instance_of_asdict
  cmdline_config_class.asdict_instance_of cmdline_config_class.tuple_laws cmdline_config_class.optional_laws

definition loader_config_ty :: ty where
  "loader_config_ty = TClass [
     (''timeout'', TInt),
     (''console_mode'', TStr),
     (''editor'', TBool)]"

definition loader_config_asdict :: "loader_config \<Rightarrow> pyval" where
  "loader_config_asdict r = PDict [
     (''timeout'', PInt (loader_timeout r)),
     (''console_mode'', PStr (console_mode r)),
     (''editor'', PBool (loader_editor r))]"

definition loader_config_of :: "pyval \<Rightarrow> loader_config" where
  "loader_config_of v = \<lparr>
     loader_timeout = whole_of (field_at ''timeout'' v),
     console_mode = text_of (field_at ''console_mode'' v),
     loader_editor = flag_of (field_at ''editor'' v)\<rparr>"

interpretation loader_config_class: dataclass loader_config_ty loader_config_asdict loader_config_of
  by (rule dataclass.intro)
    (auto simp del: has_type.simps fields_have_type.simps
      simp add: loader_config_ty_def loader_config_asdict_def loader_config_of_def class_laws dataclass_simps)

lemmas [dataclass_simps] = loader_config_class.asdict_typed loader_config_class.instance_of_asdict
  loader_config_class.asdict_instance_of loader_config_class.tuple_laws loader_config_class.optional_laws

definition secure_boot_config_ty :: ty where
  "secure_boot_config_ty = TClass [
     (''enroll_keys'', TBool),
     (''include_microsoft_keys'', TBool)]"

definition secure_boot_config_asdict :: "secure_boot_config \<Rightarrow> pyval" where
  "secure_boot_config_asdict r = PDict [
     (''enroll_keys'', PBool (enroll_keys r)),
     (''include_microsoft_keys'', PBool (include_microsoft_keys r))]"

definition secure_boot_config_of :: "pyval \<Rightarrow> secure_boot_config" where
  "secure_boot_config_of v = \<lparr>
     enroll_keys = flag_of (field_at ''enroll_keys'' v),
     include_microsoft_keys = flag_of (field_at ''include_microsoft_keys'' v)\<rparr>"

interpretation secure_boot_config_class: dataclass secure_boot_config_ty secure_boot_config_asdict secure_boot_config_of
  by (rule dataclass.intro)
    (auto simp del: has_type.simps fields_have_type.simps
      simp add: secure_boot_config_ty_def secure_boot_config_asdict_def secure_boot_config_of_def class_laws dataclass_simps)

lemmas [dataclass_simps] = secure_boot_config_class.asdict_typed secure_boot_config_class.instance_of_asdict
  secure_boot_config_class.asdict_instance_of secure_boot_config_class.tuple_laws secure_boot_config_class.optional_laws

definition boot_config_ty :: ty where
  "boot_config_ty = TClass [
     (''kernels'', TTuple kernel_config_ty),
     (''selected_kernels'', TTuple TStr),
     (''variants'', TTuple uki_variant_config_ty),
     (''cmdline'', cmdline_config_ty),
     (''loader'', loader_config_ty),
     (''hooks'', TTuple TStr),
     (''secure_boot'', secure_boot_config_ty),
     (''enable_snapshot_boot'', TBool)]"

definition boot_config_asdict :: "boot_config \<Rightarrow> pyval" where
  "boot_config_asdict r = PDict [
     (''kernels'', PTuple (map kernel_config_asdict (kernels r))),
     (''selected_kernels'', PTuple (map PStr (selected_kernels r))),
     (''variants'', PTuple (map uki_variant_config_asdict (variants r))),
     (''cmdline'', cmdline_config_asdict (cmdline r)),
     (''loader'', loader_config_asdict (loader r)),
     (''hooks'', PTuple (map PStr (hooks r))),
     (''secure_boot'', secure_boot_config_asdict (secure_boot r)),
     (''enable_snapshot_boot'', PBool (enable_snapshot_boot r))]"

definition boot_config_of :: "pyval \<Rightarrow> boot_config" where
  "boot_config_of v = \<lparr>
     kernels = map kernel_config_of (items_of (field_at ''kernels'' v)),
     selected_kernels = map text_of (items_of (field_at ''selected_kernels'' v)),
     variants = map uki_variant_config_of (items_of (field_at ''variants'' v)),
     cmdline = cmdline_config_of (field_at ''cmdline'' v),
     loader = loader_config_of (field_at ''loader'' v),
     hooks = map text_of (items_of (field_at ''hooks'' v)),
     secure_boot = secure_boot_config_of (field_at ''secure_boot'' v),
     enable_snapshot_boot = flag_of (field_at ''enable_snapshot_boot'' v)\<rparr>"

interpretation boot_config_class: dataclass boot_config_ty boot_config_asdict boot_config_of
  by (rule dataclass.intro)
    (auto simp del: has_type.simps fields_have_type.simps
      simp add: boot_config_ty_def boot_config_asdict_def boot_config_of_def class_laws dataclass_simps)

lemmas [dataclass_simps] = boot_config_class.asdict_typed boot_config_class.instance_of_asdict
  boot_config_class.asdict_instance_of boot_config_class.tuple_laws boot_config_class.optional_laws

definition desktop_packages_ty :: ty where
  "desktop_packages_ty = TClass [
     (''kde'', TTuple TStr),
     (''gnome'', TTuple TStr),
     (''hyprland'', TTuple TStr)]"

definition desktop_packages_asdict :: "desktop_packages \<Rightarrow> pyval" where
  "desktop_packages_asdict r = PDict [
     (''kde'', PTuple (map PStr (kde_packages r))),
     (''gnome'', PTuple (map PStr (gnome_packages r))),
     (''hyprland'', PTuple (map PStr (hyprland_packages r)))]"

definition desktop_packages_of :: "pyval \<Rightarrow> desktop_packages" where
  "desktop_packages_of v = \<lparr>
     kde_packages = map text_of (items_of (field_at ''kde'' v)),
     gnome_packages = map text_of (items_of (field_at ''gnome'' v)),
     hyprland_packages = map text_of (items_of (field_at ''hyprland'' v))\<rparr>"

interpretation desktop_packages_class: dataclass desktop_packages_ty desktop_packages_asdict desktop_packages_of
  by (rule dataclass.intro)
    (auto simp del: has_type.simps fields_have_type.simps
      simp add: desktop_packages_ty_def desktop_packages_asdict_def desktop_packages_of_def class_laws dataclass_simps)

lemmas [dataclass_simps] = desktop_packages_class.asdict_typed desktop_packages_class.instance_of_asdict
  desktop_packages_class.asdict_instance_of desktop_packages_class.tuple_laws desktop_packages_class.optional_laws

definition packages_config_ty :: ty where
  "packages_config_ty = TClass [
     (''base'', TTuple TStr),
     (''desktops'', desktop_packages_ty),
     (''selected_desktops'', TTuple desktop_ty),
     (''display_manager'', TTuple TStr),
     (''cataloged'', TTuple TStr)]"

definition packages_config_asdict :: "packages_config \<Rightarrow> pyval" where
  "packages_config_asdict r = PDict [
     (''base'', PTuple (map PStr (base_packages r))),
     (''desktops'', desktop_packages_asdict (desktops r)),
     (''selected_desktops'', PTuple (map (PStr \<circ> desktop_text) (selected_desktops r))),
     (''display_manager'', PTuple (map PStr (display_manager r))),
     (''cataloged'', PTuple (map PStr (cataloged r)))]"

definition packages_config_of :: "pyval \<Rightarrow> packages_config" where
  "packages_config_of v = \<lparr>
     base_packages = map text_of (items_of (field_at ''base'' v)),
     desktops = desktop_packages_of (field_at ''desktops'' v),
     selected_desktops = map (member_of desktop_text desktop_members \<circ> text_of) (items_of (field_at ''selected_desktops'' v)),
     display_manager = map text_of (items_of (field_at ''display_manager'' v)),
     cataloged = map text_of (items_of (field_at ''cataloged'' v))\<rparr>"

interpretation packages_config_class: dataclass packages_config_ty packages_config_asdict packages_config_of
  by (rule dataclass.intro)
    (auto simp del: has_type.simps fields_have_type.simps
      simp add: packages_config_ty_def packages_config_asdict_def packages_config_of_def class_laws dataclass_simps)

lemmas [dataclass_simps] = packages_config_class.asdict_typed packages_config_class.instance_of_asdict
  packages_config_class.asdict_instance_of packages_config_class.tuple_laws packages_config_class.optional_laws

definition gpu_driver_packages_ty :: ty where
  "gpu_driver_packages_ty = TClass [
     (''amd'', TTuple TStr),
     (''intel'', TTuple TStr),
     (''nouveau'', TTuple TStr),
     (''nvidia_dkms'', TTuple TStr),
     (''nvidia_open'', TTuple TStr)]"

definition gpu_driver_packages_asdict :: "gpu_driver_packages \<Rightarrow> pyval" where
  "gpu_driver_packages_asdict r = PDict [
     (''amd'', PTuple (map PStr (drivers_amd r))),
     (''intel'', PTuple (map PStr (drivers_intel r))),
     (''nouveau'', PTuple (map PStr (drivers_nouveau r))),
     (''nvidia_dkms'', PTuple (map PStr (drivers_nvidia_dkms r))),
     (''nvidia_open'', PTuple (map PStr (drivers_nvidia_open r)))]"

definition gpu_driver_packages_of :: "pyval \<Rightarrow> gpu_driver_packages" where
  "gpu_driver_packages_of v = \<lparr>
     drivers_amd = map text_of (items_of (field_at ''amd'' v)),
     drivers_intel = map text_of (items_of (field_at ''intel'' v)),
     drivers_nouveau = map text_of (items_of (field_at ''nouveau'' v)),
     drivers_nvidia_dkms = map text_of (items_of (field_at ''nvidia_dkms'' v)),
     drivers_nvidia_open = map text_of (items_of (field_at ''nvidia_open'' v))\<rparr>"

interpretation gpu_driver_packages_class: dataclass gpu_driver_packages_ty gpu_driver_packages_asdict gpu_driver_packages_of
  by (rule dataclass.intro)
    (auto simp del: has_type.simps fields_have_type.simps
      simp add: gpu_driver_packages_ty_def gpu_driver_packages_asdict_def gpu_driver_packages_of_def class_laws dataclass_simps)

lemmas [dataclass_simps] = gpu_driver_packages_class.asdict_typed gpu_driver_packages_class.instance_of_asdict
  gpu_driver_packages_class.asdict_instance_of gpu_driver_packages_class.tuple_laws gpu_driver_packages_class.optional_laws

definition gpu_config_ty :: ty where
  "gpu_config_ty = TClass [
     (''vendor'', gpu_vendor_ty),
     (''driver'', gpu_driver_ty),
     (''drivers'', gpu_driver_packages_ty)]"

definition gpu_config_asdict :: "gpu_config \<Rightarrow> pyval" where
  "gpu_config_asdict r = PDict [
     (''vendor'', PStr (gpu_vendor_text (gpu_vendor r))),
     (''driver'', PStr (gpu_driver_text (gpu_driver r))),
     (''drivers'', gpu_driver_packages_asdict (gpu_drivers r))]"

definition gpu_config_of :: "pyval \<Rightarrow> gpu_config" where
  "gpu_config_of v = \<lparr>
     gpu_vendor = member_of gpu_vendor_text gpu_vendor_members (text_of (field_at ''vendor'' v)),
     gpu_driver = member_of gpu_driver_text gpu_driver_members (text_of (field_at ''driver'' v)),
     gpu_drivers = gpu_driver_packages_of (field_at ''drivers'' v)\<rparr>"

interpretation gpu_config_class: dataclass gpu_config_ty gpu_config_asdict gpu_config_of
  by (rule dataclass.intro)
    (auto simp del: has_type.simps fields_have_type.simps
      simp add: gpu_config_ty_def gpu_config_asdict_def gpu_config_of_def class_laws dataclass_simps)

lemmas [dataclass_simps] = gpu_config_class.asdict_typed gpu_config_class.instance_of_asdict
  gpu_config_class.asdict_instance_of gpu_config_class.tuple_laws gpu_config_class.optional_laws

definition snapshot_retention_ty :: ty where
  "snapshot_retention_ty = TClass [
     (''hourly'', TInt),
     (''daily'', TInt),
     (''weekly'', TInt),
     (''monthly'', TInt),
     (''yearly'', TInt)]"

definition snapshot_retention_asdict :: "snapshot_retention \<Rightarrow> pyval" where
  "snapshot_retention_asdict r = PDict [
     (''hourly'', PInt (keep_hourly r)),
     (''daily'', PInt (keep_daily r)),
     (''weekly'', PInt (keep_weekly r)),
     (''monthly'', PInt (keep_monthly r)),
     (''yearly'', PInt (keep_yearly r))]"

definition snapshot_retention_of :: "pyval \<Rightarrow> snapshot_retention" where
  "snapshot_retention_of v = \<lparr>
     keep_hourly = whole_of (field_at ''hourly'' v),
     keep_daily = whole_of (field_at ''daily'' v),
     keep_weekly = whole_of (field_at ''weekly'' v),
     keep_monthly = whole_of (field_at ''monthly'' v),
     keep_yearly = whole_of (field_at ''yearly'' v)\<rparr>"

interpretation snapshot_retention_class: dataclass snapshot_retention_ty snapshot_retention_asdict snapshot_retention_of
  by (rule dataclass.intro)
    (auto simp del: has_type.simps fields_have_type.simps
      simp add: snapshot_retention_ty_def snapshot_retention_asdict_def snapshot_retention_of_def class_laws dataclass_simps)

lemmas [dataclass_simps] = snapshot_retention_class.asdict_typed snapshot_retention_class.instance_of_asdict
  snapshot_retention_class.asdict_instance_of snapshot_retention_class.tuple_laws snapshot_retention_class.optional_laws

definition snapper_volume_config_ty :: ty where
  "snapper_volume_config_ty = TClass [
     (''subvolume'', TStr),
     (''snapshots_subvolume'', TStr),
     (''snapshots_path'', TStr),
     (''timeline'', TBool),
     (''cleanup'', TBool),
     (''number_limit'', TInt),
     (''number_limit_important'', TInt),
     (''retention'', snapshot_retention_ty)]"

definition snapper_volume_config_asdict :: "snapper_volume_config \<Rightarrow> pyval" where
  "snapper_volume_config_asdict r = PDict [
     (''subvolume'', PStr (volume_subvolume r)),
     (''snapshots_subvolume'', PStr (snapshots_subvolume r)),
     (''snapshots_path'', PStr (snapshots_path r)),
     (''timeline'', PBool (volume_timeline r)),
     (''cleanup'', PBool (volume_cleanup r)),
     (''number_limit'', PInt (number_limit r)),
     (''number_limit_important'', PInt (number_limit_important r)),
     (''retention'', snapshot_retention_asdict (volume_retention r))]"

definition snapper_volume_config_of :: "pyval \<Rightarrow> snapper_volume_config" where
  "snapper_volume_config_of v = \<lparr>
     volume_subvolume = text_of (field_at ''subvolume'' v),
     snapshots_subvolume = text_of (field_at ''snapshots_subvolume'' v),
     snapshots_path = text_of (field_at ''snapshots_path'' v),
     volume_timeline = flag_of (field_at ''timeline'' v),
     volume_cleanup = flag_of (field_at ''cleanup'' v),
     number_limit = whole_of (field_at ''number_limit'' v),
     number_limit_important = whole_of (field_at ''number_limit_important'' v),
     volume_retention = snapshot_retention_of (field_at ''retention'' v)\<rparr>"

interpretation snapper_volume_config_class: dataclass snapper_volume_config_ty snapper_volume_config_asdict snapper_volume_config_of
  by (rule dataclass.intro)
    (auto simp del: has_type.simps fields_have_type.simps
      simp add: snapper_volume_config_ty_def snapper_volume_config_asdict_def snapper_volume_config_of_def class_laws dataclass_simps)

lemmas [dataclass_simps] = snapper_volume_config_class.asdict_typed snapper_volume_config_class.instance_of_asdict
  snapper_volume_config_class.asdict_instance_of snapper_volume_config_class.tuple_laws snapper_volume_config_class.optional_laws

definition snapper_config_ty :: ty where
  "snapper_config_ty = TClass [
     (''enabled'', TBool),
     (''allow_groups'', TTuple TStr),
     (''root'', TOptional snapper_volume_config_ty),
     (''home'', TOptional snapper_volume_config_ty),
     (''snap_pac'', TBool),
     (''bootable_snapshot_count'', TInt)]"

definition snapper_config_asdict :: "snapper_config \<Rightarrow> pyval" where
  "snapper_config_asdict r = PDict [
     (''enabled'', PBool (snapper_enabled r)),
     (''allow_groups'', PTuple (map PStr (allow_groups r))),
     (''root'', optional_value snapper_volume_config_asdict (snapper_root r)),
     (''home'', optional_value snapper_volume_config_asdict (snapper_home r)),
     (''snap_pac'', PBool (snap_pac r)),
     (''bootable_snapshot_count'', PInt (bootable_snapshot_count r))]"

definition snapper_config_of :: "pyval \<Rightarrow> snapper_config" where
  "snapper_config_of v = \<lparr>
     snapper_enabled = flag_of (field_at ''enabled'' v),
     allow_groups = map text_of (items_of (field_at ''allow_groups'' v)),
     snapper_root = optional_of snapper_volume_config_of (field_at ''root'' v),
     snapper_home = optional_of snapper_volume_config_of (field_at ''home'' v),
     snap_pac = flag_of (field_at ''snap_pac'' v),
     bootable_snapshot_count = whole_of (field_at ''bootable_snapshot_count'' v)\<rparr>"

interpretation snapper_config_class: dataclass snapper_config_ty snapper_config_asdict snapper_config_of
  by (rule dataclass.intro)
    (auto simp del: has_type.simps fields_have_type.simps
      simp add: snapper_config_ty_def snapper_config_asdict_def snapper_config_of_def class_laws dataclass_simps)

lemmas [dataclass_simps] = snapper_config_class.asdict_typed snapper_config_class.instance_of_asdict
  snapper_config_class.asdict_instance_of snapper_config_class.tuple_laws snapper_config_class.optional_laws

definition notifications_config_ty :: ty where
  "notifications_config_ty = TClass [
     (''enabled'', TBool)]"

definition notifications_config_asdict :: "notifications_config \<Rightarrow> pyval" where
  "notifications_config_asdict r = PDict [
     (''enabled'', PBool (notifications_enabled r))]"

definition notifications_config_of :: "pyval \<Rightarrow> notifications_config" where
  "notifications_config_of v = \<lparr>
     notifications_enabled = flag_of (field_at ''enabled'' v)\<rparr>"

interpretation notifications_config_class: dataclass notifications_config_ty notifications_config_asdict notifications_config_of
  by (rule dataclass.intro)
    (auto simp del: has_type.simps fields_have_type.simps
      simp add: notifications_config_ty_def notifications_config_asdict_def notifications_config_of_def class_laws dataclass_simps)

lemmas [dataclass_simps] = notifications_config_class.asdict_typed notifications_config_class.instance_of_asdict
  notifications_config_class.asdict_instance_of notifications_config_class.tuple_laws notifications_config_class.optional_laws

definition firewall_ssh_config_ty :: ty where
  "firewall_ssh_config_ty = TClass [
     (''enabled'', TBool),
     (''port'', TInt),
     (''allowed_from'', TStr)]"

definition firewall_ssh_config_asdict :: "firewall_ssh_config \<Rightarrow> pyval" where
  "firewall_ssh_config_asdict r = PDict [
     (''enabled'', PBool (ssh_enabled r)),
     (''port'', PInt (ssh_port r)),
     (''allowed_from'', PStr (ssh_allowed_from r))]"

definition firewall_ssh_config_of :: "pyval \<Rightarrow> firewall_ssh_config" where
  "firewall_ssh_config_of v = \<lparr>
     ssh_enabled = flag_of (field_at ''enabled'' v),
     ssh_port = whole_of (field_at ''port'' v),
     ssh_allowed_from = text_of (field_at ''allowed_from'' v)\<rparr>"

interpretation firewall_ssh_config_class: dataclass firewall_ssh_config_ty firewall_ssh_config_asdict firewall_ssh_config_of
  by (rule dataclass.intro)
    (auto simp del: has_type.simps fields_have_type.simps
      simp add: firewall_ssh_config_ty_def firewall_ssh_config_asdict_def firewall_ssh_config_of_def class_laws dataclass_simps)

lemmas [dataclass_simps] = firewall_ssh_config_class.asdict_typed firewall_ssh_config_class.instance_of_asdict
  firewall_ssh_config_class.asdict_instance_of firewall_ssh_config_class.tuple_laws firewall_ssh_config_class.optional_laws

definition firewall_allow_rule_ty :: ty where
  "firewall_allow_rule_ty = TClass [
     (''port'', TInt),
     (''protocol'', TStr)]"

definition firewall_allow_rule_asdict :: "firewall_allow_rule \<Rightarrow> pyval" where
  "firewall_allow_rule_asdict r = PDict [
     (''port'', PInt (rule_port r)),
     (''protocol'', PStr (rule_protocol r))]"

definition firewall_allow_rule_of :: "pyval \<Rightarrow> firewall_allow_rule" where
  "firewall_allow_rule_of v = \<lparr>
     rule_port = whole_of (field_at ''port'' v),
     rule_protocol = text_of (field_at ''protocol'' v)\<rparr>"

interpretation firewall_allow_rule_class: dataclass firewall_allow_rule_ty firewall_allow_rule_asdict firewall_allow_rule_of
  by (rule dataclass.intro)
    (auto simp del: has_type.simps fields_have_type.simps
      simp add: firewall_allow_rule_ty_def firewall_allow_rule_asdict_def firewall_allow_rule_of_def class_laws dataclass_simps)

lemmas [dataclass_simps] = firewall_allow_rule_class.asdict_typed firewall_allow_rule_class.instance_of_asdict
  firewall_allow_rule_class.asdict_instance_of firewall_allow_rule_class.tuple_laws firewall_allow_rule_class.optional_laws

definition firewall_config_ty :: ty where
  "firewall_config_ty = TClass [
     (''enabled'', TBool),
     (''default_incoming'', firewall_policy_ty),
     (''default_outgoing'', firewall_policy_ty),
     (''logging'', TBool),
     (''block_icmp'', TBool),
     (''ssh'', firewall_ssh_config_ty),
     (''allow_rules'', TTuple firewall_allow_rule_ty)]"

definition firewall_config_asdict :: "firewall_config \<Rightarrow> pyval" where
  "firewall_config_asdict r = PDict [
     (''enabled'', PBool (firewall_enabled r)),
     (''default_incoming'', PStr (firewall_policy_text (default_incoming r))),
     (''default_outgoing'', PStr (firewall_policy_text (default_outgoing r))),
     (''logging'', PBool (firewall_logging r)),
     (''block_icmp'', PBool (block_icmp r)),
     (''ssh'', firewall_ssh_config_asdict (firewall_ssh r)),
     (''allow_rules'', PTuple (map firewall_allow_rule_asdict (allow_rules r)))]"

definition firewall_config_of :: "pyval \<Rightarrow> firewall_config" where
  "firewall_config_of v = \<lparr>
     firewall_enabled = flag_of (field_at ''enabled'' v),
     default_incoming = member_of firewall_policy_text firewall_policy_members (text_of (field_at ''default_incoming'' v)),
     default_outgoing = member_of firewall_policy_text firewall_policy_members (text_of (field_at ''default_outgoing'' v)),
     firewall_logging = flag_of (field_at ''logging'' v),
     block_icmp = flag_of (field_at ''block_icmp'' v),
     firewall_ssh = firewall_ssh_config_of (field_at ''ssh'' v),
     allow_rules = map firewall_allow_rule_of (items_of (field_at ''allow_rules'' v))\<rparr>"

interpretation firewall_config_class: dataclass firewall_config_ty firewall_config_asdict firewall_config_of
  by (rule dataclass.intro)
    (auto simp del: has_type.simps fields_have_type.simps
      simp add: firewall_config_ty_def firewall_config_asdict_def firewall_config_of_def class_laws dataclass_simps)

lemmas [dataclass_simps] = firewall_config_class.asdict_typed firewall_config_class.instance_of_asdict
  firewall_config_class.asdict_instance_of firewall_config_class.tuple_laws firewall_config_class.optional_laws

definition docker_config_ty :: ty where
  "docker_config_ty = TClass [
     (''enabled'', TBool),
     (''storage_driver'', TStr),
     (''data_root'', TStr),
     (''access_group'', TStr)]"

definition docker_config_asdict :: "docker_config \<Rightarrow> pyval" where
  "docker_config_asdict r = PDict [
     (''enabled'', PBool (docker_enabled r)),
     (''storage_driver'', PStr (storage_driver r)),
     (''data_root'', PStr (data_root r)),
     (''access_group'', PStr (access_group r))]"

definition docker_config_of :: "pyval \<Rightarrow> docker_config" where
  "docker_config_of v = \<lparr>
     docker_enabled = flag_of (field_at ''enabled'' v),
     storage_driver = text_of (field_at ''storage_driver'' v),
     data_root = text_of (field_at ''data_root'' v),
     access_group = text_of (field_at ''access_group'' v)\<rparr>"

interpretation docker_config_class: dataclass docker_config_ty docker_config_asdict docker_config_of
  by (rule dataclass.intro)
    (auto simp del: has_type.simps fields_have_type.simps
      simp add: docker_config_ty_def docker_config_asdict_def docker_config_of_def class_laws dataclass_simps)

lemmas [dataclass_simps] = docker_config_class.asdict_typed docker_config_class.instance_of_asdict
  docker_config_class.asdict_instance_of docker_config_class.tuple_laws docker_config_class.optional_laws

definition backup_item_config_ty :: ty where
  "backup_item_config_ty = TClass [
     (''name'', TStr),
     (''source_path'', TStr),
     (''description'', TStr)]"

definition backup_item_config_asdict :: "backup_item_config \<Rightarrow> pyval" where
  "backup_item_config_asdict r = PDict [
     (''name'', PStr (item_name r)),
     (''source_path'', PStr (item_source_path r)),
     (''description'', PStr (item_description r))]"

definition backup_item_config_of :: "pyval \<Rightarrow> backup_item_config" where
  "backup_item_config_of v = \<lparr>
     item_name = text_of (field_at ''name'' v),
     item_source_path = text_of (field_at ''source_path'' v),
     item_description = text_of (field_at ''description'' v)\<rparr>"

interpretation backup_item_config_class: dataclass backup_item_config_ty backup_item_config_asdict backup_item_config_of
  by (rule dataclass.intro)
    (auto simp del: has_type.simps fields_have_type.simps
      simp add: backup_item_config_ty_def backup_item_config_asdict_def backup_item_config_of_def class_laws dataclass_simps)

lemmas [dataclass_simps] = backup_item_config_class.asdict_typed backup_item_config_class.instance_of_asdict
  backup_item_config_class.asdict_instance_of backup_item_config_class.tuple_laws backup_item_config_class.optional_laws

definition sync_config_ty :: ty where
  "sync_config_ty = TClass [
     (''backup_partition'', TStr),
     (''backup_items'', TTuple backup_item_config_ty),
     (''backup_categories'', TTuple backup_category_ty)]"

definition sync_config_asdict :: "sync_config \<Rightarrow> pyval" where
  "sync_config_asdict r = PDict [
     (''backup_partition'', PStr (backup_partition r)),
     (''backup_items'', PTuple (map backup_item_config_asdict (backup_items r))),
     (''backup_categories'', PTuple (map (PStr \<circ> backup_category_text) (backup_categories r)))]"

definition sync_config_of :: "pyval \<Rightarrow> sync_config" where
  "sync_config_of v = \<lparr>
     backup_partition = text_of (field_at ''backup_partition'' v),
     backup_items = map backup_item_config_of (items_of (field_at ''backup_items'' v)),
     backup_categories = map (member_of backup_category_text backup_category_members \<circ> text_of) (items_of (field_at ''backup_categories'' v))\<rparr>"

interpretation sync_config_class: dataclass sync_config_ty sync_config_asdict sync_config_of
  by (rule dataclass.intro)
    (auto simp del: has_type.simps fields_have_type.simps
      simp add: sync_config_ty_def sync_config_asdict_def sync_config_of_def class_laws dataclass_simps)

lemmas [dataclass_simps] = sync_config_class.asdict_typed sync_config_class.instance_of_asdict
  sync_config_class.asdict_instance_of sync_config_class.tuple_laws sync_config_class.optional_laws

definition migration_config_ty :: ty where
  "migration_config_ty = TClass [
     (''enabled'', TBool),
     (''preserve_home'', TBool),
     (''preserve_secure_boot_keys'', TBool),
     (''additional_paths'', TTuple TStr)]"

definition migration_config_asdict :: "migration_config \<Rightarrow> pyval" where
  "migration_config_asdict r = PDict [
     (''enabled'', PBool (migration_enabled r)),
     (''preserve_home'', PBool (preserve_home r)),
     (''preserve_secure_boot_keys'', PBool (preserve_secure_boot_keys r)),
     (''additional_paths'', PTuple (map PStr (additional_paths r)))]"

definition migration_config_of :: "pyval \<Rightarrow> migration_config" where
  "migration_config_of v = \<lparr>
     migration_enabled = flag_of (field_at ''enabled'' v),
     preserve_home = flag_of (field_at ''preserve_home'' v),
     preserve_secure_boot_keys = flag_of (field_at ''preserve_secure_boot_keys'' v),
     additional_paths = map text_of (items_of (field_at ''additional_paths'' v))\<rparr>"

interpretation migration_config_class: dataclass migration_config_ty migration_config_asdict migration_config_of
  by (rule dataclass.intro)
    (auto simp del: has_type.simps fields_have_type.simps
      simp add: migration_config_ty_def migration_config_asdict_def migration_config_of_def class_laws dataclass_simps)

lemmas [dataclass_simps] = migration_config_class.asdict_typed migration_config_class.instance_of_asdict
  migration_config_class.asdict_instance_of migration_config_class.tuple_laws migration_config_class.optional_laws

definition usb_boot_config_ty :: ty where
  "usb_boot_config_ty = TClass [
     (''enabled'', TBool),
     (''device'', TStr),
     (''recovery_system'', TBool),
     (''iso_path'', TStr)]"

definition usb_boot_config_asdict :: "usb_boot_config \<Rightarrow> pyval" where
  "usb_boot_config_asdict r = PDict [
     (''enabled'', PBool (usb_boot_enabled r)),
     (''device'', PStr (usb_device r)),
     (''recovery_system'', PBool (recovery_system r)),
     (''iso_path'', PStr (iso_path r))]"

definition usb_boot_config_of :: "pyval \<Rightarrow> usb_boot_config" where
  "usb_boot_config_of v = \<lparr>
     usb_boot_enabled = flag_of (field_at ''enabled'' v),
     usb_device = text_of (field_at ''device'' v),
     recovery_system = flag_of (field_at ''recovery_system'' v),
     iso_path = text_of (field_at ''iso_path'' v)\<rparr>"

interpretation usb_boot_config_class: dataclass usb_boot_config_ty usb_boot_config_asdict usb_boot_config_of
  by (rule dataclass.intro)
    (auto simp del: has_type.simps fields_have_type.simps
      simp add: usb_boot_config_ty_def usb_boot_config_asdict_def usb_boot_config_of_def class_laws dataclass_simps)

lemmas [dataclass_simps] = usb_boot_config_class.asdict_typed usb_boot_config_class.instance_of_asdict
  usb_boot_config_class.asdict_instance_of usb_boot_config_class.tuple_laws usb_boot_config_class.optional_laws

definition encrypted_secrets_config_ty :: ty where
  "encrypted_secrets_config_ty = TClass [
     (''luks_password_encrypted'', TStr),
     (''user_password_encrypted'', TStr)]"

definition encrypted_secrets_config_asdict :: "encrypted_secrets_config \<Rightarrow> pyval" where
  "encrypted_secrets_config_asdict r = PDict [
     (''luks_password_encrypted'', PStr (luks_password_encrypted r)),
     (''user_password_encrypted'', PStr (user_password_encrypted r))]"

definition encrypted_secrets_config_of :: "pyval \<Rightarrow> encrypted_secrets_config" where
  "encrypted_secrets_config_of v = \<lparr>
     luks_password_encrypted = text_of (field_at ''luks_password_encrypted'' v),
     user_password_encrypted = text_of (field_at ''user_password_encrypted'' v)\<rparr>"

interpretation encrypted_secrets_config_class: dataclass encrypted_secrets_config_ty encrypted_secrets_config_asdict encrypted_secrets_config_of
  by (rule dataclass.intro)
    (auto simp del: has_type.simps fields_have_type.simps
      simp add: encrypted_secrets_config_ty_def encrypted_secrets_config_asdict_def encrypted_secrets_config_of_def class_laws dataclass_simps)

lemmas [dataclass_simps] = encrypted_secrets_config_class.asdict_typed encrypted_secrets_config_class.instance_of_asdict
  encrypted_secrets_config_class.asdict_instance_of encrypted_secrets_config_class.tuple_laws encrypted_secrets_config_class.optional_laws

definition credentials_ty :: ty where
  "credentials_ty = TClass [
     (''luks_password'', TStr),
     (''user_password'', TStr),
     (''source_luks_password'', TStr)]"

definition credentials_asdict :: "credentials \<Rightarrow> pyval" where
  "credentials_asdict r = PDict [
     (''luks_password'', PStr (luks_password r)),
     (''user_password'', PStr (user_password r)),
     (''source_luks_password'', PStr (source_luks_password r))]"

definition credentials_of :: "pyval \<Rightarrow> credentials" where
  "credentials_of v = \<lparr>
     luks_password = text_of (field_at ''luks_password'' v),
     user_password = text_of (field_at ''user_password'' v),
     source_luks_password = text_of (field_at ''source_luks_password'' v)\<rparr>"

interpretation credentials_class: dataclass credentials_ty credentials_asdict credentials_of
  by (rule dataclass.intro)
    (auto simp del: has_type.simps fields_have_type.simps
      simp add: credentials_ty_def credentials_asdict_def credentials_of_def class_laws dataclass_simps)

lemmas [dataclass_simps] = credentials_class.asdict_typed credentials_class.instance_of_asdict
  credentials_class.asdict_instance_of credentials_class.tuple_laws credentials_class.optional_laws

definition installer_config_ty :: ty where
  "installer_config_ty = TClass [
     (''system'', system_config_ty),
     (''packages'', packages_config_ty),
     (''storage'', storage_config_ty),
     (''boot'', boot_config_ty),
     (''gpu'', gpu_config_ty),
     (''snapper'', snapper_config_ty),
     (''firewall'', firewall_config_ty),
     (''docker'', docker_config_ty),
     (''notifications'', notifications_config_ty),
     (''sync'', sync_config_ty),
     (''migration'', migration_config_ty),
     (''usb_boot'', usb_boot_config_ty),
     (''secrets'', encrypted_secrets_config_ty),
     (''credentials'', credentials_ty)]"

definition installer_config_asdict :: "installer_config \<Rightarrow> pyval" where
  "installer_config_asdict r = PDict [
     (''system'', system_config_asdict (system r)),
     (''packages'', packages_config_asdict (packages r)),
     (''storage'', storage_config_asdict (storage r)),
     (''boot'', boot_config_asdict (boot r)),
     (''gpu'', gpu_config_asdict (gpu r)),
     (''snapper'', snapper_config_asdict (snapper r)),
     (''firewall'', firewall_config_asdict (firewall r)),
     (''docker'', docker_config_asdict (docker r)),
     (''notifications'', notifications_config_asdict (notifications r)),
     (''sync'', sync_config_asdict (sync r)),
     (''migration'', migration_config_asdict (migration r)),
     (''usb_boot'', usb_boot_config_asdict (usb_boot r)),
     (''secrets'', encrypted_secrets_config_asdict (secrets r)),
     (''credentials'', credentials_asdict (credentials r))]"

definition installer_config_of :: "pyval \<Rightarrow> installer_config" where
  "installer_config_of v = \<lparr>
     system = system_config_of (field_at ''system'' v),
     packages = packages_config_of (field_at ''packages'' v),
     storage = storage_config_of (field_at ''storage'' v),
     boot = boot_config_of (field_at ''boot'' v),
     gpu = gpu_config_of (field_at ''gpu'' v),
     snapper = snapper_config_of (field_at ''snapper'' v),
     firewall = firewall_config_of (field_at ''firewall'' v),
     docker = docker_config_of (field_at ''docker'' v),
     notifications = notifications_config_of (field_at ''notifications'' v),
     sync = sync_config_of (field_at ''sync'' v),
     migration = migration_config_of (field_at ''migration'' v),
     usb_boot = usb_boot_config_of (field_at ''usb_boot'' v),
     secrets = encrypted_secrets_config_of (field_at ''secrets'' v),
     credentials = credentials_of (field_at ''credentials'' v)\<rparr>"

interpretation installer_config_class: dataclass installer_config_ty installer_config_asdict installer_config_of
  by (rule dataclass.intro)
    (auto simp del: has_type.simps fields_have_type.simps
      simp add: installer_config_ty_def installer_config_asdict_def installer_config_of_def class_laws dataclass_simps)

lemmas [dataclass_simps] = installer_config_class.asdict_typed installer_config_class.instance_of_asdict
  installer_config_class.asdict_instance_of installer_config_class.tuple_laws installer_config_class.optional_laws

subsection \<open>Exporting the configuration\<close>

text \<open>
  The shape of \<^verbatim>\<open>config.yaml\<close>, without passwords, for \<^verbatim>\<open>final_config.yaml\<close> and the USB
  backups: tuples become lists, and the two sections with secrets are left out.
\<close>

fun plain_yaml_value :: "pyval \<Rightarrow> pyval" where
  "plain_yaml_value (PDict d) = PDict (map (\<lambda>(key, item). (key, plain_yaml_value item)) d)"
| "plain_yaml_value (PTuple xs) = PList (map plain_yaml_value xs)"
| "plain_yaml_value v = v"

definition exportable_config :: "installer_config \<Rightarrow> pyval" where
  "exportable_config c =
     (case plain_yaml_value (installer_config_asdict c) of
        PDict d \<Rightarrow> PDict (filter (\<lambda>(key, _). key \<noteq> ''credentials'' \<and> key \<noteq> ''secrets'') d)
      | v \<Rightarrow> v)"

lemma exportable_config_sections:
  "exportable_config c = PDict [
     (''system'', plain_yaml_value (system_config_asdict (system c))),
     (''packages'', plain_yaml_value (packages_config_asdict (packages c))),
     (''storage'', plain_yaml_value (storage_config_asdict (storage c))),
     (''boot'', plain_yaml_value (boot_config_asdict (boot c))),
     (''gpu'', plain_yaml_value (gpu_config_asdict (gpu c))),
     (''snapper'', plain_yaml_value (snapper_config_asdict (snapper c))),
     (''firewall'', plain_yaml_value (firewall_config_asdict (firewall c))),
     (''docker'', plain_yaml_value (docker_config_asdict (docker c))),
     (''notifications'', plain_yaml_value (notifications_config_asdict (notifications c))),
     (''sync'', plain_yaml_value (sync_config_asdict (sync c))),
     (''migration'', plain_yaml_value (migration_config_asdict (migration c))),
     (''usb_boot'', plain_yaml_value (usb_boot_config_asdict (usb_boot c)))]"
  by (simp add: exportable_config_def installer_config_asdict_def)

end
