(* ===== verification/Usb_Backup.thy ===== *)
theory Usb_Backup
  imports Executor_Base Config_Schema
begin

text \<open>
  \<^verbatim>\<open>executors/usb_backup.py\<close>: dotfiles, password databases, browser profiles, system files and
  the package list, copied to a partition the user provides.

  \<^verbatim>\<open>yaml.safe_dump\<close> is the parameter \<open>dump\<close> (block style, keys in their order: all calls of the
  step agree on these options).
\<close>

definition BACKUP_MOUNT :: string where "BACKUP_MOUNT = ''/mnt/usb-backup''"
definition CUSTOM_ITEMS_DIRECTORY :: string where "CUSTOM_ITEMS_DIRECTORY = ''custom''"

definition backup_item :: "string \<Rightarrow> string \<Rightarrow> string \<Rightarrow> backup_item_config" where
  "backup_item name source description =
     \<lparr>item_name = name, item_source_path = source, item_description = description\<rparr>"

fun backup_items_of :: "backup_category \<Rightarrow> backup_item_config list" where
  "backup_items_of Backup_Dotfiles = [
     backup_item ''zshrc'' ''~/.zshrc'' ''ZSH config'',
     backup_item ''zshenv'' ''~/.zshenv'' ''ZSH environment'',
     backup_item ''bashrc'' ''~/.bashrc'' ''Bash config'',
     backup_item ''gitconfig'' ''~/.gitconfig'' ''Git config'',
     backup_item ''gitignore'' ''~/.gitignore_global'' ''Git global ignore'',
     backup_item ''kitty'' ''~/.config/kitty'' ''Kitty terminal config'',
     backup_item ''alacritty'' ''~/.config/alacritty'' ''Alacritty config'',
     backup_item ''nvim'' ''~/.config/nvim'' ''Neovim config'',
     backup_item ''vscode_settings'' ''~/.config/Code/User/settings.json'' ''VS Code settings'',
     backup_item ''vscode_keybindings'' ''~/.config/Code/User/keybindings.json'' ''VS Code keybindings'',
     backup_item ''starship'' ''~/.config/starship.toml'' ''Starship prompt config'',
     backup_item ''tmux'' ''~/.tmux.conf'' ''Tmux config'',
     backup_item ''hypr'' ''~/.config/hypr'' ''Hyprland config'',
     backup_item ''waybar'' ''~/.config/waybar'' ''Waybar config'',
     backup_item ''rofi'' ''~/.config/rofi'' ''Rofi config'',
     backup_item ''dunst'' ''~/.config/dunst'' ''Dunst notification config'']"
| "backup_items_of Backup_Keepass = [
     backup_item ''keepassxc_db'' ''~/Documents/Passwords.kdbx'' ''KeePassXC database'',
     backup_item ''keepassxc_config'' ''~/.config/keepassxc'' ''KeePassXC config'']"
| "backup_items_of Backup_Browser = [
     backup_item ''firefox_profile'' ''~/.mozilla/firefox'' ''Firefox profile'',
     backup_item ''chromium_profile'' ''~/.config/chromium'' ''Chromium profile'']"
| "backup_items_of Backup_System = [
     backup_item ''pacman_conf'' ''/etc/pacman.conf'' ''Pacman config'',
     backup_item ''makepkg_conf'' ''/etc/makepkg.conf'' ''Makepkg config'',
     backup_item ''mkinitcpio_conf'' ''/etc/mkinitcpio.conf'' ''Mkinitcpio config'']"

record backup_manifest =
  manifest_timestamp :: string
  manifest_hostname :: string
  manifest_categories :: "string list"
  package_count :: int
  items_backed_up :: "string list"

definition manifest_value :: "backup_manifest \<Rightarrow> pyval" where
  "manifest_value m = PDict [
     (''timestamp'', PStr (manifest_timestamp m)),
     (''hostname'', PStr (manifest_hostname m)),
     (''categories'', PList (map PStr (manifest_categories m))),
     (''package_count'', PInt (package_count m)),
     (''items_backed_up'', PList (map PStr (items_backed_up m)))]"

definition package_catalog :: "(pyval \<Rightarrow> string) \<Rightarrow> string list \<Rightarrow> string" where
  "package_catalog dump package_names =
     ''# explicitly installed packages of the backed up system'' @ NL @
     dump (PDict [(''packages'', PDict [(''cataloged'', PList (map PStr package_names))])])"

definition expand_home :: "installer_config \<Rightarrow> string \<Rightarrow> string" where
  "expand_home c path =
     (if prefix ''~'' path
      then replace_first ''~'' (''/home/'' @ user_name (sys_user (system c))) path
      else path)"

definition copy_item :: "string \<Rightarrow> string \<Rightarrow> bool action" where
  "copy_item source destination =
     bindA (path_exists source) (\<lambda>there.
       if \<not> there then returnA False
       else bindA (directory_exists source) (\<lambda>is_directory.
         thenA
           (if is_directory then seqA [
              do_sh (''mkdir -p '' @ destination),
              do_sh (''rsync -a --delete '' @ source @ ''/ '' @ destination @ ''/'')]
            else do_sh (''cp -a '' @ source @ '' '' @ destination))
           (returnA True)))"

definition backup_groups :: "installer_config \<Rightarrow> (string, backup_item_config list) dict" where
  "backup_groups c =
     map (\<lambda>category. (backup_category_text category, backup_items_of category))
       (backup_categories (sync c)) @
     (if backup_items (sync c) \<noteq> [] then [(CUSTOM_ITEMS_DIRECTORY, backup_items (sync c))] else [])"

fun copy_groups ::
  "installer_config \<Rightarrow> (string, backup_item_config list) dict \<Rightarrow> string list action" where
  "copy_groups c [] = returnA []"
| "copy_groups c ((group_directory, item_list) # groups) =
     thenA (do_sh (''mkdir -p '' @ BACKUP_MOUNT @ ''/'' @ group_directory))
       (bindA (filterA (\<lambda>item. copy_item (expand_home c (item_source_path item))
                 (BACKUP_MOUNT @ ''/'' @ group_directory @ ''/'' @ item_name item)) item_list) (\<lambda>copied.
         bindA (copy_groups c groups) (\<lambda>others.
           returnA (map (\<lambda>item. group_directory @ ''/'' @ item_name item) copied @ others))))"

definition explicitly_installed_packages :: "string list action" where
  "explicitly_installed_packages =
     bindA (sh_ok ''pacman -Qqe'') (\<lambda>result.
       returnA (if \<not> success result then []
                else filter (\<lambda>name. name \<noteq> []) (split_ws (stdout result))))"

definition write_config_exports ::
  "(pyval \<Rightarrow> string) \<Rightarrow> installer_config \<Rightarrow> string list \<Rightarrow> unit action" where
  "write_config_exports dump c package_names =
     (let config_directory = BACKUP_MOUNT @ ''/config'' in seqA [
        do_sh (''mkdir -p '' @ config_directory),
        write_file (config_directory @ ''/package_catalog.yaml'') (package_catalog dump package_names),
        write_file (config_directory @ ''/config.yaml'') (dump (exportable_config c))])"

definition command_output :: "string \<Rightarrow> string action" where
  "command_output line =
     bindA (sh_ok line) (\<lambda>result.
       returnA (if success result then strip (stdout result) else ''unknown''))"

definition backup_everything :: "(pyval \<Rightarrow> string) \<Rightarrow> installer_config \<Rightarrow> unit action" where
  "backup_everything dump c =
     bindA (copy_groups c (backup_groups c)) (\<lambda>copied.
       bindA explicitly_installed_packages (\<lambda>package_names.
         thenA (write_config_exports dump c package_names)
           (bindA (command_output ''date -Iseconds'') (\<lambda>timestamp.
             bindA (command_output ''hostname'') (\<lambda>host.
               write_file (BACKUP_MOUNT @ ''/manifest.yaml'')
                 (dump (manifest_value
                   \<lparr>manifest_timestamp = timestamp, manifest_hostname = host,
                    manifest_categories = map backup_category_text (backup_categories (sync c)),
                    package_count = int (length package_names), items_backed_up = copied\<rparr>)))))))"

definition usb_backup_execute :: "(pyval \<Rightarrow> string) \<Rightarrow> installer_config \<Rightarrow> unit action" where
  "usb_backup_execute dump c =
     (let part = backup_partition (sync c) in
      if part = []
      then raiseA (Configuration_Error
        ''No partition to back up to (BACKUP_PARTITION or sync.backup_partition)'')
      else bindA (path_exists part) (\<lambda>there.
        if \<not> there
        then raiseA (Configuration_Error (''Backup partition '' @ part @ '' does not exist''))
        else thenA (do_sh (''mkdir -p '' @ BACKUP_MOUNT))
          (bindA (is_mountpoint BACKUP_MOUNT) (\<lambda>mounted.
            thenA (whenA (\<not> mounted) (do_sh (''mount '' @ part @ '' '' @ BACKUP_MOUNT)))
              (finallyA (backup_everything dump c) (do_sh_ok (''umount '' @ BACKUP_MOUNT)))))))"

subsection \<open>The contract of the step executors\<close>

lemmas usb_backup_actions = usb_backup_execute_def backup_everything_def command_output_def
  write_config_exports_def explicitly_installed_packages_def copy_item_def

lemma copy_item_rules [emits_intros]:
  assumes "P (''test -e '' @ source)" and "P (''test -d '' @ source)" and "P (''mkdir -p '' @ destination)"
    and "P (''rsync -a --delete '' @ source @ ''/ '' @ destination @ ''/'')"
    and "P (''cp -a '' @ source @ '' '' @ destination)"
  shows "emits P (copy_item source destination)"
  unfolding copy_item_def using assms by (auto intro!: emits_intros)

lemma copy_item_oblivious [oblivious_intros]: "indist (copy_item source destination) (copy_item source destination)"
  unfolding copy_item_def by (intro oblivious_intros)

lemma copy_groups_grows: "emits (\<lambda>_. True) (copy_groups c groups)"
  by (induction c groups rule: copy_groups.induct) (auto intro!: emits_intros)

lemma copy_groups_oblivious [oblivious_intros]:
  "indist (copy_groups c groups) (copy_groups (without_credentials c) groups)"
  by (induction c groups rule: copy_groups.induct) (auto simp: expand_home_def intro!: oblivious_intros)

interpretation usb_backup_step: step_executor "usb_backup_execute dump" for dump
proof
  fix c
  show "emits (\<lambda>_. True) (usb_backup_execute dump c)"
    unfolding usb_backup_actions Let_def by (intro emits_intros copy_groups_grows TrueI)
  show "indist (usb_backup_execute dump c) (usb_backup_execute dump (without_credentials c))"
    unfolding usb_backup_actions backup_groups_def Let_def without_credentials_simps
    by (intro oblivious_intros)
qed

end
