(* ===== verification/Firewall.thy ===== *)
theory Firewall
  imports Executor_Base
begin

text \<open>
  \<^verbatim>\<open>executors/firewall.py\<close>: UFW, configured offline and enabled on the installed system's
  first boot.
\<close>

definition UFW_CONF :: string where "UFW_CONF = TARGET_ROOT @ ''/etc/ufw/ufw.conf''"
definition UFW_BEFORE_RULES :: string where "UFW_BEFORE_RULES = TARGET_ROOT @ ''/etc/ufw/before.rules''"

definition INBOUND_ICMP_ACCEPT_RULES :: "string list" where
  "INBOUND_ICMP_ACCEPT_RULES = [
     ''-A ufw-before-input -p icmp --icmp-type destination-unreachable -j ACCEPT'',
     ''-A ufw-before-input -p icmp --icmp-type time-exceeded -j ACCEPT'',
     ''-A ufw-before-input -p icmp --icmp-type parameter-problem -j ACCEPT'',
     ''-A ufw-before-input -p icmp --icmp-type echo-request -j ACCEPT'']"

definition set_enabled_on_boot :: "bool \<Rightarrow> unit action" where
  "set_enabled_on_boot enabled =
     (let flag = (if enabled then ''yes'' else ''no'') in
      do_sh (''sed -i '' @ SQ @ ''s/^ENABLED=.*/ENABLED='' @ flag @ ''/'' @ SQ @ '' '' @ UFW_CONF))"

definition escaped_rule :: "string \<Rightarrow> string" where
  "escaped_rule rule =
     replace_all ''-'' (BSLASH @ ''-'') (replace_all ''.'' (BSLASH @ ''.'')
       (replace_all ''/'' (BSLASH @ ''/'') rule))"

definition delete_icmp_rule :: "string \<Rightarrow> unit action" where
  "delete_icmp_rule rule =
     do_sh_ok (''sed -i '' @ SQ @ ''/'' @ escaped_rule rule @ ''/d'' @ SQ @ '' '' @ UFW_BEFORE_RULES)"

definition allow_ssh :: "firewall_ssh_config \<Rightarrow> unit action" where
  "allow_ssh ssh = seqA [
     (if ssh_allowed_from ssh \<noteq> []
      then do_chroot (''ufw allow from '' @ ssh_allowed_from ssh @ '' to any port '' @
             string_of_int (ssh_port ssh) @ '' proto tcp'')
      else do_chroot (''ufw allow '' @ string_of_int (ssh_port ssh) @ ''/tcp'')),
     do_chroot ''systemctl enable sshd.service'']"

definition allow_rule :: "firewall_allow_rule \<Rightarrow> unit action" where
  "allow_rule rule =
     do_chroot (''ufw allow '' @ string_of_int (rule_port rule) @ ''/'' @ rule_protocol rule)"

definition configure_rules :: "firewall_config \<Rightarrow> unit action" where
  "configure_rules f = seqA [
     do_chroot (''ufw default '' @ firewall_policy_text (default_incoming f) @ '' incoming''),
     do_chroot (''ufw default '' @ firewall_policy_text (default_outgoing f) @ '' outgoing''),
     whenA (firewall_logging f) (do_chroot ''ufw logging on''),
     whenA (block_icmp f) (forA INBOUND_ICMP_ACCEPT_RULES delete_icmp_rule),
     whenA (ssh_enabled (firewall_ssh f)) (allow_ssh (firewall_ssh f)),
     forA (allow_rules f) allow_rule,
     do_chroot ''systemctl enable ufw.service'']"

definition firewall_execute :: "installer_config \<Rightarrow> unit action" where
  "firewall_execute c = seqA [
     bindA (succeeds (chroot_ok ''pacman -Q ufw'')) (\<lambda>installed.
       whenA (\<not> installed) (do_chroot ''pacman -S --noconfirm ufw'')),
     set_enabled_on_boot False,
     configure_rules (firewall c),
     set_enabled_on_boot True]"

subsection \<open>The contract of the step executors\<close>

lemmas firewall_actions = firewall_execute_def configure_rules_def allow_rule_def allow_ssh_def
  delete_icmp_rule_def set_enabled_on_boot_def

interpretation firewall_step: step_executor firewall_execute
proof
  fix c
  show "emits (\<lambda>_. True) (firewall_execute c)"
    unfolding firewall_actions Let_def by (intro emits_intros TrueI)
  show "indist (firewall_execute c) (firewall_execute (without_credentials c))"
    unfolding firewall_actions Let_def without_credentials_simps
    by (intro oblivious_intros)
qed

end
