(* ===== verification/Packages.thy ===== *)
theory Packages
  imports Executor_Base
begin

text \<open>
  \<^verbatim>\<open>executors/packages.py\<close>: which packages are installed (base system, kernels, microcode,
  desktops, GPU drivers), how, and the services they need.
\<close>

definition MICROCODE_PACKAGES :: "(cpu_vendor, string) dict" where
  "MICROCODE_PACKAGES = [(Cpu_Amd, ''amd-ucode''), (Cpu_Intel, ''intel-ucode'')]"

subsection \<open>The list of packages\<close>

definition without_other_microcode :: "cpu_vendor \<Rightarrow> string list \<Rightarrow> string list" where
  "without_other_microcode vendor pkgs =
     (if vendor = Cpu_Unknown then pkgs
      else let unwanted = map snd (filter (\<lambda>(v, _). v \<noteq> vendor) MICROCODE_PACKAGES)
           in filter (\<lambda>p. p \<notin> set unwanted) pkgs)"

definition unselected_kernels :: "boot_config \<Rightarrow> string list" where
  "unselected_kernels b =
     filter (\<lambda>k. k \<notin> set (kernel_packages b)) (map kernel_package (kernels b))"

definition without_unselected_kernels :: "boot_config \<Rightarrow> string list \<Rightarrow> string list" where
  "without_unselected_kernels b pkgs =
     (let unselected = unselected_kernels b;
          unwanted = unselected @ map (\<lambda>kernel. kernel @ ''-headers'') unselected
      in filter (\<lambda>p. p \<notin> set unwanted) pkgs)"

definition desktop_package_list :: "packages_config \<Rightarrow> string list" where
  "desktop_package_list p =
     (if selected_desktops p = [] then []
      else concat (map (packages_for (desktops p)) (selected_desktops p)) @ display_manager p)"

definition gpu_packages :: "gpu_config \<Rightarrow> string list" where
  "gpu_packages g = (let drivers = gpu_drivers g in
     if gpu_vendor g = Gpu_Amd then drivers_amd drivers
     else if gpu_vendor g = Gpu_Intel then drivers_intel drivers
     else if gpu_vendor g = Gpu_Nvidia then
       (if gpu_driver g = Driver_Nouveau then drivers_nouveau drivers
        else if gpu_driver g = Driver_Nvidia_Open then drivers_nvidia_open drivers
        else drivers_nvidia_dkms drivers)
     else [])"

definition collect_packages :: "installer_config \<Rightarrow> string list" where
  "collect_packages c =
     (let pkgs = base_packages (packages c) @ cataloged (packages c);
          pkgs = without_other_microcode (cpu_vendor (system c)) pkgs;
          pkgs = without_unselected_kernels (boot c) pkgs
      in keep_first (pkgs @ desktop_package_list (packages c) @ gpu_packages (gpu c)))"

subsection \<open>Installing them\<close>

definition create_vconsole_config :: "installer_config \<Rightarrow> unit action" where
  "create_vconsole_config c =
     (let vconsole_path = TARGET_ROOT @ ''/etc/vconsole.conf'' in seqA [
        do_sh (''mkdir -p '' @ TARGET_ROOT @ ''/etc''),
        bindA (file_exists vconsole_path) (\<lambda>there. whenA (\<not> there)
          (write_file vconsole_path (''KEYMAP='' @ locale_keymap (sys_locale (system c)) @ NL)))])"

definition clear_pacman_locks :: "unit action" where
  "clear_pacman_locks = seqA [
     do_sh_ok ''rm -f /var/lib/pacman/db.lck'',
     do_sh_ok (''mkdir -p '' @ TARGET_ROOT @ ''/var/lib/pacman''),
     do_sh_ok (''rm -f '' @ TARGET_ROOT @ ''/var/lib/pacman/db.lck'')]"

definition install_packages :: "string list \<Rightarrow> unit action" where
  "install_packages pkgs = (let package_list = join '' '' pkgs in
     bindA (file_exists (TARGET_ROOT @ ''/etc/os-release'')) (\<lambda>installed.
       if installed then do_chroot_ok (''pacman -Syu --noconfirm --needed '' @ package_list)
       else do_sh (''pacstrap -K '' @ TARGET_ROOT @ '' --noconfirm '' @ package_list)))"

definition copy_pacman_config :: "unit action" where
  "copy_pacman_config = (let pacman_conf = TARGET_ROOT @ ''/etc/pacman.conf'' in
     bindA (file_exists pacman_conf) (\<lambda>there.
       whenA (\<not> there) (do_sh (''cp /etc/pacman.conf '' @ pacman_conf))))"

definition generate_fstab :: "unit action" where
  "generate_fstab = (let fstab_path = TARGET_ROOT @ ''/etc/fstab'' in
     bindA (succeeds (sh_ok (''grep -q '' @ SQ @ ''^[^#]'' @ SQ @ '' '' @ fstab_path))) (\<lambda>has_entries.
       if has_entries then returnA ()
       else do_sh (''genfstab -U '' @ TARGET_ROOT @ '' >> '' @ fstab_path)))"

definition enable_display_manager :: "string \<Rightarrow> unit action" where
  "enable_display_manager dm =
     bindA (succeeds (chroot_ok (''pacman -Q '' @ dm))) (\<lambda>installed.
       whenA installed (do_chroot_ok (''systemctl enable '' @ dm @ ''.service'')))"

definition enable_services :: "installer_config \<Rightarrow> unit action" where
  "enable_services c = seqA [
     do_chroot ''systemctl enable NetworkManager.service'',
     bindA (succeeds (chroot_ok ''pacman -Q openssh'')) (\<lambda>installed.
       whenA installed (do_chroot ''systemctl enable sshd.service'')),
     whenA (selected_desktops (packages c) \<noteq> [])
       (forA (display_manager (packages c)) enable_display_manager)]"

definition packages_execute :: "installer_config \<Rightarrow> unit action" where
  "packages_execute c = seqA [
     create_vconsole_config c,
     clear_pacman_locks,
     install_packages (collect_packages c),
     copy_pacman_config,
     generate_fstab,
     enable_services c]"

subsection \<open>The contract of the step executors\<close>

lemmas packages_actions = packages_execute_def enable_services_def enable_display_manager_def
  generate_fstab_def copy_pacman_config_def install_packages_def clear_pacman_locks_def
  create_vconsole_config_def

interpretation packages_step: step_executor packages_execute
proof
  fix c
  show "emits (\<lambda>_. True) (packages_execute c)"
    unfolding packages_actions Let_def by (intro emits_intros TrueI)
  show "indist (packages_execute c) (packages_execute (without_credentials c))"
    unfolding packages_actions collect_packages_def Let_def without_credentials_simps
    by (intro oblivious_intros)
qed

end
