(* ===== verification/Gpu.thy ===== *)
theory Gpu
  imports Executor_Base
begin

text \<open>\<^verbatim>\<open>executors/gpu.py\<close>: the setup step of the proprietary NVIDIA driver.\<close>

definition NVIDIA_MODPROBE_DRM_OPTIONS :: string where
  "NVIDIA_MODPROBE_DRM_OPTIONS = ''options nvidia_drm modeset=1 fbdev=1''"
definition NVIDIA_INITRAMFS_MODULES :: "string list" where
  "NVIDIA_INITRAMFS_MODULES = [''nvidia'', ''nvidia_modeset'', ''nvidia_uvm'', ''nvidia_drm'']"
definition NVIDIA_DRIVER_PACKAGES :: "string list" where
  "NVIDIA_DRIVER_PACKAGES = [''nvidia'', ''nvidia-dkms'', ''nvidia-open'']"

definition initramfs_rebuild_hook :: "string list \<Rightarrow> string" where
  "initramfs_rebuild_hook kernel_pkgs = text_block [
     ''[Trigger]'',
     ''Operation=Install'',
     ''Operation=Upgrade'',
     ''Operation=Remove'',
     ''Type=Package'',
     join NL (map (\<lambda>package. ''Target='' @ package) (NVIDIA_DRIVER_PACKAGES @ kernel_pkgs)),
     [],
     ''[Action]'',
     ''Description=Rebuilding initramfs after NVIDIA driver update...'',
     ''Depends=mkinitcpio'',
     ''When=PostTransaction'',
     ''NeedsTargets'',
     ''Exec=/bin/sh -c '' @ SQ @
       ''while read -r trg; do case $trg in linux*) exit 0; esac; done; /usr/bin/mkinitcpio -P'' @ SQ]"

definition gpu_driver_execute :: "installer_config \<Rightarrow> unit action" where
  "gpu_driver_execute c = seqA [
     do_sh (''mkdir -p '' @ TARGET_ROOT @ ''/etc/modprobe.d''),
     write_file (TARGET_ROOT @ ''/etc/modprobe.d/nvidia.conf'') (NVIDIA_MODPROBE_DRM_OPTIONS @ NL),
     do_sh (''mkdir -p '' @ TARGET_ROOT @ ''/etc/pacman.d/hooks''),
     write_file (TARGET_ROOT @ ''/etc/pacman.d/hooks/nvidia.hook'')
       (initramfs_rebuild_hook (kernel_packages (boot c)))]"

subsection \<open>The contract of the step executors\<close>

lemmas gpu_actions = gpu_driver_execute_def

interpretation gpu_driver_step: step_executor gpu_driver_execute
proof
  fix c
  show "emits (\<lambda>_. True) (gpu_driver_execute c)"
    unfolding gpu_actions Let_def by (intro emits_intros TrueI)
  show "indist (gpu_driver_execute c) (gpu_driver_execute (without_credentials c))"
    unfolding gpu_actions Let_def without_credentials_simps
    by (intro oblivious_intros)
qed

end
