(* ===== verification/Boot.thy ===== *)
theory Boot
  imports Usb_Boot Gpu
begin

text \<open>
  \<^verbatim>\<open>executors/boot.py\<close>: the kernel images (UKIs built by \<^verbatim>\<open>mkinitcpio\<close>), the kernel command
  line, the Secure Boot keys and \<^verbatim>\<open>systemd-boot\<close>.
\<close>

definition UKI_DIRECTORY :: string where "UKI_DIRECTORY = ''/efi/EFI/Linux''"

definition PLAIN_VARIANT :: uki_variant_config where
  "PLAIN_VARIANT = \<lparr>variant_suffix = ''default'', variant_params = []\<rparr>"

definition BOOTLOADER_BINARIES :: "string list" where
  "BOOTLOADER_BINARIES = [''/efi/EFI/BOOT/BOOTX64.EFI'', ''/efi/EFI/systemd/systemd-bootx64.efi'']"

definition USB_STORAGE_INITRAMFS_MODULES :: "string list" where
  "USB_STORAGE_INITRAMFS_MODULES = [
     ''xhci_pci?'', ''ehci_pci?'', ''ohci_pci?'', ''uhci_hcd?'', ''usb_storage?'', ''uas?'', ''sd_mod?'']"

lemmas [cfg_simps] = UKI_DIRECTORY_def PLAIN_VARIANT_def BOOTLOADER_BINARIES_def
  USB_STORAGE_INITRAMFS_MODULES_def

subsection \<open>The files of the step\<close>

record detached_luks_header =
  encrypted_device_path :: string
  header_partition_uuid :: string

definition mkinitcpio_conf :: "string list \<Rightarrow> string list \<Rightarrow> string" where
  "mkinitcpio_conf hook_names modules = text_block [
     ''# mkinitcpio configuration'',
     ''# generated by arch_installer'',
     ''MODULES=('' @ join '' '' modules @ '')'',
     ''BINARIES=()'',
     ''FILES=()'',
     ''HOOKS=('' @ join '' '' hook_names @ '')'']"

definition uki_path :: "string \<Rightarrow> uki_variant_config \<Rightarrow> string" where
  "uki_path kern variant =
     UKI_DIRECTORY @ ''/arch-'' @ kern @ ''-'' @ variant_suffix variant @ ''.efi''"

definition cmdline_file :: "string \<Rightarrow> uki_variant_config \<Rightarrow> string" where
  "cmdline_file kern variant =
     ''/etc/kernel/cmdline-'' @ kern @ ''-'' @ variant_suffix variant"

definition preset_name :: "uki_variant_config \<Rightarrow> string" where
  "preset_name variant = replace_all ''-'' ''_'' (variant_suffix variant)"

definition preset_entry :: "string \<Rightarrow> uki_variant_config \<Rightarrow> string" where
  "preset_entry kern variant = text_block [
     preset_name variant @ ''_uki='' @ DQ @ uki_path kern variant @ DQ,
     preset_name variant @ ''_options='' @ DQ @
       ''--splash /usr/share/systemd/bootctl/splash-arch.bmp --cmdline '' @
       cmdline_file kern variant @ DQ]"

definition kernel_preset :: "string \<Rightarrow> uki_variant_config list \<Rightarrow> string" where
  "kernel_preset kern uki_variant_list =
     (let preset_names = ''fallback'' # map preset_name uki_variant_list;
          entries = concat (map (preset_entry kern) uki_variant_list)
      in text_block [
           ''# mkinitcpio preset file for '' @ kern @ '' (UKI)'',
           ''# generated by arch_installer'',
           ''ALL_config='' @ DQ @ ''/etc/mkinitcpio.conf'' @ DQ,
           ''ALL_kver='' @ DQ @ ''/boot/vmlinuz-'' @ kern @ DQ,
           ''microcode=(/boot/*-ucode.img)'',
           [],
           ''PRESETS=('' @ join '' '' (map (\<lambda>name. SQ @ name @ SQ) preset_names) @ '')'',
           [],
           ''# fallback initramfs for snapshot UKI generation'',
           ''fallback_image='' @ DQ @ ''/boot/initramfs-'' @ kern @ ''.img'' @ DQ,
           []] @ entries)"

definition loader_conf :: "loader_config \<Rightarrow> string" where
  "loader_conf l = text_block [
     ''# systemd-boot loader configuration'',
     ''# generated by arch_installer'',
     ''timeout '' @ string_of_int (loader_timeout l),
     ''console-mode '' @ console_mode l,
     ''editor '' @ (if loader_editor l then ''yes'' else ''no'')]"

subsection \<open>The kernel command line\<close>

text \<open>
  \<^verbatim>\<open>asdict(cmdline.hardening)\<close>: the parameters in the order of the fields, a text or a number
  each. An empty text or the number 0 leaves the default of the kernel in place.
\<close>

definition hardening_items :: "cmdline_hardening_config \<Rightarrow> (string, string + int) dict" where
  "hardening_items h = [
     (''lockdown'', Inl (lockdown h)),
     (''iommu'', Inl (iommu h)),
     (''intel_iommu'', Inl (intel_iommu h)),
     (''amd_iommu'', Inl (amd_iommu h)),
     (''pti'', Inl (pti h)),
     (''spectre_v2'', Inl (spectre_v2 h)),
     (''spec_store_bypass_disable'', Inl (spec_store_bypass_disable h)),
     (''l1tf'', Inl (l1tf h)),
     (''mds'', Inl (mds h)),
     (''srbds'', Inl (srbds h)),
     (''tsx_async_abort'', Inl (tsx_async_abort h)),
     (''init_on_alloc'', Inr (init_on_alloc h)),
     (''init_on_free'', Inr (init_on_free h))]"

fun hardening_value :: "string + int \<Rightarrow> string" where
  "hardening_value (Inl s) = s"
| "hardening_value (Inr n) = string_of_int n"

definition hardening_parameters :: "cmdline_hardening_config \<Rightarrow> string list" where
  "hardening_parameters h =
     map (\<lambda>(parameter, value). parameter @ ''='' @ hardening_value value)
       (filter (\<lambda>(_, value). value \<noteq> Inl [] \<and> value \<noteq> Inr 0) (hardening_items h))"

definition kernel_cmdline ::
  "installer_config \<Rightarrow> string \<Rightarrow> detached_luks_header option \<Rightarrow> string option \<Rightarrow> string" where
  "kernel_cmdline c luks_uuid detached_header resume_offset =
     (let line = cmdline (boot c); s = swap (storage c); cryptroot = cryptroot_device (storage c) in
      join '' '' (
        [''rd.luks.name='' @ luks_uuid @ ''='' @ CRYPTROOT_MAPPER_NAME,
         ''root='' @ cryptroot,
         (if cmdline_rw line then ''rw'' else ''ro''),
         ''rootfstype='' @ rootfstype line,
         ''rootflags='' @ rootflags line] @
        (case detached_header of
           None \<Rightarrow> []
         | Some header \<Rightarrow>
             [''rd.luks.data='' @ luks_uuid @ ''='' @ encrypted_device_path header,
              ''rd.luks.options='' @ luks_uuid @ ''=header=/dev/disk/by-partuuid/'' @
                header_partition_uuid header]) @
        (if cmdline_quiet line then [''quiet''] else []) @
        hardening_parameters (hardening line) @
        (if swap_enabled s \<and> swap_hibernation s
         then (''resume='' @ cryptroot) #
              (case resume_offset of
                 None \<Rightarrow> []
               | Some offset \<Rightarrow> if offset = [] then [] else [''resume_offset='' @ offset])
         else [])))"

definition uki_variants :: "installer_config \<Rightarrow> uki_variant_config list" where
  "uki_variants c =
     PLAIN_VARIANT #
       filter (\<lambda>v. variant_suffix v \<noteq> variant_suffix PLAIN_VARIANT) (variants (boot c))"

subsection \<open>The kernel images step\<close>

definition read_detached_header :: "installer_config \<Rightarrow> detached_luks_header option action" where
  "read_detached_header c =
     (if \<not> usb_boot_enabled (usb_boot c) then returnA None
      else bindA (stable_disk_path (encrypted_device c)) (\<lambda>path.
        if path = []
        then raiseA (Runtime_Error (encrypted_device c @ '' has no /dev/disk/by-id name''))
        else bindA (partition_uuid (usb_luks_header_partition (usb_boot c))) (\<lambda>uuid.
          returnA (Some \<lparr>encrypted_device_path = path, header_partition_uuid = uuid\<rparr>))))"

definition filefrag_offset :: "string \<Rightarrow> string option" where
  "filefrag_offset line =
     (let parts = split_ws line;
          physical_offset = replace_all '':'' [] (replace_all ''.'' [] (parts ! 3))
      in if contains ''..'' line \<and> \<not> prefix ''ext:'' (strip line) \<and> 4 \<le> length parts
            \<and> isdigit physical_offset
         then Some physical_offset else None)"

fun first_offset :: "string list \<Rightarrow> string option" where
  "first_offset [] = None"
| "first_offset (line # ls) =
     (case filefrag_offset line of Some offset \<Rightarrow> Some offset | None \<Rightarrow> first_offset ls)"

definition swapfile_resume_offset :: "installer_config \<Rightarrow> string option action" where
  "swapfile_resume_offset c =
     (let s = swap (storage c); path = TARGET_ROOT @ swap_path s in
      if \<not> (swap_enabled s \<and> swap_hibernation s) then returnA None
      else bindA (stdout_of (sh_ok (''btrfs inspect-internal map-swapfile -r '' @ path))) (\<lambda>out.
        if strip out \<noteq> [] then returnA (Some (strip out))
        else bindA (stdout_of (sh_ok (''filefrag -v '' @ path))) (\<lambda>listing.
          returnA (first_offset (split_on NL listing)))))"

definition setup_mode_line :: "string \<Rightarrow> bool" where
  "setup_mode_line line \<longleftrightarrow> contains ''setup mode'' (lower line)"

definition is_in_setup_mode :: "bool action" where
  "is_in_setup_mode =
     bindA (stdout_of (chroot_ok ''sbctl status'')) (\<lambda>status.
       case filter setup_mode_line (split_on NL status) of
         line # _ \<Rightarrow> returnA (contains ''enabled'' (lower line))
       | [] \<Rightarrow>
           bindA (chroot_ok ''cat /sys/firmware/efi/efivars/SetupMode-* 2>/dev/null | xxd -p | tail -c 3'')
             (\<lambda>efivar. returnA (success efivar \<and> strip (stdout efivar) = ''01'')))"

definition enroll_secure_boot_keys :: "bool \<Rightarrow> unit action" where
  "enroll_secure_boot_keys include_microsoft =
     do_chroot_ok (if include_microsoft then ''sbctl enroll-keys --microsoft'' else ''sbctl enroll-keys'')"

definition prepare_secure_boot :: "installer_config \<Rightarrow> unit action" where
  "prepare_secure_boot c =
     bindA is_in_setup_mode (\<lambda>setup_mode. seqA [
       bindA (file_exists (TARGET_ROOT @ SBCTL_PK_KEY)) (\<lambda>there.
         if there then returnA () else do_chroot_ok ''sbctl create-keys''),
       whenA (setup_mode \<and> enroll_keys (secure_boot (boot c)))
         (enroll_secure_boot_keys (include_microsoft_keys (secure_boot (boot c))))])"

definition sign_if_exists :: "string \<Rightarrow> unit action" where
  "sign_if_exists path =
     bindA (file_exists (TARGET_ROOT @ path)) (\<lambda>there.
       whenA there (do_chroot_ok (''sbctl sign -s '' @ path)))"

definition sign_ukis :: "string list \<Rightarrow> uki_variant_config list \<Rightarrow> unit action" where
  "sign_ukis kernel_list uki_variant_list =
     bindA (file_exists (TARGET_ROOT @ SBCTL_DB_KEY)) (\<lambda>has_keys.
       whenA has_keys
         (forA kernel_list (\<lambda>kern.
           forA uki_variant_list (\<lambda>variant. sign_if_exists (uki_path kern variant)))))"

definition initramfs_modules :: "installer_config \<Rightarrow> string list" where
  "initramfs_modules c =
     (if uses_proprietary_nvidia_driver (gpu c) then NVIDIA_INITRAMFS_MODULES else []) @
     (if usb_boot_enabled (usb_boot c) then USB_STORAGE_INITRAMFS_MODULES else [])"

definition write_kernel_files ::
  "string \<Rightarrow> uki_variant_config list \<Rightarrow> string \<Rightarrow> unit action" where
  "write_kernel_files line uki_variant_list kern = seqA [
     forA uki_variant_list (\<lambda>variant.
       write_file (TARGET_ROOT @ cmdline_file kern variant)
         (strip (line @ '' '' @ variant_params variant) @ NL)),
     write_file (TARGET_ROOT @ ''/etc/mkinitcpio.d/'' @ kern @ ''.preset'')
       (kernel_preset kern uki_variant_list)]"

definition build_images ::
  "installer_config \<Rightarrow> string list \<Rightarrow> string \<Rightarrow> unit action" where
  "build_images c kernel_list line = seqA [
     do_sh (''mkdir -p '' @ TARGET_ROOT @ ''/etc/kernel''),
     forA kernel_list (write_kernel_files line (uki_variants c)),
     write_file (TARGET_ROOT @ ''/etc/kernel/cmdline'') (line @ NL),
     prepare_secure_boot c,
     do_chroot ''mkinitcpio -P'',
     sign_ukis kernel_list (uki_variants c)]"

definition kernel_images_execute :: "installer_config \<Rightarrow> unit action" where
  "kernel_images_execute c =
     thenA (write_file (TARGET_ROOT @ ''/etc/mkinitcpio.conf'')
              (mkinitcpio_conf (hooks (boot c)) (initramfs_modules c)))
       (thenA (do_sh (''mkdir -p '' @ TARGET_ROOT @ UKI_DIRECTORY))
         (bindA (detect_luks_uuid (luks_header_device c)) (\<lambda>luks_uuid.
           if luks_uuid = []
           then raiseA (Runtime_Error (''No LUKS header on '' @ luks_header_device c))
           else bindA (filterA (\<lambda>kern. file_exists (TARGET_ROOT @ ''/boot/vmlinuz-'' @ kern))
                   (kernel_packages (boot c))) (\<lambda>kernel_list.
             if kernel_list = []
             then raiseA (Runtime_Error
               (''None of the kernels '' @ tuple_repr (kernel_packages (boot c)) @ '' is installed''))
             else bindA (read_detached_header c) (\<lambda>detached_header.
               bindA (swapfile_resume_offset c) (\<lambda>resume_offset.
                 build_images c kernel_list
                   (kernel_cmdline c luks_uuid detached_header resume_offset)))))))"

subsection \<open>The boot loader step\<close>

definition install_on_usb_boot_drive :: "unit action" where
  "install_on_usb_boot_drive = seqA [
     do_chroot ''bootctl install --esp-path=/efi --variables=no --random-seed=no'',
     do_chroot ''systemctl mask systemd-boot-random-seed.service'']"

definition bootloader_execute :: "installer_config \<Rightarrow> unit action" where
  "bootloader_execute c = seqA [
     (if usb_boot_enabled (usb_boot c) then install_on_usb_boot_drive
      else do_chroot ''bootctl install --esp-path=/efi''),
     write_file (TARGET_EFI @ ''/loader/loader.conf'') (loader_conf (loader (boot c))),
     forA BOOTLOADER_BINARIES sign_if_exists]"

subsection \<open>The contract of the step executors\<close>

lemmas boot_actions = bootloader_execute_def install_on_usb_boot_drive_def
  kernel_images_execute_def build_images_def write_kernel_files_def sign_ukis_def
  sign_if_exists_def prepare_secure_boot_def enroll_secure_boot_keys_def is_in_setup_mode_def
  swapfile_resume_offset_def read_detached_header_def

interpretation kernel_images_step: step_executor kernel_images_execute
proof
  fix c
  show "emits (\<lambda>_. True) (kernel_images_execute c)"
    unfolding boot_actions Let_def by (intro emits_intros TrueI)
  show "indist (kernel_images_execute c) (kernel_images_execute (without_credentials c))"
    unfolding boot_actions initramfs_modules_def uki_variants_def kernel_cmdline_def Let_def without_credentials_simps
    by (intro oblivious_intros)
qed

interpretation bootloader_step: step_executor bootloader_execute
proof
  fix c
  show "emits (\<lambda>_. True) (bootloader_execute c)"
    unfolding boot_actions Let_def by (intro emits_intros TrueI)
  show "indist (bootloader_execute c) (bootloader_execute (without_credentials c))"
    unfolding boot_actions initramfs_modules_def uki_variants_def kernel_cmdline_def Let_def without_credentials_simps
    by (intro oblivious_intros)
qed

end
