(* ===== verification/Executor_Properties.thy ===== *)
theory Executor_Properties
  imports Migration Recovery Usb_Backup Firewall Packages Boot Checked_Commands Sample_Config
begin

text \<open>
  What single steps promise: mounts and keys are released on every way out, the staged data of a
  migration is removed only after it has been copied, the firewall is enabled last, the package
  list is what the configuration asks for.
\<close>

subsection \<open>Releasing what was acquired\<close>

lemma bindA_if: "bindA (if b then m else n) f = (if b then bindA m f else bindA n f)"
  by simp

text \<open>What is acquired: the mount of the old system, of the recovery partition, of the backup partition.\<close>

definition mounts_old_system :: "string \<Rightarrow> bool" where
  "mounts_old_system t \<longleftrightarrow> prefix (''mount -t btrfs -o subvolid=5 /dev/mapper/'' @ OLD_MAPPER_NAME) t"

definition mounts_recovery :: "string \<Rightarrow> bool" where
  "mounts_recovery t \<longleftrightarrow> prefix ''mount -t ext4 '' t"

definition makes_signing_key :: "string \<Rightarrow> bool" where
  "makes_signing_key t \<longleftrightarrow> prefix ''openssl req '' t"

definition mounts_backup :: "string \<Rightarrow> bool" where
  "mounts_backup t \<longleftrightarrow> prefix ''mount '' t \<and> suffix BACKUP_MOUNT t"

text \<open>
  What leaves the mapping of the old system open: the directory for its mount cannot be made, or one of
  the commands between unlocking it and closing it cannot be started at all.
\<close>

fun strands_mapping :: "event \<Rightarrow> bool" where
  "strands_mapping (Ran q (Completed code out err)) = (req_text q = ''mkdir -p /tmp/old-system'' \<and> code \<noteq> 0)"
| "strands_mapping (Ran q (Not_Found msg)) =
     (req_text q \<in> {''mkdir -p /tmp/old-system'', ''umount /tmp/old-system'',
        ''mount -t btrfs -o subvolid=5 /dev/mapper/oldcryptroot /tmp/old-system''})"
| "strands_mapping (Slept n) = False"

definition closes_or_strands :: "event \<Rightarrow> bool" where
  "closes_or_strands e \<longleftrightarrow> ran (\<lambda>t. t = ''cryptsetup close oldcryptroot'') e \<or> strands_mapping e"

lemma unmount_releases: "releases os (ran (\<lambda>t. t = ''umount /tmp/old-system'')) unmount_and_close"
  unfolding unmount_and_close_def seqA.simps
  by (intro releases_thenA releases_do_sh_ok emits_intros TrueI) (simp add: cfg_simps)

lemma stops_stranded:
  "fst (run b (shell_request s) os h) = Inl e \<Longrightarrow>
   s = ''mkdir -p /tmp/old-system'' \<or>
   \<not> b \<and> s \<in> {''umount /tmp/old-system'', ''mount -t btrfs -o subvolid=5 /dev/mapper/oldcryptroot /tmp/old-system''} \<Longrightarrow>
   closes_or_strands (Ran (shell_request s) (os h (shell_request s)))"
  by (auto simp: closes_or_strands_def run_result Let_def split: os_reply.splits if_splits)

lemma releases_close: "releases os closes_or_strands (thenA (do_sh_ok ''cryptsetup close oldcryptroot'') n)"
  if "emits (\<lambda>_. True) n"
proof -
  have "releases os (ran (\<lambda>t. t = ''cryptsetup close oldcryptroot'')) (thenA (do_sh_ok ''cryptsetup close oldcryptroot'') n)"
    by (intro releases_thenA releases_do_sh_ok that) simp
  then show ?thesis unfolding releases_def closes_or_strands_def by (fastforce simp: list_ex_iff)
qed

lemma close_or_strand: "releases os closes_or_strands unmount_and_close"
  unfolding unmount_and_close_def seqA.simps cfg_simps do_sh_then(2) [of "''umount '' @ ''/tmp/old-system''"]
  by (rule releases_after_run, simp, rule releases_close, intro emits_intros TrueI,
      rule stops_stranded, assumption, simp)

text \<open>The mount is the last command of its action, so what follows it is the code that releases.\<close>

lemma open_and_mount_then:
  "thenA (open_and_mount c part) m =
     bindA (sh_input_ok (''cryptsetup open --key-file - '' @ part @ '' '' @ OLD_MAPPER_NAME)
       (source_luks_password (credentials c))) (\<lambda>unlocked.
         if \<not> success unlocked
         then raiseA (Migration_Error
           (''Could not unlock '' @ part @ '' with the old LUKS password: '' @ strip (stderr unlocked)))
         else thenA (do_sh (''mkdir -p '' @ OLD_MOUNT_DIRECTORY))
           (bindA (sh_ok (''mount -t btrfs -o subvolid=5 /dev/mapper/'' @ OLD_MAPPER_NAME @ '' '' @
                     OLD_MOUNT_DIRECTORY)) (\<lambda>mounted.
             if \<not> success mounted
             then thenA (do_sh_ok (''cryptsetup close '' @ OLD_MAPPER_NAME))
               (raiseA (Migration_Error
                 (''Could not mount the existing system: '' @ strip (stderr mounted))))
             else m)))"
  by (simp add: open_and_mount_def thenA_def bindA_assoc bindA_if cong: if_cong)

lemma staging_body_emits:
  "emits (\<lambda>t. \<not> unlocks_old_system t) (bindA (inspect_mounted_system disk part) (\<lambda>existing.
      thenA (ensure_staging_space c existing) (copy_to_staging c existing)))"
  unfolding migration_actions Let_def
  by (intro emits_intros) (simp_all add: unlocks_old_system_def)

lemma staging_unmounts:
  "cleans_up os (succeeded mounts_old_system) (ran (\<lambda>t. t = ''umount /tmp/old-system'')) (migration_staging_execute c)"
proof -
  have unmount: "cleans_up os (succeeded mounts_old_system) (ran (\<lambda>t. t = ''umount /tmp/old-system'')) unmount_and_close"
    unfolding unmount_and_close_def
    by (intro spares emits_intros) (simp_all add: mounts_old_system_def)
  note last = cleans_up_finallyA [OF emits_mono [OF staging_body_emits TrueI] unmount_releases unmount]
  show ?thesis
    unfolding migration_staging_execute_def Let_def open_and_mount_then find_luks_partition_def
    by (intro cleans_up_bindA cleans_up_if cleans_up_thenA cleans_up_attempt(1) conjI;
        (simp add: last; fail)?; intro spares emits_intros; simp add: mounts_old_system_def)
qed

lemma staging_closes:
  "cleans_up os (succeeded unlocks_old_system) closes_or_strands (migration_staging_execute c)"
proof -
  have unlocks_none: "cleans_up os (succeeded unlocks_old_system) closes_or_strands m"
    if "emits (\<lambda>t. \<not> unlocks_old_system t) m" for m :: "'a action"
    by (rule spares(1) [OF that])
  have unmount: "emits (\<lambda>t. \<not> unlocks_old_system t) unmount_and_close"
    unfolding unmount_and_close_def by (intro emits_intros) (simp_all add: unlocks_old_system_def)
  note last = cleans_up_finallyA(2) [OF emits_mono [OF staging_body_emits TrueI] close_or_strand unlocks_none [OF unmount]]
  have mounting: "releases os closes_or_strands
      (thenA (do_sh ''mkdir -p /tmp/old-system'')
        (bindA (sh_ok ''mount -t btrfs -o subvolid=5 /dev/mapper/oldcryptroot /tmp/old-system'') (\<lambda>mounted.
           if \<not> success mounted
           then thenA (do_sh_ok ''cryptsetup close oldcryptroot'') (raiseA (failure mounted))
           else m)))" if "releases os closes_or_strands m" for m :: "unit action" and failure
    unfolding do_sh_then(1) sh_ok_def
  proof (intro releases_after_run)
    show "releases os closes_or_strands (if \<not> success mounted
        then thenA (do_sh_ok ''cryptsetup close oldcryptroot'') (raiseA (failure mounted)) else m)" for mounted
      using that by (simp add: releases_close emits_raiseA)
  qed (erule stops_stranded, simp)+
  show ?thesis
    unfolding migration_staging_execute_def Let_def open_and_mount_then find_luks_partition_def
  proof (rule cleans_up_bindA, goal_cases)
    case 1
    show ?case by (intro unlocks_none emits_intros) (simp_all add: unlocks_old_system_def)
  next
    case (2 part)
    show ?case
    proof (rule cleans_up_attempt(2), goal_cases)
      case (1 unlocked)
      then have opened: "\<not> \<not> success unlocked" by simp
      have quiet: "emits (\<lambda>t. \<not> unlocks_old_system t)
          (thenA (do_sh (''mkdir -p '' @ OLD_MOUNT_DIRECTORY))
            (bindA (sh_ok (''mount -t btrfs -o subvolid=5 /dev/mapper/'' @ OLD_MAPPER_NAME @ '' '' @ OLD_MOUNT_DIRECTORY))
              (\<lambda>mounted. if \<not> success mounted
                then thenA (do_sh_ok (''cryptsetup close '' @ OLD_MAPPER_NAME)) (raiseA (failure mounted))
                else m)))" if "emits (\<lambda>t. \<not> unlocks_old_system t) m" for m :: "unit action" and failure
        by (intro emits_thenA emits_bindA emits_if emits_calls emits_raiseA that; simp add: unlocks_old_system_def)
      show ?case
        unfolding if_not_P [OF opened]
        by (intro conjI unlocks_none quiet emits_finallyA staging_body_emits unmount)
          (use mounting [OF last, of "\<lambda>mounted. Migration_Error
            (''Could not mount the existing system: '' @ strip (stderr mounted))"]
            in \<open>simp add: cfg_simps cong: if_cong\<close>)
    next
      case (2 unlocked)
      then show ?case by (simp add: unlocks_none emits_raiseA)
    qed
  qed
qed

lemma store_recovery_cleans_up:
  assumes "Q (''umount '' @ RECOVERY_MOUNT)"
  shows "cleans_up os (succeeded mounts_recovery) (ran Q) (store_recovery_system c)"
proof -
  have body: "emits (\<lambda>_. True) (extract_live_system source directory)" for source directory
    unfolding extract_live_system_def by (intro emits_intros TrueI)
  have unmount: "cleans_up os (succeeded mounts_recovery) (ran Q) (do_sh_ok (''umount '' @ RECOVERY_MOUNT))"
    by (intro spares emits_intros) (simp add: mounts_recovery_def)
  note last = cleans_up_finallyA [OF body releases_do_sh_ok [where P = Q, OF assms] unmount]
  show ?thesis
    unfolding store_recovery_system_def Let_def seqA.simps thenA_returnA_unit
    by (intro cleans_up_thenA cleans_up_acquire last; intro spares emits_intros; simp add: mounts_recovery_def)
qed

lemma recovery_step_cleans_up:
  assumes "Q (''umount '' @ RECOVERY_MOUNT)"
  shows "cleans_up os (succeeded mounts_recovery) (ran Q) (recovery_system_execute c)"
proof -
  have r: "releases os (ran Q) (seqA [do_sh_ok (''umount '' @ RECOVERY_MOUNT), do_sh_ok (''rm -rf '' @ directory)])"
    for directory
    unfolding seqA.simps by (intro releases_thenA releases_do_sh_ok emits_intros TrueI assms)
  have u: "cleans_up os (succeeded mounts_recovery) (ran Q)
      (seqA [do_sh_ok (''umount '' @ RECOVERY_MOUNT), do_sh_ok (''rm -rf '' @ directory)])" for directory
    by (intro spares emits_intros) (simp_all add: mounts_recovery_def)
  show ?thesis
    unfolding recovery_system_execute_def sign_recovery_uki_def Let_def
  proof (rule cleans_up_bindA, goal_cases)
    case 1
    show ?case by (intro spares emits_intros) (simp add: mounts_recovery_def)
  next
    case (2 uuid)
    show ?case
    proof (rule cleans_up_thenA, goal_cases)
      case 1
      show ?case by (intro spares emits_intros) (simp add: mounts_recovery_def)
    next
      case 2
      show ?case
      proof (rule cleans_up_guarded [OF _ r u], goal_cases)
        case 1
        show ?case unfolding sign_root_image_def build_uki_def Let_def by (intro emits_intros TrueI)
      next
        case 2
        show ?case by (intro emits_intros) (simp_all add: mounts_recovery_def)
      qed
    qed
  qed
qed

lemma signing_key_removed:
  assumes "Q (''rm -f '' @ RECOVERY_SIGNING_DIRECTORY @ ''/key.pem'')"
  shows "cleans_up os (ran makes_signing_key) (ran Q) (recovery_system_execute c)"
proof -
  have "cleans_up os (ran makes_signing_key) (ran Q) (sign_root_image directory)" for directory
    unfolding sign_root_image_def Let_def seqA.simps
    by (intro cleans_up_thenA cleans_up_finallyA releases_do_sh_ok assms;
        intro spares emits_intros; simp add: makes_signing_key_def)
  then show ?thesis
    unfolding recovery_system_execute_def sign_recovery_uki_def build_uki_def Let_def
    by (intro cleans_up_bindA cleans_up_thenA cleans_up_both; (assumption)?;
        intro spares emits_intros; simp add: makes_signing_key_def)
qed

lemma backup_cleans_up:
  assumes "Q (''umount '' @ BACKUP_MOUNT)"
  shows "cleans_up os (succeeded mounts_backup) (ran Q) (usb_backup_execute dump c)"
proof -
  have body: "emits (\<lambda>_. True) (backup_everything dump c)"
    unfolding usb_backup_actions Let_def by (intro emits_intros copy_groups_grows TrueI)
  have u: "cleans_up os (succeeded mounts_backup) (ran Q) (do_sh_ok (''umount '' @ BACKUP_MOUNT))"
    by (intro spares emits_intros) (simp add: mounts_backup_def)
  note last = cleans_up_finallyA [OF body releases_do_sh_ok [where P = Q, OF assms] u]
  have mounting: "thenA (whenA (\<not> mounted) (do_sh s)) m = (if mounted then m else thenA (do_sh s) m)" for mounted s and m :: "unit action"
    by (simp add: whenA_def thenA_returnA_unit)
  show ?thesis
    unfolding usb_backup_execute_def Let_def mounting
    by (intro cleans_up_bindA cleans_up_if cleans_up_thenA cleans_up_acquire last;
       intro spares emits_intros; simp add: mounts_backup_def)
qed


text \<open>A machine whose old system opens with the password but does not mount.\<close>

definition unmountable_machine :: os where
  "unmountable_machine h q =
     (if prefix ''mount'' (req_text q) then Completed 32 [] []
      else if prefix ''lsblk'' (req_text q) then Completed 0 ''sda2'' []
      else Completed 0 [] [])"

lemma unmountable_run:
  "list_ex (succeeded unlocks_old_system) (snd (migration_staging_execute sample_migration_config unmountable_machine []))"
  "\<not> list_ex strands_mapping (snd (migration_staging_execute sample_migration_config unmountable_machine []))"
  unfolding migration_staging_execute_def Let_def find_luks_partition_def open_and_mount_def
  by (simp_all add: run_evaluation unmountable_machine_def cfg_simps listed_partitions_def split_on.simps strip_def lstrip_def
      rstrip_def is_space_def path_name_def path_parts_def sample_migration_config_def sample_config_def
      unlocks_old_system_def)


text \<open>
  C20: The recovery partition of the USB drive and the partition of a USB backup are unmounted on
  every way out of the code that mounted them.
\<close>

theorem mounts_are_released:
  "cleans_up os (succeeded mounts_recovery) (ran (\<lambda>t. t = ''umount /run/dali/usb-recovery'')) (store_recovery_system c) \<and>
   cleans_up os (succeeded mounts_recovery) (ran (\<lambda>t. t = ''umount /run/dali/usb-recovery'')) (recovery_system_execute c) \<and>
   cleans_up os (succeeded mounts_backup) (ran (\<lambda>t. t = ''umount /mnt/usb-backup'')) (usb_backup_execute dump c)"
  by (intro conjI store_recovery_cleans_up recovery_step_cleans_up backup_cleans_up)
    (simp_all add: cfg_simps BACKUP_MOUNT_def)

text \<open>
  C21: The private key that signs the recovery system does not outlive its use: on every way out of the
  recovery step, a command that may have written the key is followed by the removal of the key.
\<close>

theorem signing_key_is_removed:
  "cleans_up os (ran makes_signing_key) (ran (\<lambda>t. t = ''rm -f /run/dali/recovery-signing/key.pem''))
     (recovery_system_execute c)"
  by (rule signing_key_removed) (simp add: cfg_simps)

subsection \<open>The firewall\<close>

definition boot_flag :: "bool \<Rightarrow> string" where
  "boot_flag enabled = ''sed -i '' @ SQ @ ''s/^ENABLED=.*/ENABLED='' @ (if enabled then ''yes'' else ''no'') @
     ''/'' @ SQ @ '' /mnt/etc/ufw/ufw.conf''"

lemma set_enabled_flag: "set_enabled_on_boot enabled = do_sh (boot_flag enabled)"
  by (simp add: set_enabled_on_boot_def boot_flag_def UFW_CONF_def TARGET_ROOT_def Let_def)

lemma firewall_never_started:
  "emits (\<lambda>t. \<not> prefix ''arch-chroot /mnt ufw enable'' t \<and> \<not> prefix ''arch-chroot /mnt systemctl start'' t)
     (firewall_execute c)"
  unfolding firewall_actions Let_def by (intro emits_intros) simp_all

lemma nothing_after_enabling:
  "never_after (\<lambda>t. t = boot_flag True) (\<lambda>_. True) (firewall_execute c)"
proof -
  have enabling: "never_after (\<lambda>t. t = boot_flag True) (\<lambda>_. True) (seqA [do_sh (boot_flag True)])"
    unfolding never_after_def
    by (simp add: do_sh_history thenA_returnA_unit)
  show ?thesis
    unfolding firewall_execute_def set_enabled_flag
    by (rule never_after_seqA_first, (intro emits_intros; simp add: boot_flag_def),
        rule never_after_seqA_first, (intro emits_intros; simp add: boot_flag_def),
        rule never_after_seqA_first [OF _ enabling],
        unfold firewall_actions Let_def, intro emits_intros; simp add: boot_flag_def)
qed



subsection \<open>Packages\<close>

definition other_vendor_microcode :: "installer_config \<Rightarrow> string set" where
  "other_vendor_microcode c =
     {p. \<exists>vendor. (vendor, p) \<in> set MICROCODE_PACKAGES \<and> cpu_vendor (system c) \<notin> {vendor, Cpu_Unknown}}"

definition unselected_kernel_packages :: "installer_config \<Rightarrow> string set" where
  "unselected_kernel_packages c =
     (let unselected = kernel_package ` set (kernels (boot c)) - set (kernel_packages (boot c))
      in unselected \<union> (\<lambda>kern. kern @ ''-headers'') ` unselected)"

lemma set_without_other_microcode:
  "set (without_other_microcode (cpu_vendor (system c)) pkgs) = set pkgs - other_vendor_microcode c"
  by (cases "cpu_vendor (system c) = Cpu_Unknown")
    (force simp: without_other_microcode_def other_vendor_microcode_def Let_def)+

lemma set_without_unselected_kernels:
  "set (without_unselected_kernels (boot c) pkgs) = set pkgs - unselected_kernel_packages c"
  by (auto simp: without_unselected_kernels_def unselected_kernel_packages_def unselected_kernels_def Let_def)

text \<open>
  C23: The package list holds no package twice; beside the desktop and driver packages it holds
  exactly the base and cataloged packages without the microcode of another processor vendor and
  without a kernel that is not selected, or that kernel's headers.
\<close>

theorem package_list_exact:
  "distinct (collect_packages c) \<and>
   set (collect_packages c) =
     set (base_packages (packages c)) \<union> set (cataloged (packages c))
       - other_vendor_microcode c - unselected_kernel_packages c
     \<union> set (desktop_package_list (packages c)) \<union> set (gpu_packages (gpu c))"
  by (auto simp: collect_packages_def Let_def set_without_other_microcode set_without_unselected_kernels)

subsection \<open>Restoring a migration\<close>

definition removes_staged_data :: "string \<Rightarrow> bool" where
  "removes_staged_data t \<longleftrightarrow> t = ''rm -rf /tmp/migration-staging''"

definition copies :: "string \<Rightarrow> bool" where
  "copies t \<longleftrightarrow> prefix ''cp -a '' t"

lemma restoring_copies:
  "checked copies (forA staged_destinations restore_staged)"
  "emits (\<lambda>t. \<not> removes_staged_data t) (forA staged_destinations restore_staged)"
  "emits (\<lambda>t. \<not> copies t) (seqA [report_restored_data c, do_sh (''rm -rf '' @ STAGING_DIRECTORY)])"
  "emits (\<lambda>t. \<not> copies t \<and> \<not> removes_staged_data t) (directory_exists STAGING_DIRECTORY)"
  unfolding restore_staged_def report_restored_data_def
  by ((intro checked_intros emits_intros; simp add: copies_def removes_staged_data_def)+)

text \<open>
  C19: The staged data of a migration survives a copy that fails: when one of the copies back to the
  new system does not succeed, the step raises and the staging directory is not removed.
\<close>

theorem staged_data_outlives_failed_copy:
  assumes "migration_restore_execute c os h = (r, h @ new)"
    and "e \<in> set new" and "ran copies e" and "\<not> succeeded copies e"
  shows "\<not> list_ex removes_staged_data (texts new) \<and> (\<exists>err. r = Inl err)"
proof -
  note no_copy = emits_mono [OF restoring_copies(4), of "\<lambda>t. \<not> copies t"]
  obtain d h1 where d: "directory_exists STAGING_DIRECTORY os h = (d, h1)" by fastforce
  from emitsD [OF restoring_copies(4) d] obtain a where a: "h1 = h @ a"
    "\<forall>t \<in> set (texts a). \<not> copies t \<and> \<not> removes_staged_data t" by blast
  have "e \<notin> set a" using a(2) ran_text [OF assms(3)] by blast
  with assms(1,2) d a have there: "d = Inr True"
    by (auto simp: migration_restore_execute_def bindA_def returnA_apply split: sum.splits if_splits)
  obtain x h2 where x: "forA staged_destinations restore_staged os h1 = (x, h2)" by fastforce
  from emitsD [OF restoring_copies(2) x] obtain b where b: "h2 = h1 @ b"
    "\<forall>t \<in> set (texts b). \<not> removes_staged_data t" by blast
  show ?thesis
  proof (cases x)
    case (Inl err)
    with assms(1) d there x have "r = Inl err" and "h2 = h @ new"
      by (auto simp: migration_restore_execute_def bindA_def thenA_def)
    with a b show ?thesis by (auto simp: list_ex_iff)
  next
    case (Inr u)
    with x have "all_succeeded copies b" using checkedD [OF restoring_copies(1)] b(1) by blast
    then have "e \<notin> set b" using assms(3,4) by (auto simp: all_succeeded_def list_all_iff)
    obtain y h3 where y: "seqA [report_restored_data c, do_sh (''rm -rf '' @ STAGING_DIRECTORY)] os h2 = (y, h3)"
      by fastforce
    from emitsD [OF restoring_copies(3) y] obtain z where z: "h3 = h2 @ z" "\<forall>t \<in> set (texts z). \<not> copies t"
      by blast
    then have "e \<notin> set z" using ran_text [OF assms(3)] by blast
    moreover from assms(1) d there x Inr y have "h3 = h @ new"
      by (auto simp: migration_restore_execute_def bindA_def thenA_def)
    ultimately show ?thesis using \<open>e \<notin> set a\<close> \<open>e \<notin> set b\<close> assms(2) a b z by auto
  qed
qed

definition full_disk :: os where
  "full_disk h q = (if prefix ''cp -a'' (req_text q) then Completed 1 [] ''No space left'' else Completed 0 [] [])"

theorem staged_data_outlives_failed_copy_witness:
  "\<not> list_ex removes_staged_data (texts (snd (migration_restore_execute sample_migration_config full_disk [])))"
proof -
  obtain r new where run: "migration_restore_execute sample_migration_config full_disk [] = (r, new)" by fastforce
  then have "new = map (\<lambda>s. Ran (shell_request s) (Completed 0 [] []))
      [''test -d /tmp/migration-staging'', ''test -d /tmp/migration-staging/home'', ''mkdir -p /mnt/home''] @
      [Ran (shell_request ''cp -a /tmp/migration-staging/home/. /mnt/home/'') (Completed 1 [] ''No space left'')]"
    unfolding migration_actions directory_exists_def Let_def
    by (auto simp: run_evaluation full_disk_def staged_destinations_def cfg_simps)
  then have "Ran (shell_request ''cp -a /tmp/migration-staging/home/. /mnt/home/'') (Completed 1 [] ''No space left'') \<in> set new"
    by simp
  from staged_data_outlives_failed_copy [of sample_migration_config full_disk "[]" r new, OF _ this] run
  show ?thesis by (simp add: copies_def)
qed

end
