(* ===== verification/Config_Builder.thy ===== *)
theory Config_Builder
  imports Errors Config_Schema
begin

text \<open>
  \<^verbatim>\<open>config/installer_config_builder.py\<close>: the frozen configuration built from setting values
  addressed by their dotted path. The classes are those of \<open>Config_Schema\<close>; what
  \<^verbatim>\<open>get_type_hints\<close> and \<^verbatim>\<open>fields\<close> say about a class is its \<open>TClass\<close> value.
\<close>

definition CREDENTIAL_PATHS :: "string list" where
  "CREDENTIAL_PATHS = [
     ''credentials.luks_password'', ''credentials.user_password'', ''credentials.source_luks_password'']"

definition TRUE_WORDS :: "string list" where "TRUE_WORDS = [''true'', ''1'', ''yes'']"
definition FALSE_WORDS :: "string list" where "FALSE_WORDS = [''false'', ''0'', ''no'']"

subsection \<open>Converting a value to its declared type\<close>

text \<open>
  \<^verbatim>\<open>_convert\<close> and \<^verbatim>\<open>_build_section\<close>. The list \<^verbatim>\<open>missing\<close> the code appends to is returned: the
  paths of the declared settings without a value, in the order they are met. A section with
  missing settings is the value \<^verbatim>\<open>None\<close>.
\<close>

definition subpath :: "string \<Rightarrow> string \<Rightarrow> string" where
  "subpath path name = (if path = [] then name else path @ ''.'' @ name)"

definition convert_enum :: "string list \<Rightarrow> pyval \<Rightarrow> string \<Rightarrow> pyval result" where
  "convert_enum members value path =
     (let v = (if value = PNone then PStr [] else value) in
      case v of
        PStr s \<Rightarrow>
          (if s \<in> set members then Inr v
           else Inl (Configuration_Error (path @ '': '' @ value_repr value @ '' is not one of '' @
             join '', '' (map py_repr members))))
      | _ \<Rightarrow> Inl (Configuration_Error (path @ '': '' @ value_repr value @ '' is not one of '' @
             join '', '' (map py_repr members))))"

fun convert_each ::
  "(pyval \<Rightarrow> string \<Rightarrow> (pyval \<times> string list) result) \<Rightarrow> pyval list \<Rightarrow> string \<Rightarrow> nat \<Rightarrow>
   (pyval list \<times> string list) result" where
  "convert_each f [] path i = Inr ([], [])"
| "convert_each f (x # xs) path i =
     bindE (f x (path @ ''['' @ string_of_nat i @ '']'')) (\<lambda>(y, missing).
       bindE (convert_each f xs path (Suc i)) (\<lambda>(ys, more_missing).
         Inr (y # ys, missing @ more_missing)))"

lemma convert_each_cong [fundef_cong]:
  "xs = ys \<Longrightarrow> path = path' \<Longrightarrow> i = i' \<Longrightarrow> (\<And>x p. x \<in> set ys \<Longrightarrow> f x p = g x p) \<Longrightarrow>
   convert_each f xs path i = convert_each g ys path' i'"
proof (induction xs arbitrary: ys i i')
  case Nil
  then show ?case by simp
next
  case (Cons x xs)
  then show ?case by (cases ys) (auto simp: bindE_def split: sum.splits)
qed

fun convert :: "ty \<Rightarrow> pyval \<Rightarrow> string \<Rightarrow> (pyval \<times> string list) result" and
  build_fields ::
    "(string \<times> ty) list \<Rightarrow> (string, pyval) dict \<Rightarrow> string \<Rightarrow>
     ((string, pyval) dict \<times> string list) result" where
  "convert (TOptional inner) value path =
     (if value = PNone then Inr (PNone, []) else convert inner value path)"
| "convert (TTuple item_type) value path =
     (case value of
        PNone \<Rightarrow> Inr (PTuple [], [])
      | PList xs \<Rightarrow>
          bindE (convert_each (convert item_type) xs path 0) (\<lambda>(ys, missing). Inr (PTuple ys, missing))
      | PTuple xs \<Rightarrow>
          bindE (convert_each (convert item_type) xs path 0) (\<lambda>(ys, missing). Inr (PTuple ys, missing))
      | _ \<Rightarrow> Inl (Configuration_Error (path @ '' must be a list'')))"
| "convert (TClass declared) raw path =
     (case raw of
        PDict d \<Rightarrow>
          (let unknown = sorted_set (filter (\<lambda>key. key \<notin> set (keys declared)) (keys d));
               location = (if path \<noteq> [] then '' in '' @ path else [])
           in if unknown \<noteq> []
              then Inl (Configuration_Error
                (''Unknown configuration key(s)'' @ location @ '': '' @ join '', '' unknown))
              else bindE (build_fields declared d path) (\<lambda>(arguments, missing).
                Inr (if length arguments < length declared then PNone else PDict arguments, missing)))
      | _ \<Rightarrow> Inl (Configuration_Error
          ((if path \<noteq> [] then path else ''configuration'') @ '' must be a mapping'')))"
| "convert (TEnum members) value path = map_sum id (\<lambda>v. (v, [])) (convert_enum members value path)"
| "convert TInt value path =
     (case value of
        PInt n \<Rightarrow> Inr (value, [])
      | _ \<Rightarrow> Inl (Configuration_Error (path @ '' must be an integer, got '' @ value_repr value)))"
| "convert TBool value path =
     (case value of
        PBool b \<Rightarrow> Inr (value, [])
      | _ \<Rightarrow> Inl (Configuration_Error (path @ '' must be true or false, got '' @ value_repr value)))"
| "convert TStr value path =
     (case value of
        PNone \<Rightarrow> Inr (PStr [], [])
      | PStr s \<Rightarrow> Inr (value, [])
      | _ \<Rightarrow> Inl (Configuration_Error
          (path @ '' must be a string, got '' @ value_repr value @ '' (quote it)'')))"
| "build_fields [] d path = Inr ([], [])"
| "build_fields ((name, t) # fs) d path =
     (case map_of d name of
        None \<Rightarrow>
          bindE (build_fields fs d path) (\<lambda>(arguments, missing).
            Inr (arguments, subpath path name # missing))
      | Some value \<Rightarrow>
          bindE (convert t value (subpath path name)) (\<lambda>(argument, missing).
            bindE (build_fields fs d path) (\<lambda>(arguments, more_missing).
              Inr ((name, argument) # arguments, missing @ more_missing))))"

subsection \<open>Reading the text of a setting\<close>

fun type_at :: "ty \<Rightarrow> string list \<Rightarrow> ty option" where
  "type_at t [] = Some t"
| "type_at (TClass fs) (name # names) =
     (case map_of fs name of None \<Rightarrow> None | Some t \<Rightarrow> type_at t names)"
| "type_at t (name # names) = None"

definition setting_type :: "string \<Rightarrow> ty option" where
  "setting_type setting_path = type_at installer_config_ty (split_on ''.'' setting_path)"

fun from_text :: "ty \<Rightarrow> string \<Rightarrow> string \<Rightarrow> pyval result" where
  "from_text (TTuple item_type) text label =
     bindE (mapE (\<lambda>item. from_text item_type item label)
              (filter (\<lambda>item. item \<noteq> []) (map strip (split_on '','' text))))
       (\<lambda>items. Inr (PTuple items))"
| "from_text TBool text label =
     (if lower text \<in> set TRUE_WORDS then Inr (PBool True)
      else if lower text \<in> set FALSE_WORDS then Inr (PBool False)
      else Inl (Configuration_Error (label @ '' must be true or false, got '' @ py_repr text)))"
| "from_text TInt text label =
     (if \<not> isdigit text
      then Inl (Configuration_Error (label @ '' must be a whole number, got '' @ py_repr text))
      else Inr (PInt (int (nat_of_digits text))))"
| "from_text (TEnum members) text label = convert_enum members (PStr (lower text)) label"
| "from_text TStr text label = Inr (PStr text)"
| "from_text (TOptional t) text label = Inr (PStr text)"
| "from_text (TClass fs) text label = Inr (PStr text)"

definition read_setting_text :: "string \<Rightarrow> string \<Rightarrow> string \<Rightarrow> pyval result" where
  "read_setting_text setting_path text origin =
     (case setting_type setting_path of
        None \<Rightarrow> Inl (Key_Error setting_path)
      | Some t \<Rightarrow> from_text t text (origin @ '' ('' @ setting_path @ '')''))"

subsection \<open>From dotted paths to the configuration\<close>

text \<open>
  \<^verbatim>\<open>_nested\<close>: the value stored under its section, sections made on the way. The code changes
  the nested dictionaries in place, the model returns the changed one.
\<close>

fun store_at ::
  "string \<Rightarrow> string list \<Rightarrow> string \<Rightarrow> pyval \<Rightarrow> (string, pyval) dict \<Rightarrow> (string, pyval) dict result" where
  "store_at setting_path [] name value section_values = Inr (AList.update name value section_values)"
| "store_at setting_path (section_name # sections) name value section_values =
     (case map_of section_values section_name of
        None \<Rightarrow>
          bindE (store_at setting_path sections name value [])
            (\<lambda>inner. Inr (section_values @ [(section_name, PDict inner)]))
      | Some (PDict inner) \<Rightarrow>
          bindE (store_at setting_path sections name value inner)
            (\<lambda>inner. Inr (AList.update section_name (PDict inner) section_values))
      | Some _ \<Rightarrow>
          Inl (Configuration_Error (setting_path @ '' is inside a setting that is a value'')))"

definition store_setting ::
  "string \<times> pyval \<Rightarrow> (string, pyval) dict \<Rightarrow> (string, pyval) dict result" where
  "store_setting = (\<lambda>(setting_path, value) nested_values.
     let parts = split_on ''.'' setting_path
     in store_at setting_path (butlast parts) (last parts) value nested_values)"

definition nested :: "(string, pyval) dict \<Rightarrow> (string, pyval) dict result" where
  "nested values = foldE store_setting values []"

definition build_value :: "(string, pyval) dict \<Rightarrow> pyval result" where
  "build_value values =
     (let with_credentials = dict_merge (map (\<lambda>path. (path, PStr [])) CREDENTIAL_PATHS) values in
      bindE (nested with_credentials) (\<lambda>raw.
        bindE (convert installer_config_ty (PDict raw) []) (\<lambda>(config, missing).
          if missing \<noteq> [] then Inl (Missing_Settings_Error missing) else Inr config)))"

definition build_installer_config :: "(string, pyval) dict \<Rightarrow> installer_config result" where
  "build_installer_config values =
     bindE (build_value values) (\<lambda>config. Inr (installer_config_of config))"

subsection \<open>What the builder accepts\<close>

text \<open>A class declares each field once, and so do the classes it holds.\<close>

fun well_formed :: "ty \<Rightarrow> bool" and well_formed_fields :: "(string \<times> ty) list \<Rightarrow> bool" where
  "well_formed (TTuple t) = well_formed t"
| "well_formed (TOptional t) = well_formed t"
| "well_formed (TClass fs) = (distinct (keys fs) \<and> well_formed_fields fs)"
| "well_formed TStr = True"
| "well_formed TInt = True"
| "well_formed TBool = True"
| "well_formed (TEnum members) = True"
| "well_formed_fields [] = True"
| "well_formed_fields ((name, t) # fs) = (well_formed t \<and> well_formed_fields fs)"

lemma convert_each_typed:
  assumes "convert_each f xs path i = Inr (ys, [])"
    and "\<And>x y p. x \<in> set xs \<Longrightarrow> f x p = Inr (y, []) \<Longrightarrow> P y"
  shows "list_all P ys"
  using assms
proof (induction xs arbitrary: ys i)
  case Nil
  then show ?case by simp
next
  case (Cons x xs)
  from Cons.prems(1) obtain y zs where fx: "f x (path @ ''['' @ string_of_nat i @ '']'') = Inr (y, [])"
    and rest: "convert_each f xs path (Suc i) = Inr (zs, [])" and "ys = y # zs"
    by (auto simp: bindE_Inr_iff)
  moreover have "P y" by (rule Cons.prems(2) [OF _ fx]) simp
  moreover have "list_all P zs"
  proof (rule Cons.IH [OF rest])
    show "P y'" if "x' \<in> set xs" and "f x' p = Inr (y', [])" for x' p y'
      using that by (intro Cons.prems(2) [of x' p]) simp_all
  qed
  ultimately show ?case by simp
qed

lemma build_fields_length:
  "build_fields fs d path = Inr (args, missing) \<Longrightarrow> length args \<le> length fs"
  "build_fields fs d path = Inr (args, []) \<Longrightarrow> length args = length fs"
  by (induction fs arbitrary: args missing)
    (fastforce simp: bindE_Inr_iff split: option.splits)+

lemma convert_typed:
  "convert t v path = Inr (w, []) \<Longrightarrow> has_type t w"
  "build_fields fs d path = Inr (args, []) \<Longrightarrow> fields_have_type fs args"
proof (induction t v path and fs d path arbitrary: w and args rule: convert_build_fields.induct)
  case (2 t v path)
  then show ?case
    by (auto simp: bindE_Inr_iff split: pyval.splits intro: convert_each_typed)
next
  case (3 fs raw path)
  then show ?case
    by (auto simp: bindE_Inr_iff Let_def split: pyval.splits if_splits dest: build_fields_length)
next
  case (4 members v path)
  then show ?case
    by (auto simp: convert_enum_def Let_def map_sum.simps split: pyval.splits if_splits)
next
  case (9 name t fs d path)
  then show ?case
    by (fastforce simp: bindE_Inr_iff split: option.splits)
qed (auto split: pyval.splits if_splits)

lemma convert_each_plain:
  "(\<And>x p. x \<in> set xs \<Longrightarrow> f (g x) p = Inr (x, [])) \<Longrightarrow> convert_each f (map g xs) path i = Inr (xs, [])"
  by (induction xs arbitrary: i) auto

lemma plain_yaml_value_None: "plain_yaml_value v = PNone \<longleftrightarrow> v = PNone"
  by (cases v) auto

lemma fields_have_type_keys: "fields_have_type fs d \<Longrightarrow> keys d = keys fs"
  by (induction fs arbitrary: d) (auto split: list.splits)

lemma map_of_plain: "map_of (map (\<lambda>(k, v). (k, g v)) d) k = map_option g (map_of d k)"
  by (induction d) auto

lemma convert_plain:
  "has_type t w \<Longrightarrow> well_formed t \<Longrightarrow> convert t (plain_yaml_value w) path = Inr (w, [])"
  "fields_have_type fs args \<Longrightarrow> well_formed_fields fs \<Longrightarrow>
   (\<And>k v. (k, v) \<in> set args \<Longrightarrow> map_of d k = Some (plain_yaml_value v)) \<Longrightarrow>
   build_fields fs d path = Inr (args, [])"
proof (induction t w and fs args arbitrary: path and d path rule: has_type_fields_have_type.induct)
  case (4 members v)
  then show ?case by (auto simp: convert_enum_def split: pyval.splits)
next
  case (5 t v)
  then obtain xs where v: "v = PTuple xs" and "list_all (has_type t) xs" by (auto split: pyval.splits)
  with 5 have "convert_each (convert t) (map plain_yaml_value xs) path 0 = Inr (xs, [])"
    by (intro convert_each_plain) (auto simp: list_all_iff)
  with v show ?case by simp
next
  case (6 t v)
  then show ?case by (auto simp: plain_yaml_value_None)
next
  case (7 fs v)
  then obtain d where v: "v = PDict d" and typed: "fields_have_type fs d" by (auto split: pyval.splits)
  note ks = fields_have_type_keys [OF typed]
  with 7 have dist: "distinct (keys d)" by simp
  let ?d = "map (\<lambda>(k, v). (k, plain_yaml_value v)) d"
  have "build_fields fs ?d path = Inr (d, [])"
    using 7 v typed dist by (intro 7(1)) (auto simp: map_of_plain)
  moreover have "keys ?d = keys fs" using ks by (simp add: case_prod_beta comp_def)
  moreover have "length d = length fs" using ks by (metis length_map)
  ultimately show ?case using v by (simp add: sorted_set_def)
next
  case (9 name t fs d')
  then obtain v rest where d': "d' = (name, v) # rest" and v: "has_type t v"
    and rest: "fields_have_type fs rest"
    by (auto split: list.splits)
  have "map_of d name = Some (plain_yaml_value v)" using 9(5) d' by simp
  moreover have "convert t (plain_yaml_value v) (subpath path name) = Inr (v, [])"
    using 9 d' v by simp
  moreover have "build_fields fs d path = Inr (rest, [])"
    using 9 d' v rest by simp
  ultimately show ?case using d' by simp
qed (auto split: pyval.splits)

end
