(* ===== verification/Environment.thy ===== *)
theory Environment
  imports Config_Builder
begin

text \<open>
  \<^verbatim>\<open>config/environment.py\<close>: the names of the environment variables, and reading the ones that
  are set. The variables of the process are a parameter.
\<close>

datatype env_variable =
    Env_Config_Path
  | Env_Non_Interactive
  | Env_Verbose
  | Env_No_Write
  | Env_Secrets_Key
  | Env_Luks_Password
  | Env_User_Password
  | Env_Source_Luks_Password
  | Env_Target_Disk
  | Env_Wipe_Method
  | Env_Swap_Size_Mb
  | Env_Enable_Swap
  | Env_Enable_Hibernation
  | Env_Enable_Snapshot_Boot
  | Env_Enable_Firewall
  | Env_Enable_Docker
  | Env_Enable_Notifications
  | Env_Enable_Migration
  | Env_Enable_Usb_Boot
  | Env_Usb_Boot_Device
  | Env_Enable_Recovery_System
  | Env_Iso_Path
  | Env_Spare_Usb_Device
  | Env_Backup_Partition
  | Env_Backup_Categories
  | Env_Cpu_Vendor
  | Env_Gpu_Vendor
  | Env_Gpu_Driver
  | Env_Selected_Kernels
  | Env_Selected_Desktops

fun env_text :: "env_variable \<Rightarrow> string" where
  "env_text Env_Config_Path = ''CONFIG_PATH''"
| "env_text Env_Non_Interactive = ''NON_INTERACTIVE''"
| "env_text Env_Verbose = ''VERBOSE''"
| "env_text Env_No_Write = ''NO_WRITE''"
| "env_text Env_Secrets_Key = ''ARCH_INSTALLER_SECRETS_KEY''"
| "env_text Env_Luks_Password = ''LUKS_PASSWORD''"
| "env_text Env_User_Password = ''USER_PASSWORD''"
| "env_text Env_Source_Luks_Password = ''SOURCE_LUKS_PASSWORD''"
| "env_text Env_Target_Disk = ''TARGET_DISK''"
| "env_text Env_Wipe_Method = ''WIPE_METHOD''"
| "env_text Env_Swap_Size_Mb = ''SWAP_SIZE_MB''"
| "env_text Env_Enable_Swap = ''ENABLE_SWAP''"
| "env_text Env_Enable_Hibernation = ''ENABLE_HIBERNATION''"
| "env_text Env_Enable_Snapshot_Boot = ''ENABLE_SNAPSHOT_BOOT''"
| "env_text Env_Enable_Firewall = ''ENABLE_FIREWALL''"
| "env_text Env_Enable_Docker = ''ENABLE_DOCKER''"
| "env_text Env_Enable_Notifications = ''ENABLE_NOTIFICATIONS''"
| "env_text Env_Enable_Migration = ''ENABLE_MIGRATION''"
| "env_text Env_Enable_Usb_Boot = ''ENABLE_USB_BOOT''"
| "env_text Env_Usb_Boot_Device = ''USB_BOOT_DEVICE''"
| "env_text Env_Enable_Recovery_System = ''ENABLE_RECOVERY_SYSTEM''"
| "env_text Env_Iso_Path = ''ISO_PATH''"
| "env_text Env_Spare_Usb_Device = ''SPARE_USB_DEVICE''"
| "env_text Env_Backup_Partition = ''BACKUP_PARTITION''"
| "env_text Env_Backup_Categories = ''BACKUP_CATEGORIES''"
| "env_text Env_Cpu_Vendor = ''CPU_VENDOR''"
| "env_text Env_Gpu_Vendor = ''GPU_VENDOR''"
| "env_text Env_Gpu_Driver = ''GPU_DRIVER''"
| "env_text Env_Selected_Kernels = ''SELECTED_KERNELS''"
| "env_text Env_Selected_Desktops = ''SELECTED_DESKTOPS''"

type_synonym environment = "(string, string) dict"

definition env_raw :: "environment \<Rightarrow> env_variable \<Rightarrow> string" where
  "env_raw variables variable =
     (case map_of variables (env_text variable) of None \<Rightarrow> [] | Some text \<Rightarrow> strip text)"

definition is_set :: "environment \<Rightarrow> env_variable \<Rightarrow> bool" where
  "is_set variables variable \<longleftrightarrow> env_raw variables variable \<noteq> []"

definition switch_is_on :: "environment \<Rightarrow> env_variable \<Rightarrow> bool result" where
  "switch_is_on variables variable =
     (let raw = lower (env_raw variables variable) in
      if raw = [] \<or> raw \<in> set FALSE_WORDS then Inr False
      else if raw \<in> set TRUE_WORDS then Inr True
      else Inl (Configuration_Error
        (env_text variable @ '' must be true or false, got '' @ py_repr raw)))"

text \<open>\<open>variable_paths\<close> maps each variable that provides a setting to the path of that setting.\<close>

definition setting_values ::
  "environment \<Rightarrow> (env_variable, string) dict \<Rightarrow> (string, pyval) dict result" where
  "setting_values variables variable_paths =
     foldE (\<lambda>(variable, setting_path) values.
         bindE (read_setting_text setting_path (env_raw variables variable) (env_text variable))
           (\<lambda>value. Inr (AList.update setting_path value values)))
       (filter (\<lambda>(variable, _). is_set variables variable) variable_paths) []"

end
