(* ===== verification/Mirrors.thy ===== *)
theory Mirrors
  imports Executor_Base
begin

text \<open>\<^verbatim>\<open>executors/mirrors.py\<close>: the pacman mirror list of the live ISO.\<close>

definition LIVE_MIRRORLIST :: string where "LIVE_MIRRORLIST = ''/etc/pacman.d/mirrorlist''"

definition mirrorlist :: "string list \<Rightarrow> string" where
  "mirrorlist servers =
     join NL (''# generated by arch_installer from system.mirrors''
       # map (\<lambda>mirror. ''Server = '' @ mirror) servers) @ NL"

definition pacman_mirrors_execute :: "installer_config \<Rightarrow> unit action" where
  "pacman_mirrors_execute c =
     (let m = sys_mirrors (system c) in
      if use_reflector m
      then do_sh (''reflector --country '' @ SQ @ join '','' (reflector_countries m) @ SQ @
        '' --protocol https --latest 20 '' @ ''--sort rate --save '' @ LIVE_MIRRORLIST)
      else write_file LIVE_MIRRORLIST (mirrorlist (mirrors m)))"

subsection \<open>The contract of the step executors\<close>

lemmas mirrors_actions = pacman_mirrors_execute_def

interpretation pacman_mirrors_step: step_executor pacman_mirrors_execute
proof
  fix c
  show "emits (\<lambda>_. True) (pacman_mirrors_execute c)"
    unfolding mirrors_actions Let_def by (intro emits_intros TrueI)
  show "indist (pacman_mirrors_execute c) (pacman_mirrors_execute (without_credentials c))"
    unfolding mirrors_actions Let_def without_credentials_simps
    by (intro oblivious_intros)
qed

end
