(* ===== verification/System_Setup.thy ===== *)
theory System_Setup
  imports Executor_Base
begin

text \<open>
  \<^verbatim>\<open>executors/system.py\<close> and \<^verbatim>\<open>executors/docker.py\<close>: hostname, timezone, locales, keymap and
  the user account; the Docker daemon and the group that may use it.
\<close>

subsection \<open>Files of the system step\<close>

definition hosts_file :: "string \<Rightarrow> string" where
  "hosts_file host = text_block [
     ''127.0.0.1   localhost'',
     ''::1         localhost'',
     ''127.0.1.1   '' @ host @ ''.localdomain '' @ host]"

definition category_overrides :: "locale_config \<Rightarrow> (string, string) dict" where
  "category_overrides l = [
     (''LC_MONETARY'', locale_monetary l),
     (''LC_TIME'', locale_time_format l),
     (''LC_NUMERIC'', locale_numeric l),
     (''LC_PAPER'', locale_paper l)]"

definition locale_conf :: "locale_config \<Rightarrow> string" where
  "locale_conf l =
     join NL ((''LANG='' @ full_locale l)
       # map (\<lambda>(variable, value). variable @ ''='' @ value)
           (filter (\<lambda>(_, value). value \<noteq> [] \<and> value \<noteq> full_locale l) (category_overrides l))) @ NL"

definition locales_to_generate :: "locale_config \<Rightarrow> string list" where
  "locales_to_generate l =
     filter (\<lambda>candidate. candidate \<noteq> [])
       (sorted_set [full_locale l, locale_monetary l, locale_time_format l, locale_numeric l,
          locale_paper l])"

definition user_groups :: "string \<Rightarrow> string list action" where
  "user_groups username =
     bindA (stdout_of (chroot_ok (''id -nG '' @ username))) (\<lambda>out. returnA (split_ws out))"

subsection \<open>The system step\<close>

definition create_user :: "installer_config \<Rightarrow> unit action" where
  "create_user c =
     (let user = sys_user (system c); groups = join '','' (user_groups_of user) in seqA [
        bindA (succeeds (chroot_ok (''id '' @ user_name user))) (\<lambda>there.
          if there then returnA ()
          else seqA [
            do_chroot (''useradd -m -G '' @ groups @ '' -s /bin/bash '' @ user_name user),
            do_sh_ok (''sed -i '' @ SQ @ ''s/^#'' @ BSLASH @ ''s*'' @ BSLASH @
              ''(%wheel ALL=(ALL:ALL) ALL'' @ BSLASH @ '')/'' @ BSLASH @ ''1/'' @ SQ @ '' '' @
              TARGET_ROOT @ ''/etc/sudoers'')]),
        do_chroot_input ''chpasswd'' (user_name user @ '':'' @ user_password (credentials c))])"

definition uncomment_locale :: "string \<Rightarrow> unit action" where
  "uncomment_locale name =
     do_sh_ok (''sed -i '' @ SQ @ ''s/^#'' @ BSLASH @ ''s*'' @ BSLASH @ ''('' @ name @ BSLASH @ ''s'' @
       BSLASH @ '')/'' @ BSLASH @ ''1/'' @ SQ @ '' '' @ TARGET_ROOT @ ''/etc/locale.gen'')"

definition system_execute :: "installer_config \<Rightarrow> unit action" where
  "system_execute c = (let s = system c in seqA [
     write_file (TARGET_ROOT @ ''/etc/hostname'') (hostname s @ NL),
     write_file (TARGET_ROOT @ ''/etc/hosts'') (hosts_file (hostname s)),
     do_sh (''rm -f '' @ TARGET_ROOT @ ''/etc/localtime''),
     do_sh (''ln -sf /usr/share/zoneinfo/'' @ timezone s @ '' '' @ TARGET_ROOT @ ''/etc/localtime''),
     do_chroot_ok ''hwclock --systohc'',
     forA (locales_to_generate (sys_locale s)) uncomment_locale,
     do_chroot_ok ''locale-gen'',
     write_file (TARGET_ROOT @ ''/etc/locale.conf'') (locale_conf (sys_locale s)),
     write_file (TARGET_ROOT @ ''/etc/vconsole.conf'')
       (''KEYMAP='' @ locale_keymap (sys_locale s) @ NL),
     create_user c])"

subsection \<open>Docker\<close>

definition DOCKER_GROUP :: string where "DOCKER_GROUP = ''docker''"

text \<open>
  \<^verbatim>\<open>json.dumps\<close> of a text: quotes, backslashes and control characters are escaped, and
  characters that are not ASCII become \<^verbatim>\<open>\u00xx\<close>.
\<close>

definition json_char :: "char \<Rightarrow> string" where
  "json_char ch =
     (if ch = CHR 0x22 then BSLASH @ DQ
      else if ch = CHR 0x5C then BSLASH @ BSLASH
      else if ch = CHR 0x0A then BSLASH @ ''n''
      else if ch = CHR 0x0D then BSLASH @ ''r''
      else if ch = CHR 0x09 then BSLASH @ ''t''
      else if ch = CHR 0x08 then BSLASH @ ''b''
      else if ch = CHR 0x0C then BSLASH @ ''f''
      else if ch < CHR 0x20 \<or> CHR 0x7E < ch
           then BSLASH @ ''u00'' @ [hex_digit (of_char ch div 16), hex_digit (of_char ch mod 16)]
      else [ch])"

definition json_string :: "string \<Rightarrow> string" where
  "json_string s = DQ @ concat (map json_char s) @ DQ"

definition daemon_json :: "string \<Rightarrow> string \<Rightarrow> string" where
  "daemon_json driver root =
     ''{'' @ NL @
     ''    '' @ json_string ''storage-driver'' @ '': '' @ json_string driver @ '','' @ NL @
     ''    '' @ json_string ''data-root'' @ '': '' @ json_string root @ NL @
     ''}'' @ NL"

definition access_group_sudoers :: "string \<Rightarrow> string" where
  "access_group_sudoers grp =
     ''# allow '' @ grp @ '' group to run docker without password'' @ NL @
     ''%'' @ grp @ '' ALL=(ALL) NOPASSWD: /usr/bin/docker, /usr/bin/docker-compose'' @ NL"

definition missing_docker_groups :: "string \<Rightarrow> string list \<Rightarrow> string list" where
  "missing_docker_groups grp groups =
     sorted_set (filter (\<lambda>g. g \<notin> set groups) [DOCKER_GROUP, grp])"

definition docker_execute :: "installer_config \<Rightarrow> unit action" where
  "docker_execute c =
     (let d = docker c; username = user_name (sys_user (system c));
          sudoers_file = TARGET_ROOT @ ''/etc/sudoers.d/'' @ access_group d
      in bindA (succeeds (chroot_ok ''pacman -Q docker'')) (\<lambda>installed.
         if \<not> installed then returnA ()
         else seqA [
           do_sh (''mkdir -p '' @ TARGET_ROOT @ ''/etc/docker''),
           write_file (TARGET_ROOT @ ''/etc/docker/daemon.json'')
             (daemon_json (storage_driver d) (data_root d)),
           do_chroot_ok ''systemctl enable docker.service'',
           bindA (succeeds (chroot_ok (''getent group '' @ access_group d))) (\<lambda>there.
             whenA (\<not> there) (do_chroot (''groupadd '' @ access_group d))),
           bindA (user_groups username) (\<lambda>groups.
             forA (missing_docker_groups (access_group d) groups) (\<lambda>grp.
               do_chroot (''usermod -aG '' @ grp @ '' '' @ username))),
           write_file sudoers_file (access_group_sudoers (access_group d)),
           do_sh (''chmod 440 '' @ sudoers_file)]))"

subsection \<open>The contract of the step executors\<close>

lemmas system_setup_actions = docker_execute_def system_execute_def uncomment_locale_def
  create_user_def user_groups_def

interpretation system_step: step_executor system_execute
proof
  fix c
  show "emits (\<lambda>_. True) (system_execute c)"
    unfolding system_setup_actions Let_def by (intro emits_intros TrueI)
  show "indist (system_execute c) (system_execute (without_credentials c))"
    unfolding system_setup_actions Let_def without_credentials_simps
    by (intro oblivious_intros)
qed

interpretation docker_step: step_executor docker_execute
proof
  fix c
  show "emits (\<lambda>_. True) (docker_execute c)"
    unfolding system_setup_actions Let_def by (intro emits_intros TrueI)
  show "indist (docker_execute c) (docker_execute (without_credentials c))"
    unfolding system_setup_actions Let_def without_credentials_simps
    by (intro oblivious_intros)
qed

end
