(* ===== verification/Install_Steps.thy ===== *)
theory Install_Steps
  imports Environment Config_Schema Storage Usb_Boot Migration Recovery Gpu Mirrors Packages
    System_Setup Firewall Boot Snapper
begin

text \<open>
  \<^verbatim>\<open>install_steps/\<close>: the question types (\<^verbatim>\<open>questions.py\<close>), the types of the registry
  (\<^verbatim>\<open>wiring.py\<close>), and the registry itself (\<^verbatim>\<open>registry.py\<close>): every install step with its
  settings, its condition and its executor, in run order.
\<close>

subsection \<open>Questions\<close>

record choice =
  choice_value :: pyval
  choice_label :: string

record disk =
  disk_path :: string
  disk_model :: string
  disk_size :: string

text \<open>
  Choices may be computed when the question is asked, from the inherited value and the
  machine; listing the disks of the machine runs commands.
\<close>

type_synonym machine_facts = "disk list action"
type_synonym choice_source = "pyval \<Rightarrow> machine_facts \<Rightarrow> choice list action"

datatype question =
    Choose_One string "choice list + choice_source" string string
  | Choose_Many string "choice list" string
  | Enter_Text string string
  | Enter_Secret string string bool
  | Switch string string string string

fun question_label :: "question \<Rightarrow> string" where
  "question_label (Choose_One label _ _ _) = label"
| "question_label (Choose_Many label _ _) = label"
| "question_label (Enter_Text label _) = label"
| "question_label (Enter_Secret label _ _) = label"
| "question_label (Switch label _ _ _) = label"

subsection \<open>Wiring\<close>

type_synonym setting_lookup = "string \<Rightarrow> pyval"
type_synonym step_condition = "setting_lookup \<Rightarrow> bool"

definition always :: step_condition where
  "always lookup = True"

definition when_set :: "string \<Rightarrow> step_condition" where
  "when_set setting_path lookup = truthy (lookup setting_path)"

definition when_equal :: "string \<Rightarrow> pyval \<Rightarrow> step_condition" where
  "when_equal setting_path expected lookup = py_eq (lookup setting_path) expected"

text \<open>\<^verbatim>\<open>getattr\<close> along the path; the registry only names fields that the classes declare.\<close>

definition config_lookup :: "installer_config \<Rightarrow> setting_lookup" where
  "config_lookup c setting_path =
     foldl (\<lambda>current name. field_at name current) (installer_config_asdict c) (split_on ''.'' setting_path)"

record step_setting =
  setting_path :: string
  environment_variable :: "env_variable option"
  setting_question :: "question option"
  asked_when :: step_condition

record step_wiring =
  config_sections :: "string list"
  step_settings :: "step_setting list"
  step_enabled :: step_condition
  step_executor_of :: "installer_config \<Rightarrow> unit action"

subsection \<open>The steps\<close>

datatype install_step =
    Migration_Staging | Usb_Boot_Drive | Storage_Step | Pacman_Mirrors | Packages_Step
  | Migration_Restore | System_Step | Docker_Step | Gpu_Driver | Kernel_Images | Bootloader
  | Recovery_System | Snapper_Step | Bootable_Snapshots | Snapshot_Notifications | Firewall_Step
  | Usb_Boot_Safeguards

fun install_step_text :: "install_step \<Rightarrow> string" where
  "install_step_text Migration_Staging = ''Migration staging''"
| "install_step_text Usb_Boot_Drive = ''USB boot drive''"
| "install_step_text Storage_Step = ''Storage''"
| "install_step_text Pacman_Mirrors = ''Pacman mirrors''"
| "install_step_text Packages_Step = ''Packages''"
| "install_step_text Migration_Restore = ''Migration restore''"
| "install_step_text System_Step = ''System''"
| "install_step_text Docker_Step = ''Docker''"
| "install_step_text Gpu_Driver = ''GPU driver''"
| "install_step_text Kernel_Images = ''Kernel images''"
| "install_step_text Bootloader = ''Bootloader''"
| "install_step_text Recovery_System = ''Recovery system''"
| "install_step_text Snapper_Step = ''Snapper''"
| "install_step_text Bootable_Snapshots = ''Bootable snapshots''"
| "install_step_text Snapshot_Notifications = ''Snapshot notifications''"
| "install_step_text Firewall_Step = ''Firewall''"
| "install_step_text Usb_Boot_Safeguards = ''USB boot safeguards''"

text \<open>The steps in run order, the order of the class and of the registry, as a linear order.\<close>

definition INSTALL_STEPS :: "install_step list" where
  "INSTALL_STEPS = [
     Migration_Staging, Usb_Boot_Drive, Storage_Step, Pacman_Mirrors, Packages_Step,
     Migration_Restore, System_Step, Docker_Step, Gpu_Driver, Kernel_Images, Bootloader,
     Recovery_System, Snapper_Step, Bootable_Snapshots, Snapshot_Notifications, Firewall_Step,
     Usb_Boot_Safeguards]"

fun run_position :: "install_step \<Rightarrow> nat" where
  "run_position Migration_Staging = 0"
| "run_position Usb_Boot_Drive = 1"
| "run_position Storage_Step = 2"
| "run_position Pacman_Mirrors = 3"
| "run_position Packages_Step = 4"
| "run_position Migration_Restore = 5"
| "run_position System_Step = 6"
| "run_position Docker_Step = 7"
| "run_position Gpu_Driver = 8"
| "run_position Kernel_Images = 9"
| "run_position Bootloader = 10"
| "run_position Recovery_System = 11"
| "run_position Snapper_Step = 12"
| "run_position Bootable_Snapshots = 13"
| "run_position Snapshot_Notifications = 14"
| "run_position Firewall_Step = 15"
| "run_position Usb_Boot_Safeguards = 16"

lemma run_position_inject: "run_position s = run_position t \<longleftrightarrow> s = t"
  by (cases s; cases t; simp)

instantiation install_step :: linorder
begin

definition less_eq_install_step :: "install_step \<Rightarrow> install_step \<Rightarrow> bool" where
  "less_eq_install_step s t \<longleftrightarrow> run_position s \<le> run_position t"

definition less_install_step :: "install_step \<Rightarrow> install_step \<Rightarrow> bool" where
  "less_install_step s t \<longleftrightarrow> run_position s < run_position t"

instance
  by standard (auto simp: less_eq_install_step_def less_install_step_def run_position_inject)

end

lemma INSTALL_STEPS_complete: "set INSTALL_STEPS = UNIV"
proof -
  have "s \<in> set INSTALL_STEPS" for s by (cases s) (simp_all add: INSTALL_STEPS_def)
  then show ?thesis by auto
qed

lemma INSTALL_STEPS_sorted: "sorted_wrt (<) INSTALL_STEPS"
  by (simp add: INSTALL_STEPS_def less_install_step_def)

subsection \<open>Choices\<close>

definition plain_choice :: "string \<Rightarrow> string \<Rightarrow> choice" where
  "plain_choice value label = \<lparr>choice_value = PStr value, choice_label = label\<rparr>"

definition WIPE_CHOICES :: "choice list" where
  "WIPE_CHOICES = [
     plain_choice (wipe_method_text Wipe_Quick) ''Quick wipe (partition table only)'',
     plain_choice (wipe_method_text Wipe_Secure) ''Secure wipe (random fill - slow)'',
     plain_choice (wipe_method_text Wipe_Discard) ''SSD discard (blkdiscard - fast)'',
     plain_choice (wipe_method_text Wipe_Skip) ''Skip wipe (recovering partial install)'']"

definition CPU_CHOICES :: "choice list" where
  "CPU_CHOICES = [
     plain_choice (cpu_vendor_text Cpu_Intel) ''Intel'',
     plain_choice (cpu_vendor_text Cpu_Amd) ''AMD'']"

definition GPU_CHOICES :: "choice list" where
  "GPU_CHOICES = [
     plain_choice (gpu_vendor_text Gpu_Amd) ''AMD (AMDGPU, open-source)'',
     plain_choice (gpu_vendor_text Gpu_Intel) ''Intel (integrated graphics)'',
     plain_choice (gpu_vendor_text Gpu_Nvidia) ''NVIDIA (proprietary/nouveau)'',
     plain_choice (gpu_vendor_text Gpu_None) ''None (VM or generic)'']"

definition NVIDIA_DRIVER_CHOICES :: "choice list" where
  "NVIDIA_DRIVER_CHOICES = [
     plain_choice (gpu_driver_text Driver_Nouveau) ''Nouveau - open-source, limited features'',
     plain_choice (gpu_driver_text Driver_Nvidia_Open)
       ''NVIDIA Open - official open kernel modules, RTX 20+'',
     plain_choice (gpu_driver_text Driver_Nvidia_Dkms)
       ''NVIDIA DKMS - proprietary, best compatibility'']"

definition DESKTOP_CHOICES :: "choice list" where
  "DESKTOP_CHOICES = [
     plain_choice (desktop_text Gnome) ''GNOME (Wayland, modern)'',
     plain_choice (desktop_text Kde) ''KDE Plasma (Wayland, customizable)'',
     plain_choice (desktop_text Hyprland) ''Hyprland (Wayland tiling WM)'']"

definition SWAP_PRESETS_MB :: "int list" where
  "SWAP_PRESETS_MB = [4096, 8192, 16384, 32768, 65536]"

definition detected_disk_choices :: choice_source where
  "detected_disk_choices inherited machine =
     bindA machine (\<lambda>disks. returnA (map (\<lambda>d. plain_choice (disk_path d)
       (disk_path d @ ''  '' @ disk_model d @ ''  ('' @ disk_size d @ '')'')) disks))"

definition swap_label :: "int \<Rightarrow> string" where
  "swap_label mb =
     (if mb mod 1024 = 0 then string_of_int (mb div 1024) @ '' GB'' else string_of_int mb @ '' MB'')"

text \<open>\<^verbatim>\<open>isinstance(inherited_value, int)\<close> holds for a truth value too: \<^verbatim>\<open>True\<close> is the number 1.\<close>

definition swap_sizes :: "pyval \<Rightarrow> int list" where
  "swap_sizes inherited =
     sorted_set (SWAP_PRESETS_MB @
       (case number_of inherited of Some n \<Rightarrow> if 0 < n then [n] else [] | None \<Rightarrow> []))"

definition swap_size_choices :: choice_source where
  "swap_size_choices inherited machine =
     returnA (map (\<lambda>mb. \<lparr>choice_value = PInt mb, choice_label = swap_label mb\<rparr>)
       (swap_sizes inherited))"

subsection \<open>Conditions\<close>

definition mirrors_declared :: step_condition where
  "mirrors_declared lookup \<longleftrightarrow>
     truthy (lookup ''system.mirrors.use_reflector'') \<or> truthy (lookup ''system.mirrors.mirrors'')"

definition uses_proprietary_nvidia :: step_condition where
  "uses_proprietary_nvidia lookup \<longleftrightarrow>
     py_eq (lookup ''gpu.vendor'') (PStr (gpu_vendor_text Gpu_Nvidia)) \<and>
     \<not> py_eq (lookup ''gpu.driver'') (PStr (gpu_driver_text Driver_Nouveau))"

definition recovery_system_wanted :: step_condition where
  "recovery_system_wanted lookup \<longleftrightarrow>
     truthy (lookup ''usb_boot.enabled'') \<and> truthy (lookup ''usb_boot.recovery_system'')"

definition snapshot_notifications_wanted :: step_condition where
  "snapshot_notifications_wanted lookup \<longleftrightarrow>
     truthy (lookup ''notifications.enabled'') \<and> truthy (lookup ''snapper.enabled'')"

subsection \<open>The registry\<close>

definition setting ::
  "string \<Rightarrow> env_variable option \<Rightarrow> question option \<Rightarrow> step_condition \<Rightarrow> step_setting" where
  "setting path variable q asked =
     \<lparr>setting_path = path, environment_variable = variable, setting_question = q, asked_when = asked\<rparr>"

definition on_off_switch :: "string \<Rightarrow> string \<Rightarrow> question" where
  "on_off_switch label description = Switch label ''On'' ''Off'' description"

text \<open>One wiring per step, as the entries of the registry.\<close>

definition migration_staging_wiring :: step_wiring where
  "migration_staging_wiring = \<lparr>
     config_sections = [''migration''],
     step_settings = [
     setting ''migration.enabled'' (Some Env_Enable_Migration)
       (Some (Switch ''Installation type'' ''Migration from existing Arch'' ''Fresh installation'' []))
       always,
     setting ''credentials.source_luks_password'' (Some Env_Source_Luks_Password)
       (Some (Enter_Secret ''Old disk password'' ''LUKS password of the existing install:'' False))
       (when_set ''migration.enabled'')],
     step_enabled = when_set ''migration.enabled'',
     step_executor_of = migration_staging_execute\<rparr>"

definition usb_boot_drive_wiring :: step_wiring where
  "usb_boot_drive_wiring = \<lparr>
     config_sections = [''usb_boot''],
     step_settings = [
     setting ''usb_boot.enabled'' (Some Env_Enable_Usb_Boot)
       (Some (Switch ''USB boot drive'' ''Yes - EFI partition and LUKS header on a USB drive''
          ''No - boot from the internal disk''
          (''The internal disk keeps only ciphertext; '' @
           ''the system starts and unlocks only with the drive.'')))
       always,
     setting ''usb_boot.device'' (Some Env_Usb_Boot_Device)
       (Some (Choose_One ''USB drive'' (Inr detected_disk_choices)
          ''Select the USB drive (ALL DATA ON IT WILL BE ERASED):''
          ''Enter the USB drive path (e.g. /dev/sdb):''))
       (when_set ''usb_boot.enabled''),
     setting ''usb_boot.recovery_system'' (Some Env_Enable_Recovery_System)
       (Some (Switch ''Recovery system'' ''Yes - signed Arch live system on the drive'' ''No''
          ''Boot the Arch ISO from the drive under Secure Boot to repair the system.''))
       (when_set ''usb_boot.enabled''),
     setting ''usb_boot.iso_path'' (Some Env_Iso_Path)
       (Some (Enter_Text ''Recovery ISO'' ''Arch ISO file, or the live medium (e.g. /dev/sr0):''))
       recovery_system_wanted],
     step_enabled = when_set ''usb_boot.enabled'',
     step_executor_of = usb_boot_drive_execute\<rparr>"

definition storage_wiring :: step_wiring where
  "storage_wiring = \<lparr>
     config_sections = [''storage''],
     step_settings = [
     setting ''storage.target_disk'' (Some Env_Target_Disk)
       (Some (Choose_One ''Disk'' (Inr detected_disk_choices)
          ''Select target disk (ALL DATA WILL BE ERASED):'' ''Enter disk path (e.g. /dev/sda):''))
       always,
     setting ''storage.wipe_method'' (Some Env_Wipe_Method)
       (Some (Choose_One ''Wipe method'' (Inl WIPE_CHOICES) [] [])) always,
     setting ''storage.swap.enabled'' (Some Env_Enable_Swap)
       (Some (on_off_switch ''Swap file'' [])) always,
     setting ''storage.swap.size_mb'' (Some Env_Swap_Size_Mb)
       (Some (Choose_One ''Swap size'' (Inr swap_size_choices) [] []))
       (when_set ''storage.swap.enabled''),
     setting ''storage.swap.hibernation'' (Some Env_Enable_Hibernation)
       (Some (on_off_switch ''Hibernation'' ''Resume from the swapfile after power-off.''))
       (when_set ''storage.swap.enabled''),
     setting ''credentials.luks_password'' (Some Env_Luks_Password)
       (Some (Enter_Secret ''LUKS password'' ''LUKS encryption password:'' True)) always],
     step_enabled = always,
     step_executor_of = storage_execute\<rparr>"

definition pacman_mirrors_wiring :: step_wiring where
  "pacman_mirrors_wiring = \<lparr>
     config_sections = [''system.mirrors''],
     step_settings = [],
     step_enabled = mirrors_declared,
     step_executor_of = pacman_mirrors_execute\<rparr>"

definition packages_wiring :: step_wiring where
  "packages_wiring = \<lparr>
     config_sections = [''packages'', ''gpu''],
     step_settings = [
     setting ''system.cpu_vendor'' (Some Env_Cpu_Vendor)
       (Some (Choose_One ''CPU vendor'' (Inl CPU_CHOICES) [] [])) always,
     setting ''gpu.vendor'' (Some Env_Gpu_Vendor)
       (Some (Choose_One ''GPU vendor'' (Inl GPU_CHOICES) [] [])) always,
     setting ''gpu.driver'' (Some Env_Gpu_Driver)
       (Some (Choose_One ''NVIDIA driver'' (Inl NVIDIA_DRIVER_CHOICES) [] []))
       (when_equal ''gpu.vendor'' (PStr (gpu_vendor_text Gpu_Nvidia))),
     setting ''packages.selected_desktops'' (Some Env_Selected_Desktops)
       (Some (Choose_Many ''Desktops'' DESKTOP_CHOICES
          ''Select desktop environments to install (Space to toggle):''))
       always,
     setting ''boot.selected_kernels'' (Some Env_Selected_Kernels) None always],
     step_enabled = always,
     step_executor_of = packages_execute\<rparr>"

definition migration_restore_wiring :: step_wiring where
  "migration_restore_wiring = \<lparr>
     config_sections = [],
     step_settings = [],
     step_enabled = when_set ''migration.enabled'',
     step_executor_of = migration_restore_execute\<rparr>"

definition system_wiring :: step_wiring where
  "system_wiring = \<lparr>
     config_sections = [''system''],
     step_settings = [
     setting ''system.hostname'' None (Some (Enter_Text ''Hostname'' ''Hostname:'')) always,
     setting ''system.user.name'' None (Some (Enter_Text ''Username'' ''Username:'')) always,
     setting ''system.timezone'' None
       (Some (Enter_Text ''Timezone'' ''Timezone (e.g. Europe/Helsinki):'')) always,
     setting ''system.locale.keymap'' None (Some (Enter_Text ''Keymap'' ''Keymap:'')) always,
     setting ''credentials.user_password'' (Some Env_User_Password)
       (Some (Enter_Secret ''User password'' ''User account password:'' True)) always],
     step_enabled = always,
     step_executor_of = system_execute\<rparr>"

definition docker_wiring :: step_wiring where
  "docker_wiring = \<lparr>
     config_sections = [''docker''],
     step_settings = [
     setting ''docker.enabled'' (Some Env_Enable_Docker) (Some (on_off_switch ''Docker'' [])) always],
     step_enabled = when_set ''docker.enabled'',
     step_executor_of = docker_execute\<rparr>"

definition gpu_driver_wiring :: step_wiring where
  "gpu_driver_wiring = \<lparr>
     config_sections = [],
     step_settings = [],
     step_enabled = uses_proprietary_nvidia,
     step_executor_of = gpu_driver_execute\<rparr>"

definition kernel_images_wiring :: step_wiring where
  "kernel_images_wiring = \<lparr>
     config_sections = [''boot''],
     step_settings = [],
     step_enabled = always,
     step_executor_of = kernel_images_execute\<rparr>"

definition bootloader_wiring :: step_wiring where
  "bootloader_wiring = \<lparr>
     config_sections = [''boot.loader''],
     step_settings = [],
     step_enabled = always,
     step_executor_of = bootloader_execute\<rparr>"

definition recovery_system_wiring :: step_wiring where
  "recovery_system_wiring = \<lparr>
     config_sections = [],
     step_settings = [],
     step_enabled = recovery_system_wanted,
     step_executor_of = recovery_system_execute\<rparr>"

definition snapper_wiring :: step_wiring where
  "snapper_wiring = \<lparr>
     config_sections = [''snapper''],
     step_settings = [],
     step_enabled = when_set ''snapper.enabled'',
     step_executor_of = snapper_execute\<rparr>"

definition bootable_snapshots_wiring :: step_wiring where
  "bootable_snapshots_wiring = \<lparr>
     config_sections = [],
     step_settings = [
     setting ''boot.enable_snapshot_boot'' (Some Env_Enable_Snapshot_Boot)
       (Some (on_off_switch ''Bootable snapshots'' [])) always],
     step_enabled = when_set ''boot.enable_snapshot_boot'',
     step_executor_of = bootable_snapshots_execute\<rparr>"

definition snapshot_notifications_wiring :: step_wiring where
  "snapshot_notifications_wiring = \<lparr>
     config_sections = [''notifications''],
     step_settings = [
     setting ''notifications.enabled'' (Some Env_Enable_Notifications)
       (Some (on_off_switch ''Desktop notifications'' ''Notify when a snapshot is taken.'')) always],
     step_enabled = snapshot_notifications_wanted,
     step_executor_of = snapshot_notifications_execute\<rparr>"

definition firewall_wiring :: step_wiring where
  "firewall_wiring = \<lparr>
     config_sections = [''firewall''],
     step_settings = [
     setting ''firewall.enabled'' (Some Env_Enable_Firewall)
       (Some (on_off_switch ''Firewall (UFW)'' [])) always],
     step_enabled = when_set ''firewall.enabled'',
     step_executor_of = firewall_execute\<rparr>"

definition usb_boot_safeguards_wiring :: step_wiring where
  "usb_boot_safeguards_wiring = \<lparr>
     config_sections = [],
     step_settings = [],
     step_enabled = when_set ''usb_boot.enabled'',
     step_executor_of = usb_boot_safeguards_execute\<rparr>"

fun wiring_of :: "install_step \<Rightarrow> step_wiring" where
  "wiring_of Migration_Staging = migration_staging_wiring"
| "wiring_of Usb_Boot_Drive = usb_boot_drive_wiring"
| "wiring_of Storage_Step = storage_wiring"
| "wiring_of Pacman_Mirrors = pacman_mirrors_wiring"
| "wiring_of Packages_Step = packages_wiring"
| "wiring_of Migration_Restore = migration_restore_wiring"
| "wiring_of System_Step = system_wiring"
| "wiring_of Docker_Step = docker_wiring"
| "wiring_of Gpu_Driver = gpu_driver_wiring"
| "wiring_of Kernel_Images = kernel_images_wiring"
| "wiring_of Bootloader = bootloader_wiring"
| "wiring_of Recovery_System = recovery_system_wiring"
| "wiring_of Snapper_Step = snapper_wiring"
| "wiring_of Bootable_Snapshots = bootable_snapshots_wiring"
| "wiring_of Snapshot_Notifications = snapshot_notifications_wiring"
| "wiring_of Firewall_Step = firewall_wiring"
| "wiring_of Usb_Boot_Safeguards = usb_boot_safeguards_wiring"

lemmas wiring_simps =
  migration_staging_wiring_def
  usb_boot_drive_wiring_def
  storage_wiring_def
  pacman_mirrors_wiring_def
  packages_wiring_def
  migration_restore_wiring_def
  system_wiring_def
  docker_wiring_def
  gpu_driver_wiring_def
  kernel_images_wiring_def
  bootloader_wiring_def
  recovery_system_wiring_def
  snapper_wiring_def
  bootable_snapshots_wiring_def
  snapshot_notifications_wiring_def
  firewall_wiring_def
  usb_boot_safeguards_wiring_def

abbreviation executor_of :: "install_step \<Rightarrow> installer_config \<Rightarrow> unit action" where
  "executor_of step \<equiv> step_executor_of (wiring_of step)"

lemma executors [simp]:
  "step_executor_of migration_staging_wiring = migration_staging_execute"
  "step_executor_of usb_boot_drive_wiring = usb_boot_drive_execute"
  "step_executor_of storage_wiring = storage_execute"
  "step_executor_of pacman_mirrors_wiring = pacman_mirrors_execute"
  "step_executor_of packages_wiring = packages_execute"
  "step_executor_of migration_restore_wiring = migration_restore_execute"
  "step_executor_of system_wiring = system_execute"
  "step_executor_of docker_wiring = docker_execute"
  "step_executor_of gpu_driver_wiring = gpu_driver_execute"
  "step_executor_of kernel_images_wiring = kernel_images_execute"
  "step_executor_of bootloader_wiring = bootloader_execute"
  "step_executor_of recovery_system_wiring = recovery_system_execute"
  "step_executor_of snapper_wiring = snapper_execute"
  "step_executor_of bootable_snapshots_wiring = bootable_snapshots_execute"
  "step_executor_of snapshot_notifications_wiring = snapshot_notifications_execute"
  "step_executor_of firewall_wiring = firewall_execute"
  "step_executor_of usb_boot_safeguards_wiring = usb_boot_safeguards_execute"
  by (simp_all add: wiring_simps)

definition USB_BACKUP_SETTINGS :: "step_setting list" where
  "USB_BACKUP_SETTINGS = [
     setting ''sync.backup_partition'' (Some Env_Backup_Partition) None always,
     setting ''sync.backup_categories'' (Some Env_Backup_Categories) None always]"

definition all_settings :: "step_setting list" where
  "all_settings =
     concat (map (\<lambda>step. step_settings (wiring_of step)) INSTALL_STEPS) @ USB_BACKUP_SETTINGS"

definition environment_variable_paths :: "(env_variable, string) dict" where
  "environment_variable_paths =
     foldl (\<lambda>d s. case environment_variable s of
          None \<Rightarrow> d | Some variable \<Rightarrow> AList.update variable (setting_path s) d) [] all_settings"

definition variable_for_setting :: "string \<Rightarrow> env_variable option" where
  "variable_for_setting path =
     (case List.find (\<lambda>s. setting_path s = path) all_settings of
        None \<Rightarrow> None | Some s \<Rightarrow> environment_variable s)"

subsection \<open>Every step keeps the contract\<close>

lemma executor_append_only: "emits (\<lambda>_. True) (executor_of step c)"
  by (cases step)
    (simp_all add: migration_staging_step.append_only usb_boot_drive_step.append_only
      storage_step.append_only pacman_mirrors_step.append_only packages_step.append_only
      migration_restore_step.append_only system_step.append_only docker_step.append_only
      gpu_driver_step.append_only kernel_images_step.append_only bootloader_step.append_only
      recovery_system_step.append_only snapper_step.append_only bootable_snapshots_step.append_only
      snapshot_notifications_step.append_only firewall_step.append_only
      usb_boot_safeguards_step.append_only)

lemma executor_keeps_secrets: "indist (executor_of step c) (executor_of step (without_credentials c))"
  by (cases step)
    (simp_all add: migration_staging_step.keeps_secrets usb_boot_drive_step.keeps_secrets
      storage_step.keeps_secrets pacman_mirrors_step.keeps_secrets packages_step.keeps_secrets
      migration_restore_step.keeps_secrets system_step.keeps_secrets docker_step.keeps_secrets
      gpu_driver_step.keeps_secrets kernel_images_step.keeps_secrets bootloader_step.keeps_secrets
      recovery_system_step.keeps_secrets snapper_step.keeps_secrets bootable_snapshots_step.keeps_secrets
      snapshot_notifications_step.keeps_secrets firewall_step.keeps_secrets
      usb_boot_safeguards_step.keeps_secrets)

interpretation any_step: step_executor "executor_of step" for step
  by unfold_locales (rule executor_append_only, rule executor_keeps_secrets)

end
