(* ===== verification/Expected_State.thy ===== *)
theory Expected_State
  imports Config_Models
begin

text \<open>
  \<^verbatim>\<open>expected_state.py\<close>: the values \<^verbatim>\<open>verify-install\<close> checks the installed system against, as
  shell assignments. \<^verbatim>\<open>shlex.quote\<close> is modelled, and so is how a POSIX shell reads the words it
  writes, so that the two can be compared.
\<close>

definition EXPECTED_STATE_PATH :: string where
  "EXPECTED_STATE_PATH = ''/etc/dali/expected-state.env''"

subsection \<open>Writing\<close>

text \<open>The characters that need no quotes: ASCII letters, digits, \<^verbatim>\<open>_\<close> and \<^verbatim>\<open>@%+=:,./-\<close>.\<close>

definition is_safe :: "char \<Rightarrow> bool" where
  "is_safe c \<longleftrightarrow> is_upper c \<or> is_lower c \<or> is_digit c \<or> c \<in> set ''_@%+=:,./-''"

definition shlex_quote :: "string \<Rightarrow> string" where
  "shlex_quote s =
     (if s = [] then SQ @ SQ
      else if list_all is_safe s then s
      else SQ @ replace_all SQ (SQ @ DQ @ SQ @ DQ @ SQ) s @ SQ)"

fun shell_word :: "string + bool \<Rightarrow> string" where
  "shell_word (Inl s) = shlex_quote s"
| "shell_word (Inr b) = (if b then ''true'' else ''false'')"

definition expected_state_values :: "installer_config \<Rightarrow> (string, string + bool) dict" where
  "expected_state_values c = [
     (''EXPECTED_HOSTNAME'', Inl (hostname (system c))),
     (''EXPECTED_TIMEZONE'', Inl (timezone (system c))),
     (''EXPECTED_LOCALE'', Inl (full_locale (sys_locale (system c)))),
     (''EXPECTED_KEYMAP'', Inl (locale_keymap (sys_locale (system c)))),
     (''EXPECTED_USER'', Inl (user_name (sys_user (system c)))),
     (''EXPECTED_SWAP_ENABLED'', Inr (swap_enabled (swap (storage c)))),
     (''EXPECTED_SWAP_PATH'', Inl (swap_path (swap (storage c)))),
     (''EXPECTED_KERNEL_PACKAGES'', Inl (join '' '' (kernel_packages (boot c)))),
     (''EXPECTED_DISPLAY_MANAGERS'', Inl (join '' '' (display_manager (packages c)))),
     (''EXPECTED_SNAPPER_ENABLED'', Inr (snapper_enabled (snapper c))),
     (''EXPECTED_FIREWALL_ENABLED'', Inr (firewall_enabled (firewall c))),
     (''EXPECTED_GPU_VENDOR'', Inl (gpu_vendor_text (gpu_vendor (gpu c)))),
     (''EXPECTED_GPU_DRIVER'', Inl (gpu_driver_text (gpu_driver (gpu c)))),
     (''EXPECTED_USB_BOOT'', Inr (usb_boot_enabled (usb_boot c))),
     (''EXPECTED_RECOVERY_SYSTEM'',
        Inr (usb_boot_enabled (usb_boot c) \<and> recovery_system (usb_boot c)))]"

definition expected_state_file :: "installer_config \<Rightarrow> string" where
  "expected_state_file c =
     join NL
       (''# written by the DALI installer from the final configuration, read by verify-install''
        # map (\<lambda>(name, value). name @ ''='' @ shell_word value) (expected_state_values c)) @ NL"

subsection \<open>Reading\<close>

text \<open>
  The word of an assignment as a POSIX shell reads it, up to the end of its line: text in
  single quotes is literal, in double quotes literal but for \<^verbatim>\<open>$\<close>, \<^verbatim>\<open>`\<close> and the backslash. A
  character with a meaning to the shell (blanks, \<^verbatim>\<open>$\<close>, \<^verbatim>\<open>;\<close>, \<^verbatim>\<open>~\<close> and so on) outside quotes is
  refused.
\<close>

datatype quote_state = Unquoted | Single_Quoted | Double_Quoted

fun read_word :: "quote_state \<Rightarrow> string \<Rightarrow> (string \<times> string) option" where
  "read_word Unquoted [] = Some ([], [])"
| "read_word Unquoted (c # cs) =
     (if [c] = NL then Some ([], cs)
      else if [c] = SQ then read_word Single_Quoted cs
      else if [c] = DQ then read_word Double_Quoted cs
      else if is_safe c then map_option (\<lambda>(w, rest). (c # w, rest)) (read_word Unquoted cs)
      else None)"
| "read_word Single_Quoted [] = None"
| "read_word Single_Quoted (c # cs) =
     (if [c] = SQ then read_word Unquoted cs
      else map_option (\<lambda>(w, rest). (c # w, rest)) (read_word Single_Quoted cs))"
| "read_word Double_Quoted [] = None"
| "read_word Double_Quoted (c # cs) =
     (if [c] = DQ then read_word Unquoted cs
      else if c \<in> {CHR ''$'', CHR 0x60} \<or> [c] = BSLASH then None
      else map_option (\<lambda>(w, rest). (c # w, rest)) (read_word Double_Quoted cs))"

text \<open>The assignments of a file: comment lines are skipped, \<open>fuel\<close> bounds the number of lines.\<close>

fun read_assignments :: "nat \<Rightarrow> string \<Rightarrow> (string, string) dict option" where
  "read_assignments fuel [] = Some []"
| "read_assignments 0 (c # cs) = None"
| "read_assignments (Suc fuel) (c # cs) =
     (if c = CHR ''#''
      then read_assignments fuel (drop 1 (dropWhile (\<lambda>d. [d] \<noteq> NL) cs))
      else case find_sep ''='' (c # cs) of
        None \<Rightarrow> None
      | Some (name, after) \<Rightarrow>
          (case read_word Unquoted after of
             None \<Rightarrow> None
           | Some (value, rest) \<Rightarrow> map_option (Cons (name, value)) (read_assignments fuel rest)))"

fun assigned_text :: "string + bool \<Rightarrow> string" where
  "assigned_text (Inl s) = s"
| "assigned_text (Inr b) = (if b then ''true'' else ''false'')"

subsection \<open>What is written is read back\<close>

lemma is_safe_plain: "is_safe c \<Longrightarrow> [c] \<noteq> NL \<and> [c] \<noteq> SQ \<and> [c] \<noteq> DQ"
  by (auto simp: is_safe_def is_upper_def is_lower_def is_digit_def less_eq_char_def)

lemma read_word_safe:
  "list_all is_safe s \<Longrightarrow> read_word Unquoted (s @ NL @ rest) = Some (s, rest)"
  by (induction s) (auto dest: is_safe_plain)

lemma join_extend: "xs \<noteq> [] \<Longrightarrow> join sep ((c # hd xs) # tl xs) = c # join sep xs"
  by (cases xs; cases "tl xs") auto

lemma replace_quote_Cons:
  "replace_all SQ new (c # s) = (if [c] = SQ then new else [c]) @ replace_all SQ new s"
proof (cases "[c] = SQ")
  case True
  then have "split_on SQ (c # s) = [] # split_on SQ s"
    by (subst split_on.simps) simp
  with True show ?thesis by (simp add: replace_all_def join_Cons split_on_not_Nil)
next
  case False
  have "split_on SQ (c # s) = (c # hd (split_on SQ s)) # tl (split_on SQ s)"
    using False by (subst (1 2 3) split_on.simps) (simp split: option.split)
  with False show ?thesis by (simp add: replace_all_def join_extend split_on_not_Nil)
qed

lemma replace_quote_Nil: "replace_all SQ new [] = []"
  by (simp add: replace_all_def split_on.simps)

lemma read_word_quoted:
  "read_word Single_Quoted (replace_all SQ (SQ @ DQ @ SQ @ DQ @ SQ) s @ SQ @ NL @ rest) = Some (s, rest)"
  by (induction s) (simp_all add: replace_quote_Cons replace_quote_Nil)

lemma read_word_shlex_quote: "read_word Unquoted (shlex_quote s @ NL @ rest) = Some (s, rest)"
  using read_word_safe [of s rest] read_word_quoted [of s rest]
  by (simp add: shlex_quote_def)

lemma read_word_shell_word:
  "read_word Unquoted (shell_word word @ NL @ rest) = Some (assigned_text word, rest)"
proof (cases word)
  case (Inl s)
  then show ?thesis using read_word_shlex_quote by simp
next
  case (Inr b)
  have "list_all is_safe (if b then ''true'' else ''false'')"
    by (simp add: is_safe_def is_upper_def is_lower_def is_digit_def less_eq_char_def)
  from read_word_safe [OF this, of rest] Inr show ?thesis by (cases b) simp_all
qed

definition is_variable_name :: "string \<Rightarrow> bool" where
  "is_variable_name name \<longleftrightarrow> name \<noteq> [] \<and> hd name \<noteq> CHR ''#'' \<and> CHR ''='' \<notin> set name"

lemma read_assignments_written:
  assumes "\<forall>(name, value) \<in> set entries. is_variable_name name"
  shows "read_assignments (length entries)
           (concat (map (\<lambda>(name, value). name @ ''='' @ shell_word value @ NL) entries))
         = Some (map (\<lambda>(name, value). (name, assigned_text value)) entries)"
  using assms
proof (induction entries)
  case Nil
  then show ?case by simp
next
  case (Cons entry rest)
  obtain name word where entry: "entry = (name, word)" by fastforce
  with Cons.prems have name: "is_variable_name name" by simp
  then obtain c cs where cs: "name = c # cs" by (cases name) (auto simp: is_variable_name_def)
  let ?rest = "concat (map (\<lambda>(name, value). name @ ''='' @ shell_word value @ NL) rest)"
  have sep: "find_sep ''='' (name @ ''='' @ shell_word word @ NL @ ?rest)
      = Some (name, shell_word word @ NL @ ?rest)"
    using name by (simp add: is_variable_name_def find_sep_single takeWhile_append dropWhile_append)
  have "c \<noteq> CHR ''#''" using name cs by (simp add: is_variable_name_def)
  with Cons sep read_word_shell_word [of word ?rest] show ?case
    by (simp add: entry cs)
qed

lemma join_lines: "xs \<noteq> [] \<Longrightarrow> join sep xs @ sep = concat (map (\<lambda>x. x @ sep) xs)"
  by (induction sep xs rule: join.induct) auto

lemma read_comment:
  "prefix ''#'' s \<Longrightarrow> CHR 0x0A \<notin> set s \<Longrightarrow>
   read_assignments (Suc fuel) (s @ NL @ rest) = read_assignments fuel rest"
  by (cases s) (auto simp: dropWhile_append)

lemma read_expected_state_file:
  "read_assignments 16 (expected_state_file c) =
     Some (map (\<lambda>(name, value). (name, assigned_text value)) (expected_state_values c))"
proof -
  let ?header = "''# written by the DALI installer from the final configuration, read by verify-install''"
  let ?lines = "concat (map (\<lambda>(name, value). name @ ''='' @ shell_word value @ NL) (expected_state_values c))"
  have content: "expected_state_file c = ?header @ NL @ ?lines"
    unfolding expected_state_file_def by (subst join_lines) (simp_all add: comp_def split_def)
  have header: "read_assignments (Suc 15) (?header @ NL @ ?lines) = read_assignments 15 ?lines"
    by (rule read_comment) simp_all
  have names: "\<forall>(name, value) \<in> set (expected_state_values c). is_variable_name name"
    by (simp add: expected_state_values_def is_variable_name_def)
  have "length (expected_state_values c) = 15"
    by (simp add: expected_state_values_def)
  with read_assignments_written [OF names]
  have lines: "read_assignments 15 ?lines =
      Some (map (\<lambda>(name, value). (name, assigned_text value)) (expected_state_values c))"
    by metis
  have "(16 :: nat) = Suc 15" by simp
  then show ?thesis by (metis content header lines)
qed

end
