(* ===== verification/Installer.thy ===== *)
theory Installer
  imports Install_Steps Usb_Backup Expected_State
begin

text \<open>
  \<^verbatim>\<open>installer.py\<close>: the enabled steps run in registry order, then the files the installed system
  keeps are written. An exception of a step ends the installation.
\<close>

definition UTILITY_SCRIPTS :: "(string \<times> string) list" where
  "UTILITY_SCRIPTS = [
     (''scripts/verify_install.sh'', ''verify-install''),
     (''scripts/manage_snapshot_entries.sh'', ''manage-snapshot-ukis''),
     (''scripts/dotfiles-sync.sh'', ''dotfiles-sync'')]"

definition enabled_steps :: "installer_config \<Rightarrow> install_step list" where
  "enabled_steps c = filter (\<lambda>step. step_enabled (wiring_of step) (config_lookup c)) INSTALL_STEPS"

definition run_steps :: "installer_config \<Rightarrow> unit action" where
  "run_steps c = forA (enabled_steps c) (\<lambda>step. step_executor_of (wiring_of step) c)"

definition install_utility_scripts :: "unit action" where
  "install_utility_scripts =
     (let scripts_directory = TARGET_ROOT @ ''/usr/local/bin'' in seqA [
        do_sh (''mkdir -p '' @ scripts_directory),
        forA UTILITY_SCRIPTS (\<lambda>(source, name).
          bindA (file_exists source) (\<lambda>there.
            whenA there (do_sh (''install -m 755 '' @ source @ '' '' @ scripts_directory @ ''/'' @ name))))])"

definition write_expected_state :: "installer_config \<Rightarrow> unit action" where
  "write_expected_state c =
     (let target_path = TARGET_ROOT @ EXPECTED_STATE_PATH in seqA [
        do_sh (''install -d -m 755 '' @ before_last (CHR ''/'') target_path),
        write_file target_path (expected_state_file c),
        do_sh (''chmod 644 '' @ target_path)])"

definition write_final_config :: "(pyval \<Rightarrow> string) \<Rightarrow> installer_config \<Rightarrow> unit action" where
  "write_final_config dump c =
     (let username = user_name (sys_user (system c));
          user_home = TARGET_ROOT @ ''/home/'' @ username
      in seqA [
        do_sh_ok (''mkdir -p '' @ user_home),
        write_file (user_home @ ''/final_config.yaml'') (dump (exportable_config c)),
        do_chroot_ok (''chown '' @ username @ '':'' @ username @ '' /home/'' @ username @
          ''/final_config.yaml'')])"

definition install :: "(pyval \<Rightarrow> string) \<Rightarrow> installer_config \<Rightarrow> unit action" where
  "install dump c = seqA [
     run_steps c,
     install_utility_scripts,
     write_expected_state c,
     write_final_config dump c]"

subsection \<open>Which steps are enabled\<close>

text \<open>The conditions, read off the configuration itself.\<close>

fun step_wanted :: "installer_config \<Rightarrow> install_step \<Rightarrow> bool" where
  "step_wanted c Migration_Staging = migration_enabled (migration c)"
| "step_wanted c Usb_Boot_Drive = usb_boot_enabled (usb_boot c)"
| "step_wanted c Pacman_Mirrors =
     (use_reflector (sys_mirrors (system c)) \<or> mirrors (sys_mirrors (system c)) \<noteq> [])"
| "step_wanted c Migration_Restore = migration_enabled (migration c)"
| "step_wanted c Docker_Step = docker_enabled (docker c)"
| "step_wanted c Gpu_Driver = uses_proprietary_nvidia_driver (gpu c)"
| "step_wanted c Recovery_System = (usb_boot_enabled (usb_boot c) \<and> recovery_system (usb_boot c))"
| "step_wanted c Snapper_Step = snapper_enabled (snapper c)"
| "step_wanted c Bootable_Snapshots = enable_snapshot_boot (boot c)"
| "step_wanted c Snapshot_Notifications =
     (notifications_enabled (notifications c) \<and> snapper_enabled (snapper c))"
| "step_wanted c Firewall_Step = firewall_enabled (firewall c)"
| "step_wanted c Usb_Boot_Safeguards = usb_boot_enabled (usb_boot c)"
| "step_wanted c _ = True"

lemma config_lookup_paths:
  "config_lookup c ''migration.enabled'' = PBool (migration_enabled (migration c))"
  "config_lookup c ''usb_boot.enabled'' = PBool (usb_boot_enabled (usb_boot c))"
  "config_lookup c ''usb_boot.recovery_system'' = PBool (recovery_system (usb_boot c))"
  "config_lookup c ''docker.enabled'' = PBool (docker_enabled (docker c))"
  "config_lookup c ''snapper.enabled'' = PBool (snapper_enabled (snapper c))"
  "config_lookup c ''firewall.enabled'' = PBool (firewall_enabled (firewall c))"
  "config_lookup c ''notifications.enabled'' = PBool (notifications_enabled (notifications c))"
  "config_lookup c ''boot.enable_snapshot_boot'' = PBool (enable_snapshot_boot (boot c))"
  "config_lookup c ''gpu.vendor'' = PStr (gpu_vendor_text (gpu_vendor (gpu c)))"
  "config_lookup c ''gpu.driver'' = PStr (gpu_driver_text (gpu_driver (gpu c)))"
  "config_lookup c ''system.mirrors.use_reflector'' = PBool (use_reflector (sys_mirrors (system c)))"
  "config_lookup c ''system.mirrors.mirrors'' = PTuple (map PStr (mirrors (sys_mirrors (system c))))"
  by (simp_all add: config_lookup_def text_simps field_at_def installer_config_asdict_def
      migration_config_asdict_def usb_boot_config_asdict_def docker_config_asdict_def
      snapper_config_asdict_def firewall_config_asdict_def notifications_config_asdict_def
      boot_config_asdict_def gpu_config_asdict_def system_config_asdict_def
      pacman_mirror_config_asdict_def)

lemma enabled_iff_wanted: "step_enabled (wiring_of step) (config_lookup c) \<longleftrightarrow> step_wanted c step"
  by (cases step)
    (simp_all add: wiring_simps always_def when_set_def mirrors_declared_def uses_proprietary_nvidia_def
      recovery_system_wanted_def snapshot_notifications_wanted_def config_lookup_paths number_of_def
      uses_proprietary_nvidia_driver_def is_proprietary_nvidia_def)

lemma enabled_steps_wanted: "enabled_steps c = filter (step_wanted c) INSTALL_STEPS"
  by (simp add: enabled_steps_def enabled_iff_wanted)

lemma enabled_steps_order: "sorted_wrt (<) (enabled_steps c)"
  unfolding enabled_steps_def by (rule sorted_wrt_filter [OF INSTALL_STEPS_sorted])

lemma set_enabled_steps: "set (enabled_steps c) = {step. step_wanted c step}"
  by (simp add: enabled_steps_wanted INSTALL_STEPS_complete)

subsection \<open>The whole installation keeps the contract\<close>

lemma step_wanted_without_credentials: "step_wanted (without_credentials c) step = step_wanted c step"
  by (cases step) simp_all

lemma enabled_steps_without_credentials: "enabled_steps (without_credentials c) = enabled_steps c"
  by (simp add: enabled_steps_wanted step_wanted_without_credentials cong: filter_cong)

lemma expected_state_without_credentials:
  "expected_state_file (without_credentials c) = expected_state_file c"
  by (simp add: expected_state_file_def expected_state_values_def)

lemma exportable_config_without_credentials:
  "exportable_config (without_credentials c) = exportable_config c"
  by (simp add: exportable_config_sections)

interpretation installation: step_executor "install dump" for dump
proof
  fix c
  show "emits (\<lambda>_. True) (install dump c)"
    unfolding install_def run_steps_def install_utility_scripts_def write_expected_state_def
      write_final_config_def Let_def
    by (auto intro!: emits_intros any_step.append_only)
  show "indist (install dump c) (install dump (without_credentials c))"
    unfolding install_def run_steps_def install_utility_scripts_def write_expected_state_def
      write_final_config_def Let_def enabled_steps_without_credentials
      expected_state_without_credentials exportable_config_without_credentials
      without_credentials_simps
    by (intro oblivious_intros) (auto intro: any_step.keeps_secrets)
qed

end
