(* ===== verification/Install_Properties.thy ===== *)
theory Install_Properties
  imports Installer Sample_Config
begin

text \<open>
  What the whole installation promises: no command line or file name it shows depends on a
  password, its steps run in the registry's order and stop at the first failure, a migration
  that cannot be staged leaves the disk alone, and the file it leaves for \<^verbatim>\<open>verify-install\<close> is
  read back as it was meant.
\<close>

subsection \<open>Passwords\<close>

definition other_passwords :: installer_config where
  "other_passwords = sample_config\<lparr>credentials := \<lparr>luks_password = ''secret'',
     user_password = ''hunter2'', source_luks_password = ''old''\<rparr>\<rparr>"

lemma accepting_machine_blind: "input_blind accepting_machine"
  by (simp add: input_blind_def accepting_machine_def)

text \<open>
  C2: Passwords reach a command only on its standard input. Two installations whose
  configurations differ in nothing but the passwords, on a machine that answers them alike, run
  the same commands with the same arguments, environment and results, and end the same way.
\<close>

theorem passwords_stay_off_command_lines:
  assumes "input_blind os" and "without_credentials c = without_credentials c'"
    and "install dump c os h = (r, k)" and "install dump c' os h = (r', k')"
  shows "r = r' \<and> visible k = visible k'"
  using assms by (rule installation.same_commands)

theorem passwords_stay_off_command_lines_witness:
  "visible (snd (install (\<lambda>_. []) sample_config accepting_machine [])) =
   visible (snd (install (\<lambda>_. []) other_passwords accepting_machine [])) \<and>
   luks_password (credentials sample_config) \<noteq> luks_password (credentials other_passwords)"
proof -
  obtain r k where run: "install (\<lambda>_. []) sample_config accepting_machine [] = (r, k)" by fastforce
  obtain r' k' where run': "install (\<lambda>_. []) other_passwords accepting_machine [] = (r', k')" by fastforce
  have "without_credentials sample_config = without_credentials other_passwords"
    by (simp add: other_passwords_def without_credentials_def)
  from passwords_stay_off_command_lines [OF accepting_machine_blind this run run']
  show ?thesis by (simp add: run run') (simp add: other_passwords_def sample_config_def)
qed

subsection \<open>The order of the steps\<close>

text \<open>
  C5: The installation runs the steps the configuration asks for, in the order of the registry
  and none twice, and stops at the first step that raises: its exception is the installation's,
  and no later step, nor any file for the installed system, adds to the history.
\<close>

theorem installation_stops_at_failure:
  assumes "enabled_steps c = before @ step # after"
    and "forA before (\<lambda>s. executor_of s c) os h = (Inr (), h1)"
    and "executor_of step c os h1 = (Inl e, h2)"
  shows "install dump c os h = (Inl e, h2) \<and>
     set (enabled_steps c) = {s. step_wanted c s} \<and> sorted_wrt (<) (enabled_steps c)"
proof -
  have "run_steps c os h = (Inl e, h2)"
    unfolding run_steps_def assms(1) by (rule forA_stops) (use assms(2,3) in simp_all)
  then have "install dump c os h = (Inl e, h2)"
    by (simp add: install_def thenA_stops)
  then show ?thesis by (simp add: set_enabled_steps enabled_steps_order)
qed

lemma sample_steps:
  "enabled_steps sample_migration_config =
     [] @ Migration_Staging # [Storage_Step, Packages_Step, Migration_Restore,
       System_Step, Kernel_Images, Bootloader, Snapper_Step, Firewall_Step]"
  by (simp add: enabled_steps_wanted INSTALL_STEPS_def sample_migration_config_def sample_config_def
      uses_proprietary_nvidia_driver_def is_proprietary_nvidia_def)

lemma nothing_to_migrate:
  "migration_staging_execute sample_migration_config refusing_machine [] =
     (Inl (Migration_Error ''No LUKS partition found on /dev/sda, nothing to migrate''),
      [Ran (shell_request ''lsblk -ln -o NAME /dev/sda'') (Completed 1 [] [])])"
  unfolding migration_actions Let_def sample_migration_config_def sample_config_def
  by (simp add: run_evaluation refusing_machine_def cfg_simps listed_partitions_def
      split_on.simps strip_def lstrip_def rstrip_def)

theorem installation_stops_at_failure_witness:
  "install (\<lambda>_. []) sample_migration_config refusing_machine [] =
     (Inl (Migration_Error ''No LUKS partition found on /dev/sda, nothing to migrate''),
      [Ran (shell_request ''lsblk -ln -o NAME /dev/sda'') (Completed 1 [] [])])"
  using installation_stops_at_failure [OF sample_steps, of refusing_machine "[]" "[]"]
    nothing_to_migrate by (simp add: action_apply)

text \<open>What the staging of a migration runs overwrites nothing on a disk.\<close>

lemma staging_spares_disks: "emits (\<lambda>t. \<not> destructive t) (migration_staging_execute c)"
  unfolding migration_actions Let_def
  by (intro emits_intros) (simp_all add: destructive_simps)

lemma enabled_migration_first:
  "migration_enabled (migration c) \<Longrightarrow> \<exists>rest. enabled_steps c = Migration_Staging # rest"
  by (simp add: enabled_steps_wanted INSTALL_STEPS_def)

text \<open>
  C4: A migration whose staging fails (no LUKS partition, a wrong old password, no space to
  stage, a copy that breaks off) ends the installation with that error before any command that
  overwrites data has run: the old system is still on the disk.
\<close>

theorem failed_staging_touches_nothing:
  assumes "migration_enabled (migration c)"
    and "migration_staging_execute c os h = (Inl e, h')"
  shows "install dump c os h = (Inl e, h') \<and>
     (\<exists>new. h' = h @ new \<and> list_all (\<lambda>t. \<not> destructive t) (texts new))"
proof -
  obtain rest where "enabled_steps c = Migration_Staging # rest"
    using enabled_migration_first [OF assms(1)] by blast
  then have "install dump c os h = (Inl e, h')"
    using assms(2) by (simp add: install_def run_steps_def thenA_def bindA_Inl)
  moreover obtain new where "h' = h @ new" "\<forall>t \<in> set (texts new). \<not> destructive t"
    using emitsD [OF staging_spares_disks assms(2)] by blast
  ultimately show ?thesis by (auto simp: list_all_iff)
qed

theorem failed_staging_touches_nothing_witness:
  "fst (install (\<lambda>_. []) sample_migration_config refusing_machine []) =
     Inl (Migration_Error ''No LUKS partition found on /dev/sda, nothing to migrate'')"
  using failed_staging_touches_nothing [OF _ nothing_to_migrate, of "\<lambda>_. []"]
  by (simp add: sample_migration_config_def)

subsection \<open>The expected state\<close>

text \<open>
  C24: A shell that reads the file the installer leaves for \<^verbatim>\<open>verify-install\<close> gets back every
  value: 15 assignments, each of the value the configuration gives, whatever characters
  (quotes, blanks, line breaks) it has.
\<close>

theorem expected_state_is_read_back:
  "read_assignments 16 (expected_state_file c) =
     Some (map (\<lambda>(name, value). (name, assigned_text value)) (expected_state_values c)) \<and>
   length (expected_state_values c) = 15 \<and> distinct (keys (expected_state_values c))"
  by (simp add: read_expected_state_file) (simp add: expected_state_values_def)

end
