(* ===== verification/Essential_Commands.thy ===== *)
theory Essential_Commands
  imports Installer Checked_Commands Sample_Config
begin

text \<open>
  The failures an installation never overlooks: when it ends normally, every command it ran has
  succeeded, but for a list of commands whose failure the program accepts. And which steps can
  destroy data at all, and what the others remove.
\<close>

text \<open>The commands whose failure is an answer the program decides by.\<close>

definition inquiries :: "string list" where
  "inquiries =
     [''mountpoint -q '', ''test -e '', ''test -f '', ''test -d '', ''lsblk '', ''blkid '', ''findmnt '', ''du -sm '',
      ''df --output=avail '', ''ls -A '', ''grep -q '', ''filefrag '', ''cat /sys/block/'', ''target=$(readlink -f '',
      ''blockdev --getsize64 '', ''bsdtar -tf '', ''cryptsetup isLuks '', ''cryptsetup luksUUID '', ''cryptsetup status '',
      ''cryptsetup open --test-passphrase '', ''mount -t btrfs -o subvolid=5 '', ''btrfs subvolume list '',
      ''btrfs subvolume show '', ''btrfs inspect-internal map-swapfile '', ''arch-chroot /mnt pacman -Q '',
      ''arch-chroot /mnt id '', ''arch-chroot /mnt getent group '', ''arch-chroot /mnt sbctl status'',
      ''arch-chroot /mnt cat /sys/firmware/efi/efivars/SetupMode-'']"

text \<open>
  The commands the program attempts and goes on without: releasing devices, wiping before the disk is
  partitioned, telling the kernel about partitions, clearing left-overs, and of the installed system
  the package run of a resumed installation, Secure Boot keys and signatures, locales, the clock.
\<close>

definition attempts :: "string list" where
  "attempts =
     [''swapoff -a'', ''cryptsetup close '', ''dmsetup remove_all'', ''wipefs -af '', ''sgdisk -Z '', ''sgdisk -e '',
      ''shred -v -n 1 '', ''dd bs=4M if=/dev/urandom of='', ''blkdiscard -f '', ''blockdev --flushbufs '',
      ''blockdev --rereadpt '', ''udevadm settle'', ''partprobe '', ''losetup -c '', ''fallocate -l '', ''swapon '',
      ''chattr +C '', ''btrfs property set '', ''rmdir '', ''btrfs subvolume delete '',
      ''sed -i '' @ SQ @ ''/'', ''sed -i '' @ SQ @ ''s/^#'',
      ''arch-chroot /mnt pacman -Syu --noconfirm --needed '', ''arch-chroot /mnt sbctl enroll-keys'',
      ''arch-chroot /mnt sbctl create-keys'', ''arch-chroot /mnt sbctl sign -s '',
      ''arch-chroot /mnt hwclock --systohc'', ''arch-chroot /mnt locale-gen'']"

definition exact_attempts :: "installer_config \<Rightarrow> string list" where
  "exact_attempts c =
     [''umount -R /mnt'', ''umount /tmp/old-system'', ''umount /run/dali/usb-recovery'',
      ''umount '' @ usb_efi_partition (usb_boot c), ''umount '' @ usb_recovery_partition (usb_boot c),
      ''rm -rf /run/dali/recovery-signing'', ''rm -f /run/dali/recovery-signing/key.pem'',
      ''rm -rf /mnt'' @ RECOVERY_BUILD_DIRECTORY,
      ''rm -f /var/lib/pacman/db.lck'', ''rm -f /mnt/var/lib/pacman/db.lck'', ''mkdir -p /mnt/var/lib/pacman'',
      ''mkdir -p /mnt/home/'' @ user_name (sys_user (system c)),
      ''arch-chroot /mnt systemctl enable docker.service'',
      ''arch-chroot /mnt chown '' @ user_name (sys_user (system c)) @ '':'' @ user_name (sys_user (system c)) @
        '' /home/'' @ user_name (sys_user (system c)) @ ''/final_config.yaml''] @
     map (\<lambda>v. ''mkdir -p /mnt'' @ subvol_mountpoint v) (subvolumes (btrfs (storage c))) @
     map (\<lambda>dm. ''arch-chroot /mnt systemctl enable '' @ dm @ ''.service'') (display_manager (packages c))"

definition tolerated :: "installer_config \<Rightarrow> string \<Rightarrow> bool" where
  "tolerated c t \<longleftrightarrow>
     list_ex (\<lambda>p. prefix p t) (inquiries @ attempts) \<or> unlocks_old_system t \<or> t \<in> set (exact_attempts c)"

definition essential :: "installer_config \<Rightarrow> string \<Rightarrow> bool" where
  "essential c t \<longleftrightarrow> \<not> tolerated c t"

lemmas essential_simps = essential_def tolerated_def inquiries_def attempts_def exact_attempts_def
  unlocks_old_system_def cfg_simps

lemma checked_loops [checked_intros]:
  "checked (essential c) (all_listed parts)"
  "checked (essential c) (wait_for_encrypted_device c n)"
  "checked (essential c) (wait_for_partition_node device part n)"
  "checked (essential c) (first_luks disk parts)"
  "checked (essential c) (find_secure_boot_directory ds)"
  "checked (essential c) (additional_size_mb paths)"
       apply (induction parts; simp; intro checked_intros; simp add: essential_simps)
      apply (induction n; simp; intro checked_intros; simp add: essential_simps)
     apply (induction n; simp; intro checked_intros; simp add: essential_simps)
    apply (induction parts; simp; intro checked_intros; simp add: essential_simps)
   apply (induction ds; simp add: Let_def; intro checked_intros; simp add: essential_simps)
  apply (induction paths; simp add: size_mb_def; intro checked_intros; simp add: essential_simps)
  done

lemma checked_wipe_method [checked_intros]:
  "checked P m1 \<Longrightarrow> checked P m2 \<Longrightarrow> checked P m3 \<Longrightarrow> checked P m4 \<Longrightarrow>
   checked P (case how of Wipe_Quick \<Rightarrow> m1 | Wipe_Secure \<Rightarrow> m2 | Wipe_Discard \<Rightarrow> m3 | Wipe_Skip \<Rightarrow> m4)"
  by (cases how) auto

lemma checked_storage: "checked (essential c) (storage_execute c)"
  unfolding storage_actions Let_def by (intro checked_intros) (simp_all add: essential_simps)

lemma checked_migration:
  "checked (essential c) (migration_staging_execute c)"
  "checked (essential c) (migration_restore_execute c)"
  unfolding migration_actions Let_def by (intro checked_intros; simp add: essential_simps)+

lemma checked_usb_boot:
  "checked (essential c) (usb_boot_drive_execute c)"
  "checked (essential c) (usb_boot_safeguards_execute c)"
  unfolding usb_boot_actions Let_def by (intro checked_intros; auto simp: essential_simps)+

lemma checked_recovery: "checked (essential c) (recovery_system_execute c)"
  unfolding recovery_actions Let_def by (intro checked_intros) (simp_all add: essential_simps)

lemma checked_packages: "checked (essential c) (packages_execute c)"
  unfolding packages_actions Let_def by (intro checked_intros) (simp_all add: essential_simps)

lemma checked_firewall: "checked (essential c) (firewall_execute c)"
  unfolding firewall_actions Let_def by (intro checked_intros) (simp_all add: essential_simps)

lemma checked_boot: "checked (essential c) (kernel_images_execute c)" "checked (essential c) (bootloader_execute c)"
  unfolding boot_actions Let_def by (intro checked_intros; simp add: essential_simps)+

lemma checked_snapper:
  "checked (essential c) (snapper_execute c)"
  "checked (essential c) (bootable_snapshots_execute c)"
  "checked (essential c) (snapshot_notifications_execute c)"
  unfolding snapper_actions Let_def by (intro checked_intros; simp add: essential_simps)+

lemma checked_system: "checked (essential c) (system_execute c)" "checked (essential c) (docker_execute c)"
  unfolding system_setup_actions Let_def by (intro checked_intros; simp add: essential_simps)+

lemma checked_drivers_and_mirrors:
  "checked (essential c) (gpu_driver_execute c)"
  "checked (essential c) (pacman_mirrors_execute c)"
  unfolding gpu_actions mirrors_actions Let_def by (intro checked_intros; simp add: essential_simps)+

lemma checked_step: "checked (essential c) (executor_of step c)"
  by (cases step) (simp_all add: checked_storage checked_migration checked_usb_boot checked_recovery
      checked_packages checked_firewall checked_boot checked_snapper checked_system
      checked_drivers_and_mirrors)

lemma checked_install: "checked (essential c) (install dump c)"
  unfolding install_def run_steps_def install_utility_scripts_def write_expected_state_def
    write_final_config_def Let_def
  by (intro checked_intros; (simp add: checked_step; fail)?; simp add: essential_simps)


definition obliging_machine :: os where
  "obliging_machine h q = Completed 0 ''1'' []"

lemma obliging_steps:
  "\<exists>new. storage_execute sample_config obliging_machine h = (Inr (), new)"
  "\<exists>new. packages_execute sample_config obliging_machine h = (Inr (), new)"
  "\<exists>new. system_execute sample_config obliging_machine h = (Inr (), new)"
  "\<exists>new. kernel_images_execute sample_config obliging_machine h = (Inr (), new)"
  "\<exists>new. bootloader_execute sample_config obliging_machine h = (Inr (), new)"
  "\<exists>new. snapper_execute sample_config obliging_machine h = (Inr (), new)"
  "\<exists>new. firewall_execute sample_config obliging_machine h = (Inr (), new)"
        apply (simp add: storage_execute_def is_mountpoint_def run_evaluation obliging_machine_def)
       apply (simp add: packages_actions file_exists_def write_file_def run_evaluation obliging_machine_def sample_config_def)
      apply (simp add: system_setup_actions write_file_def run_evaluation obliging_machine_def sample_config_def locales_to_generate_def sorted_set_def)
     apply (simp add: boot_actions file_exists_def detect_luks_uuid_def strip_def lstrip_def rstrip_def is_space_def write_file_def
       initramfs_modules_def uki_variants_def kernel_packages_def uses_proprietary_nvidia_driver_def is_proprietary_nvidia_def
       split_on.simps setup_mode_line_def lower_def PLAIN_VARIANT_def run_evaluation obliging_machine_def sample_config_def)
    apply (simp add: boot_actions BOOTLOADER_BINARIES_def file_exists_def write_file_def run_evaluation obliging_machine_def sample_config_def)
   apply (simp add: snapper_actions file_exists_def is_mountpoint_def directory_exists_def write_file_def run_evaluation obliging_machine_def sample_config_def snapper_volumes_def)
  apply (simp add: firewall_actions run_evaluation obliging_machine_def sample_config_def INBOUND_ICMP_ACCEPT_RULES_def)
  done

lemma ends_thenA:
  assumes "\<And>h. \<exists>new. m os h = (Inr (), new)" and "\<And>h. \<exists>new. n os h = (Inr (), new)"
  shows "\<exists>new. thenA m n os h = (Inr (), new)"
  using assms by (metis bindA_Inr thenA_def)

lemma obliging_calls:
  "\<exists>new. do_sh s obliging_machine h = (Inr (), new)"
  "\<exists>new. do_sh_ok s obliging_machine h = (Inr (), new)"
  "\<exists>new. write_file path content obliging_machine h = (Inr (), new)"
  "\<exists>new. do_chroot_ok s obliging_machine h = (Inr (), new)"
  by (simp_all add: write_file_def run_evaluation obliging_machine_def)

lemma obliging_scripts: "\<exists>new. install_utility_scripts obliging_machine h = (Inr (), new)"
  by (simp add: install_utility_scripts_def UTILITY_SCRIPTS_def file_exists_def run_evaluation obliging_machine_def)

lemma sample_run: "\<exists>new. run_steps sample_config obliging_machine h = (Inr (), new)"
proof -
  have "enabled_steps sample_config = [Storage_Step, Packages_Step, System_Step, Kernel_Images, Bootloader,
      Snapper_Step, Firewall_Step]"
    by (simp add: enabled_steps_wanted INSTALL_STEPS_def sample_config_def uses_proprietary_nvidia_driver_def
        is_proprietary_nvidia_def)
  then show ?thesis
    by (auto simp: run_steps_def returnA_apply intro!: ends_thenA obliging_steps)
qed

lemma sample_installation: "\<exists>new. install dump sample_config obliging_machine h = (Inr (), new)"
  unfolding install_def write_expected_state_def write_final_config_def Let_def seqA.simps thenA_returnA_unit
  by (intro ends_thenA sample_run obliging_scripts obliging_calls)


subsection \<open>Which steps destroy data\<close>

text \<open>
  The commands that remove files, directories or subvolumes, and what the steps may remove: files of
  the installer's own making, the lock of the package manager, the link of the time zone, and
  the directory \<^verbatim>\<open>snapper\<close> keeps its snapshots in.
\<close>

definition removes :: "string \<Rightarrow> bool" where
  "removes t \<longleftrightarrow> list_ex (\<lambda>p. prefix p t \<or> prefix (''arch-chroot /mnt '' @ p) t)
     [''rm '', ''rmdir '', ''unlink '', ''mv '', ''find '', ''rsync '', ''btrfs subvolume delete '']"

definition own_removal :: "installer_config \<Rightarrow> string \<Rightarrow> bool" where
  "own_removal c t \<longleftrightarrow>
     t \<in> set [''rm -rf /tmp/migration-staging'', ''rmdir /tmp/old-system'', ''rm -rf /run/dali/recovery-signing'',
       ''rm -f /run/dali/recovery-signing/key.pem'', ''rm -rf /mnt'' @ RECOVERY_BUILD_DIRECTORY,
       ''rm -f /var/lib/pacman/db.lck'', ''rm -f /mnt/var/lib/pacman/db.lck'', ''rm -f /mnt/etc/localtime''] \<or>
     list_ex (\<lambda>(_, v). t = ''btrfs subvolume delete /mnt'' @ snapshots_path v \<or> t = ''rmdir /mnt'' @ snapshots_path v)
       (snapper_volumes (snapper c))"

definition spares_data :: "installer_config \<Rightarrow> string \<Rightarrow> bool" where
  "spares_data c t \<longleftrightarrow> \<not> destructive t \<and> (removes t \<longrightarrow> own_removal c t)"

lemmas spares_data_simps = spares_data_def removes_def own_removal_def destructive_simps cfg_simps
  LIVE_MIRRORLIST_def

lemma configure_volume_spares:
  assumes "pair \<in> set (snapper_volumes (snapper c))"
  shows "emits (spares_data c) (configure_volume c pair)"
proof (cases pair)
  case (Pair name v)
  with assms have v: "(name, v) \<in> set (snapper_volumes (snapper c))" by simp
  have "own_removal c (''btrfs subvolume delete /mnt'' @ snapshots_path v)"
    and "own_removal c (''rmdir /mnt'' @ snapshots_path v)"
    using v unfolding own_removal_def list_ex_iff by blast+
  then show ?thesis
    unfolding Pair configure_volume_def prepare_snapshots_subvolume_def Let_def prod.case
    by (intro emits_intros; simp add: spares_data_def removes_def destructive_simps cfg_simps)
qed

lemma step_spares_data:
  "emits (spares_data c) (migration_staging_execute c)"
  "emits (spares_data c) (migration_restore_execute c)"
  "emits (spares_data c) (usb_boot_safeguards_execute c)"
  "emits (spares_data c) (recovery_system_execute c)"
  "emits (spares_data c) (packages_execute c)"
  "emits (spares_data c) (firewall_execute c)"
  "emits (spares_data c) (kernel_images_execute c)"
  "emits (spares_data c) (bootloader_execute c)"
  "emits (spares_data c) (bootable_snapshots_execute c)"
  "emits (spares_data c) (snapshot_notifications_execute c)"
  "emits (spares_data c) (system_execute c)"
  "emits (spares_data c) (docker_execute c)"
  "emits (spares_data c) (gpu_driver_execute c)"
  "emits (spares_data c) (pacman_mirrors_execute c)"
  unfolding migration_actions usb_boot_actions recovery_actions packages_actions firewall_actions boot_actions
    snapper_actions system_setup_actions gpu_actions mirrors_actions Let_def
  by (intro emits_intros; simp add: spares_data_simps)+

lemma snapper_spares_data: "emits (spares_data c) (snapper_execute c)"
  unfolding snapper_execute_def
  by (intro emits_intros; (rule configure_volume_spares, simp; fail)?; simp add: spares_data_simps)

text \<open>
  C6: Only the storage step and the USB boot drive step can run a command that partitions, formats, wipes,
  fills or discards a device, in the live system or inside the target system; no answer of the machine
  makes another step run one, and what the other steps remove is their own.
\<close>

theorem only_two_steps_destroy:
  assumes "step \<notin> {Storage_Step, Usb_Boot_Drive}"
  shows "emits (\<lambda>t. \<not> destructive t \<and> (removes t \<longrightarrow> own_removal c t)) (executor_of step c)"
proof -
  have "emits (spares_data c) (executor_of step c)"
    using assms by (cases step) (simp_all add: step_spares_data snapper_spares_data)
  then show ?thesis by (simp add: spares_data_def [abs_def])
qed

theorem only_two_steps_destroy_witness:
  "filter destructive (texts (snd (migration_staging_execute sample_migration_config accepting_machine []))) = [] \<and>
   list_all (own_removal sample_migration_config)
     (filter removes (texts (snd (migration_staging_execute sample_migration_config accepting_machine []))))"
proof -
  obtain r new where run: "migration_staging_execute sample_migration_config accepting_machine [] = (r, new)" by fastforce
  have "emits (\<lambda>t. \<not> destructive t \<and> (removes t \<longrightarrow> own_removal sample_migration_config t))
      (migration_staging_execute sample_migration_config)"
    using only_two_steps_destroy [of Migration_Staging sample_migration_config] by simp
  from emitsD [OF this run] show ?thesis using run by (auto simp: list_all_iff filter_empty_conv)
qed

end
