(* ===== verification/Setup_Frontend.thy ===== *)
theory Setup_Frontend
  imports Install_Steps
begin

text \<open>
  \<^verbatim>\<open>setup/frontend.py\<close>: the port the interactive front-ends implement, and the contract the setup
  session relies on.
\<close>

subsection \<open>Dialogues\<close>

text \<open>
  Code that talks to the user \<open>'u\<close>, who is the state of the dialogue: it may wait for an answer
  for ever (\<^const>\<open>None\<close>), raise, or return.
\<close>

type_synonym ('u, 'a) dialogue = "'u \<Rightarrow> ((error + 'a) \<times> 'u) option"

definition returnD :: "'a \<Rightarrow> ('u, 'a) dialogue" where
  "returnD x u = Some (Inr x, u)"

definition raiseD :: "error \<Rightarrow> ('u, 'a) dialogue" where
  "raiseD e u = Some (Inl e, u)"

definition liftD :: "'a result \<Rightarrow> ('u, 'a) dialogue" where
  "liftD r u = Some (r, u)"

definition bindD :: "('u, 'a) dialogue \<Rightarrow> ('a \<Rightarrow> ('u, 'b) dialogue) \<Rightarrow> ('u, 'b) dialogue" where
  "bindD m f u =
     (case m u of
        None \<Rightarrow> None
      | Some (Inl e, u') \<Rightarrow> Some (Inl e, u')
      | Some (Inr x, u') \<Rightarrow> f x u')"

definition mapD :: "('a \<Rightarrow> 'b) \<Rightarrow> ('u, 'a) dialogue \<Rightarrow> ('u, 'b) dialogue" where
  "mapD g m = bindD m (\<lambda>x. returnD (g x))"

text \<open>A loop that changes a state, and may talk and raise.\<close>

fun foldD :: "('a \<Rightarrow> 's \<Rightarrow> ('u, 's) dialogue) \<Rightarrow> 'a list \<Rightarrow> 's \<Rightarrow> ('u, 's) dialogue" where
  "foldD f [] s = returnD s"
| "foldD f (x # xs) s = bindD (f x s) (foldD f xs)"

lemma returnD_simps [simp]: "returnD x u = Some (r, u') \<longleftrightarrow> r = Inr x \<and> u' = u"
  by (auto simp: returnD_def)

lemma liftD_simps [simp]: "liftD r u = Some (r', u') \<longleftrightarrow> r = r' \<and> u' = u"
  by (auto simp: liftD_def)

lemma raiseD_simps [simp]: "raiseD e u = Some (r, u') \<longleftrightarrow> r = Inl e \<and> u' = u"
  by (auto simp: raiseD_def)

lemma bindD_Inr_iff:
  "bindD m f u = Some (Inr y, u') \<longleftrightarrow> (\<exists>x u1. m u = Some (Inr x, u1) \<and> f x u1 = Some (Inr y, u'))"
  by (auto simp: bindD_def split: option.splits sum.splits)

lemma bindD_step: "m u = Some (Inr x, u1) \<Longrightarrow> bindD m f u = f x u1"
  by (simp add: bindD_def)

lemma mapD_Inr_iff: "mapD g m u = Some (Inr y, u') \<longleftrightarrow> (\<exists>x. m u = Some (Inr x, u') \<and> y = g x)"
  by (auto simp: mapD_def bindD_Inr_iff)

lemma mapD_step: "m u = Some (Inr x, u1) \<Longrightarrow> mapD g m u = Some (Inr (g x), u1)"
  by (simp add: mapD_Inr_iff)

lemma bindD_cases [consumes 1, case_names raises returns]:
  assumes "bindD m f u = Some (r, u')"
  obtains (raises) e where "m u = Some (Inl e, u')" and "r = Inl e"
  | (returns) x u1 where "m u = Some (Inr x, u1)" and "f x u1 = Some (r, u')"
  using assms by (auto simp: bindD_def split: option.splits sum.splits)

lemma foldD_invariant:
  assumes "foldD f xs s u = Some (Inr s', u')" and "P s"
    and "\<And>x s u s' u'. x \<in> set xs \<Longrightarrow> P s \<Longrightarrow> f x s u = Some (Inr s', u') \<Longrightarrow> P s'"
  shows "P s'"
  using assms
proof (induction xs arbitrary: s u)
  case Nil
  then show ?case by simp
next
  case (Cons x xs)
  from Cons.prems(1) obtain s1 u1 where f: "f x s u = Some (Inr s1, u1)"
    and rest: "foldD f xs s1 u1 = Some (Inr s', u')"
    by (auto simp: bindD_Inr_iff)
  have "P s1" using Cons.prems(2) f by (rule Cons.prems(3) [rotated]) simp
  with rest show ?case by (rule Cons.IH) (rule Cons.prems(3), simp_all)
qed

text \<open>A dialogue with the user, and commands run, in a setup that does both.\<close>

type_synonym ('u, 'a) setup_dialogue = "('u \<times> history, 'a) dialogue"

definition talk :: "('u, 'a) dialogue \<Rightarrow> ('u, 'a) setup_dialogue" where
  "talk m = (\<lambda>(u, h). map_option (\<lambda>(r, u'). (r, u', h)) (m u))"

definition act :: "os \<Rightarrow> 'a action \<Rightarrow> ('u, 'a) setup_dialogue" where
  "act os m = (\<lambda>(u, h). case m os h of (r, h') \<Rightarrow> Some (r, u, h'))"

lemma talk_Some: "talk m (u, h) = Some (r, u', h') \<longleftrightarrow> m u = Some (r, u') \<and> h' = h"
  by (auto simp: talk_def)

lemma act_Some: "act os m (u, h) = Some (r, u', h') \<longleftrightarrow> m os h = (r, h') \<and> u' = u"
  by (auto simp: act_def split: prod.splits)

subsection \<open>The port\<close>

text \<open>A value the setting already has, and the source it came from.\<close>

record 'a inherited =
  inherited_value :: 'a
  inherited_source :: string

record summary_row =
  row_step :: string
  row_label :: string
  row_value :: string
  row_source :: string

record 'u frontend =
  ask_switch :: "string \<Rightarrow> question \<Rightarrow> bool inherited option \<Rightarrow> ('u, bool) dialogue"
  choose_one :: "string \<Rightarrow> question \<Rightarrow> choice list \<Rightarrow> pyval inherited option \<Rightarrow> ('u, pyval) dialogue"
  choose_many :: "string \<Rightarrow> question \<Rightarrow> pyval list inherited option \<Rightarrow> ('u, pyval list) dialogue"
  enter_text :: "string \<Rightarrow> question \<Rightarrow> string inherited option \<Rightarrow> ('u, string) dialogue"
  keep_secret :: "string \<Rightarrow> question \<Rightarrow> string \<Rightarrow> ('u, bool) dialogue"
  enter_secret :: "string \<Rightarrow> question \<Rightarrow> ('u, string) dialogue"
  review :: "summary_row list \<Rightarrow> ('u, bool) dialogue"

text \<open>
  What a front-end promises: a choice is one that was offered, a selection is made of offered
  choices in their order, a text or a secret is not empty.
\<close>

locale setup_frontend =
  fixes frontend :: "'u frontend"
  assumes chosen_offered:
      "choose_one frontend step (Choose_One label source description prompt) choices inh u = Some (Inr v, u') \<Longrightarrow>
       v \<in> choice_value ` set choices"
    and chosen_many_offered:
      "choose_many frontend step (Choose_Many label choices description) inherited_values u = Some (Inr vs, u') \<Longrightarrow>
       subseq vs (map choice_value choices)"
    and text_required:
      "enter_text frontend step (Enter_Text label prompt) inherited_text u = Some (Inr s, u') \<Longrightarrow> s \<noteq> []"
    and secret_required:
      "enter_secret frontend step (Enter_Secret label prompt confirm) u = Some (Inr s, u') \<Longrightarrow> s \<noteq> []"

end
