(* ===== verification/Widgets.thy ===== *)
theory Widgets
  imports Setup_Frontend
begin

text \<open>
  \<^verbatim>\<open>tui/widgets.py\<close>: the curses widgets. The terminal is a state with the keys the user will
  press, each with the size the window has when the screen before it is drawn, and the screens
  drawn so far. A widget that waits for a key the user never presses does not return
  (\<^const>\<open>None\<close>). A screen is the list of its writes; that curses refuses to write outside a
  window that is too small is left out.
\<close>

subsection \<open>Keys\<close>

text \<open>\<^verbatim>\<open>getch\<close> gives a key code, and Ctrl+C raises \<^verbatim>\<open>KeyboardInterrupt\<close> there.\<close>

definition KEY_DOWN :: int where "KEY_DOWN = 258"
definition KEY_UP :: int where "KEY_UP = 259"
definition KEY_BACKSPACE :: int where "KEY_BACKSPACE = 263"
definition KEY_ENTER :: int where "KEY_ENTER = 343"

definition KEY_ESCAPE :: int where "KEY_ESCAPE = 27"
definition KEY_TAB :: int where "KEY_TAB = 9"
definition KEY_SPACE :: int where "KEY_SPACE = 32"
definition KEY_Q :: int where "KEY_Q = 113"

definition ENTER_KEYS :: "int list" where "ENTER_KEYS = [KEY_ENTER, 10, 13]"
definition BACKSPACE_KEYS :: "int list" where "BACKSPACE_KEYS = [KEY_BACKSPACE, 127, 8]"

definition printable_key :: "int \<Rightarrow> bool" where
  "printable_key key \<longleftrightarrow> 32 \<le> key \<and> key < 127"

datatype stroke = Key int | Ctrl_C

record window_size =
  max_y :: int
  max_x :: int

subsection \<open>Screens\<close>

text \<open>Text on the screen as code points: the marks and lines drawn are outside ASCII.\<close>

type_synonym glyphs = "nat list"

definition glyphs_of :: "string \<Rightarrow> glyphs" where
  "glyphs_of s = map of_char s"

definition CURSOR_MARK :: nat where "CURSOR_MARK = 0x25B8"
definition CHECK_MARK :: nat where "CHECK_MARK = 0x2713"
definition ELLIPSIS_MARK :: nat where "ELLIPSIS_MARK = 0x2026"
definition UP_MARK :: nat where "UP_MARK = 0x25B2"
definition DOWN_MARK :: nat where "DOWN_MARK = 0x25BC"
definition HORIZONTAL_LINE :: nat where "HORIZONTAL_LINE = 0x2500"
definition VERTICAL_LINE :: nat where "VERTICAL_LINE = 0x2502"
definition TOP_LEFT :: nat where "TOP_LEFT = 0x250C"
definition TOP_RIGHT :: nat where "TOP_RIGHT = 0x2510"
definition BOTTOM_LEFT :: nat where "BOTTOM_LEFT = 0x2514"
definition BOTTOM_RIGHT :: nat where "BOTTOM_RIGHT = 0x2518"
definition UP_ARROW :: nat where "UP_ARROW = 0x2191"
definition DOWN_ARROW :: nat where "DOWN_ARROW = 0x2193"

text \<open>
  The colour pairs curses is given at the start, with the colour of the text and of the background
  (-1 is the terminal's own).
\<close>

definition COLOR_BLACK :: int where "COLOR_BLACK = 0"
definition COLOR_RED :: int where "COLOR_RED = 1"
definition COLOR_GREEN :: int where "COLOR_GREEN = 2"
definition COLOR_YELLOW :: int where "COLOR_YELLOW = 3"
definition COLOR_CYAN :: int where "COLOR_CYAN = 6"
definition COLOR_WHITE :: int where "COLOR_WHITE = 7"

definition init_colors :: "(nat, int \<times> int) dict" where
  "init_colors = [
     (1, COLOR_CYAN, -1), (2, COLOR_GREEN, -1), (3, COLOR_YELLOW, -1), (4, COLOR_WHITE, -1),
     (5, COLOR_RED, -1), (6, COLOR_BLACK, COLOR_CYAN)]"

text \<open>A colour pair (0 is the terminal's own) and whether the text is bold.\<close>

record attributes =
  color_pair :: nat
  bold :: bool

abbreviation attrs :: "nat \<Rightarrow> bool \<Rightarrow> attributes" where
  "attrs pair b \<equiv> \<lparr>color_pair = pair, bold = b\<rparr>"

abbreviation no_attributes :: attributes where
  "no_attributes \<equiv> attrs 0 False"

text \<open>One write: its row, its column, its text and its attributes.\<close>

record screen_write =
  at_row :: int
  at_column :: int
  written :: glyphs
  shown_with :: attributes

type_synonym screen = "screen_write list"

definition put :: "int \<Rightarrow> int \<Rightarrow> glyphs \<Rightarrow> attributes \<Rightarrow> screen_write" where
  "put row column gs a = \<lparr>at_row = row, at_column = column, written = gs, shown_with = a\<rparr>"

text \<open>
  \<^verbatim>\<open>s[:n]\<close> and \<^verbatim>\<open>s[-n:]\<close> for any number, \<^verbatim>\<open>s * n\<close>, \<^verbatim>\<open>s.ljust(n)\<close> and \<^verbatim>\<open>s.center(n)\<close> with blanks, and
  the text \<^verbatim>\<open>addnstr\<close> writes: at most \<open>n\<close> characters, all of it when \<open>n\<close> is negative.
\<close>

definition py_take :: "int \<Rightarrow> 'a list \<Rightarrow> 'a list" where
  "py_take n s = (if n < 0 then take (nat (int (length s) + n)) s else take (nat n) s)"

definition py_last :: "int \<Rightarrow> 'a list \<Rightarrow> 'a list" where
  "py_last n s =
     (if n \<le> 0 then drop (nat (- n)) s else drop (length s - nat n) s)"

definition repeated :: "int \<Rightarrow> nat \<Rightarrow> glyphs" where
  "repeated n g = replicate (nat n) g"

definition ljust :: "int \<Rightarrow> glyphs \<Rightarrow> glyphs" where
  "ljust n s = s @ repeated (n - int (length s)) 32"

definition center :: "int \<Rightarrow> glyphs \<Rightarrow> glyphs" where
  "center n s = centered 32 n s"

definition cut_at :: "int \<Rightarrow> glyphs \<Rightarrow> glyphs" where
  "cut_at n s = (if n < 0 then s else take (nat n) s)"

definition BORDER_PAD :: int where "BORDER_PAD = 2"
definition TITLE_ROW :: int where "TITLE_ROW = 1"
definition CONTENT_START :: int where "CONTENT_START = 4"
definition HELP_ROW_OFFSET :: int where "HELP_ROW_OFFSET = 2"

definition line_width :: "window_size \<Rightarrow> int" where
  "line_width win = max_x win - BORDER_PAD * 2 - 1"

definition draw_title :: "window_size \<Rightarrow> glyphs \<Rightarrow> screen" where
  "draw_title win title =
     (let centered = center (max_x win - BORDER_PAD * 2) title in
      [put TITLE_ROW BORDER_PAD (py_take (max_x win - BORDER_PAD * 2 - 1) centered) (attrs 1 True),
       put (TITLE_ROW + 1) BORDER_PAD
         (repeated (max_x win - BORDER_PAD * 2 - 1) HORIZONTAL_LINE) no_attributes])"

definition draw_help :: "window_size \<Rightarrow> glyphs \<Rightarrow> screen" where
  "draw_help win help_text =
     (let row = max_y win - HELP_ROW_OFFSET in
      [put row BORDER_PAD (py_take (max_x win - BORDER_PAD * 2 - 1) help_text) (attrs 3 False)])"

subsection \<open>The terminal\<close>

record terminal =
  awaited :: "(window_size \<times> stroke) list"
  drawn :: "screen list"

text \<open>A screen is drawn for the window's size, then a key is read.\<close>

definition read_key :: "(window_size \<Rightarrow> screen) \<Rightarrow> (terminal, window_size \<times> int) dialogue" where
  "read_key draw t =
     (case awaited t of
        [] \<Rightarrow> None
      | (win, s) # rest \<Rightarrow>
          (let t' = t\<lparr>awaited := rest, drawn := drawn t @ [draw win]\<rparr> in
           case s of
             Key key \<Rightarrow> Some (Inr (win, key), t')
           | Ctrl_C \<Rightarrow> Some (Inl (Keyboard_Interrupt []), t')))"

lemma read_key_Some:
  "read_key draw t = Some (r, t') \<Longrightarrow>
     length (awaited t') < length (awaited t) \<and> (\<exists>win. drawn t' = drawn t @ [draw win])"
  by (auto simp: read_key_def Let_def split: list.splits stroke.splits) (rule exI, rule refl)+

lemma read_key_Key [simp]:
  "read_key draw \<lparr>awaited = (win, Key key) # rest, drawn = d\<rparr> =
     Some (Inr (win, key), \<lparr>awaited = rest, drawn = d @ [draw win]\<rparr>)"
  by (simp add: read_key_def)

subsection \<open>The list engine\<close>

datatype row_style = Plain_Row | Marked_Row | Heading_Row

fun row_attributes :: "row_style \<Rightarrow> attributes" where
  "row_attributes Plain_Row = attrs 4 False"
| "row_attributes Marked_Row = attrs 2 False"
| "row_attributes Heading_Row = attrs 1 True"

record list_row =
  row_text :: glyphs
  row_style_of :: row_style

text \<open>
  What \<^verbatim>\<open>run_list\<close> is called with. \<open>'s\<close> is the state the closures \<^verbatim>\<open>draw_row\<close>, \<^verbatim>\<open>handle_key\<close> and \<^verbatim>\<open>status\<close>
  share with their menu (the ticked boxes, the switches, the message).
\<close>

record 's list_menu =
  menu_title :: glyphs
  menu_help :: glyphs
  row_count :: nat
  draw_row :: "'s \<Rightarrow> nat \<Rightarrow> bool \<Rightarrow> list_row"
  handle_key :: "int \<Rightarrow> int \<Rightarrow> 's \<Rightarrow> (bool \<times> 's) result"
  menu_description :: glyphs
  menu_status :: "'s \<Rightarrow> glyphs"
  show_cursor :: bool

definition first_row :: "'s list_menu \<Rightarrow> int" where
  "first_row menu = CONTENT_START + (if menu_description menu \<noteq> [] then 1 else 0)"

definition status_row :: "window_size \<Rightarrow> int" where
  "status_row win = max_y win - HELP_ROW_OFFSET - 1"

definition visible_rows :: "'s list_menu \<Rightarrow> window_size \<Rightarrow> int" where
  "visible_rows menu win = max 1 (status_row win - 1 - first_row menu)"

definition scroll :: "'s list_menu \<Rightarrow> window_size \<Rightarrow> int \<Rightarrow> int" where
  "scroll menu win cursor =
     (if show_cursor menu then max 0 (cursor - visible_rows menu win + 1) else cursor)"

definition shown_rows :: "'s list_menu \<Rightarrow> window_size \<Rightarrow> int \<Rightarrow> int list" where
  "shown_rows menu win cursor =
     [scroll menu win cursor .. min (int (row_count menu)) (scroll menu win cursor + visible_rows menu win) - 1]"

definition draw_list_row :: "'s list_menu \<Rightarrow> 's \<Rightarrow> window_size \<Rightarrow> int \<Rightarrow> int \<Rightarrow> screen_write" where
  "draw_list_row menu s win cursor i =
     (let has_cursor = (show_cursor menu \<and> i = cursor);
          row = draw_row menu s (nat i) has_cursor
      in put (first_row menu + (i - scroll menu win cursor)) BORDER_PAD
           (cut_at (line_width win) (ljust (line_width win) (row_text row)))
           (if has_cursor then attrs 6 True else row_attributes (row_style_of row)))"

definition draw_list :: "'s list_menu \<Rightarrow> 's \<Rightarrow> int \<Rightarrow> window_size \<Rightarrow> screen" where
  "draw_list menu s cursor win =
     (let width = line_width win;
          indicator_column = max_x win - BORDER_PAD - 3;
          above = scroll menu win cursor;
          visible = visible_rows menu win
      in draw_title win (menu_title menu)
         @ (if menu_description menu \<noteq> []
            then [put (CONTENT_START - 1) BORDER_PAD (cut_at width (menu_description menu)) (attrs 4 False)]
            else [])
         @ map (draw_list_row menu s win cursor) (shown_rows menu win cursor)
         @ (if above > 0 then [put (first_row menu - 1) indicator_column [UP_MARK] (attrs 3 False)] else [])
         @ (if above + visible < int (row_count menu)
            then [put (first_row menu + visible) indicator_column [DOWN_MARK] (attrs 3 False)] else [])
         @ (if menu_status menu s \<noteq> []
            then [put (status_row win) BORDER_PAD (cut_at width (menu_status menu s)) (attrs 5 True)]
            else [])
         @ draw_help win (menu_help menu))"

definition last_position :: "'s list_menu \<Rightarrow> window_size \<Rightarrow> int" where
  "last_position menu win =
     (if show_cursor menu then int (row_count menu) - 1
      else max 0 (int (row_count menu) - visible_rows menu win))"

function run_list :: "'s list_menu \<Rightarrow> int \<Rightarrow> 's \<Rightarrow> (terminal, int \<times> 's) dialogue" where
  "run_list menu cursor s t =
     (case read_key (draw_list menu s cursor) t of
        None \<Rightarrow> None
      | Some (Inl e, t') \<Rightarrow> Some (Inl e, t')
      | Some (Inr (win, key), t') \<Rightarrow>
          if key = KEY_UP then run_list menu (max (cursor - 1) 0) s t'
          else if key = KEY_DOWN then run_list menu (min (cursor + 1) (last_position menu win)) s t'
          else (case handle_key menu key cursor s of
              Inl e \<Rightarrow> Some (Inl e, t')
            | Inr (accepted, s') \<Rightarrow>
                if accepted then Some (Inr (cursor, s'), t')
                else if key = KEY_Q then Some (Inl (Keyboard_Interrupt ''user quit''), t')
                else run_list menu cursor s' t'))"
  by pat_completeness auto
termination
  by (relation "measure (\<lambda>(menu, cursor, s, t). length (awaited t))") (auto dest: read_key_Some)

declare run_list.simps [simp del]

subsection \<open>Menus\<close>

record menu_option =
  option_value :: string
  option_label :: string

definition inherited_tag :: "string option \<Rightarrow> string" where
  "inherited_tag source =
     (case source of None \<Rightarrow> [] | Some s \<Rightarrow> ''  (inherited from '' @ s @ '')'')"

text \<open>\<^verbatim>\<open>options[i]\<close>: a negative index counts from the end, one out of range raises.\<close>

definition item_at :: "'a list \<Rightarrow> int \<Rightarrow> 'a result" where
  "item_at xs i =
     (let j = (if i < 0 then i + int (length xs) else i) in
      if 0 \<le> j \<and> j < int (length xs) then Inr (xs ! nat j) else Inl Index_Error)"

definition position_or_first :: "('a \<Rightarrow> bool) \<Rightarrow> 'a list \<Rightarrow> nat" where
  "position_or_first p xs = (if list_ex p xs then length (takeWhile (\<lambda>x. \<not> p x) xs) else 0)"

definition radio_row ::
  "menu_option list \<Rightarrow> string inherited option \<Rightarrow> nat \<Rightarrow> bool \<Rightarrow> list_row" where
  "radio_row opts inh i has_cursor =
     (let opt = opts ! i;
          marker = (if has_cursor then glyphs_of '' '' @ [CURSOR_MARK] @ glyphs_of '' '' else glyphs_of ''   '');
          tag = (if Some (option_value opt) = map_option inherited_value inh
                 then inherited_tag (map_option inherited_source inh) else [])
      in \<lparr>row_text = marker @ glyphs_of (option_label opt @ tag), row_style_of = Plain_Row\<rparr>)"

definition navigate_help :: "string \<Rightarrow> glyphs" where
  "navigate_help rest = glyphs_of ''['' @ [UP_ARROW, DOWN_ARROW] @ glyphs_of rest"

definition radio_list ::
  "string \<Rightarrow> menu_option list \<Rightarrow> string inherited option \<Rightarrow> string \<Rightarrow> unit list_menu" where
  "radio_list title opts inh description = \<lparr>
     menu_title = glyphs_of title,
     menu_help = navigate_help ''] Navigate  [Enter] Select  [q] Quit'',
     row_count = length opts,
     draw_row = (\<lambda>_. radio_row opts inh),
     handle_key = (\<lambda>key cursor s. Inr (key \<in> set ENTER_KEYS, s)),
     menu_description = glyphs_of description,
     menu_status = (\<lambda>_. []),
     show_cursor = True\<rparr>"

definition radio_start :: "menu_option list \<Rightarrow> string inherited option \<Rightarrow> nat" where
  "radio_start opts inh =
     position_or_first (\<lambda>opt. Some (option_value opt) = map_option inherited_value inh) opts"

definition radio_menu ::
  "string \<Rightarrow> menu_option list \<Rightarrow> string inherited option \<Rightarrow> string \<Rightarrow> (terminal, string) dialogue" where
  "radio_menu title opts inh description =
     bindD (run_list (radio_list title opts inh description) (int (radio_start opts inh)) ())
       (\<lambda>(chosen, _). liftD (bindE (item_at opts chosen) (\<lambda>opt. Inr (option_value opt))))"

definition checkbox_row ::
  "menu_option list \<Rightarrow> string list inherited option \<Rightarrow> string set \<Rightarrow> nat \<Rightarrow> bool \<Rightarrow> list_row" where
  "checkbox_row opts inh checked i has_cursor =
     (let opt = opts ! i;
          inherited_values = (case inh of None \<Rightarrow> [] | Some v \<Rightarrow> inherited_value v);
          box = (if option_value opt \<in> checked then glyphs_of ''['' @ [CHECK_MARK] @ glyphs_of '']''
                 else glyphs_of ''[ ]'');
          tag = (if option_value opt \<in> set inherited_values
                 then inherited_tag (map_option inherited_source inh) else [])
      in \<lparr>row_text = glyphs_of '' '' @ box @ glyphs_of ('' '' @ option_label opt @ tag),
          row_style_of = (if option_value opt \<in> checked then Marked_Row else Plain_Row)\<rparr>)"

definition checkbox_key :: "menu_option list \<Rightarrow> int \<Rightarrow> int \<Rightarrow> string set \<Rightarrow> (bool \<times> string set) result" where
  "checkbox_key opts key cursor checked =
     (if key = KEY_SPACE
      then bindE (item_at opts cursor) (\<lambda>opt.
        let v = option_value opt in
        Inr (False, if v \<in> checked then checked - {v} else insert v checked))
      else Inr (key \<in> set ENTER_KEYS, checked))"

definition checkbox_list ::
  "string \<Rightarrow> menu_option list \<Rightarrow> string list inherited option \<Rightarrow> string \<Rightarrow> string set list_menu" where
  "checkbox_list title opts inh description = \<lparr>
     menu_title = glyphs_of title,
     menu_help = navigate_help ''] Navigate  [Space] Toggle  [Enter] Confirm  [q] Quit'',
     row_count = length opts,
     draw_row = checkbox_row opts inh,
     handle_key = checkbox_key opts,
     menu_description = glyphs_of description,
     menu_status = (\<lambda>_. []),
     show_cursor = True\<rparr>"

definition checkbox_menu ::
  "string \<Rightarrow> menu_option list \<Rightarrow> string list inherited option \<Rightarrow> string \<Rightarrow>
   (terminal, string list) dialogue" where
  "checkbox_menu title opts inh description =
     mapD (\<lambda>(_, checked). filter (\<lambda>v. v \<in> checked) (map option_value opts))
       (run_list (checkbox_list title opts inh description) 0
         (case inh of None \<Rightarrow> {} | Some v \<Rightarrow> set (inherited_value v)))"

subsection \<open>Text fields\<close>

record text_entry =
  entry_inherited :: "string inherited option"
  entry_required :: bool
  typed :: string
  entry_error :: string

definition new_entry :: "string inherited option \<Rightarrow> bool \<Rightarrow> text_entry" where
  "new_entry inh required = \<lparr>entry_inherited = inh, entry_required = required, typed = [], entry_error = []\<rparr>"

definition submit :: "text_entry \<Rightarrow> string option \<times> text_entry" where
  "submit entry =
     (let value = (if typed entry \<noteq> [] then typed entry
          else case entry_inherited entry of None \<Rightarrow> [] | Some v \<Rightarrow> inherited_value v)
      in if value = [] \<and> entry_required entry
         then (None, entry\<lparr>entry_error := ''This field is required.''\<rparr>)
         else (Some value, entry))"

definition press :: "int \<Rightarrow> text_entry \<Rightarrow> string option \<times> text_entry" where
  "press key entry =
     (if key \<in> set ENTER_KEYS then submit entry
      else if key = KEY_ESCAPE then (None, entry\<lparr>typed := [], entry_error := []\<rparr>)
      else if key \<in> set BACKSPACE_KEYS
           then (None, entry\<lparr>typed := butlast (typed entry), entry_error := []\<rparr>)
      else if printable_key key
           then (None, entry\<lparr>typed := typed entry @ [char_of (nat key)], entry_error := []\<rparr>)
      else (None, entry))"

definition inherited_hint :: "string inherited \<Rightarrow> string \<Rightarrow> bool \<Rightarrow> string" where
  "inherited_hint inh typed_text masked =
     (let shown = (if masked then ''(hidden)'' else inherited_value inh);
          origin = ''Inherited from '' @ inherited_source inh @ '': '' @ shown
      in if typed_text \<noteq> [] then origin @ ''  (overridden, Esc restores it)''
         else origin @ ''  (Enter keeps it, typing replaces it)'')"

definition draw_text_entry :: "string \<Rightarrow> string \<Rightarrow> bool \<Rightarrow> text_entry \<Rightarrow> window_size \<Rightarrow> screen" where
  "draw_text_entry title prompt masked entry win =
     (let field_row = CONTENT_START + 2;
          field_width = max_x win - BORDER_PAD * 2 - 4;
          display_text = (if masked then replicate (length (typed entry)) (of_char (CHR ''*''))
            else glyphs_of (typed entry));
          visible_text = ljust field_width (py_last field_width display_text);
          bar = repeated (field_width + 2) HORIZONTAL_LINE
      in draw_title win (glyphs_of title)
         @ [put CONTENT_START BORDER_PAD (glyphs_of prompt) (attrs 4 False),
            put (field_row - 1) BORDER_PAD ([TOP_LEFT] @ bar @ [TOP_RIGHT]) no_attributes,
            put field_row BORDER_PAD ([VERTICAL_LINE] @ glyphs_of '' '') no_attributes,
            put field_row (BORDER_PAD + 2) visible_text (attrs 1 False),
            put field_row (BORDER_PAD + 2 + int (length visible_text))
              (glyphs_of '' '' @ [VERTICAL_LINE]) no_attributes,
            put (field_row + 1) BORDER_PAD ([BOTTOM_LEFT] @ bar @ [BOTTOM_RIGHT]) no_attributes]
         @ (case entry_inherited entry of
              None \<Rightarrow> []
            | Some inh \<Rightarrow> [put (field_row + 3) BORDER_PAD
                (cut_at (line_width win) (glyphs_of (inherited_hint inh (typed entry) masked))) (attrs 3 False)])
         @ (if entry_error entry \<noteq> []
            then [put (field_row + 4) BORDER_PAD
              (cut_at (line_width win) (glyphs_of (entry_error entry))) (attrs 5 False)] else [])
         @ draw_help win (glyphs_of ''[Enter] Confirm  [Esc] Clear  [Ctrl+C] Quit''))"

function edit_entry ::
  "(text_entry \<Rightarrow> window_size \<Rightarrow> screen) \<Rightarrow> text_entry \<Rightarrow> (terminal, string) dialogue" where
  "edit_entry draw entry t =
     (case read_key (draw entry) t of
        None \<Rightarrow> None
      | Some (Inl e, t') \<Rightarrow> Some (Inl e, t')
      | Some (Inr (win, key), t') \<Rightarrow>
          (case press key entry of
             (Some submitted, _) \<Rightarrow> Some (Inr submitted, t')
           | (None, entry') \<Rightarrow> edit_entry draw entry' t'))"
  by pat_completeness auto
termination
  by (relation "measure (\<lambda>(draw, entry, t). length (awaited t))") (auto dest: read_key_Some)

declare edit_entry.simps [simp del]

definition text_input ::
  "string \<Rightarrow> string \<Rightarrow> string inherited option \<Rightarrow> bool \<Rightarrow> bool \<Rightarrow> (terminal, string) dialogue" where
  "text_input title prompt inh required masked =
     edit_entry (draw_text_entry title prompt masked) (new_entry inh required)"

lemma edit_entry_consumes:
  "edit_entry draw entry t = Some (r, t') \<Longrightarrow> length (awaited t') < length (awaited t)"
proof (induction "length (awaited t)" arbitrary: entry t rule: less_induct)
  case less
  from less.prems show ?case
    by (subst (asm) edit_entry.simps)
      (auto split: option.splits sum.splits prod.splits dest!: read_key_Some, meson less.hyps less_trans)
qed

definition draw_mismatch :: "string \<Rightarrow> window_size \<Rightarrow> screen" where
  "draw_mismatch title win =
     draw_title win (glyphs_of title)
     @ [put (CONTENT_START + 2) BORDER_PAD (glyphs_of ''Passwords do not match. Try again.'') (attrs 5 True)]
     @ draw_help win (glyphs_of ''Press any key to retry...'')"

function password_input_with_confirm :: "string \<Rightarrow> string \<Rightarrow> (terminal, string) dialogue" where
  "password_input_with_confirm title prompt t =
     (case text_input title prompt None True True t of
        None \<Rightarrow> None
      | Some (Inl e, t1) \<Rightarrow> Some (Inl e, t1)
      | Some (Inr password, t1) \<Rightarrow>
          (case text_input title ''Confirm password:'' None True True t1 of
             None \<Rightarrow> None
           | Some (Inl e, t2) \<Rightarrow> Some (Inl e, t2)
           | Some (Inr confirm, t2) \<Rightarrow>
               if password = confirm then Some (Inr password, t2)
               else (case read_key (draw_mismatch title) t2 of
                   None \<Rightarrow> None
                 | Some (Inl e, t3) \<Rightarrow> Some (Inl e, t3)
                 | Some (Inr _, t3) \<Rightarrow> password_input_with_confirm title prompt t3)))"
  by pat_completeness auto
termination
  by (relation "measure (\<lambda>(title, prompt, t). length (awaited t))")
    (auto simp: text_input_def dest!: read_key_Some edit_entry_consumes)

declare password_input_with_confirm.simps [simp del]

subsection \<open>The summary\<close>

definition SUMMARY_VALUE_WIDTH :: int where "SUMMARY_VALUE_WIDTH = 32"

definition fitted :: "string \<Rightarrow> glyphs" where
  "fitted value =
     (if int (length value) \<le> SUMMARY_VALUE_WIDTH then ljust SUMMARY_VALUE_WIDTH (glyphs_of value)
      else py_take (SUMMARY_VALUE_WIDTH - 1) (glyphs_of value) @ [ELLIPSIS_MARK])"

text \<open>Items are a label, a value and a source; \<^verbatim>\<open>label.partition(".")\<close> splits at the first dot.\<close>

fun summary_rows :: "string \<Rightarrow> (string \<times> string \<times> string) list \<Rightarrow> list_row list" where
  "summary_rows current_group [] = []"
| "summary_rows current_group ((label, value, source) # items) =
     (case find_sep ''.'' label of
        None \<Rightarrow>
          \<lparr>row_text = glyphs_of ''  '' @ ljust 27 (glyphs_of label) @ glyphs_of '' '' @ fitted value
             @ glyphs_of '' '' @ glyphs_of source, row_style_of = Plain_Row\<rparr>
          # summary_rows current_group items
      | Some (group_name, field) \<Rightarrow>
          (if group_name \<noteq> current_group
           then [\<lparr>row_text = glyphs_of (''  ['' @ group_name @ '']''), row_style_of = Heading_Row\<rparr>] else [])
          @ \<lparr>row_text = glyphs_of ''    '' @ ljust 25 (glyphs_of field) @ glyphs_of '' '' @ fitted value
               @ glyphs_of '' '' @ glyphs_of source, row_style_of = Plain_Row\<rparr>
          # summary_rows group_name items)"

definition confirm_key :: "int \<Rightarrow> int \<Rightarrow> bool \<Rightarrow> (bool \<times> bool) result" where
  "confirm_key key cursor confirmed =
     (let confirmed' = (key \<in> {121, 89}) in Inr (confirmed' \<or> key \<in> {110, 78, KEY_Q}, confirmed'))"

definition confirm_list :: "string \<Rightarrow> list_row list \<Rightarrow> bool list_menu" where
  "confirm_list title rows = \<lparr>
     menu_title = glyphs_of title,
     menu_help = navigate_help ''] Scroll  [y] Confirm  [n] Cancel'',
     row_count = length rows,
     draw_row = (\<lambda>_ i _. rows ! i),
     handle_key = confirm_key,
     menu_description = [],
     menu_status = (\<lambda>_. glyphs_of ''Proceed with installation? [y/n]''),
     show_cursor = False\<rparr>"

definition confirm_screen :: "string \<Rightarrow> (string \<times> string \<times> string) list \<Rightarrow> (terminal, bool) dialogue" where
  "confirm_screen title items =
     mapD snd (run_list (confirm_list title (summary_rows [] items)) 0 False)"

subsection \<open>Switches\<close>

record toggle =
  toggle_key :: string
  toggle_label :: string
  toggle_inherited :: "bool inherited option"

text \<open>The states by key (\<open>None\<close>: not set yet), and the message under the list.\<close>

record toggle_states =
  states :: "(string, bool option) dict"
  message :: string

definition state_of :: "toggle_states \<Rightarrow> string \<Rightarrow> bool option" where
  "state_of s key = (case map_of (states s) key of None \<Rightarrow> None | Some b \<Rightarrow> b)"

definition toggle_line :: "toggle \<Rightarrow> bool option \<Rightarrow> string" where
  "toggle_line t current =
     (let switch_text = (case current of Some True \<Rightarrow> '' ON '' | Some False \<Rightarrow> '' OFF'' | None \<Rightarrow> ''  ? '');
          line = ''  ['' @ switch_text @ '']  '' @ toggle_label t
      in case toggle_inherited t of
           None \<Rightarrow> line @ (if current = None then ''  (not set, press Space)'' else [])
         | Some inh \<Rightarrow>
             if current = Some (inherited_value inh) then line @ inherited_tag (Some (inherited_source inh))
             else line @ ''  (inherited from '' @ inherited_source inh @ '': ''
               @ (if inherited_value inh then ''ON'' else ''OFF'') @ '')'')"

definition toggle_row :: "toggle list \<Rightarrow> toggle_states \<Rightarrow> nat \<Rightarrow> bool \<Rightarrow> list_row" where
  "toggle_row toggles s i has_cursor =
     (let t = toggles ! i; current = state_of s (toggle_key t) in
      \<lparr>row_text = glyphs_of (toggle_line t current),
       row_style_of = (if current = Some True then Marked_Row else Plain_Row)\<rparr>)"

definition toggle_key_handler :: "toggle list \<Rightarrow> int \<Rightarrow> int \<Rightarrow> toggle_states \<Rightarrow> (bool \<times> toggle_states) result" where
  "toggle_key_handler toggles key cursor s =
     (if key = KEY_SPACE \<or> key \<in> set ENTER_KEYS
      then bindE (item_at toggles cursor) (\<lambda>t.
        let k = toggle_key t in
        Inr (False, \<lparr>states = AList.update k (Some (state_of s k \<noteq> Some True)) (states s), message = []\<rparr>))
      else if key = KEY_TAB
      then (let unset = map toggle_label (filter (\<lambda>t. state_of s (toggle_key t) = None) toggles) in
        Inr (unset = [], s\<lparr>message :=
          (if unset \<noteq> [] then ''Set every feature first: '' @ join '', '' unset else [])\<rparr>))
      else Inr (False, s))"

definition toggle_list :: "string \<Rightarrow> toggle list \<Rightarrow> string \<Rightarrow> toggle_states list_menu" where
  "toggle_list title toggles description = \<lparr>
     menu_title = glyphs_of title,
     menu_help = navigate_help ''] Navigate  [Space/Enter] Toggle  [Tab] Continue  [q] Quit'',
     row_count = length toggles,
     draw_row = toggle_row toggles,
     handle_key = toggle_key_handler toggles,
     menu_description = glyphs_of description,
     menu_status = (\<lambda>s. glyphs_of (message s)),
     show_cursor = True\<rparr>"

definition initial_states :: "toggle list \<Rightarrow> toggle_states" where
  "initial_states toggles =
     \<lparr>states = foldl (\<lambda>d t. AList.update (toggle_key t) (map_option inherited_value (toggle_inherited t)) d)
        [] toggles, message = []\<rparr>"

definition toggle_menu :: "string \<Rightarrow> toggle list \<Rightarrow> string \<Rightarrow> (terminal, (string, bool) dict) dialogue" where
  "toggle_menu title toggles description =
     mapD (\<lambda>(_, s). foldl (\<lambda>d t. AList.update (toggle_key t) (state_of s (toggle_key t) = Some True) d) [] toggles)
       (run_list (toggle_list title toggles description) 0 (initial_states toggles))"

subsection \<open>Messages\<close>

text \<open>The lines that fit above the help line; the loop stops at the first that does not.\<close>

fun info_lines :: "window_size \<Rightarrow> int \<Rightarrow> string list \<Rightarrow> screen" where
  "info_lines win row [] = []"
| "info_lines win row (line # ls) =
     (if row \<ge> max_y win - HELP_ROW_OFFSET then []
      else put row BORDER_PAD (cut_at (line_width win) (glyphs_of line)) (attrs 4 False)
        # info_lines win (row + 1) ls)"

definition draw_info :: "string \<Rightarrow> string \<Rightarrow> window_size \<Rightarrow> screen" where
  "draw_info title info_text win =
     draw_title win (glyphs_of title)
     @ info_lines win CONTENT_START (split_on NL info_text)
     @ draw_help win (glyphs_of ''Press any key to continue...'')"

definition info_screen :: "string \<Rightarrow> string \<Rightarrow> (terminal, unit) dialogue" where
  "info_screen title info_text = mapD (\<lambda>_. ()) (read_key (draw_info title info_text))"

subsection \<open>The list engine as a step relation\<close>

text \<open>
  One round of the loop that goes on: a screen is drawn, a key moves the cursor or is handled
  without being accepted. \<open>list_accepts\<close> is the round that ends it.
\<close>

type_synonym 's list_state = "int \<times> 's \<times> terminal"

inductive list_step :: "'s list_menu \<Rightarrow> 's list_state \<Rightarrow> 's list_state \<Rightarrow> bool"
  for menu :: "'s list_menu" where
  Move_Up: "read_key (draw_list menu s c) t = Some (Inr (win, KEY_UP), t') \<Longrightarrow>
     list_step menu (c, s, t) (max (c - 1) 0, s, t')"
| Move_Down: "read_key (draw_list menu s c) t = Some (Inr (win, KEY_DOWN), t') \<Longrightarrow>
     list_step menu (c, s, t) (min (c + 1) (last_position menu win), s, t')"
| Handled: "read_key (draw_list menu s c) t = Some (Inr (win, key), t') \<Longrightarrow>
     key \<notin> {KEY_UP, KEY_DOWN, KEY_Q} \<Longrightarrow> handle_key menu key c s = Inr (False, s') \<Longrightarrow>
     list_step menu (c, s, t) (c, s', t')"

inductive_cases list_stepE: "list_step menu (c, s, t) st"

definition list_accepts :: "'s list_menu \<Rightarrow> 's list_state \<Rightarrow> 's list_state \<Rightarrow> bool" where
  "list_accepts menu = (\<lambda>(c, s, t) (c', s', t').
     c' = c \<and> (\<exists>win key. read_key (draw_list menu s c) t = Some (Inr (win, key), t') \<and>
       key \<notin> {KEY_UP, KEY_DOWN} \<and> handle_key menu key c s = Inr (True, s')))"

lemmas list_steps_induct =
  rtranclp_induct [of _ "(ax, ay, az)" "(bx, by, bz)", split_rule, consumes 1, case_names refl step]

lemmas list_steps_converse_induct =
  converse_rtranclp_induct [of _ "(ax, ay, az)" "(bx, by, bz)", split_rule, consumes 1, case_names refl step]

lemma keys_differ: "KEY_UP \<noteq> KEY_DOWN" "KEY_DOWN \<noteq> KEY_UP" "KEY_Q \<noteq> KEY_UP" "KEY_Q \<noteq> KEY_DOWN"
  by (simp_all add: KEY_UP_def KEY_DOWN_def KEY_Q_def)

lemma run_list_step: "list_step menu (c, s, t) (c1, s1, t1) \<Longrightarrow> run_list menu c s t = run_list menu c1 s1 t1"
  by (erule list_stepE) (subst run_list.simps, simp add: keys_differ)+

lemma run_list_steps: "(list_step menu)\<^sup>*\<^sup>* (c, s, t) (c1, s1, t1) \<Longrightarrow> run_list menu c s t = run_list menu c1 s1 t1"
  by (induction rule: list_steps_converse_induct) (auto simp: run_list_step)

lemma run_list_accepts: "list_accepts menu (c, s, t) (c', s', t') \<Longrightarrow> run_list menu c s t = Some (Inr (c', s'), t')"
  by (subst run_list.simps) (auto simp: list_accepts_def)

lemma run_list_reaches:
  "run_list menu c s t = Some (Inr (c', s'), t') \<Longrightarrow>
     \<exists>s0 t0. (list_step menu)\<^sup>*\<^sup>* (c, s, t) (c', s0, t0) \<and> list_accepts menu (c', s0, t0) (c', s', t')"
proof (induction "length (awaited t)" arbitrary: c s t rule: less_induct)
  case less
  have go_on: ?case if first: "list_step menu (c, s, t) (c1, s1, t1)" and "length (awaited t1) < length (awaited t)"
    for c1 s1 t1
  proof -
    have "run_list menu c1 s1 t1 = Some (Inr (c', s'), t')" using less.prems run_list_step [OF first] by simp
    from less.hyps [OF that(2) this] first show ?thesis by (meson converse_rtranclp_into_rtranclp)
  qed
  from less.prems obtain win key t1 where read: "read_key (draw_list menu s c) t = Some (Inr (win, key), t1)"
    by (subst (asm) run_list.simps) (auto split: option.splits sum.splits)
  note shorter = read_key_Some [OF read, THEN conjunct1]
  consider "key = KEY_UP" | "key = KEY_DOWN" | "key \<notin> {KEY_UP, KEY_DOWN}" by auto
  then show ?case
  proof cases
    case 1
    with read shorter show ?thesis by (intro go_on [OF Move_Up]) simp_all
  next
    case 2
    with read shorter show ?thesis by (intro go_on [OF Move_Down]) simp_all
  next
    case 3
    with less.prems read obtain accepted s1 where handled: "handle_key menu key c s = Inr (accepted, s1)"
      by (subst (asm) run_list.simps) (auto split: sum.splits)
    show ?thesis
    proof (cases accepted)
      case True
      with less.prems read handled 3 have "c' = c" "s' = s1" "t' = t1"
        by (subst (asm) run_list.simps, simp)+
      with read handled 3 True show ?thesis
        by (intro exI [of _ s] exI [of _ t]) (auto simp: list_accepts_def)
    next
      case False
      with less.prems read handled 3 have "key \<noteq> KEY_Q"
        by (subst (asm) run_list.simps) (auto split: if_splits)
      with read handled 3 False shorter show ?thesis by (intro go_on [OF Handled]) simp_all
    qed
  qed
qed

text \<open>What every round keeps holds where the list ends.\<close>

lemma run_list_invariant:
  assumes "run_list menu c s t = Some (Inr (c', s'), t')" and "I c s"
    and "\<And>c s t c1 s1 t1. I c s \<Longrightarrow> list_step menu (c, s, t) (c1, s1, t1) \<Longrightarrow> I c1 s1"
  shows "\<exists>s0 t0. I c' s0 \<and> list_accepts menu (c', s0, t0) (c', s', t')"
proof -
  from run_list_reaches [OF assms(1)] obtain s0 t0
    where steps: "(list_step menu)\<^sup>*\<^sup>* (c, s, t) (c', s0, t0)" and ends: "list_accepts menu (c', s0, t0) (c', s', t')"
    by blast
  from steps have "I c' s0"
    by (induction rule: list_steps_induct) (use assms(2,3) in blast)+
  with ends show ?thesis by blast
qed

subsection \<open>What a menu returns\<close>

lemma item_at_member: "item_at xs i = Inr x \<Longrightarrow> x \<in> set xs"
  by (auto simp: item_at_def Let_def split: if_splits)

lemma radio_menu_option: "radio_menu title opts inh description t = Some (Inr v, t') \<Longrightarrow> v \<in> option_value ` set opts"
  by (auto simp: radio_menu_def bindD_Inr_iff bindE_Inr_iff dest!: item_at_member)

lemma checkbox_menu_subseq:
  "checkbox_menu title opts inh description t = Some (Inr vs, t') \<Longrightarrow> subseq vs (map option_value opts)"
  by (auto simp: checkbox_menu_def mapD_Inr_iff)

definition entry_value :: "text_entry \<Rightarrow> string" where
  "entry_value entry =
     (if typed entry \<noteq> [] then typed entry
      else case entry_inherited entry of None \<Rightarrow> [] | Some v \<Rightarrow> inherited_value v)"

lemma press_submits:
  "press key entry = (Some v, entry') \<Longrightarrow>
     key \<in> set ENTER_KEYS \<and> v = entry_value entry \<and> (v = [] \<longrightarrow> \<not> entry_required entry)"
  by (auto simp: press_def submit_def Let_def entry_value_def split: if_splits)

lemma press_keeps:
  "press key entry = (r, entry') \<Longrightarrow>
     entry_required entry' = entry_required entry \<and> entry_inherited entry' = entry_inherited entry"
  by (auto simp: press_def submit_def Let_def split: if_splits)

lemma edit_entry_required:
  "edit_entry draw entry t = Some (Inr v, t') \<Longrightarrow> entry_required entry \<Longrightarrow> v \<noteq> []"
proof (induction "length (awaited t)" arbitrary: entry t rule: less_induct)
  case less
  from less.prems(1) obtain win key t1 r entry1 where read: "read_key (draw entry) t = Some (Inr (win, key), t1)"
    and pressed: "press key entry = (r, entry1)"
    and ends: "case r of Some submitted \<Rightarrow> v = submitted | None \<Rightarrow> edit_entry draw entry1 t1 = Some (Inr v, t')"
    by (subst (asm) edit_entry.simps) (auto split: option.splits sum.splits prod.splits)
  show ?case
  proof (cases r)
    case None
    with ends less.hyps [of t1 entry1] read_key_Some [OF read] press_keeps [OF pressed] less.prems(2)
    show ?thesis by simp
  next
    case (Some submitted)
    with ends pressed press_submits [of key entry submitted entry1] less.prems(2) show ?thesis by auto
  qed
qed

lemma text_input_required: "text_input title prompt inh True masked t = Some (Inr v, t') \<Longrightarrow> v \<noteq> []"
  unfolding text_input_def by (erule edit_entry_required) (simp add: new_entry_def)

text \<open>
  A round of the password dialogue whose two texts differ: both were entered, one after the other,
  and a key was pressed on the screen that says so.
\<close>

definition mismatched :: "string \<Rightarrow> string \<Rightarrow> terminal \<Rightarrow> terminal \<Rightarrow> bool" where
  "mismatched title prompt t t' \<longleftrightarrow>
     (\<exists>p1 t1 p2 t2 k. text_input title prompt None True True t = Some (Inr p1, t1) \<and>
        text_input title ''Confirm password:'' None True True t1 = Some (Inr p2, t2) \<and> p1 \<noteq> p2 \<and>
        read_key (draw_mismatch title) t2 = Some (Inr k, t'))"

lemma password_rounds:
  "password_input_with_confirm title prompt t = Some (Inr p, t') \<Longrightarrow>
     \<exists>t0 t1. (mismatched title prompt)\<^sup>*\<^sup>* t t0 \<and> text_input title prompt None True True t0 = Some (Inr p, t1) \<and>
       text_input title ''Confirm password:'' None True True t1 = Some (Inr p, t')"
proof (induction "length (awaited t)" arbitrary: t rule: less_induct)
  case less
  from less.prems obtain p1 t1 p2 t2 where
    first: "text_input title prompt None True True t = Some (Inr p1, t1)"
    and second: "text_input title ''Confirm password:'' None True True t1 = Some (Inr p2, t2)"
    and rest: "if p1 = p2 then p = p1 \<and> t' = t2 else
      (\<exists>k t3. read_key (draw_mismatch title) t2 = Some (Inr k, t3) \<and>
        password_input_with_confirm title prompt t3 = Some (Inr p, t'))"
    by (subst (asm) password_input_with_confirm.simps) (auto split: option.splits sum.splits if_splits)
  show ?case
  proof (cases "p1 = p2")
    case True
    with first second rest show ?thesis by auto
  next
    case False
    with rest obtain k t3 where read: "read_key (draw_mismatch title) t2 = Some (Inr k, t3)"
      and again: "password_input_with_confirm title prompt t3 = Some (Inr p, t')" by auto
    from False first second read have round: "mismatched title prompt t t3" unfolding mismatched_def by blast
    have "length (awaited t3) < length (awaited t)"
      using read_key_Some [OF read] edit_entry_consumes [OF first [unfolded text_input_def]]
        edit_entry_consumes [OF second [unfolded text_input_def]] by simp
    from less.hyps [OF this again] round show ?thesis by (meson converse_rtranclp_into_rtranclp)
  qed
qed

lemma password_typed_twice:
  "password_input_with_confirm title prompt t = Some (Inr p, t') \<Longrightarrow>
     \<exists>t0 t1. text_input title prompt None True True t0 = Some (Inr p, t1) \<and>
       text_input title ''Confirm password:'' None True True t1 = Some (Inr p, t')"
  using password_rounds by blast

end
