(* ===== verification/Value_Precedence.thy ===== *)
theory Value_Precedence
  imports Plain_Values
begin

text \<open>
  \<^verbatim>\<open>config/value_precedence.py\<close>: which source wins for a setting: the environment over
  \<^verbatim>\<open>config.yaml\<close>, and the interactive setup over both.
\<close>

datatype value_source = From_Environment | From_Config_File | From_Tui

fun value_source_text :: "value_source \<Rightarrow> string" where
  "value_source_text From_Environment = ''environment''"
| "value_source_text From_Config_File = ''config.yaml''"
| "value_source_text From_Tui = ''TUI''"

record setting_value =
  given_value :: pyval
  given_by :: value_source

type_synonym settings = "(string, pyval) dict"
type_synonym sourced_settings = "(string, setting_value) dict"

definition INHERITANCE_ORDER :: "value_source list" where
  "INHERITANCE_ORDER = [From_Environment, From_Config_File]"

definition inherit_from :: "value_source \<Rightarrow> settings \<Rightarrow> sourced_settings \<Rightarrow> sourced_settings" where
  "inherit_from source values inherited =
     foldl (\<lambda>d (path, value). setdefault path \<lparr>given_value = value, given_by = source\<rparr> d)
       inherited values"

definition inherit_setting_values :: "(value_source \<Rightarrow> settings) \<Rightarrow> sourced_settings" where
  "inherit_setting_values values_by_source =
     foldl (\<lambda>d source. inherit_from source (values_by_source source) d) [] INHERITANCE_ORDER"

definition tui_choice_counts :: "sourced_settings \<Rightarrow> string \<Rightarrow> pyval \<Rightarrow> bool" where
  "tui_choice_counts inherited path value \<longleftrightarrow>
     (case map_of inherited path of
        None \<Rightarrow> True
      | Some previous \<Rightarrow> \<not> py_eq (given_value previous) value)"

definition apply_tui_choices :: "sourced_settings \<Rightarrow> settings \<Rightarrow> sourced_settings" where
  "apply_tui_choices inherited tui_choices =
     foldl (\<lambda>d (path, value).
         if tui_choice_counts inherited path value
         then AList.update path \<lparr>given_value = value, given_by = From_Tui\<rparr> d else d)
       inherited tui_choices"

definition plain_values :: "sourced_settings \<Rightarrow> settings" where
  "plain_values = map (\<lambda>(path, setting). (path, given_value setting))"

end
