(* ===== verification/Session.thy ===== *)
theory Session
  imports Setup_Frontend Value_Precedence
begin

text \<open>
  \<^verbatim>\<open>setup/session.py\<close>: the interactive setup asks the questions of the install steps, in step
  order, through a front-end. The attributes of a \<^verbatim>\<open>SetupSession\<close> that change are the record
  \<open>session\<close>; the inherited values, the front-end and the machine are arguments.
\<close>

record session =
  answers :: settings
  asked :: "(string \<times> step_setting) list"
  offered_choices :: "(string, choice list) dict"

definition new_session :: session where
  "new_session = \<lparr>answers = [], asked = [], offered_choices = []\<rparr>"

definition session_value :: "sourced_settings \<Rightarrow> session \<Rightarrow> string \<Rightarrow> pyval" where
  "session_value inh s path =
     (case map_of (answers s) path of
        Some answer \<Rightarrow> answer
      | None \<Rightarrow> (case map_of inh path of None \<Rightarrow> PNone | Some v \<Rightarrow> given_value v))"

subsection \<open>Inherited values as a question shows them\<close>

text \<open>
  The items of \<^verbatim>\<open>for item in value\<close> and \<^verbatim>\<open>list(value)\<close>: a text gives its characters and a mapping
  its keys; a number, a truth value or no value raises \<^verbatim>\<open>TypeError\<close>.
\<close>

fun iterated :: "pyval \<Rightarrow> pyval list result" where
  "iterated (PList xs) = Inr xs"
| "iterated (PTuple xs) = Inr xs"
| "iterated (PStr s) = Inr (map (\<lambda>ch. PStr [ch]) s)"
| "iterated (PDict d) = Inr (map PStr (keys d))"
| "iterated v = Inl (Type_Error (type_name v))"

definition inherited_as :: "(pyval \<Rightarrow> 'a result) \<Rightarrow> setting_value option \<Rightarrow> 'a inherited option result" where
  "inherited_as convert_to setting_value =
     (case setting_value of
        None \<Rightarrow> Inr None
      | Some v \<Rightarrow>
          if given_value v = PNone then Inr None
          else bindE (convert_to (given_value v)) (\<lambda>x. Inr (Some
            \<lparr>inherited_value = x, inherited_source = value_source_text (given_by v)\<rparr>)))"

definition inherited_text :: "setting_value option \<Rightarrow> string inherited option" where
  "inherited_text setting_value =
     (case setting_value of
        None \<Rightarrow> None
      | Some v \<Rightarrow>
          if given_value v = PNone \<or> given_value v = PStr [] then None
          else Some \<lparr>inherited_value = value_str (given_value v),
            inherited_source = value_source_text (given_by v)\<rparr>)"

definition as_texts :: "pyval list \<Rightarrow> string set" where
  "as_texts vs = set (map value_str vs)"

subsection \<open>Asking\<close>

definition ask_choose_one ::
  "os \<Rightarrow> machine_facts \<Rightarrow> 'u frontend \<Rightarrow> string \<Rightarrow> string \<Rightarrow> question \<Rightarrow>
   choice list + choice_source \<Rightarrow> string \<Rightarrow> string \<Rightarrow> setting_value option \<Rightarrow> session \<Rightarrow>
   ('u, pyval \<times> session) setup_dialogue" where
  "ask_choose_one os machine F step path q source label typed_prompt inh s =
     bindD
       (case source of
          Inl choices \<Rightarrow> returnD choices
        | Inr compute \<Rightarrow>
            act os (compute (case inh of None \<Rightarrow> PNone | Some v \<Rightarrow> given_value v) machine))
       (\<lambda>choices.
          if choices = []
          then mapD (\<lambda>typed. (PStr typed, s))
            (talk (enter_text F step (Enter_Text label typed_prompt) (inherited_text inh)))
          else
            (let s' = s\<lparr>offered_choices := AList.update path choices (offered_choices s)\<rparr> in
             bindD (liftD (inherited_as Inr inh)) (\<lambda>shown.
               mapD (\<lambda>chosen. (chosen, s')) (talk (choose_one F step q choices shown)))))"

definition ask_choose_many ::
  "'u frontend \<Rightarrow> string \<Rightarrow> question \<Rightarrow> setting_value option \<Rightarrow> ('u, pyval) setup_dialogue" where
  "ask_choose_many F step q inh =
     bindD (liftD (inherited_as iterated inh)) (\<lambda>shown.
       bindD (talk (choose_many F step q shown)) (\<lambda>chosen.
         case inh of
           None \<Rightarrow> returnD (PList chosen)
         | Some v \<Rightarrow>
             bindD (liftD (iterated (given_value v))) (\<lambda>items.
               returnD (if as_texts chosen = as_texts items then given_value v else PList chosen))))"

definition ask_secret ::
  "'u frontend \<Rightarrow> string \<Rightarrow> question \<Rightarrow> setting_value option \<Rightarrow> ('u, pyval) setup_dialogue" where
  "ask_secret F step q inh =
     (case inh of
        None \<Rightarrow> mapD PStr (talk (enter_secret F step q))
      | Some v \<Rightarrow>
          if truthy (given_value v)
          then bindD (talk (keep_secret F step q (value_source_text (given_by v)))) (\<lambda>kept.
            if kept then returnD (given_value v) else mapD PStr (talk (enter_secret F step q)))
          else mapD PStr (talk (enter_secret F step q)))"

definition answer ::
  "os \<Rightarrow> machine_facts \<Rightarrow> sourced_settings \<Rightarrow> 'u frontend \<Rightarrow> string \<Rightarrow> step_setting \<Rightarrow> session \<Rightarrow>
   ('u, pyval \<times> session) setup_dialogue" where
  "answer os machine inh F step st s =
     (let current = map_of inh (setting_path st) in
      case setting_question st of
        Some (Switch label on_label off_label description) \<Rightarrow>
          bindD (liftD (inherited_as (\<lambda>v. Inr (truthy v)) current)) (\<lambda>switch_state.
            mapD (\<lambda>on. (PBool on, s))
              (talk (ask_switch F step (Switch label on_label off_label description) switch_state)))
      | Some (Choose_One label source description typed_prompt) \<Rightarrow>
          ask_choose_one os machine F step (setting_path st)
            (Choose_One label source description typed_prompt) source label typed_prompt current s
      | Some (Choose_Many label choices description) \<Rightarrow>
          mapD (\<lambda>v. (v, s)) (ask_choose_many F step (Choose_Many label choices description) current)
      | Some (Enter_Text label prompt) \<Rightarrow>
          mapD (\<lambda>typed. (PStr typed, s))
            (talk (enter_text F step (Enter_Text label prompt) (inherited_text current)))
      | Some (Enter_Secret label prompt confirm) \<Rightarrow>
          mapD (\<lambda>v. (v, s)) (ask_secret F step (Enter_Secret label prompt confirm) current)
      | None \<Rightarrow> raiseD (Type_Error (setting_path st @ '' has no question to ask'')))"

definition ask ::
  "os \<Rightarrow> machine_facts \<Rightarrow> sourced_settings \<Rightarrow> 'u frontend \<Rightarrow> string \<Rightarrow> step_setting \<Rightarrow> session \<Rightarrow>
   ('u, session) setup_dialogue" where
  "ask os machine inh F step st s =
     mapD (\<lambda>(v, s'). s'\<lparr>answers := AList.update (setting_path st) v (answers s'),
         asked := asked s' @ [(step, st)]\<rparr>)
       (answer os machine inh F step st s)"

subsection \<open>The summary\<close>

definition shown_answer :: "session \<Rightarrow> step_setting \<Rightarrow> pyval \<Rightarrow> string result" where
  "shown_answer s st value =
     (case setting_question st of
        Some (Enter_Secret label prompt confirm) \<Rightarrow> Inr (if truthy value then ''set'' else ''not set'')
      | Some (Switch label on_label off_label description) \<Rightarrow>
          Inr (if truthy value then on_label else off_label)
      | Some (Choose_Many label choices description) \<Rightarrow>
          bindE (iterated value) (\<lambda>items.
            let texts = join '', '' (map value_str items) in
            Inr (if texts \<noteq> [] then texts else ''none''))
      | Some (Choose_One label source description typed_prompt) \<Rightarrow>
          (let offered = (case map_of (offered_choices s) (setting_path st) of
               None \<Rightarrow> [] | Some choices \<Rightarrow> choices)
           in case List.find (\<lambda>ch. py_eq (choice_value ch) value) offered of
                Some ch \<Rightarrow> Inr (choice_label ch)
              | None \<Rightarrow> Inr (value_str value))
      | _ \<Rightarrow> Inr (value_str value))"

definition summary_entry ::
  "session \<Rightarrow> sourced_settings \<Rightarrow> string \<times> step_setting \<Rightarrow> summary_row result" where
  "summary_entry s final = (\<lambda>(step, st).
     case (setting_question st, map_of final (setting_path st)) of
       (Some q, Some v) \<Rightarrow>
         bindE (shown_answer s st (given_value v)) (\<lambda>shown.
           Inr \<lparr>row_step = step, row_label = question_label q, row_value = shown,
             row_source = value_source_text (given_by v)\<rparr>)
     | _ \<Rightarrow> Inl (Key_Error (setting_path st)))"

definition summary :: "sourced_settings \<Rightarrow> session \<Rightarrow> summary_row list result" where
  "summary inh s =
     mapE (summary_entry s (apply_tui_choices inh (answers s)))
       (filter (\<lambda>(step, st). setting_question st \<noteq> None) (asked s))"

subsection \<open>The whole setup\<close>

text \<open>Every setting of every step, with the name of the step, in run order.\<close>

definition setup_settings :: "(string \<times> step_setting) list" where
  "setup_settings =
     concat (map (\<lambda>step. map (\<lambda>st. (install_step_text step, st)) (step_settings (wiring_of step)))
       INSTALL_STEPS)"

definition ask_if_wanted ::
  "os \<Rightarrow> machine_facts \<Rightarrow> sourced_settings \<Rightarrow> 'u frontend \<Rightarrow> string \<times> step_setting \<Rightarrow> session \<Rightarrow>
   ('u, session) setup_dialogue" where
  "ask_if_wanted os machine inh F = (\<lambda>(step, st) s.
     if setting_question st \<noteq> None \<and> asked_when st (session_value inh s)
     then ask os machine inh F step st s else returnD s)"

definition run_setup ::
  "os \<Rightarrow> machine_facts \<Rightarrow> sourced_settings \<Rightarrow> 'u frontend \<Rightarrow> ('u, settings) setup_dialogue" where
  "run_setup os machine inh F =
     bindD (foldD (ask_if_wanted os machine inh F) setup_settings new_session) (\<lambda>s.
       bindD (liftD (summary inh s)) (\<lambda>rows.
         bindD (talk (review F rows)) (\<lambda>confirmed.
           if confirmed then returnD (answers s)
           else raiseD (Keyboard_Interrupt ''installation cancelled by user''))))"

subsection \<open>Which questions are asked\<close>

text \<open>
  A condition looks at settings that come before its own in the registry, so what it said when
  the setting's turn came is what it says of the final values.
\<close>

definition unaffected :: "step_condition \<Rightarrow> string list \<Rightarrow> bool" where
  "unaffected condition paths \<longleftrightarrow>
     (\<forall>lookup lookup'. (\<forall>p. p \<notin> set paths \<longrightarrow> lookup p = lookup' p) \<longrightarrow> condition lookup = condition lookup')"

lemma unaffected_conditions:
  "unaffected always ps"
  "p \<notin> set ps \<Longrightarrow> unaffected (when_set p) ps"
  "p \<notin> set ps \<Longrightarrow> unaffected (when_equal p v) ps"
  "''usb_boot.enabled'' \<notin> set ps \<Longrightarrow> ''usb_boot.recovery_system'' \<notin> set ps \<Longrightarrow>
     unaffected recovery_system_wanted ps"
  by (auto simp: unaffected_def always_def when_set_def when_equal_def recovery_system_wanted_def)

abbreviation setting_paths :: "(string \<times> step_setting) list \<Rightarrow> string list" where
  "setting_paths sts \<equiv> map (\<lambda>(step, st). setting_path st) sts"

fun settled :: "(string \<times> step_setting) list \<Rightarrow> bool" where
  "settled [] = True"
| "settled ((step, st) # sts) =
     (setting_path st \<notin> set (setting_paths sts) \<and>
      unaffected (asked_when st) (setting_path st # setting_paths sts) \<and> settled sts)"

lemma setup_settings_settled: "settled setup_settings"
  by (simp add: setup_settings_def INSTALL_STEPS_def wiring_simps setting_def unaffected_conditions)

definition applies :: "sourced_settings \<Rightarrow> settings \<Rightarrow> step_setting \<Rightarrow> bool" where
  "applies inh ans st \<longleftrightarrow>
     setting_question st \<noteq> None \<and> asked_when st (session_value inh (new_session\<lparr>answers := ans\<rparr>))"

lemma session_value_answers: "session_value inh (new_session\<lparr>answers := answers s\<rparr>) = session_value inh s"
  by (rule ext) (simp add: session_value_def)

lemma answer_keeps:
  "answer os machine inh F step st s u = Some (Inr (v, s'), u') \<Longrightarrow> answers s' = answers s \<and> asked s' = asked s"
  by (auto simp: answer_def ask_choose_one_def mapD_Inr_iff bindD_Inr_iff Let_def
      split: option.splits question.splits sum.splits if_splits)

lemma ask_answers:
  "ask os machine inh F step st s u = Some (Inr s', u') \<Longrightarrow>
     \<exists>v s1. answer os machine inh F step st s u = Some (Inr (v, s1), u') \<and>
       answers s' = AList.update (setting_path st) v (answers s) \<and> asked s' = asked s @ [(step, st)]"
proof -
  assume "ask os machine inh F step st s u = Some (Inr s', u')"
  then obtain v s1 where answered: "answer os machine inh F step st s u = Some (Inr (v, s1), u')"
    and s': "s' = s1\<lparr>answers := AList.update (setting_path st) v (answers s1), asked := asked s1 @ [(step, st)]\<rparr>"
    by (auto simp: ask_def mapD_Inr_iff)
  with answer_keeps [OF answered] show ?thesis by (intro exI conjI) simp_all
qed

lemma ask_if_wanted_answers:
  "ask_if_wanted os machine inh F (step, st) s u = Some (Inr s', u') \<Longrightarrow>
     (\<forall>p. p \<noteq> setting_path st \<longrightarrow> map_of (answers s') p = map_of (answers s) p) \<and>
     (if applies inh (answers s) st then map_of (answers s') (setting_path st) \<noteq> None else s' = s)"
  by (auto simp: ask_if_wanted_def applies_def session_value_answers update_conv dest!: ask_answers split: if_splits)

lemma asked_settings:
  assumes "foldD (ask_if_wanted os machine inh F) sts s u = Some (Inr s', u')" and "settled sts"
    and "\<forall>p \<in> set (setting_paths sts). map_of (answers s) p = None"
  shows "(\<forall>p. p \<notin> set (setting_paths sts) \<longrightarrow> map_of (answers s') p = map_of (answers s) p) \<and>
    (\<forall>(step, st) \<in> set sts. map_of (answers s') (setting_path st) \<noteq> None \<longleftrightarrow> applies inh (answers s') st)"
  using assms
proof (induction sts arbitrary: s u)
  case Nil
  then show ?case by simp
next
  case (Cons item sts)
  obtain step st where item: "item = (step, st)" by fastforce
  from Cons.prems(1) item obtain s1 u1 where first: "ask_if_wanted os machine inh F (step, st) s u = Some (Inr s1, u1)"
    and rest: "foldD (ask_if_wanted os machine inh F) sts s1 u1 = Some (Inr s', u')"
    by (auto simp: bindD_Inr_iff)
  note answered = ask_if_wanted_answers [OF first]
  have fresh: "setting_path st \<notin> set (setting_paths sts)" and settled: "settled sts"
    and unaffected: "unaffected (asked_when st) (setting_path st # setting_paths sts)"
    using Cons.prems(2) item by simp_all
  have "\<forall>p \<in> set (setting_paths sts). map_of (answers s1) p = None"
    using answered Cons.prems(3) fresh item by (metis (no_types, lifting) list.set_intros(2) list.simps(9))
  note later = Cons.IH [OF rest settled this]
  then have kept: "map_of (answers s') p = map_of (answers s1) p" if "p \<notin> set (setting_paths sts)" for p
    using that by blast
  have same: "map_of (answers s') p = map_of (answers s) p" if "p \<notin> set (setting_path st # setting_paths sts)" for p
    using that kept answered by simp
  then have "session_value inh s' p = session_value inh s p" if "p \<notin> set (setting_path st # setting_paths sts)" for p
    using that by (simp add: session_value_def)
  with unaffected have "asked_when st (session_value inh s') = asked_when st (session_value inh s)"
    unfolding unaffected_def by blast
  then have "applies inh (answers s') st = applies inh (answers s) st" by (simp add: applies_def session_value_answers)
  moreover have "map_of (answers s) (setting_path st) = None" using Cons.prems(3) item by simp
  ultimately have "map_of (answers s') (setting_path st) \<noteq> None \<longleftrightarrow> applies inh (answers s') st"
    using answered kept [OF fresh] by (auto split: if_splits)
  with later same item show ?case by auto
qed

subsection \<open>What the answers are\<close>

text \<open>
  An answer fits its question. The choices may depend on what the machine answered when the
  question was asked; without choices a text is entered.
\<close>

definition choices_from :: "choice list + choice_source \<Rightarrow> setting_value option \<Rightarrow> machine_facts \<Rightarrow> choice list action" where
  "choices_from source inh machine =
     (case source of
        Inl choices \<Rightarrow> returnA choices
      | Inr compute \<Rightarrow> compute (case inh of None \<Rightarrow> PNone | Some v \<Rightarrow> given_value v) machine)"

definition is_entered :: "pyval \<Rightarrow> bool" where
  "is_entered v \<longleftrightarrow> (case v of PStr s \<Rightarrow> s \<noteq> [] | _ \<Rightarrow> False)"

fun answer_fits :: "os \<Rightarrow> machine_facts \<Rightarrow> setting_value option \<Rightarrow> question \<Rightarrow> pyval \<Rightarrow> bool" where
  "answer_fits os machine inh (Switch label on_label off_label description) v = (v \<in> {PBool True, PBool False})"
| "answer_fits os machine inh (Choose_One label source description typed_prompt) v =
     (\<exists>h choices h'. choices_from source inh machine os h = (Inr choices, h') \<and>
       (if choices = [] then is_entered v else v \<in> choice_value ` set choices))"
| "answer_fits os machine inh (Choose_Many label choices description) v =
     (Some v = map_option given_value inh \<or> (\<exists>vs. v = PList vs \<and> subseq vs (map choice_value choices)))"
| "answer_fits os machine inh (Enter_Text label prompt) v = is_entered v"
| "answer_fits os machine inh (Enter_Secret label prompt confirm) v =
     (is_entered v \<or> (truthy v \<and> Some v = map_option given_value inh))"

declare answer_fits.simps [simp del]

context setup_frontend
begin

lemma entered: "enter_text frontend step (Enter_Text label prompt) shown u = Some (Inr s, u') \<Longrightarrow> is_entered (PStr s)"
  by (simp add: is_entered_def text_required)

lemma entered_secret: "enter_secret frontend step (Enter_Secret label prompt confirm) u = Some (Inr s, u') \<Longrightarrow> is_entered (PStr s)"
  by (simp add: is_entered_def secret_required)

lemma ask_choose_one_fits:
  assumes "ask_choose_one os machine frontend step path (Choose_One label source description prompt)
    source label prompt inh s (u, h) = Some (Inr (v, s'), u', h')"
  shows "answer_fits os machine inh (Choose_One label source description prompt) v"
proof -
  have source: "(case source of Inl choices \<Rightarrow> returnD choices
      | Inr compute \<Rightarrow> act os (compute (case inh of None \<Rightarrow> PNone | Some v \<Rightarrow> given_value v) machine))
    = act os (choices_from source inh machine)"
    by (cases source) (auto simp: choices_from_def act_def returnD_def returnA_apply)
  from assms obtain choices h1 where choices: "choices_from source inh machine os h = (Inr choices, h1)"
    and rest: "(if choices = []
          then mapD (\<lambda>typed. (PStr typed, s)) (talk (enter_text frontend step (Enter_Text label prompt) (inherited_text inh)))
          else bindD (liftD (inherited_as Inr inh)) (\<lambda>shown. mapD (\<lambda>chosen. (chosen, s\<lparr>offered_choices := AList.update path choices (offered_choices s)\<rparr>))
            (talk (choose_one frontend step (Choose_One label source description prompt) choices shown)))) (u, h1)
      = Some (Inr (v, s'), u', h')"
    unfolding ask_choose_one_def source Let_def by (auto simp: bindD_Inr_iff act_Some)
  have "if choices = [] then is_entered v else v \<in> choice_value ` set choices"
  proof (cases "choices = []")
    case True
    with rest entered show ?thesis by (auto simp: mapD_Inr_iff talk_Some)
  next
    case False
    with rest obtain shown where "choose_one frontend step (Choose_One label source description prompt) choices shown u = Some (Inr v, u')"
      by (auto simp: mapD_Inr_iff bindD_Inr_iff talk_Some)
    from chosen_offered [OF this] False show ?thesis by simp
  qed
  with choices show ?thesis unfolding answer_fits.simps by blast
qed

lemma ask_choose_many_fits:
  assumes "ask_choose_many frontend step (Choose_Many label choices description) inh (u, h) = Some (Inr v, u', h')"
  shows "answer_fits os machine inh (Choose_Many label choices description) v"
proof -
  from assms obtain shown chosen where
    chosen: "choose_many frontend step (Choose_Many label choices description) shown u = Some (Inr chosen, u')"
    and v: "v = PList chosen \<or> (\<exists>i. inh = Some i \<and> v = given_value i)"
    by (cases inh) (clarsimp simp: ask_choose_many_def bindD_Inr_iff talk_Some split: if_split_asm; blast)+
  from v show ?thesis unfolding answer_fits.simps using chosen_many_offered [OF chosen] by auto
qed

lemma ask_secret_fits:
  "ask_secret frontend step (Enter_Secret label prompt confirm) inh (u, h) = Some (Inr v, u', h') \<Longrightarrow>
     answer_fits os machine inh (Enter_Secret label prompt confirm) v"
  unfolding answer_fits.simps by (auto simp: ask_secret_def bindD_Inr_iff mapD_Inr_iff talk_Some split: option.splits if_splits dest: entered_secret)

lemma answer_fits_question:
  assumes "answer os machine inh frontend step st s (u, h) = Some (Inr (v, s'), u', h')"
    and "setting_question st = Some q"
  shows "answer_fits os machine (map_of inh (setting_path st)) q v"
  using assms
  by (cases q)
    (auto simp: answer_def Let_def bindD_Inr_iff mapD_Inr_iff talk_Some entered
        answer_fits.simps(1) answer_fits.simps(4)
      intro: ask_choose_one_fits ask_choose_many_fits ask_secret_fits)

lemma answers_fit:
  assumes "foldD (ask_if_wanted os machine inh frontend) sts s (u, h) = Some (Inr s', u', h')"
    and "\<forall>(p, v) \<in> set (answers s). \<exists>(step, st) \<in> set sts. setting_path st = p \<and>
      (\<exists>q. setting_question st = Some q \<and> answer_fits os machine (map_of inh p) q v)"
  shows "\<forall>(p, v) \<in> set (answers s'). \<exists>(step, st) \<in> set sts. setting_path st = p \<and>
    (\<exists>q. setting_question st = Some q \<and> answer_fits os machine (map_of inh p) q v)"
  using assms
proof (rule foldD_invariant)
  fix item s w s' w'
  assume item: "item \<in> set sts"
    and fits: "\<forall>(p, v) \<in> set (answers s). \<exists>(step, st) \<in> set sts. setting_path st = p \<and>
      (\<exists>q. setting_question st = Some q \<and> answer_fits os machine (map_of inh p) q v)"
    and asked: "ask_if_wanted os machine inh frontend item s w = Some (Inr s', w')"
  obtain step st u h u' h' where split: "item = (step, st)" "w = (u, h)" "w' = (u', h')"
    by (metis surj_pair)
  show "\<forall>(p, v) \<in> set (answers s'). \<exists>(step, st) \<in> set sts. setting_path st = p \<and>
      (\<exists>q. setting_question st = Some q \<and> answer_fits os machine (map_of inh p) q v)"
  proof (cases "setting_question st \<noteq> None \<and> asked_when st (session_value inh s)")
    case False
    with asked split have "s' = s" by (auto simp: ask_if_wanted_def split: if_splits)
    with fits show ?thesis by simp
  next
    case True
    then obtain q where q: "setting_question st = Some q" by blast
    from True asked split have "ask os machine inh frontend step st s (u, h) = Some (Inr s', u', h')"
      by (simp add: ask_if_wanted_def)
    from ask_answers [OF this] obtain v s1 where v: "answer os machine inh frontend step st s (u, h) = Some (Inr (v, s1), u', h')"
      and s': "answers s' = AList.update (setting_path st) v (answers s)" by blast
    have "answer_fits os machine (map_of inh (setting_path st)) q v"
      by (rule answer_fits_question [OF v q])
    with item split q have new: "\<exists>(step, st') \<in> set sts. setting_path st' = setting_path st \<and>
        (\<exists>q. setting_question st' = Some q \<and> answer_fits os machine (map_of inh (setting_path st)) q v)"
      by fastforce
    have "set (AList.update k v xs) \<subseteq> insert (k, v) (set xs)" for k and xs :: settings
      by (induction xs) auto
    with fits new show ?thesis unfolding s' by blast
  qed
qed

end

lemma run_setup_session:
  assumes "run_setup os machine inh F u = Some (Inr ans, u')"
  obtains s u1 where "foldD (ask_if_wanted os machine inh F) setup_settings new_session u = Some (Inr s, u1)"
    and "answers s = ans"
  using assms by (auto simp: run_setup_def bindD_Inr_iff split: if_splits)

lemma run_setup_applies:
  assumes "run_setup os machine inh F u = Some (Inr ans, u')" and "(step, st) \<in> set setup_settings"
  shows "map_of ans (setting_path st) \<noteq> None \<longleftrightarrow> applies inh ans st"
proof -
  from assms(1) obtain s u1 where s: "foldD (ask_if_wanted os machine inh F) setup_settings new_session u = Some (Inr s, u1)"
    and ans: "answers s = ans" by (rule run_setup_session)
  have "\<forall>p \<in> set (setting_paths setup_settings). map_of (answers new_session) p = None"
    by (simp add: new_session_def)
  from asked_settings [OF s setup_settings_settled this] ans assms(2) show ?thesis by fastforce
qed

context setup_frontend
begin

lemma run_setup_fits:
  assumes "run_setup os machine inh frontend (u, h) = Some (Inr ans, u', h')" and "(p, v) \<in> set ans"
  shows "\<exists>(step, st) \<in> set setup_settings. setting_path st = p \<and>
    (\<exists>q. setting_question st = Some q \<and> answer_fits os machine (map_of inh p) q v)"
proof -
  from assms(1) obtain s w where s: "foldD (ask_if_wanted os machine inh frontend) setup_settings new_session (u, h) = Some (Inr s, w)"
    and ans: "answers s = ans" by (rule run_setup_session)
  obtain u1 h1 where w: "w = (u1, h1)" by fastforce
  from answers_fit [OF s [unfolded w]] ans assms(2) show ?thesis
    by (fastforce simp: new_session_def)
qed

end

end
