(* ===== verification/Machine.thy ===== *)
theory Machine
  imports Install_Steps
begin

text \<open>
  \<^verbatim>\<open>setup/machine.py\<close>: the disks of the machine, offered as choices. The commands run without a
  shell, with an argument list.
\<close>

text \<open>\<^verbatim>\<open>s.rsplit(maxsplit=1)\<close>: the last word and the text before it, without the blanks between.\<close>

definition rsplit_last_word :: "string \<Rightarrow> string list" where
  "rsplit_last_word s =
     (let r = dropWhile is_space (rev s);
          word = rev (takeWhile (\<lambda>ch. \<not> is_space ch) r);
          before = rev (dropWhile is_space (dropWhile (\<lambda>ch. \<not> is_space ch) r))
      in if word = [] then [] else if before = [] then [word] else [before, word])"

definition model_and_size :: "string \<Rightarrow> (string \<times> string) action" where
  "model_and_size path =
     bindA (run False (argv_request [''lsblk'', ''-dno'', ''MODEL,SIZE'', path])) (\<lambda>result.
       returnA
         (if \<not> success result then (''unknown'', ''unknown'')
          else case rsplit_last_word (strip (stdout result)) of
            [] \<Rightarrow> (''unknown'', ''unknown'')
          | [only] \<Rightarrow> (''unknown'', only)
          | model # size_text # _ \<Rightarrow> (model, size_text)))"

definition disk_name :: "string \<Rightarrow> string option" where
  "disk_name line =
     (case split_ws line of
        name # kind # _ \<Rightarrow> if kind = ''disk'' then Some name else None
      | _ \<Rightarrow> None)"

fun disks_of_lines :: "string list \<Rightarrow> disk list action" where
  "disks_of_lines [] = returnA []"
| "disks_of_lines (line # ls) =
     (case disk_name line of
        None \<Rightarrow> disks_of_lines ls
      | Some name \<Rightarrow>
          (let path = ''/dev/'' @ name in
           bindA (model_and_size path) (\<lambda>(model, size_text).
             bindA (disks_of_lines ls) (\<lambda>disks.
               returnA (\<lparr>disk_path = path, disk_model = model, disk_size = size_text\<rparr> # disks)))))"

definition machine_disks :: machine_facts where
  "machine_disks =
     bindA (run False (argv_request [''lsblk'', ''-dno'', ''NAME,TYPE''])) (\<lambda>result.
       if \<not> success result then returnA []
       else disks_of_lines (split_on NL (strip (stdout result))))"

subsection \<open>What the listing gives\<close>

lemma disks_of_lines_paths:
  "disks_of_lines ls os h = (Inr disks, h') \<Longrightarrow>
     map disk_path disks = map (\<lambda>name. ''/dev/'' @ name) (List.map_filter disk_name ls)"
proof (induction ls arbitrary: disks h)
  case Nil
  then show ?case by (simp add: returnA_apply)
next
  case (Cons line ls)
  show ?case
  proof (cases "disk_name line")
    case None
    with Cons show ?thesis by simp
  next
    case (Some name)
    with Cons.prems obtain model size_text h1 rest
      where rest: "disks_of_lines ls os h1 = (Inr rest, h')"
        and "disks = \<lparr>disk_path = ''/dev/'' @ name, disk_model = model, disk_size = size_text\<rparr> # rest"
      by (auto simp: Let_def returnA_apply split: prod.splits elim!: bindA_cases)
    with Cons.IH [OF rest] Some show ?thesis by simp
  qed
qed

lemma rsplit_words:
  assumes "word \<noteq> []" and "list_all (\<lambda>ch. \<not> is_space ch) word" and "is_space blank"
    and "before \<noteq> []" and "\<not> is_space (last before)"
  shows "rsplit_last_word (before @ blank # word) = [before, word]"
proof -
  have "hd (rev word) \<in> set word" using assms(1) by (metis hd_in_set rev_is_Nil_conv set_rev)
  then have "dropWhile is_space (rev (before @ blank # word)) = rev word @ blank # rev before"
    using assms(1,2) by (cases "rev word") (auto simp: list_all_iff)
  moreover have "takeWhile (\<lambda>ch. \<not> is_space ch) (rev word @ blank # rev before) = rev word"
    and "dropWhile (\<lambda>ch. \<not> is_space ch) (rev word @ blank # rev before) = blank # rev before"
    using assms(2,3) by (auto simp: takeWhile_append dropWhile_append list_all_iff)
  moreover have "dropWhile is_space (blank # rev before) = rev before"
    using assms(3-5) by (cases "rev before") (auto simp: last_rev [symmetric] hd_rev)
  ultimately show ?thesis
    using assms(1,4) by (simp add: rsplit_last_word_def Let_def)
qed

lemma machine_disks_append_only: "emits (\<lambda>_. True) machine_disks"
proof -
  have "emits (\<lambda>_. True) (disks_of_lines ls)" for ls
    by (induction ls) (auto simp: model_and_size_def Let_def intro!: emits_intros split: option.splits)
  then show ?thesis unfolding machine_disks_def by (intro emits_intros) simp_all
qed

end
