(* ===== verification/Tui_Frontend.thy ===== *)
theory Tui_Frontend
  imports Widgets Session Machine
begin

text \<open>
  \<^verbatim>\<open>tui/curses_frontend.py\<close>: the curses front-end of the interactive setup, on the widgets, with
  the terminal as the user. It keeps the contract of a front-end.
\<close>

definition WELCOME_TEXT :: string where
  "WELCOME_TEXT = join NL [
     ''Interactive setup.'',
     [],
     ''Each screen starts on the value inherited from the environment or'',
     ''config.yaml and shows where it came from. Press Enter to keep it,'',
     ''or choose another.'',
     [],
     ''  Arrows  navigate      Enter  confirm'',
     ''  Space   toggle        Ctrl+C quit'']"

definition menu_item :: "string \<Rightarrow> string \<Rightarrow> menu_option" where
  "menu_item value label = \<lparr>option_value = value, option_label = label\<rparr>"

definition KEEP_SECRET :: string where "KEEP_SECRET = ''keep''"

definition SECRET_OPTIONS :: "menu_option list" where
  "SECRET_OPTIONS = [
     menu_item KEEP_SECRET ''Keep the inherited password'',
     menu_item ''replace'' ''Enter a new password'']"

definition screen_title :: "string \<Rightarrow> string \<Rightarrow> string" where
  "screen_title step label = step @ '': '' @ label"

text \<open>Menus pick by position.\<close>

definition options_of :: "choice list \<Rightarrow> menu_option list" where
  "options_of choices =
     map (\<lambda>(position, ch). menu_item (string_of_nat position) (choice_label ch)) (enumerate 0 choices)"

text \<open>\<^verbatim>\<open>value in values\<close> compares with \<^verbatim>\<open>==\<close>.\<close>

definition positions_of :: "choice list \<Rightarrow> pyval list \<Rightarrow> string list" where
  "positions_of choices values =
     map (\<lambda>(position, ch). string_of_nat position)
       (filter (\<lambda>(position, ch). list_ex (py_eq (choice_value ch)) values) (enumerate 0 choices))"

text \<open>\<^verbatim>\<open>choices[int(chosen)].value\<close>\<close>

definition choice_at :: "choice list \<Rightarrow> string \<Rightarrow> pyval result" where
  "choice_at choices chosen =
     (case py_int chosen of
        None \<Rightarrow> Inl (Value_Error (''invalid literal for int() with base 10: '' @ py_repr chosen))
      | Some i \<Rightarrow> bindE (item_at choices i) (\<lambda>ch. Inr (choice_value ch)))"

text \<open>
  The methods. A question of another kind has no such attributes; the session never passes one.
\<close>

definition wrong_question :: "('u, 'a) dialogue" where
  "wrong_question = raiseD (Type_Error ''question'')"

fun curses_switch :: "string \<Rightarrow> question \<Rightarrow> bool inherited option \<Rightarrow> (terminal, bool) dialogue" where
  "curses_switch step (Switch label on_label off_label description) inh =
     (let opts = [menu_item ''off'' off_label, menu_item ''on'' on_label];
          shown = map_option (\<lambda>v. \<lparr>inherited_value = (if inherited_value v then ''on'' else ''off''),
            inherited_source = inherited_source v\<rparr>) inh
      in mapD (\<lambda>v. v = ''on'') (radio_menu (screen_title step label) opts shown description))"
| "curses_switch step _ inh = wrong_question"

fun curses_choose_one ::
  "string \<Rightarrow> question \<Rightarrow> choice list \<Rightarrow> pyval inherited option \<Rightarrow> (terminal, pyval) dialogue" where
  "curses_choose_one step (Choose_One label source description typed_prompt) choices inh =
     (let positions = (case inh of None \<Rightarrow> [] | Some v \<Rightarrow> positions_of choices [inherited_value v]);
          shown = (case (inh, positions) of
              (Some v, position # _) \<Rightarrow>
                Some \<lparr>inherited_value = position, inherited_source = inherited_source v\<rparr>
            | _ \<Rightarrow> None)
      in bindD (radio_menu (screen_title step label) (options_of choices) shown description)
           (\<lambda>chosen. liftD (choice_at choices chosen)))"
| "curses_choose_one step _ choices inh = wrong_question"

fun curses_choose_many ::
  "string \<Rightarrow> question \<Rightarrow> pyval list inherited option \<Rightarrow> (terminal, pyval list) dialogue" where
  "curses_choose_many step (Choose_Many label choices description) inh =
     (let shown = map_option (\<lambda>v. \<lparr>inherited_value = positions_of choices (inherited_value v),
            inherited_source = inherited_source v\<rparr>) inh
      in bindD (checkbox_menu (screen_title step label) (options_of choices) shown description)
           (\<lambda>chosen. liftD (mapE (choice_at choices) chosen)))"
| "curses_choose_many step _ inh = wrong_question"

fun curses_enter_text ::
  "string \<Rightarrow> question \<Rightarrow> string inherited option \<Rightarrow> (terminal, string) dialogue" where
  "curses_enter_text step (Enter_Text label prompt) inh =
     text_input (screen_title step label) prompt inh True False"
| "curses_enter_text step _ inh = wrong_question"

fun curses_keep_secret :: "string \<Rightarrow> question \<Rightarrow> string \<Rightarrow> (terminal, bool) dialogue" where
  "curses_keep_secret step (Enter_Secret label prompt confirm) source =
     mapD (\<lambda>kept. kept = KEEP_SECRET)
       (radio_menu (screen_title step label) SECRET_OPTIONS None
         (label @ '': inherited from '' @ source @ ''.''))"
| "curses_keep_secret step _ source = wrong_question"

fun curses_enter_secret :: "string \<Rightarrow> question \<Rightarrow> (terminal, string) dialogue" where
  "curses_enter_secret step (Enter_Secret label prompt confirm) =
     (if confirm then password_input_with_confirm (screen_title step label) prompt
      else text_input (screen_title step label) prompt None True True)"
| "curses_enter_secret step _ = wrong_question"

definition curses_review :: "summary_row list \<Rightarrow> (terminal, bool) dialogue" where
  "curses_review rows =
     confirm_screen ''Configuration Summary''
       (map (\<lambda>row. (row_step row @ ''.'' @ row_label row, row_value row, row_source row)) rows)"

definition curses_frontend :: "terminal frontend" where
  "curses_frontend = \<lparr>
     ask_switch = curses_switch,
     choose_one = curses_choose_one,
     choose_many = curses_choose_many,
     enter_text = curses_enter_text,
     keep_secret = curses_keep_secret,
     enter_secret = curses_enter_secret,
     review = curses_review\<rparr>"

definition run_tui_setup :: "os \<Rightarrow> sourced_settings \<Rightarrow> (terminal, settings) setup_dialogue" where
  "run_tui_setup os inh =
     bindD (talk (info_screen ''DALI - Declarative Arch Linux Installer'' WELCOME_TEXT))
       (\<lambda>_. run_setup os machine_disks inh curses_frontend)"

subsection \<open>The contract\<close>

lemma mapE_subseq:
  "subseq zs xs \<Longrightarrow> mapE f xs = Inr ys \<Longrightarrow> \<exists>ws. mapE f zs = Inr ws \<and> subseq ws ys"
proof (induction arbitrary: ys rule: list_emb.induct)
  case (list_emb_Nil xs)
  then show ?case by simp
next
  case (list_emb_Cons zs xs x)
  then show ?case by (fastforce simp: bindE_Inr_iff)
next
  case (list_emb_Cons2 z x zs xs)
  then show ?case by (fastforce simp: bindE_Inr_iff)
qed

lemma option_values: "map option_value (options_of choices) = map string_of_nat [0..<length choices]"
  by (simp add: options_of_def menu_item_def comp_def case_prod_beta enumerate_eq_zip)
    (simp flip: map_map [of string_of_nat fst, unfolded comp_def])

lemma choice_at_position: "i < length choices \<Longrightarrow> choice_at choices (string_of_nat i) = Inr (choice_value (choices ! i))"
  by (simp add: choice_at_def item_at_def Let_def)

lemma choices_at_positions: "mapE (choice_at choices) (map string_of_nat [0..<length choices]) = Inr (map choice_value choices)"
  by (simp add: mapE_Inr_iff list_all2_conv_all_nth choice_at_position)

lemma choice_at_offered: "choice_at choices chosen = Inr v \<Longrightarrow> v \<in> choice_value ` set choices"
  by (auto simp: choice_at_def bindE_Inr_iff split: option.splits dest: item_at_member)

interpretation tui: setup_frontend curses_frontend
proof
  fix step label source description prompt and choices :: "choice list" and inh u v u'
  assume "choose_one curses_frontend step (Choose_One label source description prompt) choices inh u = Some (Inr v, u')"
  then show "v \<in> choice_value ` set choices"
    by (auto simp: curses_frontend_def bindD_Inr_iff Let_def dest!: choice_at_offered)
next
  fix step label choices description inherited_values u vs u'
  assume "choose_many curses_frontend step (Choose_Many label choices description) inherited_values u = Some (Inr vs, u')"
  then obtain shown chosen u1 where "checkbox_menu (screen_title step label) (options_of choices) shown description u = Some (Inr chosen, u1)"
    and at: "mapE (choice_at choices) chosen = Inr vs"
    by (auto simp: curses_frontend_def bindD_Inr_iff Let_def)
  then have "subseq chosen (map string_of_nat [0..<length choices])"
    by (auto dest!: checkbox_menu_subseq simp: option_values)
  from mapE_subseq [OF this choices_at_positions] at show "subseq vs (map choice_value choices)" by simp
next
  fix step label prompt inherited_text u s u'
  assume "enter_text curses_frontend step (Enter_Text label prompt) inherited_text u = Some (Inr s, u')"
  then show "s \<noteq> []" by (auto simp: curses_frontend_def dest: text_input_required)
next
  fix step label prompt confirm u s u'
  assume "enter_secret curses_frontend step (Enter_Secret label prompt confirm) u = Some (Inr s, u')"
  then show "s \<noteq> []"
    by (auto simp: curses_frontend_def split: if_splits dest: text_input_required password_typed_twice)
qed

end
