(* ===== verification/Secrets.thy ===== *)
theory Secrets
  imports Errors "HOL-Library.Word"
begin

unbundle bit_operations_syntax

text \<open>
  \<^verbatim>\<open>core/secrets.py\<close>: AES-256-GCM encryption of the stored passwords under a key derived with
  Argon2id. The two primitives of the \<^verbatim>\<open>cryptography\<close> package and the random bytes of the
  operating system are parameters; the format of the secrets, UTF-8 and base64 are modelled.
\<close>

type_synonym byte = "8 word"
type_synonym bytes = "byte list"

definition FORMAT_VERSION :: string where "FORMAT_VERSION = ''dali-v2''"
definition KEY_DERIVATION_NAME :: string where "KEY_DERIVATION_NAME = ''argon2id''"
definition SALT_SIZE_BYTES :: nat where "SALT_SIZE_BYTES = 16"
definition NONCE_SIZE_BYTES :: nat where "NONCE_SIZE_BYTES = 12"
definition GCM_TAG_SIZE_BYTES :: nat where "GCM_TAG_SIZE_BYTES = 16"
definition AES_KEY_SIZE_BYTES :: nat where "AES_KEY_SIZE_BYTES = 32"

subsection \<open>Text as bytes\<close>

text \<open>
  \<^verbatim>\<open>str.encode()\<close> and \<^verbatim>\<open>bytes.decode()\<close>, UTF-8, for the characters of the text model: one byte
  below 128, two bytes up to 255. Bytes that are no UTF-8, or stand for a character outside
  the text model, raise the \<^verbatim>\<open>ValueError\<close> of a failed decoding.
\<close>

definition utf8_char :: "char \<Rightarrow> bytes" where
  "utf8_char c =
     (let n = of_char c :: nat in
      if n < 128 then [word_of_nat n]
      else [word_of_nat (192 + n div 64), word_of_nat (128 + n mod 64)])"

definition utf8_encode :: "string \<Rightarrow> bytes" where
  "utf8_encode s = concat (map utf8_char s)"

fun utf8_decode :: "bytes \<Rightarrow> string option" where
  "utf8_decode [] = Some []"
| "utf8_decode (b # bs) =
     (if unat b < 128 then map_option (Cons (char_of (unat b))) (utf8_decode bs)
      else case bs of
        c # cs \<Rightarrow>
          (if unat b \<in> {194, 195} \<and> unat c \<in> {128..<192}
           then map_option (Cons (char_of ((unat b - 192) * 64 + (unat c - 128)))) (utf8_decode cs)
           else None)
      | [] \<Rightarrow> None)"

subsection \<open>Base64\<close>

definition BASE64_ALPHABET :: string where
  "BASE64_ALPHABET = ''ABCDEFGHIJKLMNOPQRSTUVWXYZabcdefghijklmnopqrstuvwxyz0123456789+/''"

definition sextet_char :: "nat \<Rightarrow> char" where
  "sextet_char n = BASE64_ALPHABET ! (n mod 64)"

fun index_of :: "'a \<Rightarrow> 'a list \<Rightarrow> nat option" where
  "index_of x [] = None"
| "index_of x (y # ys) = (if x = y then Some 0 else map_option Suc (index_of x ys))"

definition char_sextet :: "char \<Rightarrow> nat option" where
  "char_sextet c = index_of c BASE64_ALPHABET"

text \<open>\<^verbatim>\<open>base64.b64encode\<close>: four characters for three bytes, padded at the end.\<close>

fun b64encode :: "bytes \<Rightarrow> string" where
  "b64encode [] = []"
| "b64encode [a] =
     (let x = unat a in [sextet_char (x div 4), sextet_char (x mod 4 * 16)] @ ''=='')"
| "b64encode [a, b] =
     (let x = unat a; y = unat b in
      [sextet_char (x div 4), sextet_char (x mod 4 * 16 + y div 16), sextet_char (y mod 16 * 4)] @ ''='')"
| "b64encode (a # b # c # rest) =
     (let x = unat a; y = unat b; z = unat c in
      [sextet_char (x div 4), sextet_char (x mod 4 * 16 + y div 16),
       sextet_char (y mod 16 * 4 + z div 64), sextet_char (z mod 64)] @ b64encode rest)"

text \<open>
  \<^verbatim>\<open>base64.b64decode(text, validate=True)\<close>, the loop of \<^verbatim>\<open>binascii.a2b_base64\<close> in strict mode:
  \<open>quad_pos\<close> is the position in the group of four, \<open>left\<close> the bits of the last character not
  yet in a byte, \<open>pads\<close> the padding characters counted. A character that is not in the
  alphabet, data after the padding, or an incomplete group is an error.
\<close>

fun a2b_loop :: "string \<Rightarrow> nat \<Rightarrow> nat \<Rightarrow> nat \<Rightarrow> bool \<Rightarrow> bytes option" where
  "a2b_loop [] quad_pos left pads padding_started = (if quad_pos = 0 then Some [] else None)"
| "a2b_loop (ch # rest) quad_pos left pads padding_started =
     (if ch = CHR ''='' then
        (if 2 \<le> quad_pos \<and> 4 \<le> quad_pos + (pads + 1)
         then (if rest = [] then Some [] else None)
         else a2b_loop rest quad_pos left (if 2 \<le> quad_pos then pads + 1 else pads) True)
      else case char_sextet ch of
        None \<Rightarrow> None
      | Some v \<Rightarrow>
          (if padding_started then None
           else if quad_pos = 0 then a2b_loop rest 1 v 0 False
           else if quad_pos = 1
             then map_option (Cons (word_of_nat (left * 4 + v div 16))) (a2b_loop rest 2 (v mod 16) 0 False)
           else if quad_pos = 2
             then map_option (Cons (word_of_nat (left * 16 + v div 4))) (a2b_loop rest 3 (v mod 4) 0 False)
           else map_option (Cons (word_of_nat (left * 64 + v))) (a2b_loop rest 0 0 0 False)))"

definition b64decode :: "string \<Rightarrow> bytes option" where
  "b64decode s = (if prefix ''='' s then None else a2b_loop s 0 0 0 False)"

subsection \<open>The cost of the key derivation\<close>

record argon2_cost =
  memory_kib :: nat
  iterations :: nat
  lanes :: nat

definition cost_encoded :: "argon2_cost \<Rightarrow> string" where
  "cost_encoded c = ''m='' @ string_of_nat (memory_kib c) @ '',t='' @ string_of_nat (iterations c) @
     '',p='' @ string_of_nat (lanes c)"

definition NEW_SECRET_COST :: argon2_cost where
  "NEW_SECRET_COST = \<lparr>memory_kib = 262144, iterations = 3, lanes = 4\<rparr>"

definition MAXIMUM_COST :: argon2_cost where
  "MAXIMUM_COST = \<lparr>memory_kib = 4194304, iterations = 64, lanes = 64\<rparr>"

text \<open>
  \<^verbatim>\<open>COST_PATTERN.fullmatch\<close>: the three literals with digits after each; as the literals hold
  no digit, the runs of digits are the only way to match.
\<close>

fun match_literal :: "string \<Rightarrow> string \<Rightarrow> string option" where
  "match_literal [] s = Some s"
| "match_literal (c # cs) [] = None"
| "match_literal (c # cs) (d # ds) = (if c = d then match_literal cs ds else None)"

definition match_number :: "string \<Rightarrow> (nat \<times> string) option" where
  "match_number s =
     (let digits = takeWhile is_digit s
      in if digits = [] then None else Some (nat_of_digits digits, dropWhile is_digit s))"

definition match_field :: "string \<Rightarrow> string \<Rightarrow> (nat \<times> string) option" where
  "match_field literal s = Option.bind (match_literal literal s) match_number"

definition match_cost :: "string \<Rightarrow> argon2_cost option" where
  "match_cost s =
     (case match_field ''m='' s of
        None \<Rightarrow> None
      | Some (m, s') \<Rightarrow>
          (case match_field '',t='' s' of
             None \<Rightarrow> None
           | Some (t, s'') \<Rightarrow>
               (case match_field '',p='' s'' of
                  Some (p, []) \<Rightarrow> Some \<lparr>memory_kib = m, iterations = t, lanes = p\<rparr>
                | _ \<Rightarrow> None)))"

definition within_maximum :: "argon2_cost \<Rightarrow> bool" where
  "within_maximum c \<longleftrightarrow>
     0 < memory_kib c \<and> memory_kib c \<le> memory_kib MAXIMUM_COST \<and>
     0 < iterations c \<and> iterations c \<le> iterations MAXIMUM_COST \<and>
     0 < lanes c \<and> lanes c \<le> lanes MAXIMUM_COST"

definition parse_cost :: "string \<Rightarrow> argon2_cost result" where
  "parse_cost encoded =
     (case match_cost encoded of
        None \<Rightarrow> Inl (Configuration_Error
          (''Encrypted secret has malformed Argon2id parameters: '' @ encoded))
      | Some cost \<Rightarrow>
          if \<not> within_maximum cost
          then Inl (Configuration_Error (''Encrypted secret asks for an unreasonable cost: '' @ encoded))
          else Inr cost)"

subsection \<open>Encrypting and decrypting a secret\<close>

text \<open>
  The \<^verbatim>\<open>cryptography\<close> package: \<open>argon2id\<close> derives the AES key from the secrets key, the salt and
  the cost (its constructor refuses a memory cost below 8 KiB per lane with a
  \<^verbatim>\<open>ValueError\<close>); \<open>gcm_encrypt\<close> and \<open>gcm_decrypt\<close> take the key, the nonce, the data and the
  associated data; \<^const>\<open>None\<close> is \<^verbatim>\<open>InvalidTag\<close>.
\<close>

record cryptography =
  argon2id :: "bytes \<Rightarrow> argon2_cost \<Rightarrow> bytes \<Rightarrow> bytes result"
  gcm_encrypt :: "bytes \<Rightarrow> bytes \<Rightarrow> bytes \<Rightarrow> bytes \<Rightarrow> bytes"
  gcm_decrypt :: "bytes \<Rightarrow> bytes \<Rightarrow> bytes \<Rightarrow> bytes \<Rightarrow> bytes option"

definition aes_key :: "cryptography \<Rightarrow> string \<Rightarrow> bytes \<Rightarrow> argon2_cost \<Rightarrow> bytes result" where
  "aes_key lib secrets_key salt cost = argon2id lib salt cost (utf8_encode secrets_key)"

definition associated_data :: "string \<Rightarrow> bytes" where
  "associated_data setting = utf8_encode (FORMAT_VERSION @ '':'' @ setting)"

text \<open>The salt and the nonce are the random bytes of \<^verbatim>\<open>os.urandom\<close>.\<close>

definition encrypt_secret ::
  "cryptography \<Rightarrow> bytes \<Rightarrow> bytes \<Rightarrow> string \<Rightarrow> string \<Rightarrow> string \<Rightarrow> string result" where
  "encrypt_secret lib salt nonce plaintext secrets_key setting =
     bindE (aes_key lib secrets_key salt NEW_SECRET_COST) (\<lambda>key.
       let ciphertext = gcm_encrypt lib key nonce (utf8_encode plaintext) (associated_data setting)
       in Inr (join ''$'' [
            FORMAT_VERSION,
            KEY_DERIVATION_NAME,
            cost_encoded NEW_SECRET_COST,
            b64encode salt,
            b64encode (nonce @ ciphertext)]))"

definition base64_part :: "string \<Rightarrow> string \<Rightarrow> bytes result" where
  "base64_part text part_name =
     (case b64decode text of
        None \<Rightarrow> Inl (Configuration_Error (''Encrypted secret has an invalid '' @ part_name))
      | Some bs \<Rightarrow> Inr bs)"

definition open_payload ::
  "cryptography \<Rightarrow> string \<Rightarrow> string \<Rightarrow> argon2_cost \<Rightarrow> bytes \<Rightarrow> bytes \<Rightarrow> string result" where
  "open_payload lib secrets_key setting cost salt payload =
     (if length salt \<noteq> SALT_SIZE_BYTES \<or> length payload < NONCE_SIZE_BYTES + GCM_TAG_SIZE_BYTES
      then Inl (Configuration_Error (''The encrypted '' @ setting @ '' is truncated''))
      else
        let nonce = take NONCE_SIZE_BYTES payload; ciphertext = drop NONCE_SIZE_BYTES payload in
        bindE (aes_key lib secrets_key salt cost) (\<lambda>key.
          case gcm_decrypt lib key nonce ciphertext (associated_data setting) of
            None \<Rightarrow> Inl (Configuration_Error
              (''Failed to decrypt the '' @ setting @ '' (wrong key, or the secret was altered)''))
          | Some plaintext \<Rightarrow>
              (case utf8_decode plaintext of
                 None \<Rightarrow> Inl (Value_Error ''utf-8'')
               | Some s \<Rightarrow> Inr s)))"

definition decrypt_secret :: "cryptography \<Rightarrow> string \<Rightarrow> string \<Rightarrow> string \<Rightarrow> string result" where
  "decrypt_secret lib blob secrets_key setting =
     (case split_on ''$'' blob of
        [version, derivation, encoded_cost, encoded_salt, encoded_payload] \<Rightarrow>
          if version \<noteq> FORMAT_VERSION \<or> derivation \<noteq> KEY_DERIVATION_NAME
          then Inl (Configuration_Error (''The encrypted '' @ setting @
            '' uses an old or unknown format; run `make encrypt-secrets` to encrypt it again''))
          else bindE (parse_cost encoded_cost) (\<lambda>cost.
            bindE (base64_part encoded_salt ''salt'') (\<lambda>salt.
              bindE (base64_part encoded_payload ''payload'') (\<lambda>payload.
                open_payload lib secrets_key setting cost salt payload)))
      | _ \<Rightarrow> Inl (Configuration_Error (''The encrypted '' @ setting @
          '' uses an old or unknown format; run `make encrypt-secrets` to encrypt it again'')))"

subsection \<open>Round trips of the formats\<close>

lemma unat_byte: "m < 256 \<Longrightarrow> unat (word_of_nat m :: byte) = m"
  by (simp add: unsigned_of_nat take_bit_eq_mod)

lemma utf8_decode_char: "utf8_decode (utf8_char c @ bs) = map_option (Cons c) (utf8_decode bs)"
proof -
  define n :: nat where "n = of_char c"
  have n: "n < 256" unfolding n_def using nat_of_char_less_256 [of c] by simp
  have c: "char_of n = c" by (simp add: n_def)
  show ?thesis
  proof (cases "n < 128")
    case True
    then show ?thesis using c by (simp add: utf8_char_def n_def [symmetric] unat_byte)
  next
    case False
    have lead: "unat (word_of_nat (192 + n div 64) :: byte) = 192 + n div 64"
      and trail: "unat (word_of_nat (128 + n mod 64) :: byte) = 128 + n mod 64"
      using n by (intro unat_byte; auto)+
    have "192 + n div 64 \<in> {194, 195}" and "128 + n mod 64 \<in> {128..<192}"
      and "n div 64 * 64 + n mod 64 = n" using n False by auto
    then show ?thesis using c False
      by (simp add: utf8_char_def n_def [symmetric] Let_def lead trail del: of_nat_add)
  qed
qed

lemma utf8_decode_encode: "utf8_decode (utf8_encode s) = Some s"
  by (induction s) (simp_all add: utf8_encode_def utf8_decode_char)

interpretation utf8: codec utf8_encode utf8_decode
  by unfold_locales (rule utf8_decode_encode)

lemma index_of_nth: "distinct xs \<Longrightarrow> n < length xs \<Longrightarrow> index_of (xs ! n) xs = Some n"
proof (induction xs arbitrary: n)
  case Nil
  then show ?case by simp
next
  case (Cons x xs)
  then show ?case by (cases n) auto
qed

lemma alphabet: "distinct BASE64_ALPHABET" "length BASE64_ALPHABET = 64" "CHR ''='' \<notin> set BASE64_ALPHABET"
  "CHR ''$'' \<notin> set BASE64_ALPHABET"
  by (simp_all add: BASE64_ALPHABET_def)

lemma char_sextet_sextet_char [simp]: "char_sextet (sextet_char n) = Some (n mod 64)"
  unfolding char_sextet_def sextet_char_def by (rule index_of_nth) (simp_all add: alphabet)

lemma sextet_char_in: "sextet_char n \<in> set BASE64_ALPHABET"
  by (simp add: sextet_char_def alphabet)

lemma sextet_char_not [simp]:
  "sextet_char n \<noteq> CHR ''=''" "CHR ''='' \<noteq> sextet_char n" "CHR ''$'' \<noteq> sextet_char n"
  using sextet_char_in [of n] alphabet by metis+

lemma byte_parts: "unat (a :: byte) < 256"
  using unsigned_less [of a] by simp

lemma nat_packed: "k < m \<Longrightarrow> (j * m + k) div m = (j::nat)" "k < m \<Longrightarrow> (j * m + k) mod m = k"
  by simp_all

lemma sextets:
  fixes x y z :: nat
  assumes "x < 256" and "y < 256" and "z < 256"
  shows "x div 4 mod 64 = x div 4"
    and "(x mod 4 * 16 + y div 16) mod 64 = x mod 4 * 16 + y div 16"
    and "(y mod 16 * 4 + z div 64) mod 64 = y mod 16 * 4 + z div 64"
    and "(x mod 4 * 16 + y div 16) div 16 = x mod 4"
    and "(x mod 4 * 16 + y div 16) mod 16 = y div 16"
    and "(y mod 16 * 4 + z div 64) div 4 = y mod 16"
    and "(y mod 16 * 4 + z div 64) mod 4 = z div 64"
proof -
  have y: "y div 16 < 16" and z: "z div 64 < 4" and x: "x div 4 < 64" using assms by auto
  from x show "x div 4 mod 64 = x div 4" by simp
  have "x mod 4 < 4" "y mod 16 < 16" by simp_all
  then show "(x mod 4 * 16 + y div 16) mod 64 = x mod 4 * 16 + y div 16"
    and "(y mod 16 * 4 + z div 64) mod 64 = y mod 16 * 4 + z div 64"
    using y z by (intro mod_less; linarith)+
  show "(x mod 4 * 16 + y div 16) div 16 = x mod 4" "(x mod 4 * 16 + y div 16) mod 16 = y div 16"
    using nat_packed [OF y] by blast+
  show "(y mod 16 * 4 + z div 64) div 4 = y mod 16" "(y mod 16 * 4 + z div 64) mod 4 = z div 64"
    using nat_packed [OF z] by blast+
qed

lemma a2b_encoded: "a2b_loop (b64encode bs) 0 0 0 False = Some bs"
proof (induction bs rule: b64encode.induct)
  case 1
  then show ?case by simp
next
  case (2 a)
  show ?case using sextets [OF byte_parts [of a], of 0 0] by (simp add: Let_def)
next
  case (3 a b)
  show ?case using sextets [OF byte_parts [of a] byte_parts [of b], of 0]
    by (simp add: Let_def mult.commute div_mult_mod_eq)
next
  case (4 a b c rest)
  have "unat c div 64 * 64 + unat c mod 64 = unat c" by (rule div_mult_mod_eq)
  with 4 show ?case using sextets [OF byte_parts [of a] byte_parts [of b] byte_parts [of c]]
    by (simp add: Let_def div_mult_mod_eq)
qed

lemma b64encode_not_pad_first: "\<not> prefix ''='' (b64encode bs)"
  by (induction bs rule: b64encode.induct) (auto simp: Let_def)

interpretation base64: codec b64encode b64decode
  by unfold_locales (simp add: b64decode_def b64encode_not_pad_first a2b_encoded)

lemma b64encode_no_dollar: "CHR ''$'' \<notin> set (b64encode bs)"
  by (induction bs rule: b64encode.induct) (auto simp: Let_def)

lemma match_literal_append [simp]: "match_literal l (l @ s) = Some s"
  by (induction l) auto

lemma match_number_digits:
  assumes "s = [] \<or> \<not> is_digit (hd s)"
  shows "match_number (string_of_nat n @ s) = Some (n, s)"
proof -
  have t: "takeWhile is_digit (string_of_nat n @ s) = string_of_nat n"
    and d: "dropWhile is_digit (string_of_nat n @ s) = s"
    using assms string_of_nat_digits [of n]
    by (cases s; auto simp: list_all_iff takeWhile_append dropWhile_append)+
  show ?thesis by (simp add: match_number_def t d)
qed

lemma match_field_append:
  "s = [] \<or> \<not> is_digit (hd s) \<Longrightarrow> match_field l (l @ string_of_nat n @ s) = Some (n, s)"
  by (simp add: match_field_def match_number_digits)

lemma match_cost_encoded: "match_cost (cost_encoded c) = Some c"
proof -
  let ?p = "'',p='' @ string_of_nat (lanes c) @ []"
  let ?t = "'',t='' @ string_of_nat (iterations c) @ ?p"
  have "cost_encoded c = ''m='' @ string_of_nat (memory_kib c) @ ?t" by (simp add: cost_encoded_def)
  moreover have "match_field ''m='' (''m='' @ string_of_nat (memory_kib c) @ ?t) = Some (memory_kib c, ?t)"
    by (rule match_field_append) (simp add: is_digit_def less_eq_char_def)
  moreover have "match_field '',t='' ?t = Some (iterations c, ?p)"
    by (rule match_field_append) (simp add: is_digit_def less_eq_char_def)
  moreover have "match_field '',p='' ?p = Some (lanes c, [])"
    by (rule match_field_append) simp
  ultimately show ?thesis unfolding match_cost_def by (simp only: option.case prod.case list.case) simp
qed

interpretation cost: codec cost_encoded match_cost
  by unfold_locales (rule match_cost_encoded)

lemma parse_cost_encoded: "within_maximum c \<Longrightarrow> parse_cost (cost_encoded c) = Inr c"
  by (simp add: parse_cost_def cost.decode_encode)


lemma cost_encoded_no_dollar: "CHR ''$'' \<notin> set (cost_encoded c)"
  using string_of_nat_set by (fastforce simp: cost_encoded_def is_digit_def less_eq_char_def)

subsection \<open>A secret opens with its own key\<close>

text \<open>
  What the documentation of the primitives promises: opening what was sealed under the same
  key, nonce and associated data gives the data back, and sealing adds the tag.
\<close>

definition opens_what_it_seals :: "cryptography \<Rightarrow> bool" where
  "opens_what_it_seals lib \<longleftrightarrow>
     (\<forall>key nonce data ad.
        gcm_decrypt lib key nonce (gcm_encrypt lib key nonce data ad) ad = Some data \<and>
        length (gcm_encrypt lib key nonce data ad) = length data + GCM_TAG_SIZE_BYTES)"

lemma open_sealed:
  assumes "opens_what_it_seals lib"
    and "length salt = SALT_SIZE_BYTES" and "length nonce = NONCE_SIZE_BYTES"
    and "aes_key lib secrets_key salt cost = Inr key"
  shows "open_payload lib secrets_key setting cost salt
           (nonce @ gcm_encrypt lib key nonce (utf8_encode plaintext) (associated_data setting))
         = Inr plaintext"
  using assms by (simp add: open_payload_def opens_what_it_seals_def Let_def utf8.decode_encode)

lemma decrypt_encrypted:
  assumes lib: "opens_what_it_seals lib"
    and sizes: "length salt = SALT_SIZE_BYTES" "length nonce = NONCE_SIZE_BYTES"
    and sealed: "encrypt_secret lib salt nonce plaintext secrets_key setting = Inr blob"
  shows "decrypt_secret lib blob secrets_key setting = Inr plaintext"
proof -
  from sealed obtain key where key: "aes_key lib secrets_key salt NEW_SECRET_COST = Inr key"
    by (auto simp: encrypt_secret_def bindE_Inr_iff)
  let ?payload = "nonce @ gcm_encrypt lib key nonce (utf8_encode plaintext) (associated_data setting)"
  let ?parts = "[FORMAT_VERSION, KEY_DERIVATION_NAME, cost_encoded NEW_SECRET_COST,
    b64encode salt, b64encode ?payload]"
  have blob: "blob = join ''$'' ?parts"
    using sealed key by (simp add: encrypt_secret_def Let_def)
  have "split_on ''$'' blob = ?parts"
    unfolding blob
    by (rule split_on_join)
      (auto simp: b64encode_no_dollar cost_encoded_no_dollar FORMAT_VERSION_def KEY_DERIVATION_NAME_def)
  moreover have "parse_cost (cost_encoded NEW_SECRET_COST) = Inr NEW_SECRET_COST"
    by (rule parse_cost_encoded) (simp add: within_maximum_def NEW_SECRET_COST_def MAXIMUM_COST_def)
  ultimately show ?thesis
    using open_sealed [OF lib sizes key] by (simp add: decrypt_secret_def base64_part_def base64.decode_encode)
qed

end
