(* ===== verification/Config_File.thy ===== *)
theory Config_File
  imports Config_Builder Secrets
begin

text \<open>
  \<^verbatim>\<open>config/config_file.py\<close>: \<^verbatim>\<open>config.yaml\<close> as a source of setting values, and its encrypted
  passwords unlocked with the secrets key. The YAML parser and the files are a parameter:
  \<open>yaml_file path\<close> is what loading the file at \<open>path\<close> gives.
\<close>

datatype yaml_load = No_File | Yaml_Error string | Loaded pyval

type_synonym yaml_files = "string \<Rightarrow> yaml_load"

definition ENCRYPTED_CREDENTIALS :: "(string, string \<times> string) dict" where
  "ENCRYPTED_CREDENTIALS = [
     (''secrets.luks_password_encrypted'', (''credentials.luks_password'', LUKS_PASSWORD_SECRET)),
     (''secrets.user_password_encrypted'', (''credentials.user_password'', USER_PASSWORD_SECRET))]"

definition read_config_file :: "yaml_files \<Rightarrow> string \<Rightarrow> (string, pyval) dict result" where
  "read_config_file yaml_file config_path =
     (case yaml_file config_path of
        No_File \<Rightarrow> Inl (Configuration_Error (''Configuration file not found: '' @ config_path))
      | Yaml_Error message \<Rightarrow> Inl (Configuration_Error
          (''Failed to parse configuration '' @ config_path @ '': '' @ message))
      | Loaded PNone \<Rightarrow> Inr []
      | Loaded (PDict raw) \<Rightarrow> Inr raw
      | Loaded _ \<Rightarrow> Inl (Configuration_Error
          (''Configuration '' @ config_path @ '' must be a YAML mapping'')))"

subsection \<open>Settings by dotted path\<close>

text \<open>
  \<^verbatim>\<open>_flatten\<close>, with the fields \<open>fs\<close> of the section's class. At the top the field
  \<^verbatim>\<open>credentials\<close> is not among them: a password is never read from the file in plain text.
\<close>

definition refuse_unknown :: "string list \<Rightarrow> string list \<Rightarrow> string \<Rightarrow> unit result" where
  "refuse_unknown declared given prefix_text =
     (let unknown = sorted_set (filter (\<lambda>key. key \<notin> set declared) given);
          location = (if prefix_text \<noteq> [] then '' in '' @ rstrip_chars {CHR ''.''} prefix_text else [])
      in if unknown \<noteq> []
         then Inl (Configuration_Error
           (''Unknown configuration key(s)'' @ location @ '': '' @ join '', '' unknown))
         else Inr ())"

fun flatten_items ::
  "(string \<times> ty) list \<Rightarrow> (string \<times> pyval) list \<Rightarrow> string \<Rightarrow> (string, pyval) dict \<Rightarrow>
   (string, pyval) dict result" where
  "flatten_items fs [] prefix_text values = Inr values"
| "flatten_items fs ((name, value) # rest) prefix_text values =
     (case (map_of fs name, value) of
        (Some (TClass inner_fs), PDict inner) \<Rightarrow>
          bindE (refuse_unknown (keys inner_fs) (keys inner) (prefix_text @ name @ ''.'')) (\<lambda>_.
            bindE (flatten_items inner_fs inner (prefix_text @ name @ ''.'') []) (\<lambda>inner_values.
              flatten_items fs rest prefix_text (dict_merge values inner_values)))
      | _ \<Rightarrow> flatten_items fs rest prefix_text (AList.update (prefix_text @ name) value values))"

definition flatten :: "(string \<times> ty) list \<Rightarrow> pyval \<Rightarrow> string \<Rightarrow> (string, pyval) dict result" where
  "flatten fs raw prefix_text =
     (case raw of
        PDict d \<Rightarrow>
          bindE (refuse_unknown (keys fs) (keys d) prefix_text)
            (\<lambda>_. flatten_items fs d prefix_text [])
      | _ \<Rightarrow> Inl (Configuration_Error
          ((let location = rstrip_chars {CHR ''.''} prefix_text
            in if location \<noteq> [] then location else ''configuration'') @ '' must be a mapping'')))"

fun class_fields :: "ty \<Rightarrow> (string \<times> ty) list" where
  "class_fields (TClass fs) = fs"
| "class_fields _ = []"

definition config_file_setting_values :: "(string, pyval) dict \<Rightarrow> (string, pyval) dict result" where
  "config_file_setting_values raw =
     flatten (filter (\<lambda>(name, _). name \<noteq> ''credentials'') (class_fields installer_config_ty))
       (PDict raw) []"

subsection \<open>Encrypted passwords\<close>

definition value_at :: "(string, pyval) dict \<Rightarrow> string \<Rightarrow> pyval" where
  "value_at values path = (case map_of values path of Some v \<Rightarrow> v | None \<Rightarrow> PNone)"

definition has_encrypted_credentials :: "(string, pyval) dict \<Rightarrow> bool" where
  "has_encrypted_credentials values \<longleftrightarrow>
     list_ex (\<lambda>(encrypted_path, _). truthy (value_at values encrypted_path)) ENCRYPTED_CREDENTIALS"

text \<open>
  A value that is not a text has no \<^verbatim>\<open>split\<close>: the code raises an \<^verbatim>\<open>AttributeError\<close> there, the
  model a \<^const>\<open>Type_Error\<close>.
\<close>

definition decrypted_credential ::
  "cryptography \<Rightarrow> (string, pyval) dict \<Rightarrow> string \<Rightarrow> string \<times> string \<times> string \<Rightarrow>
   (string, string) dict result" where
  "decrypted_credential lib values secrets_key = (\<lambda>(encrypted_path, credential_path, secret_name).
     let encrypted = value_at values encrypted_path in
     if \<not> truthy encrypted then Inr []
     else case encrypted of
       PStr blob \<Rightarrow>
         bindE (decrypt_secret lib blob secrets_key secret_name)
           (\<lambda>password. Inr [(credential_path, password)])
     | _ \<Rightarrow> Inl (Type_Error (type_name encrypted)))"

definition decrypted_credentials ::
  "cryptography \<Rightarrow> (string, pyval) dict \<Rightarrow> string \<Rightarrow> (string, string) dict result" where
  "decrypted_credentials lib values secrets_key =
     bindE (mapE (decrypted_credential lib values secrets_key) ENCRYPTED_CREDENTIALS)
       (\<lambda>found. Inr (concat found))"

definition load_config_file :: "yaml_files \<Rightarrow> string \<Rightarrow> installer_config result" where
  "load_config_file yaml_file config_path =
     bindE (read_config_file yaml_file config_path) (\<lambda>raw.
       bindE (config_file_setting_values raw) build_installer_config)"

end
