(* ===== verification/Secrets_File.thy ===== *)
theory Secrets_File
  imports Config_File
begin

text \<open>
  \<^verbatim>\<open>config/secrets_file.py\<close>: encrypted passwords written into the \<^verbatim>\<open>secrets\<close> section of a
  \<^verbatim>\<open>config.yaml\<close>, line by line. The text of the file and the YAML parser (\<open>yaml_text\<close>: what
  \<^verbatim>\<open>yaml.safe_load\<close> makes of a text) are parameters; the text is the one \<^verbatim>\<open>read_text\<close> gives, whose
  lines end in newlines.
\<close>

subsection \<open>The patterns\<close>

text \<open>
  With \<^verbatim>\<open>re.MULTILINE\<close> both patterns match one whole line. \<open>secret_line_indent\<close> is the group
  \<^verbatim>\<open>indent\<close> of a line that holds an entry: blanks, at least one, and then the key.
\<close>

definition is_blank :: "char \<Rightarrow> bool" where
  "is_blank ch \<longleftrightarrow> ch \<in> {CHR 0x20, CHR 0x09}"

definition secret_line_indent :: "string \<Rightarrow> string \<Rightarrow> string option" where
  "secret_line_indent key line =
     (let indent = takeWhile is_blank line in
      if indent \<noteq> [] \<and> prefix (key @ '':'') (dropWhile is_blank line) then Some indent else None)"

definition is_secrets_section :: "string \<Rightarrow> bool" where
  "is_secrets_section line \<longleftrightarrow>
     prefix ''secrets:'' line \<and>
     (let rest = dropWhile is_blank (drop (length ''secrets:'') line) in rest = [] \<or> prefix ''#'' rest)"

text \<open>\<^verbatim>\<open>pattern.sub(f, text, count=1)\<close> on the lines: the first line that matches is replaced.\<close>

fun replace_first_line :: "(string \<Rightarrow> string list option) \<Rightarrow> string list \<Rightarrow> string list option" where
  "replace_first_line f [] = None"
| "replace_first_line f (line # ls) =
     (case f line of
        Some new \<Rightarrow> Some (new @ ls)
      | None \<Rightarrow> map_option (Cons line) (replace_first_line f ls))"

subsection \<open>Writing a secret\<close>

definition secret_entry :: "string \<Rightarrow> string \<Rightarrow> string" where
  "secret_entry key encrypted_value = key @ '': '' @ SQ @ encrypted_value @ SQ"

definition set_secret_line :: "string \<Rightarrow> string \<Rightarrow> string \<Rightarrow> string" where
  "set_secret_line config_text key encrypted_value =
     (let entry = secret_entry key encrypted_value;
          config_lines = split_on NL config_text
      in case replace_first_line
             (\<lambda>line. map_option (\<lambda>indent. [indent @ entry]) (secret_line_indent key line)) config_lines of
           Some edited \<Rightarrow> join NL edited
         | None \<Rightarrow>
             (case replace_first_line
                 (\<lambda>line. if is_secrets_section line then Some [line, ''  '' @ entry] else None) config_lines of
                Some edited \<Rightarrow> join NL edited
              | None \<Rightarrow>
                  rstrip_chars {CHR 0x0A} config_text @ NL @ NL @ ''secrets:'' @ NL @ ''  '' @ entry @ NL))"

definition secret_fields :: "encrypted_secrets_config \<Rightarrow> (string, string) dict" where
  "secret_fields s = [
     (''luks_password_encrypted'', luks_password_encrypted s),
     (''user_password_encrypted'', user_password_encrypted s)]"

definition edited_text :: "string \<Rightarrow> encrypted_secrets_config \<Rightarrow> string" where
  "edited_text config_text s =
     foldl (\<lambda>text (key, encrypted_value).
         if encrypted_value \<noteq> [] then set_secret_line text key encrypted_value else text)
       config_text (secret_fields s)"

subsection \<open>Checking the result\<close>

type_synonym yaml_text = "string \<Rightarrow> string + pyval"

text \<open>\<^verbatim>\<open>config_file_setting_values(yaml.safe_load(text) or {})\<close>: a document that is no mapping is refused.\<close>

definition document_setting_values :: "pyval \<Rightarrow> (string, pyval) dict result" where
  "document_setting_values loaded =
     (if \<not> truthy loaded then config_file_setting_values []
      else case loaded of
        PDict raw \<Rightarrow> config_file_setting_values raw
      | _ \<Rightarrow> flatten (filter (\<lambda>(name, _). name \<noteq> ''credentials'') (class_fields installer_config_ty)) loaded [])"

fun check_stored ::
  "(string, pyval) dict \<Rightarrow> string \<Rightarrow> (string, string) dict \<Rightarrow> unit result" where
  "check_stored stored config_path [] = Inr ()"
| "check_stored stored config_path ((name, expected) # rest) =
     (if expected \<noteq> [] \<and> \<not> py_eq (value_at stored (''secrets.'' @ name)) (PStr expected)
      then Inl (Configuration_Error
        (''Could not place '' @ name @ '' under '' @ SQ @ ''secrets'' @ SQ @ '' in '' @ config_path))
      else check_stored stored config_path rest)"

definition verify_stored ::
  "yaml_text \<Rightarrow> string \<Rightarrow> encrypted_secrets_config \<Rightarrow> string \<Rightarrow> unit result" where
  "verify_stored yaml config_text s config_path =
     (case yaml config_text of
        Inl message \<Rightarrow> Inl (Configuration_Error
          (''Editing '' @ config_path @ '' would break its YAML: '' @ message))
      | Inr loaded \<Rightarrow>
          bindE (document_setting_values loaded)
            (\<lambda>stored. check_stored stored config_path (secret_fields s)))"

text \<open>The files by path, as texts; the result is the files afterwards.\<close>

type_synonym text_files = "string \<Rightarrow> string option"

definition write_encrypted_secrets ::
  "yaml_text \<Rightarrow> string \<Rightarrow> encrypted_secrets_config \<Rightarrow> text_files \<Rightarrow> text_files result" where
  "write_encrypted_secrets yaml config_path s files =
     (case files config_path of
        None \<Rightarrow> Inl (Configuration_Error (''Configuration file not found: '' @ config_path))
      | Some config_text \<Rightarrow>
          (let edited = edited_text config_text s in
           bindE (verify_stored yaml edited s config_path)
             (\<lambda>_. Inr (files(config_path \<mapsto> edited)))))"

text \<open>What loading a file gives, from its text and the parser.\<close>

definition files_as_yaml :: "yaml_text \<Rightarrow> text_files \<Rightarrow> yaml_files" where
  "files_as_yaml yaml files path =
     (case files path of
        None \<Rightarrow> No_File
      | Some text \<Rightarrow> (case yaml text of Inl message \<Rightarrow> Yaml_Error message | Inr loaded \<Rightarrow> Loaded loaded))"

subsection \<open>Lines\<close>

lemma replace_first_line_Some:
  "replace_first_line f ls = Some new \<Longrightarrow>
     \<exists>before line after out. ls = before @ line # after \<and> (\<forall>l \<in> set before. f l = None) \<and>
       f line = Some out \<and> new = before @ out @ after"
proof (induction ls arbitrary: new)
  case Nil
  then show ?case by simp
next
  case (Cons l ls)
  show ?case
  proof (cases "f l")
    case None
    with Cons.prems obtain rest where "replace_first_line f ls = Some rest" "new = l # rest" by auto
    with Cons.IH [of rest] obtain before line after out where "ls = before @ line # after"
      "\<forall>l \<in> set before. f l = None" "f line = Some out" "rest = before @ out @ after" by blast
    with None \<open>new = l # rest\<close> show ?thesis
      by (intro exI [of _ "l # before"] exI [of _ line] exI [of _ after] exI [of _ out]) simp
  next
    case (Some out)
    with Cons.prems show ?thesis
      by (intro exI [of _ "[]"] exI [of _ l] exI [of _ ls] exI [of _ out]) simp
  qed
qed

lemma replace_first_line_None: "replace_first_line f ls = None \<longleftrightarrow> (\<forall>l \<in> set ls. f l = None)"
  by (induction ls) (auto split: option.splits)

lemma replace_first_line_at:
  "\<forall>l \<in> set before. f l = None \<Longrightarrow> f line = Some out \<Longrightarrow>
     replace_first_line f (before @ line # after) = Some (before @ out @ after)"
  by (induction before) auto

lemma split_on_pieces: "x \<in> set (split_on [c] s) \<Longrightarrow> c \<notin> set x"
proof (induction s rule: length_induct)
  case (1 s)
  show ?case
  proof (cases "c \<in> set s")
    case True
    then obtain a b where s: "s = a @ c # b" and a: "c \<notin> set a" by (metis split_list_first)
    with 1(2) have "x = a \<or> x \<in> set (split_on [c] b)" by (simp add: split_on_append)
    with 1(1) a s show ?thesis by auto
  next
    case False
    with 1(2) show ?thesis by (simp add: split_on_fresh)
  qed
qed

lemma join_split_on: "join [c] (split_on [c] s) = s"
proof (induction s rule: length_induct)
  case (1 s)
  show ?case
  proof (cases "c \<in> set s")
    case True
    then obtain a b where s: "s = a @ c # b" and "c \<notin> set a" by (metis split_list_first)
    with 1 show ?thesis by (simp add: split_on_append join_Cons split_on_not_Nil)
  next
    case False
    then show ?thesis by (simp add: split_on_fresh)
  qed
qed

lemma split_on_append_general: "split_on [c] (s @ c # t) = split_on [c] s @ split_on [c] t"
proof (induction s rule: length_induct)
  case (1 s)
  show ?case
  proof (cases "c \<in> set s")
    case True
    then obtain a b where s: "s = a @ c # b" and "c \<notin> set a" by (metis split_list_first)
    with 1 show ?thesis by (simp add: split_on_append)
  next
    case False
    then show ?thesis by (simp add: split_on_fresh split_on_append)
  qed
qed

lemma join_append: "xs \<noteq> [] \<Longrightarrow> ys \<noteq> [] \<Longrightarrow> join sep (xs @ ys) = join sep xs @ sep @ join sep ys"
  by (induction xs rule: induct_list012) (simp_all add: join_Cons)

lemma rstrip_lines:
  obtains n where "split_on [c] s = split_on [c] (rstrip_chars {c} s) @ replicate n []"
proof -
  have "rev s = takeWhile (\<lambda>d. d \<in> {c}) (rev s) @ dropWhile (\<lambda>d. d \<in> {c}) (rev s)" by simp
  then have "s = rstrip_chars {c} s @ rev (takeWhile (\<lambda>d. d \<in> {c}) (rev s))"
    unfolding rstrip_chars_def by (metis rev_append rev_rev_ident)
  moreover have "rev (takeWhile (\<lambda>d. d \<in> {c}) (rev s)) = replicate (length (takeWhile (\<lambda>d. d \<in> {c}) (rev s))) c"
    by (intro replicate_eqI) (auto dest: set_takeWhileD)
  ultimately obtain n where s: "s = rstrip_chars {c} s @ replicate n c" by metis
  have "split_on [c] (t @ replicate n c) = split_on [c] t @ replicate n []" for t n
  proof (induction n arbitrary: t)
    case (Suc n)
    from Suc [of "[]"] show ?case by (simp add: split_on_append_general split_on_fresh)
  qed simp
  with s show thesis by (metis that)
qed

subsection \<open>What an edit changes\<close>

lemma takeWhile_blank_append:
  "list_all is_blank b \<Longrightarrow> \<not> is_blank ch \<Longrightarrow> takeWhile is_blank (b @ ch # s) = b"
  "list_all is_blank b \<Longrightarrow> \<not> is_blank ch \<Longrightarrow> dropWhile is_blank (b @ ch # s) = ch # s"
  by (auto simp: takeWhile_append dropWhile_append list_all_iff)

definition is_entry_key :: "string \<Rightarrow> bool" where
  "is_entry_key key \<longleftrightarrow> key \<noteq> [] \<and> \<not> is_blank (hd key) \<and> CHR 0x0A \<notin> set key \<and> CHR '':'' \<notin> set key"

lemma secret_line_indent_entry:
  assumes "is_entry_key key" and "list_all is_blank indent" and "indent \<noteq> []"
  shows "secret_line_indent key (indent @ secret_entry key v) = Some indent"
proof -
  obtain ch rest where "key = ch # rest" "\<not> is_blank ch"
    using assms(1) by (cases key) (auto simp: is_entry_key_def)
  with assms show ?thesis
    by (simp add: secret_line_indent_def secret_entry_def Let_def takeWhile_blank_append)
qed

lemma secret_line_indent_blank:
  "secret_line_indent key line = Some indent \<Longrightarrow> list_all is_blank indent \<and> indent \<noteq> []"
  by (auto simp: secret_line_indent_def Let_def list_all_iff dest: set_takeWhileD split: if_splits)

lemma secrets_section_no_entry: "is_secrets_section line \<Longrightarrow> secret_line_indent key line = None"
proof -
  assume "is_secrets_section line"
  then obtain rest where "line = CHR ''s'' # rest" by (auto simp: is_secrets_section_def prefix_def)
  then have "takeWhile is_blank line = []" by (simp add: is_blank_def)
  then show ?thesis by (simp add: secret_line_indent_def)
qed

text \<open>The lines around the entry: those before it hold none of the key.\<close>

definition with_entry :: "string \<Rightarrow> string list \<Rightarrow> string \<Rightarrow> string list \<Rightarrow> string \<Rightarrow> string" where
  "with_entry key before indent after v = join NL (before @ (indent @ secret_entry key v) # after)"

lemma set_secret_line_shape:
  assumes key: "is_entry_key key"
  obtains before indent after where
    "list_all (\<lambda>l. secret_line_indent key l = None \<and> CHR 0x0A \<notin> set l) before"
    "list_all is_blank indent" "indent \<noteq> []"
    "list_all (\<lambda>l. CHR 0x0A \<notin> set l) after"
    "\<And>v. set_secret_line config_text key v = with_entry key before indent after v"
    "subseq (filter (\<lambda>l. secret_line_indent key l = None) (split_on NL (rstrip_chars {CHR 0x0A} config_text)))
       (before @ after)"
proof -
  let ?lines = "split_on NL config_text"
  let ?kept = "split_on NL (rstrip_chars {CHR 0x0A} config_text)"
  let ?other = "\<lambda>l. secret_line_indent key l = None"
  let ?replace = "\<lambda>v line. map_option (\<lambda>indent. [indent @ secret_entry key v]) (secret_line_indent key line)"
  let ?insert = "\<lambda>v line. if is_secrets_section line then Some [line, ''  '' @ secret_entry key v] else None"
  obtain n where kept: "?lines = ?kept @ replicate n []" by (rule rstrip_lines)
  have lines: "list_all (\<lambda>l. CHR 0x0A \<notin> set l) ?lines"
    by (simp add: list_all_iff split_on_pieces)
  have subseq_kept: "subseq (filter ?other ?kept) (filter ?other ls)" if "?lines = ls" for ls
    unfolding that [symmetric] kept filter_append by (rule prefix_imp_subseq) simp
  show thesis
  proof (cases "list_all ?other ?lines")
    case False
    then have "\<exists>l \<in> set ?lines. \<not> ?other l" by (simp add: list_all_iff)
    from split_list_first_prop [OF this] obtain before line after where ls: "?lines = before @ line # after"
      and before: "list_all ?other before" and line: "secret_line_indent key line \<noteq> None"
      by (auto simp: list_all_iff)
    then obtain indent where indent: "secret_line_indent key line = Some indent" by blast
    show thesis
    proof (rule that [of before indent after])
      show "set_secret_line config_text key v = with_entry key before indent after v" for v
      proof -
        have "replace_first_line (?replace v) ?lines = Some (before @ [indent @ secret_entry key v] @ after)"
          unfolding ls using before indent by (intro replace_first_line_at) (auto simp: list_all_iff)
        then show ?thesis by (simp add: set_secret_line_def with_entry_def Let_def)
      qed
      have "filter ?other (before @ line # after) = before @ filter ?other after"
        using before indent by (simp add: list_all_iff)
      with subseq_kept [OF ls] have "subseq (filter ?other ?kept) (before @ filter ?other after)" by simp
      also have "subseq (before @ filter ?other after) (before @ after)"
        by (rule list_emb_append_mono) simp_all
      finally (subseq_order.trans) show "subseq (filter ?other ?kept) (before @ after)" .
    qed (use before lines ls secret_line_indent_blank [OF indent] in \<open>auto simp: list_all_iff\<close>)
  next
    case True
    then have none: "replace_first_line (?replace v) ?lines = None" for v
      by (simp add: replace_first_line_None list_all_iff)
    show thesis
    proof (cases "list_ex is_secrets_section ?lines")
      case in_section: True
      then have "\<exists>l \<in> set ?lines. is_secrets_section l" by (simp add: list_ex_iff)
      from split_list_first_prop [OF this] obtain b line a where ls: "?lines = b @ line # a"
        and b: "\<forall>l \<in> set b. \<not> is_secrets_section l" and line: "is_secrets_section line"
        by auto
      show thesis
      proof (rule that [of "b @ [line]" "''  ''" a])
        show "set_secret_line config_text key v = with_entry key (b @ [line]) ''  '' a v" for v
        proof -
          have "replace_first_line (?insert v) ?lines = Some (b @ [line, ''  '' @ secret_entry key v] @ a)"
            unfolding ls using b line by (intro replace_first_line_at) auto
          with none [of v] show ?thesis by (simp add: set_secret_line_def with_entry_def Let_def)
        qed
        show "subseq (filter ?other ?kept) ((b @ [line]) @ a)"
          using subseq_kept [OF ls] True unfolding ls by (simp add: list_all_iff)
      qed (use True lines ls in \<open>auto simp: list_all_iff is_blank_def\<close>)
    next
      case False
      then have no_section: "replace_first_line (?insert v) ?lines = None" for v
        by (simp add: replace_first_line_None list_ex_iff)
      show thesis
      proof (rule that [of "?kept @ [[], ''secrets:'']" "''  ''" "[[]]"])
        show "set_secret_line config_text key v = with_entry key (?kept @ [[], ''secrets:'']) ''  '' [[]] v" for v
          using none [of v] no_section [of v]
          by (simp add: set_secret_line_def with_entry_def Let_def join_append join_split_on split_on_not_Nil)
        show "list_all (\<lambda>l. ?other l \<and> CHR 0x0A \<notin> set l) (?kept @ [[], ''secrets:''])"
          using True lines unfolding kept
          by (auto simp: list_all_iff secret_line_indent_def is_blank_def)
        show "subseq (filter ?other ?kept) ((?kept @ [[], ''secrets:'']) @ [[]])"
          by (rule subseq_order.trans [OF subseq_filter_left prefix_imp_subseq]) simp
      qed (simp_all add: is_blank_def)
    qed
  qed
qed

lemma split_with_entry:
  assumes "is_entry_key key" and "CHR 0x0A \<notin> set v"
    and "list_all (\<lambda>l. secret_line_indent key l = None \<and> CHR 0x0A \<notin> set l) before"
    and "list_all is_blank indent" and "list_all (\<lambda>l. CHR 0x0A \<notin> set l) after"
  shows "split_on NL (with_entry key before indent after v) = before @ (indent @ secret_entry key v) # after"
proof -
  have "\<not> is_blank (CHR 0x0A)" by (simp add: is_blank_def)
  with assms(4) have "CHR 0x0A \<notin> set indent" by (auto simp: list_all_iff)
  with assms have "CHR 0x0A \<notin> set (indent @ secret_entry key v)" by (simp add: secret_entry_def is_entry_key_def)
  with assms(3,5) show ?thesis
    unfolding with_entry_def by (intro split_on_join) (auto simp: list_all_iff)
qed

lemma set_secret_line_again:
  assumes "is_entry_key key" and "CHR 0x0A \<notin> set v"
  shows "set_secret_line (set_secret_line config_text key v) key w = set_secret_line config_text key w"
proof (rule set_secret_line_shape [OF assms(1), of config_text], goal_cases)
  case (1 before indent after)
  note before = 1(1) and indent = 1(2,3) and after = 1(4) and shape = 1(5)
  let ?lines = "\<lambda>v. before @ (indent @ secret_entry key v) # after"
  have "split_on NL (with_entry key before indent after v) = ?lines v"
    by (rule split_with_entry [OF assms before indent(1) after])
  moreover have "replace_first_line (\<lambda>line. map_option (\<lambda>indent. [indent @ secret_entry key w])
      (secret_line_indent key line)) (?lines v) = Some (?lines w)"
    using before indent assms(1)
    by (subst replace_first_line_at [where out = "[indent @ secret_entry key w]"])
      (auto simp: list_all_iff secret_line_indent_entry)
  ultimately show ?thesis
    unfolding shape by (simp add: set_secret_line_def Let_def with_entry_def)
qed

end
