(* ===== verification/Log.thy ===== *)
theory Log
  imports Prelude
begin

text \<open>
  \<^verbatim>\<open>core/log.py\<close>: the console output of a log record, with the standard library's rule that a
  record reaches the handlers of the package logger when its level is at least the logger's, and a
  handler writes it when its level is at least the handler's and every filter lets it pass. The
  other theories leave out what their code logs.
\<close>

datatype stream = Stdout | Stderr

record log_record =
  levelno :: int
  log_message :: string

record handler =
  handler_stream :: stream
  handler_level :: int
  handler_filters :: "(log_record \<Rightarrow> bool) list"

record package_logger =
  handlers :: "handler list"
  logger_level :: int

text \<open>The levels of the standard library.\<close>

definition NOTSET :: int where "NOTSET = 0"
definition DEBUG :: int where "DEBUG = 10"
definition INFO :: int where "INFO = 20"
definition WARNING :: int where "WARNING = 30"
definition ERROR :: int where "ERROR = 40"
definition CRITICAL :: int where "CRITICAL = 50"

lemmas level_numbers = NOTSET_def DEBUG_def INFO_def WARNING_def ERROR_def CRITICAL_def

definition BANNER_WIDTH :: int where "BANNER_WIDTH = 80"

definition LEVEL_PREFIXES :: "(int, string) dict" where
  "LEVEL_PREFIXES = [(WARNING, ''Warning: ''), (ERROR, ''Error: ''), (CRITICAL, ''Error: '')]"

definition format_message :: "log_record \<Rightarrow> string" where
  "format_message r =
     (case map_of LEVEL_PREFIXES (levelno r) of None \<Rightarrow> [] | Some p \<Rightarrow> p) @ log_message r"

definition below_level :: "int \<Rightarrow> log_record \<Rightarrow> bool" where
  "below_level level r \<longleftrightarrow> levelno r < level"

definition configure_logging :: "int \<Rightarrow> package_logger" where
  "configure_logging level =
     (let progress_handler = \<lparr>handler_stream = Stdout, handler_level = NOTSET, handler_filters = [below_level WARNING]\<rparr>;
          problem_handler = \<lparr>handler_stream = Stderr, handler_level = WARNING, handler_filters = []\<rparr>
      in \<lparr>handlers = [progress_handler, problem_handler], logger_level = level\<rparr>)"

definition handles :: "handler \<Rightarrow> log_record \<Rightarrow> bool" where
  "handles h r \<longleftrightarrow> handler_level h \<le> levelno r \<and> list_all (\<lambda>p. p r) (handler_filters h)"

definition console_lines :: "package_logger \<Rightarrow> log_record \<Rightarrow> (stream \<times> string) list" where
  "console_lines logger r =
     (if logger_level logger \<le> levelno r
      then map (\<lambda>h. (handler_stream h, format_message r @ NL)) (filter (\<lambda>h. handles h r) (handlers logger))
      else [])"

definition banner :: "string \<Rightarrow> string \<Rightarrow> string" where
  "banner title subtitle =
     (let rule_line = replicate (nat BANNER_WIDTH) CHR ''=''
      in join NL ([[], rule_line, rstrip (centered CHR '' '' BANNER_WIDTH title)]
           @ (if subtitle \<noteq> [] then [rstrip (centered CHR '' '' BANNER_WIDTH subtitle)] else [])
           @ [rule_line]))"

subsection \<open>Where a record goes\<close>

text \<open>
  A record the level lets pass is one line on exactly one stream: progress on the standard output,
  a warning or an error with its prefix on the standard error.
\<close>

lemma console_line:
  assumes "0 \<le> levelno r"
  shows "console_lines (configure_logging level) r =
    (if level \<le> levelno r then [(if levelno r < WARNING then Stdout else Stderr, format_message r @ NL)] else [])"
  using assms
  by (simp add: console_lines_def configure_logging_def handles_def below_level_def Let_def level_numbers)

lemma progress_is_plain: "levelno r < WARNING \<Longrightarrow> format_message r = log_message r"
  by (simp add: format_message_def LEVEL_PREFIXES_def level_numbers)

end
