(* ===== verification/Cli.thy ===== *)
theory Cli
  imports Tui_Frontend Secrets_File Installer Log
begin

text \<open>
  \<^verbatim>\<open>cli.py\<close>: the entry points. What does not change while a command runs is the record
  \<open>world\<close>: the environment, the YAML parser and writer, the cryptography, the random bytes drawn
  for each secret and the path of the repository's own configuration file. What changes is the record
  \<open>cli_state\<close>: the terminal the curses screens run on, the lines typed at password prompts, the
  prompts and lines printed, the text files and the commands run. The log is left out.
\<close>

datatype tty_line = Line string | End_Of_File | Interrupted

record world =
  variables :: environment
  yaml_of :: yaml_text
  yaml_dump :: "pyval \<Rightarrow> string"
  crypto :: cryptography
  fresh_bytes :: "string \<Rightarrow> bytes \<times> bytes"
  repository_config_path :: string

record cli_state =
  tty :: "tty_line list"
  prompts :: "string list"
  printed :: "string list"
  screen_terminal :: terminal
  text_files_of :: text_files
  ran :: history

type_synonym 'a cli = "(cli_state, 'a) dialogue"

definition run_commands :: "os \<Rightarrow> 'a action \<Rightarrow> 'a cli" where
  "run_commands os m w = (case m os (ran w) of (r, h) \<Rightarrow> Some (r, w\<lparr>ran := h\<rparr>))"

definition on_terminal :: "(terminal, 'a) setup_dialogue \<Rightarrow> 'a cli" where
  "on_terminal m w =
     map_option (\<lambda>(r, t, h). (r, w\<lparr>screen_terminal := t, ran := h\<rparr>)) (m (screen_terminal w, ran w))"

definition print_line :: "string \<Rightarrow> unit cli" where
  "print_line s w = Some (Inr (), w\<lparr>printed := printed w @ [s]\<rparr>)"

definition yaml_files_of :: "world \<Rightarrow> cli_state \<Rightarrow> yaml_files" where
  "yaml_files_of env w = files_as_yaml (yaml_of env) (text_files_of w)"

definition read_config :: "world \<Rightarrow> string \<Rightarrow> (string, pyval) dict cli" where
  "read_config env path w = liftD (read_config_file (yaml_files_of env w) path) w"

subsection \<open>The environment\<close>

definition log_level :: "environment \<Rightarrow> int" where
  "log_level env =
     (let verbose = lower (env_raw env Env_Verbose) in
      if verbose = ''true'' then DEBUG else if verbose = ''quiet'' then WARNING else INFO)"

definition is_interactive :: "environment \<Rightarrow> bool result" where
  "is_interactive env = bindE (switch_is_on env Env_Non_Interactive) (\<lambda>non_interactive. Inr (\<not> non_interactive))"

definition config_path :: "world \<Rightarrow> string" where
  "config_path env =
     (let path = env_raw (variables env) Env_Config_Path in
      if path \<noteq> [] then path else repository_config_path env)"

subsection \<open>Secrets typed at a prompt\<close>

text \<open>\<^verbatim>\<open>getpass.getpass\<close>: a line, or \<open>None\<close> where it raises \<^verbatim>\<open>EOFError\<close>.\<close>

definition getpass :: "string \<Rightarrow> string option cli" where
  "getpass prompt w =
     (case tty w of
        [] \<Rightarrow> None
      | line # ls \<Rightarrow>
          (let w' = w\<lparr>tty := ls, prompts := prompts w @ [prompt]\<rparr> in
           case line of
             Line s \<Rightarrow> Some (Inr (Some s), w')
           | End_Of_File \<Rightarrow> Some (Inr None, w')
           | Interrupted \<Rightarrow> Some (Inl (Keyboard_Interrupt []), w')))"

lemma getpass_consumes: "getpass prompt w = Some (r, w') \<Longrightarrow> length (tty w') < length (tty w)"
  by (auto simp: getpass_def Let_def split: list.splits tty_line.splits)

definition no_terminal :: "string \<Rightarrow> error" where
  "no_terminal label = Configuration_Error (label @ '' is needed but there is no terminal to ask on'')"

function ask_for_secret :: "string \<Rightarrow> bool \<Rightarrow> string cli" where
  "ask_for_secret label confirm w =
     (case getpass (label @ '': '') w of
        None \<Rightarrow> None
      | Some (Inl e, w1) \<Rightarrow> Some (Inl e, w1)
      | Some (Inr None, w1) \<Rightarrow> Some (Inl (no_terminal label), w1)
      | Some (Inr (Some secret), w1) \<Rightarrow>
          if \<not> confirm \<or> secret = [] then Some (Inr secret, w1)
          else (case getpass (label @ '' (again): '') w1 of
              None \<Rightarrow> None
            | Some (Inl e, w2) \<Rightarrow> Some (Inl e, w2)
            | Some (Inr None, w2) \<Rightarrow> Some (Inl (no_terminal label), w2)
            | Some (Inr (Some again), w2) \<Rightarrow>
                if again = secret then Some (Inr secret, w2) else ask_for_secret label confirm w2))"
  by pat_completeness auto
termination
  by (relation "measure (\<lambda>(label, confirm, w). length (tty w))") (auto dest!: getpass_consumes)

declare ask_for_secret.simps [simp del]

definition secret_from_environment_or_prompt :: "world \<Rightarrow> env_variable \<Rightarrow> string \<Rightarrow> bool \<Rightarrow> string cli" where
  "secret_from_environment_or_prompt env variable label confirm =
     (let given = env_raw (variables env) variable in
      if given \<noteq> [] then returnD given else ask_for_secret label confirm)"

definition required_secrets_key :: "world \<Rightarrow> bool \<Rightarrow> string cli" where
  "required_secrets_key env confirm =
     bindD (secret_from_environment_or_prompt env Env_Secrets_Key ''Secrets key'' confirm) (\<lambda>secrets_key.
       if secrets_key = []
       then raiseD (Configuration_Error (''A secrets key is required ('' @ env_text Env_Secrets_Key @ '')''))
       else returnD secrets_key)"

subsection \<open>The configuration of an installation\<close>

type_synonym tui_setup = "sourced_settings \<Rightarrow> settings cli"

definition unlocked_passwords ::
  "world \<Rightarrow> settings \<Rightarrow> settings \<Rightarrow> tui_setup option \<Rightarrow> (string, string) dict cli" where
  "unlocked_passwords env config_file_values environment_values tui =
     (let credentials_from_environment =
          (\<forall>path \<in> {''credentials.luks_password'', ''credentials.user_password''}.
             path \<in> set (keys environment_values))
      in if \<not> has_encrypted_credentials config_file_values \<or> credentials_from_environment
         then returnD []
         else
           (let given = env_raw (variables env) Env_Secrets_Key in
            bindD (if given = [] \<and> tui \<noteq> None
                then ask_for_secret ''Secrets decryption key'' False else returnD given)
              (\<lambda>secrets_key.
                if secrets_key = [] then returnD []
                else liftD (decrypted_credentials (crypto env) config_file_values secrets_key))))"

definition explain_missing :: "string list \<Rightarrow> string" where
  "explain_missing paths =
     (let explained = map (\<lambda>path. path @ '' (config.yaml'' @
            (case variable_for_setting path of None \<Rightarrow> [] | Some variable \<Rightarrow> '' or '' @ env_text variable)
            @ '')'') paths;
          separator = NL @ ''  - ''
      in ''No source provides these settings:'' @ separator @ join separator explained)"

definition build_explained :: "settings \<Rightarrow> installer_config result" where
  "build_explained values =
     (case build_installer_config values of
        Inl (Missing_Settings_Error paths) \<Rightarrow> Inl (Configuration_Error (explain_missing paths))
      | r \<Rightarrow> r)"

definition assemble_installer_config :: "world \<Rightarrow> tui_setup option \<Rightarrow> installer_config cli" where
  "assemble_installer_config env tui =
     bindD (liftD (setting_values (variables env) environment_variable_paths)) (\<lambda>environment_values.
     bindD (read_config env (config_path env)) (\<lambda>raw.
     bindD (liftD (config_file_setting_values raw)) (\<lambda>file_values.
     bindD (unlocked_passwords env file_values environment_values tui) (\<lambda>unlocked.
       (let config_file_values = dict_merge file_values (map (\<lambda>(path, s). (path, PStr s)) unlocked);
            inherited = inherit_setting_values (\<lambda>source. case source of
                From_Environment \<Rightarrow> environment_values
              | From_Config_File \<Rightarrow> config_file_values
              | From_Tui \<Rightarrow> [])
        in bindD (case tui of
                None \<Rightarrow> returnD inherited
              | Some ask_user \<Rightarrow> mapD (apply_tui_choices inherited) (ask_user inherited))
             (\<lambda>final_values. liftD (build_explained (plain_values final_values))))))))"

subsection \<open>What an installation needs\<close>

definition needs :: "bool \<Rightarrow> string \<Rightarrow> string list" where
  "needs missing problem = (if missing then [problem] else [])"

definition usb_boot_problems :: "installer_config \<Rightarrow> string list" where
  "usb_boot_problems c =
     (if usb_device (usb_boot c) = []
      then [''USB boot needs a drive ('' @ env_text Env_Usb_Boot_Device @ '' or usb_boot.device)'']
      else if usb_device (usb_boot c) = target_disk (storage c)
      then [''the USB boot drive and the target disk are both '' @ usb_device (usb_boot c)]
      else [])
     @ needs (recovery_system (usb_boot c) \<and> iso_path (usb_boot c) = [])
         (''the recovery system needs an Arch ISO ('' @ env_text Env_Iso_Path @ '' or usb_boot.iso_path)'')
     @ needs (\<not> migration_enabled (migration c) \<and> wipe_method (storage c) \<in> {Wipe_Quick, Wipe_Discard})
         (''ciphertext without a header only hides on a disk filled with random data: ''
          @ env_text Env_Wipe_Method @ '' secure, or skip for a disk filled before'')"

definition install_problems :: "installer_config \<Rightarrow> string list" where
  "install_problems c =
     needs (luks_password (credentials c) = [])
       (''no LUKS password ('' @ env_text Env_Luks_Password @ '' or encrypted secrets)'')
     @ needs (user_password (credentials c) = [])
       (''no user password ('' @ env_text Env_User_Password @ '' or encrypted secrets)'')
     @ needs (target_disk (storage c) = [])
       (''no target disk ('' @ env_text Env_Target_Disk @ '' or storage.target_disk)'')
     @ needs (migration_enabled (migration c) \<and> source_luks_password (credentials c) = [])
       (''migration needs the old LUKS password ('' @ env_text Env_Source_Luks_Password @ '')'')
     @ (if usb_boot_enabled (usb_boot c) then usb_boot_problems c else [])"

definition validate_for_install :: "installer_config \<Rightarrow> unit result" where
  "validate_for_install c =
     (let problems = install_problems c; separator = NL @ ''  - '' in
      if problems \<noteq> []
      then Inl (Configuration_Error (''Cannot start the installation:'' @ separator @ join separator problems))
      else Inr ())"

subsection \<open>The commands\<close>

definition install_command :: "os \<Rightarrow> world \<Rightarrow> unit cli" where
  "install_command os env =
     bindD (liftD (is_interactive (variables env))) (\<lambda>interactive.
     bindD (assemble_installer_config env
         (if interactive then Some (\<lambda>inherited. on_terminal (run_tui_setup os inherited)) else None)) (\<lambda>c.
     bindD (liftD (validate_for_install c)) (\<lambda>_.
       run_commands os (install (yaml_dump env) c))))"

definition clone_usb_boot_command :: "os \<Rightarrow> world \<Rightarrow> unit cli" where
  "clone_usb_boot_command os env =
     (let source_device = env_raw (variables env) Env_Usb_Boot_Device;
          spare_device = env_raw (variables env) Env_Spare_Usb_Device
      in if \<not> (source_device \<noteq> [] \<and> spare_device \<noteq> [])
         then raiseD (Configuration_Error
           (''Cloning needs the USB boot drive ('' @ env_text Env_Usb_Boot_Device @ '') and the spare drive (''
            @ env_text Env_Spare_Usb_Device @ '')''))
         else run_commands os (clone_drive source_device spare_device))"

definition usb_backup_command :: "os \<Rightarrow> world \<Rightarrow> unit cli" where
  "usb_backup_command os env =
     bindD (assemble_installer_config env None) (\<lambda>c.
       run_commands os (usb_backup_execute (yaml_dump env) c))"

definition encrypt_if_given :: "world \<Rightarrow> string \<Rightarrow> string \<Rightarrow> string \<Rightarrow> string result" where
  "encrypt_if_given env password secrets_key secret_name =
     (if password \<noteq> []
      then (case fresh_bytes env secret_name of
          (salt, nonce) \<Rightarrow> encrypt_secret (crypto env) salt nonce password secrets_key secret_name)
      else Inr [])"

text \<open>\<^verbatim>\<open>given or stored\<close>\<close>

definition given_or_stored :: "string \<Rightarrow> pyval \<Rightarrow> pyval" where
  "given_or_stored given stored = (if given \<noteq> [] then PStr given else stored)"

definition merged_secrets :: "settings \<Rightarrow> encrypted_secrets_config \<Rightarrow> settings" where
  "merged_secrets stored s = [
     (''secrets.luks_password_encrypted'', given_or_stored (luks_password_encrypted s)
        (value_at stored ''secrets.luks_password_encrypted'')),
     (''secrets.user_password_encrypted'', given_or_stored (user_password_encrypted s)
        (value_at stored ''secrets.user_password_encrypted''))]"

definition refuse_mixed_keys :: "world \<Rightarrow> string \<Rightarrow> encrypted_secrets_config \<Rightarrow> string \<Rightarrow> unit cli" where
  "refuse_mixed_keys env path s secrets_key =
     bindD (read_config env path) (\<lambda>raw.
     bindD (liftD (config_file_setting_values raw)) (\<lambda>stored.
       liftD (case decrypted_credentials (crypto env) (merged_secrets stored s) secrets_key of
           Inr _ \<Rightarrow> Inr ()
         | Inl e \<Rightarrow>
             if is_configuration_error e
             then Inl (Configuration_Error
               (''A password kept from the config file does not open with this key (another key, '' @
                ''or the old format); enter both passwords to encrypt them with this key''))
             else Inl e)))"

definition store_secrets :: "world \<Rightarrow> string \<Rightarrow> encrypted_secrets_config \<Rightarrow> unit cli" where
  "store_secrets env path s w =
     Some (case write_encrypted_secrets (yaml_of env) path s (text_files_of w) of
         Inl e \<Rightarrow> (Inl e, w)
       | Inr files \<Rightarrow> (Inr (), w\<lparr>text_files_of := files\<rparr>))"

definition or_not_available :: "string \<Rightarrow> string" where
  "or_not_available s = (if s \<noteq> [] then s else ''N/A'')"

definition encrypted_passwords :: "world \<Rightarrow> string \<Rightarrow> string \<Rightarrow> string \<Rightarrow> encrypted_secrets_config result" where
  "encrypted_passwords env luks_text user_text secrets_key =
     bindE (encrypt_if_given env luks_text secrets_key LUKS_PASSWORD_SECRET) (\<lambda>luks_secret.
     bindE (encrypt_if_given env user_text secrets_key USER_PASSWORD_SECRET) (\<lambda>user_secret.
       Inr \<lparr>luks_password_encrypted = luks_secret, user_password_encrypted = user_secret\<rparr>))"

definition encrypt_secrets_command :: "world \<Rightarrow> unit cli" where
  "encrypt_secrets_command env =
     bindD (required_secrets_key env True) (\<lambda>secrets_key.
     bindD (secret_from_environment_or_prompt env Env_Luks_Password
         ''LUKS password (Enter keeps the stored one)'' True) (\<lambda>luks_text.
     bindD (secret_from_environment_or_prompt env Env_User_Password
         ''User password (Enter keeps the stored one)'' True) (\<lambda>user_text.
       if \<not> (luks_text \<noteq> [] \<or> user_text \<noteq> [])
       then raiseD (Configuration_Error (''No passwords provided ('' @ env_text Env_Luks_Password @
         '' and/or '' @ env_text Env_User_Password @ '')''))
       else
         bindD (liftD (encrypted_passwords env luks_text user_text secrets_key)) (\<lambda>s.
         bindD (print_line (''luks_password_encrypted: '' @ or_not_available (luks_password_encrypted s))) (\<lambda>_.
         bindD (print_line (''user_password_encrypted: '' @ or_not_available (user_password_encrypted s))) (\<lambda>_.
         bindD (liftD (switch_is_on (variables env) Env_No_Write)) (\<lambda>no_write.
           if no_write then returnD ()
           else bindD (refuse_mixed_keys env (config_path env) s secrets_key) (\<lambda>_.
             store_secrets env (config_path env) s))))))))"

definition shown_credential :: "(string, string) dict \<Rightarrow> string \<Rightarrow> string" where
  "shown_credential found path = (case map_of found path of None \<Rightarrow> ''N/A'' | Some s \<Rightarrow> s)"

definition decrypt_secrets_command :: "world \<Rightarrow> unit cli" where
  "decrypt_secrets_command env =
     bindD (required_secrets_key env False) (\<lambda>secrets_key.
     bindD (read_config env (config_path env)) (\<lambda>raw.
     bindD (liftD (config_file_setting_values raw)) (\<lambda>config_file_values.
     bindD (liftD (decrypted_credentials (crypto env) config_file_values secrets_key)) (\<lambda>found.
     bindD (print_line (''LUKS: '' @ shown_credential found ''credentials.luks_password'')) (\<lambda>_.
       print_line (''User: '' @ shown_credential found ''credentials.user_password''))))))"

text \<open>\<^verbatim>\<open>_run\<close>: the exit code of the process; an exception of another class ends it with a traceback.\<close>

definition run_entry :: "unit cli \<Rightarrow> int cli" where
  "run_entry entry w =
     map_option (\<lambda>(r, w').
         (case r of
            Inr _ \<Rightarrow> Inr 0
          | Inl (Keyboard_Interrupt _) \<Rightarrow> Inr 130
          | Inl e \<Rightarrow> if is_installer_error e then Inr 1 else Inl e, w'))
       (entry w)"

definition arch_installer_main :: "os \<Rightarrow> world \<Rightarrow> int cli" where
  "arch_installer_main os env = run_entry (install_command os env)"

definition clone_usb_boot_main :: "os \<Rightarrow> world \<Rightarrow> int cli" where
  "clone_usb_boot_main os env = run_entry (clone_usb_boot_command os env)"

definition usb_backup_main :: "os \<Rightarrow> world \<Rightarrow> int cli" where
  "usb_backup_main os env = run_entry (usb_backup_command os env)"

definition encrypt_secrets_main :: "world \<Rightarrow> int cli" where
  "encrypt_secrets_main env = run_entry (encrypt_secrets_command env)"

definition decrypt_secrets_main :: "world \<Rightarrow> int cli" where
  "decrypt_secrets_main env = run_entry (decrypt_secrets_command env)"

end
