(* ===== verification/Config_Properties.thy ===== *)
theory Config_Properties
  imports Cli
begin

text \<open>
  Correctness of the configuration: where the values come from, what reading the environment and
  building the configuration promise, and which answers of the setup the builder takes.
\<close>

subsection \<open>Precedence of the sources\<close>

lemma inherit_from_lookup:
  "map_of (inherit_from source vs inh) p =
     (case map_of inh p of
        Some v \<Rightarrow> Some v
      | None \<Rightarrow> map_option (\<lambda>v. \<lparr>given_value = v, given_by = source\<rparr>) (map_of vs p))"
  unfolding inherit_from_def
  by (induction vs arbitrary: inh) (auto simp: map_of_setdefault split: option.splits)

lemma apply_tui_choices_lookup:
  assumes "distinct (keys choices)"
  shows "map_of (apply_tui_choices inh choices) p =
     (case map_of choices p of
        None \<Rightarrow> map_of inh p
      | Some v \<Rightarrow> if tui_choice_counts inh p v then Some \<lparr>given_value = v, given_by = From_Tui\<rparr> else map_of inh p)"
proof -
  have "map_of (foldl (\<lambda>d (path, value). if tui_choice_counts inh path value
        then AList.update path \<lparr>given_value = value, given_by = From_Tui\<rparr> d else d) d choices) p =
     (case map_of choices p of
        None \<Rightarrow> map_of d p
      | Some v \<Rightarrow> if tui_choice_counts inh p v then Some \<lparr>given_value = v, given_by = From_Tui\<rparr> else map_of d p)" for d
    using assms
  proof (induction choices arbitrary: d)
    case Nil
    then show ?case by simp
  next
    case (Cons choice choices)
    obtain k v where choice: "choice = (k, v)" by fastforce
    with Cons.prems have "map_of choices k = None" by (simp add: map_of_eq_None_iff)
    with Cons choice show ?case by (auto simp: update_conv split: option.splits)
  qed
  then show ?thesis by (simp add: apply_tui_choices_def)
qed

text \<open>
  C25: The value a setting ends with, and the source it is said to come from: a choice of the
  interactive setup wins when it differs from the inherited value, else the environment, else
  \<^verbatim>\<open>config.yaml\<close>; a setting no source gives has no value.
\<close>

theorem sources_have_precedence:
  assumes "distinct (keys choices)"
  shows "map_of (apply_tui_choices (inherit_setting_values values) choices) p =
    (let inherited = (case map_of (values From_Environment) p of
         Some v \<Rightarrow> Some \<lparr>given_value = v, given_by = From_Environment\<rparr>
       | None \<Rightarrow> map_option (\<lambda>v. \<lparr>given_value = v, given_by = From_Config_File\<rparr>) (map_of (values From_Config_File) p))
     in case (map_of choices p, inherited) of
          (None, _) \<Rightarrow> inherited
        | (Some v, None) \<Rightarrow> Some \<lparr>given_value = v, given_by = From_Tui\<rparr>
        | (Some v, Some i) \<Rightarrow> if py_eq (given_value i) v then Some i
            else Some \<lparr>given_value = v, given_by = From_Tui\<rparr>)"
proof -
  have "map_of (inherit_setting_values values) q = (case map_of (values From_Environment) q of
         Some v \<Rightarrow> Some \<lparr>given_value = v, given_by = From_Environment\<rparr>
       | None \<Rightarrow> map_option (\<lambda>v. \<lparr>given_value = v, given_by = From_Config_File\<rparr>) (map_of (values From_Config_File) q))" for q
    by (simp add: inherit_setting_values_def INHERITANCE_ORDER_def inherit_from_lookup split: option.splits)
  then show ?thesis
    by (simp add: apply_tui_choices_lookup [OF assms] tui_choice_counts_def Let_def split: option.splits)
qed

theorem sources_have_precedence_witness:
  "map_of (apply_tui_choices (inherit_setting_values (\<lambda>source. case source of
       From_Environment \<Rightarrow> [(''storage.target_disk'', PStr ''/dev/sda'')]
     | From_Config_File \<Rightarrow> [(''storage.target_disk'', PStr []), (''system.hostname'', PStr ''arch'')]
     | From_Tui \<Rightarrow> [])) [(''storage.target_disk'', PStr ''/dev/sda'')]) ''storage.target_disk''
   = Some \<lparr>given_value = PStr ''/dev/sda'', given_by = From_Environment\<rparr>"
  by (subst sources_have_precedence) simp_all

subsection \<open>Reading the environment\<close>

fun readable :: "ty \<Rightarrow> bool" where
  "readable (TTuple t) = readable t"
| "readable (TOptional t) = False"
| "readable (TClass fs) = False"
| "readable t = True"

lemma from_text_typed: "from_text t s label = Inr v \<Longrightarrow> readable t \<Longrightarrow> has_type t v"
proof (induction t arbitrary: s v)
  case (TTuple t)
  then obtain xs where v: "v = PTuple xs"
    and items: "list_all2 (\<lambda>item x. from_text t item label = Inr x)
      (filter (\<lambda>item. item \<noteq> []) (map strip (split_on '','' s))) xs"
    by (auto simp: bindE_Inr_iff mapE_Inr_iff)
  from items have "list_all (has_type t) xs"
    by (rule list_all2_induct) (use TTuple in auto)
  with v show ?case by simp
next
  case (TEnum members)
  then show ?case by (auto simp: convert_enum_def Let_def split: if_splits)
qed (auto split: if_splits)

lemma readable_convert: "has_type t v \<Longrightarrow> readable t \<Longrightarrow> convert t v path = Inr (v, [])"
proof (induction t arbitrary: v path)
  case (TTuple t)
  then obtain xs where v: "v = PTuple xs" and xs: "list_all (has_type t) xs" by (auto split: pyval.splits)
  with TTuple have "convert_each (convert t) (map (\<lambda>x. x) xs) path 0 = Inr (xs, [])"
    by (intro convert_each_plain) (auto simp: list_all_iff)
  with v show ?case by simp
next
  case (TEnum members)
  then show ?case by (auto simp: convert_enum_def split: pyval.splits)
qed (auto split: pyval.splits)

definition path_type_readable :: "string \<Rightarrow> bool" where
  "path_type_readable path = (case setting_type path of Some t \<Rightarrow> readable t | None \<Rightarrow> False)"

lemma type_at_section:
  "type_at installer_config_ty (''system'' # names) = type_at system_config_ty names"
  "type_at installer_config_ty (''packages'' # names) = type_at packages_config_ty names"
  "type_at installer_config_ty (''storage'' # names) = type_at storage_config_ty names"
  "type_at installer_config_ty (''boot'' # names) = type_at boot_config_ty names"
  "type_at installer_config_ty (''gpu'' # names) = type_at gpu_config_ty names"
  "type_at installer_config_ty (''firewall'' # names) = type_at firewall_config_ty names"
  "type_at installer_config_ty (''docker'' # names) = type_at docker_config_ty names"
  "type_at installer_config_ty (''notifications'' # names) = type_at notifications_config_ty names"
  "type_at installer_config_ty (''sync'' # names) = type_at sync_config_ty names"
  "type_at installer_config_ty (''migration'' # names) = type_at migration_config_ty names"
  "type_at installer_config_ty (''usb_boot'' # names) = type_at usb_boot_config_ty names"
  "type_at installer_config_ty (''credentials'' # names) = type_at credentials_ty names"
  by (simp_all add: installer_config_ty_def)

lemmas section_types = type_at_section system_config_ty_def packages_config_ty_def storage_config_ty_def
  boot_config_ty_def gpu_config_ty_def snapper_config_ty_def firewall_config_ty_def docker_config_ty_def
  notifications_config_ty_def sync_config_ty_def migration_config_ty_def usb_boot_config_ty_def
  encrypted_secrets_config_ty_def credentials_ty_def user_config_ty_def locale_config_ty_def swap_config_ty_def
  wipe_method_ty_def cpu_vendor_ty_def gpu_vendor_ty_def gpu_driver_ty_def desktop_ty_def backup_category_ty_def

lemma environment_paths_readable: "list_all (\<lambda>(variable, path). path_type_readable path) environment_variable_paths"
  by (simp add: environment_variable_paths_def all_settings_def INSTALL_STEPS_def USB_BACKUP_SETTINGS_def wiring_simps
      setting_def path_type_readable_def setting_type_def text_simps section_types)

lemma foldE_invariant:
  assumes "foldE f xs s = Inr s'" and "P s"
    and "\<And>x s s'. x \<in> set xs \<Longrightarrow> P s \<Longrightarrow> f x s = Inr s' \<Longrightarrow> P s'"
  shows "P s'"
  using assms
proof (induction xs arbitrary: s)
  case Nil
  then show ?case by simp
next
  case (Cons x xs)
  from Cons.prems(1) obtain s1 where f: "f x s = Inr s1" and rest: "foldE f xs s1 = Inr s'"
    by (auto simp: bindE_Inr_iff)
  have "P s1" using Cons.prems(2) f by (rule Cons.prems(3) [rotated]) simp
  with rest show ?case by (rule Cons.IH) (rule Cons.prems(3), simp_all)
qed

definition accepted_as_it_is :: "string \<times> pyval \<Rightarrow> bool" where
  "accepted_as_it_is = (\<lambda>(path, v). case setting_type path of
     None \<Rightarrow> False | Some t \<Rightarrow> has_type t v \<and> convert t v path = Inr (v, []))"

lemma read_setting_accepted:
  "path_type_readable path \<Longrightarrow> read_setting_text path s origin = Inr v \<Longrightarrow> accepted_as_it_is (path, v)"
  by (auto simp: path_type_readable_def read_setting_text_def accepted_as_it_is_def
      intro: from_text_typed readable_convert split: option.splits)

text \<open>
  C26: Every value read from the environment has the type its setting declares, and the builder
  takes it as it is: no variable that could be read is refused later.
\<close>

theorem environment_values_are_typed:
  assumes "setting_values env environment_variable_paths = Inr values"
  shows "list_all accepted_as_it_is values"
  using assms unfolding setting_values_def
proof (rule foldE_invariant)
  fix item s s'
  assume item: "item \<in> set (filter (\<lambda>(variable, _). is_set env variable) environment_variable_paths)"
    and s: "list_all accepted_as_it_is s"
    and step: "(\<lambda>(variable, path) values. bindE (read_setting_text path (env_raw env variable) (env_text variable))
      (\<lambda>value. Inr (AList.update path value values))) item s = Inr s'"
  obtain variable path where split: "item = (variable, path)" by fastforce
  with item environment_paths_readable have "path_type_readable path" by (auto simp: list_all_iff)
  with step split obtain v where "accepted_as_it_is (path, v)" and s': "s' = AList.update path v s"
    by (auto simp: bindE_Inr_iff dest: read_setting_accepted)
  moreover have "set (AList.update path v s) \<subseteq> insert (path, v) (set s)" by (induction s) auto
  ultimately show "list_all accepted_as_it_is s'" using s by (auto simp: list_all_iff)
qed simp

theorem environment_values_are_typed_witness:
  "list_all accepted_as_it_is [(''storage.wipe_method'', PStr ''secure'')]"
  by (rule environment_values_are_typed [of "[(''WIPE_METHOD'', '' secure'')]"])
    (simp add: setting_values_def environment_variable_paths_def all_settings_def INSTALL_STEPS_def
      USB_BACKUP_SETTINGS_def wiring_simps setting_def is_set_def env_raw_def strip_def lstrip_def rstrip_def
      is_space_def read_setting_text_def setting_type_def text_simps section_types wipe_method_ty_def
      wipe_method_members_def lower_def lower_char_def is_upper_def less_eq_char_def convert_enum_def)

subsection \<open>The answers of the interactive setup\<close>

fun suits_type :: "ty \<Rightarrow> question \<Rightarrow> bool" where
  "suits_type t (Switch label on_label off_label description) = (t = TBool)"
| "suits_type t (Enter_Text label prompt) = (t = TStr)"
| "suits_type t (Enter_Secret label prompt confirm) = (t = TStr)"
| "suits_type t (Choose_One label (Inl choices) description prompt) =
     (readable t \<and> choices \<noteq> [] \<and> list_all (\<lambda>ch. has_type t (choice_value ch)) choices)"
| "suits_type t (Choose_One label (Inr compute) description prompt) =
     ((compute = detected_disk_choices \<and> t = TStr) \<or> (compute = swap_size_choices \<and> t = TInt))"
| "suits_type t (Choose_Many label choices description) =
     (\<exists>item. t = TTuple item \<and> readable item \<and> list_all (\<lambda>ch. has_type item (choice_value ch)) choices)"

definition question_suits :: "step_setting \<Rightarrow> bool" where
  "question_suits st =
     (case (setting_question st, setting_type (setting_path st)) of
        (Some q, Some t) \<Rightarrow> suits_type t q
      | (Some q, None) \<Rightarrow> False
      | (None, _) \<Rightarrow> True)"

lemma registry_questions_suit: "list_all (\<lambda>(step, st). question_suits st) setup_settings"
  by (simp add: setup_settings_def INSTALL_STEPS_def wiring_simps setting_def question_suits_def setting_type_def
      text_simps section_types on_off_switch_def WIPE_CHOICES_def CPU_CHOICES_def GPU_CHOICES_def
      NVIDIA_DRIVER_CHOICES_def DESKTOP_CHOICES_def plain_choice_def wipe_method_members_def cpu_vendor_members_def
      gpu_vendor_members_def gpu_driver_members_def desktop_members_def)

lemma detected_disks_are_texts:
  "detected_disk_choices v machine os h = (Inr choices, h') \<Longrightarrow> list_all (\<lambda>ch. has_type TStr (choice_value ch)) choices"
  by (auto simp: detected_disk_choices_def returnA_apply plain_choice_def list_all_iff elim!: bindA_cases)

lemma swap_sizes_are_numbers:
  "swap_size_choices v machine os h = (Inr choices, h') \<Longrightarrow>
     choices \<noteq> [] \<and> list_all (\<lambda>ch. has_type TInt (choice_value ch)) choices"
proof -
  have "set (swap_sizes v) \<noteq> {}" by (simp add: swap_sizes_def SWAP_PRESETS_MB_def)
  then have "swap_sizes v \<noteq> []" by auto
  then show "swap_size_choices v machine os h = (Inr choices, h') \<Longrightarrow>
     choices \<noteq> [] \<and> list_all (\<lambda>ch. has_type TInt (choice_value ch)) choices"
    by (auto simp: swap_size_choices_def returnA_apply list_all_iff)
qed

definition taken_by_builder :: "string \<Rightarrow> pyval \<Rightarrow> bool" where
  "taken_by_builder path v \<longleftrightarrow>
     (\<exists>t w. setting_type path = Some t \<and> convert t v path = Inr (w, []) \<and> has_type t w)"

lemma is_entered_text: "is_entered v \<Longrightarrow> has_type TStr v"
  by (auto simp: is_entered_def split: pyval.splits)

lemma subseq_subset: "subseq xs ys \<Longrightarrow> set xs \<subseteq> set ys"
  by (induction rule: list_emb.induct) auto

lemma fitting_answer_taken:
  assumes "answer_fits os machine inh q v" and "setting_type path = Some t" and "suits_type t q"
  shows "Some v = map_option given_value inh \<or> taken_by_builder path v"
proof -
  have plain: "taken_by_builder path v" if "readable t" and "has_type t v"
    using that assms(2) readable_convert by (auto simp: taken_by_builder_def)
  show ?thesis
  proof (cases q)
    case (Choose_One label source description prompt)
    from assms(1) [unfolded Choose_One answer_fits.simps]
    obtain h choices h' where choices: "choices_from source inh machine os h = (Inr choices, h')"
      and v: "if choices = [] then is_entered v else v \<in> choice_value ` set choices"
      by blast
    show ?thesis
    proof (cases source)
      case (Inl offered)
      with Choose_One choices v assms(3) have "readable t \<and> has_type t v"
        by (auto simp: choices_from_def returnA_apply list_all_iff)
      then show ?thesis by (simp add: plain)
    next
      case (Inr compute)
      with Choose_One assms(3) consider "compute = detected_disk_choices" "t = TStr" | "compute = swap_size_choices" "t = TInt"
        by auto
      then show ?thesis
      proof cases
        case 1
        with Inr choices v have "has_type t v"
          by (auto simp: choices_from_def list_all_iff split: if_splits
            dest!: detected_disks_are_texts is_entered_text simp del: has_type.simps)
        with 1 show ?thesis by (simp add: plain)
      next
        case 2
        with Inr choices v have "has_type t v"
          by (auto simp: choices_from_def list_all_iff dest!: swap_sizes_are_numbers simp del: has_type.simps)
        with 2 show ?thesis by (simp add: plain)
      qed
    qed
  next
    case (Choose_Many label choices description)
    with assms(3) obtain item where t: "t = TTuple item" and item: "readable item"
      and typed: "list_all (\<lambda>ch. has_type item (choice_value ch)) choices" by auto
    show ?thesis
    proof (cases "Some v = map_option given_value inh")
      case False
      with assms(1) [unfolded Choose_Many answer_fits.simps]
      obtain vs where v: "v = PList vs" and chosen: "subseq vs (map choice_value choices)" by auto
      from subseq_subset [OF chosen] have "set vs \<subseteq> choice_value ` set choices" by simp
      then have vs: "list_all (has_type item) vs"
        using typed by (auto simp: list_all_iff simp del: has_type.simps)
      then have "convert_each (convert item) (map (\<lambda>x. x) vs) path 0 = Inr (vs, [])"
        using item by (intro convert_each_plain) (auto simp: list_all_iff readable_convert)
      with v t vs assms(2) show ?thesis by (auto simp: taken_by_builder_def)
    qed simp
  next
    case (Enter_Text label prompt)
    with assms(1,3) have "readable t \<and> has_type t v"
      by (simp add: answer_fits.simps is_entered_text del: has_type.simps)
    then show ?thesis by (simp add: plain)
  next
    case (Enter_Secret label prompt confirm)
    with assms(3) have t: "t = TStr" by simp
    from assms(1) [unfolded Enter_Secret answer_fits.simps]
    have "is_entered v \<or> Some v = map_option given_value inh" by blast
    with t plain is_entered_text show ?thesis by (metis readable.simps(4))
  next
    case (Switch label on_label off_label description)
    with assms(1,3) have "readable t \<and> has_type t v" by (auto simp: answer_fits.simps)
    then show ?thesis by (simp add: plain)
  qed
qed

end
