(* ===== verification/Config_Roundtrip.thy ===== *)
theory Config_Roundtrip
  imports Config_File Installer
begin

text \<open>
  Loading a configuration that was written: the sections flattened into dotted settings
  (\<^verbatim>\<open>config_file.py\<close>) and nested again and converted (\<^verbatim>\<open>installer_config_builder.py\<close>) give the
  configuration back.
\<close>

subsection \<open>A written configuration loads again\<close>

text \<open>
  The dotted settings of a well-formed section, as lists of names: what \<^const>\<open>flatten_items\<close>
  collects, before the names are joined.
\<close>

fun flat :: "(string \<times> ty) list \<Rightarrow> (string, pyval) dict \<Rightarrow> (string list \<times> pyval) list" where
  "flat fs [] = []"
| "flat fs ((name, v) # rest) =
     (case (map_of fs name, v) of
        (Some (TClass inner_fs), PDict inner) \<Rightarrow> map (apfst (Cons name)) (flat inner_fs inner)
      | _ \<Rightarrow> [([name], v)]) @ flat fs rest"

abbreviation dotted :: "string list \<Rightarrow> string" where
  "dotted \<equiv> join ''.''"

definition dot_free :: "string list \<Rightarrow> bool" where
  "dot_free ns \<longleftrightarrow> list_all (\<lambda>n. CHR ''.'' \<notin> set n) ns"

definition names_ok :: "string list \<Rightarrow> bool" where
  "names_ok ns \<longleftrightarrow> distinct ns \<and> dot_free ns"

text \<open>A dictionary with the fields of its class, and so for the classes inside.\<close>

fun complete :: "(string \<times> ty) list \<Rightarrow> (string, pyval) dict \<Rightarrow> bool" where
  "complete fs [] = True"
| "complete fs ((name, v) # rest) =
     (name \<in> set (keys fs) \<and>
      (case (map_of fs name, v) of
         (Some (TClass inner_fs), PDict inner) \<Rightarrow>
           inner \<noteq> [] \<and> names_ok (keys inner) \<and> complete inner_fs inner
       | _ \<Rightarrow> True) \<and> complete fs rest)"

lemma section_or_leaf [case_names in_section leaf]:
  obtains inner_fs inner where "map_of fs name = Some (TClass inner_fs)" and "v = PDict inner"
    and "\<And>rest. flat fs ((name, v) # rest) = map (apfst (Cons name)) (flat inner_fs inner) @ flat fs rest"
    and "\<And>rest. complete fs ((name, v) # rest) \<Longrightarrow>
      inner \<noteq> [] \<and> names_ok (keys inner) \<and> complete inner_fs inner \<and> complete fs rest"
  | "\<And>inner_fs inner. map_of fs name \<noteq> Some (TClass inner_fs) \<or> v \<noteq> PDict inner"
    and "\<And>rest. flat fs ((name, v) # rest) = ([name], v) # flat fs rest"
proof (cases "\<exists>inner_fs inner. map_of fs name = Some (TClass inner_fs) \<and> v = PDict inner")
  case True
  then show thesis using that(1) by auto
next
  case False
  then have "flat fs ((name, v) # rest) = ([name], v) # flat fs rest" for rest
    by (auto split: option.splits ty.splits pyval.splits)
  with False show thesis using that(2) by blast
qed

lemma flat_paths: "(p, v) \<in> set (flat fs d) \<Longrightarrow> p \<noteq> [] \<and> hd p \<in> set (keys d)"
  by (induction fs d rule: flat.induct) (auto split: option.splits ty.splits pyval.splits)

lemma flat_not_Nil: "d \<noteq> [] \<Longrightarrow> complete fs d \<Longrightarrow> flat fs d \<noteq> []"
  by (induction fs d rule: flat.induct) (auto split: option.splits ty.splits pyval.splits)

lemma flat_names:
  "complete fs d \<Longrightarrow> dot_free (keys d) \<Longrightarrow> (p, v) \<in> set (flat fs d) \<Longrightarrow> dot_free p"
proof (induction fs d arbitrary: p v rule: flat.induct)
  case (1 fs)
  then show ?case by simp
next
  case (2 fs name w rest)
  have name: "CHR ''.'' \<notin> set name" and rest: "dot_free (keys rest)" using 2(4) by (simp_all add: dot_free_def)
  show ?case
  proof (cases rule: section_or_leaf [where fs = fs and name = name and v = w])
    case (in_section inner_fs inner)
    note inner = in_section(4) [OF 2(3)]
    from 2(5) in_section(3) consider q where "p = name # q" "(q, v) \<in> set (flat inner_fs inner)" | "(p, v) \<in> set (flat fs rest)"
      by (auto simp del: flat.simps)
    then show ?thesis
    proof cases
      case 1
      from inner have "dot_free (keys inner)" by (simp add: names_ok_def)
      with 1 inner have "dot_free q" using 2(1) [OF refl in_section(1) refl in_section(2)] by blast
      with 1 name show ?thesis by (simp add: dot_free_def)
    next
      case 2
      with inner rest show ?thesis using "2.IH"(2) by blast
    qed
  next
    case leaf
    with 2(5) consider "p = [name]" | "(p, v) \<in> set (flat fs rest)" by (auto simp del: flat.simps)
    then show ?thesis
    proof cases
      case 1
      with name show ?thesis by (simp add: dot_free_def)
    next
      case 2
      with rest "2.prems"(1) show ?thesis using "2.IH"(2) by simp
    qed
  qed
qed

lemma flat_distinct: "complete fs d \<Longrightarrow> distinct (keys d) \<Longrightarrow> distinct (map fst (flat fs d))"
proof (induction fs d rule: flat.induct)
  case (1 fs)
  then show ?case by simp
next
  case (2 fs name w rest)
  have other: "name # q \<notin> fst ` set (flat fs rest)" for q
  proof
    assume "name # q \<in> fst ` set (flat fs rest)"
    then obtain v where "(name # q, v) \<in> set (flat fs rest)" by auto
    from flat_paths [OF this] 2(4) show False by simp
  qed
  have rest: "distinct (map fst (flat fs rest))" using 2(2-4) by simp
  show ?case
  proof (cases rule: section_or_leaf [where fs = fs and name = name and v = w])
    case (in_section inner_fs inner)
    note inner = in_section(4) [OF 2(3)]
    then have "distinct (map fst (flat inner_fs inner))"
      using 2(1) [OF refl in_section(1) refl in_section(2)] by (simp add: names_ok_def)
    moreover have "distinct (map (Cons name) ps)" if "distinct ps" for ps
      using that by (simp add: distinct_map)
    ultimately have "distinct (map (Cons name) (map fst (flat inner_fs inner)))" by blast
    moreover have "map fst (map (apfst (Cons name)) (flat inner_fs inner)) = map (Cons name) (map fst (flat inner_fs inner))"
      by simp
    ultimately show ?thesis using rest other by (auto simp: in_section(3) simp del: flat.simps)
  next
    case leaf
    with rest other [of "[]"] show ?thesis by (simp del: flat.simps)
  qed
qed

subsubsection \<open>Storing\<close>

definition store_item :: "string list \<times> pyval \<Rightarrow> (string, pyval) dict \<Rightarrow> (string, pyval) dict result" where
  "store_item = (\<lambda>(p, v). store_at (dotted p) (butlast p) (last p) v)"

lemma foldE_append: "foldE f (xs @ ys) s = bindE (foldE f xs s) (foldE f ys)"
  by (induction xs arbitrary: s) (auto simp: bindE_def split: sum.splits)

lemma update_new: "k \<notin> set (keys d) \<Longrightarrow> AList.update k v (d @ e) = d @ AList.update k v e"
  by (induction d) auto

lemma store_at_path: "store_at sp sections name v d = Inr e \<Longrightarrow> store_at sp' sections name v d = Inr e"
  by (induction sp sections name v d arbitrary: e rule: store_at.induct)
    (auto simp: bindE_Inr_iff split: option.splits pyval.splits)

lemma store_item_under:
  assumes "p \<noteq> []" and "name \<notin> set (keys d)" and "store_item (p, v) inner = Inr inner'"
  shows "inner = [] \<Longrightarrow> store_item (name # p, v) d = Inr (d @ [(name, PDict inner')])"
    and "store_item (name # p, v) (d @ [(name, PDict inner)]) = Inr (d @ [(name, PDict inner')])"
proof -
  have stored: "store_at (dotted (name # p)) (butlast p) (last p) v inner = Inr inner'"
    using assms(3) by (auto simp: store_item_def intro: store_at_path)
  have none: "map_of d name = None" using assms(2) by (simp add: map_of_eq_None_iff)
  show "inner = [] \<Longrightarrow> store_item (name # p, v) d = Inr (d @ [(name, PDict inner')])"
    using assms(1) stored none by (simp add: store_item_def)
  have "map_of (d @ [(name, PDict inner)]) name = Some (PDict inner)" using none by (simp add: map_add_def)
  then show "store_item (name # p, v) (d @ [(name, PDict inner)]) = Inr (d @ [(name, PDict inner')])"
    using assms(1,2) stored by (simp add: store_item_def update_new)
qed

lemma store_items_under:
  assumes "list_all (\<lambda>(p, v). p \<noteq> []) items" and "name \<notin> set (keys d)"
    and "foldE store_item items inner = Inr inner'"
  shows "foldE store_item (map (apfst (Cons name)) items) (d @ [(name, PDict inner)]) = Inr (d @ [(name, PDict inner')])"
  using assms
proof (induction items arbitrary: inner)
  case Nil
  then show ?case by simp
next
  case (Cons item items)
  obtain p v where item: "item = (p, v)" by fastforce
  from Cons.prems(3) obtain inner1 where first: "store_item (p, v) inner = Inr inner1"
    and rest: "foldE store_item items inner1 = Inr inner'"
    using item by (auto simp: bindE_Inr_iff)
  from Cons item have "foldE store_item (map (apfst (Cons name)) items) (d @ [(name, PDict inner1)]) = Inr (d @ [(name, PDict inner')])"
    using rest by simp
  with store_item_under(2) [OF _ _ first] Cons.prems(1,2) item show ?case by simp
qed

lemma store_section:
  assumes "items \<noteq> []" and "list_all (\<lambda>(p, v). p \<noteq> []) items" and "name \<notin> set (keys d)"
    and "foldE store_item items [] = Inr inner"
  shows "foldE store_item (map (apfst (Cons name)) items) d = Inr (d @ [(name, PDict inner)])"
proof -
  from assms(1) obtain p v rest where items: "items = (p, v) # rest" by (cases items) auto
  with assms(4) obtain inner1 where first: "store_item (p, v) [] = Inr inner1"
    and others: "foldE store_item rest inner1 = Inr inner" by (auto simp: bindE_Inr_iff)
  from assms(2,3) items have "store_item (name # p, v) d = Inr (d @ [(name, PDict inner1)])"
    by (intro store_item_under(1) [OF _ _ first]) simp_all
  with store_items_under [OF _ assms(3) others] assms(2) items show ?thesis by simp
qed

lemma flat_stores:
  "complete fs d \<Longrightarrow> distinct (keys d) \<Longrightarrow> set (keys d) \<inter> set (keys e) = {} \<Longrightarrow>
     foldE store_item (flat fs d) e = Inr (e @ d)"
proof (induction fs d arbitrary: e rule: flat.induct)
  case (1 fs)
  then show ?case by simp
next
  case (2 fs name v rest)
  have new: "name \<notin> set (keys e)" using 2(5) by auto
  let ?here = "case (map_of fs name, v) of
        (Some (TClass inner_fs), PDict inner) \<Rightarrow> map (apfst (Cons name)) (flat inner_fs inner)
      | _ \<Rightarrow> [([name], v)]"
  have plain: "foldE store_item [([name], v)] e = Inr (e @ [(name, v)])"
    using update_new [OF new, of v "[]"] by (simp add: store_item_def)
  have "foldE store_item ?here e = Inr (e @ [(name, v)])"
  proof (cases "\<exists>inner_fs inner. map_of fs name = Some (TClass inner_fs) \<and> v = PDict inner")
    case True
    then obtain inner_fs inner where here: "map_of fs name = Some (TClass inner_fs)" "v = PDict inner" by blast
    with 2(3) have inner: "inner \<noteq> []" "complete inner_fs inner" "distinct (keys inner)"
      by (auto simp: names_ok_def)
    have "foldE store_item (flat inner_fs inner) [] = Inr inner"
      using 2(1) [OF refl here(1) refl here(2) inner(2,3), of "[]"] by simp
    from store_section [OF flat_not_Nil [OF inner(1,2)] _ new this] here flat_paths show ?thesis
      by (fastforce simp: list_all_iff)
  next
    case False
    with plain show ?thesis by (auto split: option.splits ty.splits pyval.splits)
  qed
  moreover have "foldE store_item (flat fs rest) (e @ [(name, v)]) = Inr ((e @ [(name, v)]) @ rest)"
    using 2 by (intro 2(2)) auto
  ultimately show ?case by (simp add: foldE_append)
qed

subsubsection \<open>Flattening\<close>

lemma join_dots: "p \<noteq> [] \<Longrightarrow> dotted (name # p) = name @ ''.'' @ dotted p"
  by (cases p) simp_all

lemma dict_merge_append: "distinct (keys a @ keys b) \<Longrightarrow> dict_merge a b = a @ b"
proof (induction b arbitrary: a)
  case Nil
  then show ?case by (simp add: dict_merge_def)
next
  case (Cons x b)
  obtain k v where x: "x = (k, v)" by fastforce
  with Cons.prems have "AList.update k v a = a @ [x]" using update_new [of k a v "[]"] by simp
  with Cons x show ?case by (simp add: dict_merge_def)
qed

lemma complete_keys: "complete fs d \<Longrightarrow> set (keys d) \<subseteq> set (keys fs)"
  by (induction fs d rule: complete.induct) auto

lemma refuse_nothing: "set given \<subseteq> set declared \<Longrightarrow> refuse_unknown declared given prefix_text = Inr ()"
proof -
  assume "set given \<subseteq> set declared"
  then have "filter (\<lambda>key. key \<notin> set declared) given = []" by (auto simp: filter_empty_conv)
  then show ?thesis by (simp add: refuse_unknown_def sorted_set_def)
qed

definition dotted_under :: "string \<Rightarrow> (string list \<times> pyval) list \<Rightarrow> (string, pyval) dict" where
  "dotted_under prefix_text items = map (\<lambda>(p, v). (prefix_text @ dotted p, v)) items"

lemma dotted_under_section:
  "list_all (\<lambda>(p, v). p \<noteq> []) items \<Longrightarrow>
     dotted_under prefix_text (map (apfst (Cons name)) items) = dotted_under (prefix_text @ name @ ''.'') items"
  by (induction items) (auto simp: dotted_under_def join_dots)

lemma flatten_flat:
  "complete fs d \<Longrightarrow> distinct (keys vs @ keys (dotted_under prefix_text (flat fs d))) \<Longrightarrow>
     flatten_items fs d prefix_text vs = Inr (vs @ dotted_under prefix_text (flat fs d))"
proof (induction fs d arbitrary: prefix_text vs rule: flat.induct)
  case (1 fs)
  then show ?case by (simp add: dotted_under_def)
next
  case (2 fs name v rest)
  have rest: "flatten_items fs rest prefix_text ws = Inr (ws @ dotted_under prefix_text (flat fs rest))"
    if "distinct (keys ws @ keys (dotted_under prefix_text (flat fs rest)))" for ws
    using 2(3) that by (intro 2(2)) simp_all
  show ?case
  proof (cases "\<exists>inner_fs inner. map_of fs name = Some (TClass inner_fs) \<and> v = PDict inner")
    case True
    then obtain inner_fs inner where here: "map_of fs name = Some (TClass inner_fs)" "v = PDict inner" by blast
    with 2(3) have inner: "complete inner_fs inner" by simp
    let ?inner = "dotted_under (prefix_text @ name @ ''.'') (flat inner_fs inner)"
    have "list_all (\<lambda>(p, v). p \<noteq> []) (flat inner_fs inner)" using flat_paths by (fastforce simp: list_all_iff)
    from dotted_under_section [OF this, of prefix_text name]
    have split: "dotted_under prefix_text (flat fs ((name, v) # rest)) = ?inner @ dotted_under prefix_text (flat fs rest)"
      using here by (simp add: dotted_under_def)
    have "flatten_items inner_fs inner (prefix_text @ name @ ''.'') [] = Inr ([] @ ?inner)"
      using 2(4) split by (intro 2(1) [OF refl here(1) refl here(2) inner]) simp
    moreover have "dict_merge vs ?inner = vs @ ?inner"
      using 2(4) unfolding split by (intro dict_merge_append) (auto simp: image_Un Int_Un_distrib)
    moreover have "flatten_items fs rest prefix_text (vs @ ?inner)
        = Inr ((vs @ ?inner) @ dotted_under prefix_text (flat fs rest))"
      using 2(4) unfolding split by (intro rest) (auto simp: image_Un Int_Un_distrib)
    ultimately show ?thesis
      unfolding split using here refuse_nothing [OF complete_keys [OF inner]] by simp
  next
    case False
    then have leaf: "flat fs ((name, v) # rest) = ([name], v) # flat fs rest"
      by (auto split: option.splits ty.splits pyval.splits)
    have "flatten_items fs ((name, v) # rest) prefix_text vs
        = flatten_items fs rest prefix_text (AList.update (prefix_text @ name) v vs)"
      using False by (auto split: option.splits ty.splits pyval.splits)
    also have "AList.update (prefix_text @ name) v vs = vs @ [(prefix_text @ name, v)]"
      using 2(4) leaf update_new [of "prefix_text @ name" vs v "[]"] by (simp add: dotted_under_def)
    also have "flatten_items fs rest prefix_text (vs @ [(prefix_text @ name, v)])
        = Inr ((vs @ [(prefix_text @ name, v)]) @ dotted_under prefix_text (flat fs rest))"
      using 2(4) leaf by (intro rest) (simp add: dotted_under_def)
    finally show ?thesis unfolding leaf dotted_under_def by simp
  qed
qed

subsubsection \<open>The written configuration\<close>

fun schema_ok :: "ty \<Rightarrow> bool" and schema_fields_ok :: "(string \<times> ty) list \<Rightarrow> bool" where
  "schema_ok (TClass fs) = (fs \<noteq> [] \<and> names_ok (keys fs) \<and> schema_fields_ok fs)"
| "schema_ok (TTuple t) = True"
| "schema_ok (TOptional t) = True"
| "schema_ok (TEnum ms) = True"
| "schema_ok TStr = True"
| "schema_ok TInt = True"
| "schema_ok TBool = True"
| "schema_fields_ok [] = True"
| "schema_fields_ok ((name, t) # fs) = (schema_ok t \<and> schema_fields_ok fs)"

abbreviation plain_fields :: "(string, pyval) dict \<Rightarrow> (string, pyval) dict" where
  "plain_fields d \<equiv> map (\<lambda>(k, v). (k, plain_yaml_value v)) d"

lemma keys_plain: "keys (plain_fields d) = keys d"
  by (simp add: comp_def case_prod_beta)

lemma typed_complete:
  "has_type t v \<Longrightarrow> schema_ok t \<Longrightarrow> t = TClass fs \<Longrightarrow> plain_yaml_value v = PDict d' \<Longrightarrow>
     d' \<noteq> [] \<and> names_ok (keys d') \<and> complete fs d'"
  "fields_have_type fs' d \<Longrightarrow> schema_fields_ok fs' \<Longrightarrow> set fs' \<subseteq> set all \<Longrightarrow> distinct (keys all) \<Longrightarrow>
     complete all (plain_fields d)"
proof (induction t v and fs' d arbitrary: fs d' and all rule: has_type_fields_have_type.induct)
  case (7 fs0 v)
  then obtain d where v: "v = PDict d" and typed: "fields_have_type fs0 d" by (auto split: pyval.splits)
  have "complete fs0 (plain_fields d)" using 7(1) [OF v typed, of fs0] 7(3) by (simp add: names_ok_def)
  moreover have "keys (plain_fields d) = keys fs0" unfolding keys_plain by (rule fields_have_type_keys [OF typed])
  ultimately show ?case using 7 v by auto
next
  case (9 name t fs0 d)
  then obtain w rest where d: "d = (name, w) # rest" and w: "has_type t w" and rest: "fields_have_type fs0 rest"
    by (auto split: list.splits)
  have "map_of all name = Some t" using 9(5,6) by (simp add: map_of_is_SomeI)
  moreover have "complete all (plain_fields rest)" using 9 d rest by simp
  moreover have "name \<in> set (keys all)" using 9(5) by force
  moreover have "case (Some t, plain_yaml_value w) of
      (Some (TClass inner_fs), PDict inner) \<Rightarrow> inner \<noteq> [] \<and> names_ok (keys inner) \<and> complete inner_fs inner
    | _ \<Rightarrow> True"
  proof (cases t)
    case (TClass inner_fs)
    have "schema_ok t" using 9(4) by simp
    note 9(1) [OF d refl w this TClass]
    with TClass show ?thesis by (auto split: pyval.splits)
  qed auto
  ultimately show ?case using d by simp
qed (auto simp: split: pyval.splits)

definition file_fields :: "(string \<times> ty) list" where
  "file_fields = filter (\<lambda>(name, _). name \<noteq> ''credentials'') (class_fields installer_config_ty)"

text \<open>The document: every section, with the encrypted passwords.\<close>

definition full_document :: "installer_config \<Rightarrow> (string, pyval) dict" where
  "full_document c =
     (case (exportable_config c, plain_yaml_value (encrypted_secrets_config_asdict (secrets c))) of
        (PDict d, s) \<Rightarrow> d @ [(''secrets'', s)]
      | _ \<Rightarrow> [])"

lemma full_document_sections:
  "full_document c =
     (case installer_config_asdict c of
        PDict d \<Rightarrow> plain_fields (filter (\<lambda>(name, _). name \<noteq> ''credentials'') d)
      | _ \<Rightarrow> [])"
  by (simp add: full_document_def exportable_config_sections installer_config_asdict_def)

lemma dotted_inject:
  "p \<noteq> [] \<Longrightarrow> q \<noteq> [] \<Longrightarrow> dot_free p \<Longrightarrow> dot_free q \<Longrightarrow> dotted p = dotted q \<longleftrightarrow> p = q"
  by (metis split_on_join dot_free_def list_all_iff)

lemma store_setting_dotted:
  "p \<noteq> [] \<Longrightarrow> dot_free p \<Longrightarrow> store_setting (dotted p, v) = store_item (p, v)"
  using split_on_join [of p "CHR ''.''"]
  by (simp add: store_setting_def store_item_def Let_def dot_free_def list_all_iff)

lemma foldE_map_cong:
  "(\<And>x s. x \<in> set xs \<Longrightarrow> f (g x) s = h x s) \<Longrightarrow> foldE f (map g xs) s = foldE h xs s"
proof (induction xs arbitrary: s)
  case (Cons x xs)
  then have "f (g x) s = h x s" and "foldE f (map g xs) = foldE h xs" by (simp_all add: fun_eq_iff)
  then show ?case by simp
qed simp

lemma fields_document:
  assumes "complete fs d" and "names_ok (keys d)"
  shows "flatten_items fs d [] [] = Inr (dotted_under [] (flat fs d))"
    and "distinct (keys (dotted_under [] (flat fs d)))"
    and "set (keys d) \<inter> set (keys e) = {} \<Longrightarrow>
      foldE store_setting (dotted_under [] (flat fs d)) e = Inr (e @ d)"
proof -
  have paths: "p \<noteq> [] \<and> dot_free p" if "(p, v) \<in> set (flat fs d)" for p v
    using that flat_paths flat_names [OF assms(1)] assms(2) by (simp add: names_ok_def)
  have "inj_on dotted (fst ` set (flat fs d))"
    using paths by (auto simp: inj_on_def dotted_inject)
  moreover have "distinct (map fst (flat fs d))"
    using flat_distinct [OF assms(1)] assms(2) by (simp add: names_ok_def)
  ultimately have "distinct (map dotted (map fst (flat fs d)))"
    by (subst distinct_map) (simp only: set_map simp_thms)
  moreover have "keys (dotted_under [] (flat fs d)) = map dotted (map fst (flat fs d))"
    by (simp add: dotted_under_def comp_def case_prod_beta)
  ultimately show distinct: "distinct (keys (dotted_under [] (flat fs d)))" by simp
  then show "flatten_items fs d [] [] = Inr (dotted_under [] (flat fs d))"
    using flatten_flat [OF assms(1), of "[]" "[]"] by simp
  assume "set (keys d) \<inter> set (keys e) = {}"
  with flat_stores [OF assms(1)] assms(2) have "foldE store_item (flat fs d) e = Inr (e @ d)"
    by (simp add: names_ok_def)
  moreover have "foldE store_setting (dotted_under [] (flat fs d)) e = foldE store_item (flat fs d) e"
    unfolding dotted_under_def by (rule foldE_map_cong) (auto simp: store_setting_dotted dest: paths)
  ultimately show "foldE store_setting (dotted_under [] (flat fs d)) e = Inr (e @ d)" by simp
qed

lemmas class_types = installer_config_ty_def system_config_ty_def packages_config_ty_def storage_config_ty_def
  boot_config_ty_def gpu_config_ty_def snapper_config_ty_def firewall_config_ty_def docker_config_ty_def
  notifications_config_ty_def sync_config_ty_def migration_config_ty_def usb_boot_config_ty_def
  encrypted_secrets_config_ty_def credentials_ty_def user_config_ty_def locale_config_ty_def swap_config_ty_def
  pacman_mirror_config_ty_def luks_config_ty_def subvolume_config_ty_def btrfs_config_ty_def kernel_config_ty_def
  uki_variant_config_ty_def cmdline_hardening_config_ty_def cmdline_config_ty_def loader_config_ty_def
  secure_boot_config_ty_def desktop_packages_ty_def gpu_driver_packages_ty_def snapshot_retention_ty_def
  snapper_volume_config_ty_def firewall_ssh_config_ty_def firewall_allow_rule_ty_def backup_item_config_ty_def

lemmas enum_types = wipe_method_ty_def cpu_vendor_ty_def gpu_vendor_ty_def gpu_driver_ty_def desktop_ty_def
  backup_category_ty_def firewall_policy_ty_def

lemma file_fields_ok: "schema_fields_ok file_fields" "distinct (keys file_fields)"
  by (simp_all add: file_fields_def class_types enum_types names_ok_def dot_free_def)

lemma installer_config_well_formed: "well_formed installer_config_ty"
  by (simp add: class_types enum_types)

lemma well_formed_class_fields: "well_formed t \<Longrightarrow> well_formed_fields (class_fields t)"
  by (cases t) auto

lemma full_document_ok:
  "complete file_fields (full_document c)" "names_ok (keys (full_document c))"
  "keys (full_document c) = keys file_fields"
proof -
  obtain d where d: "installer_config_asdict c = PDict d" by (simp add: installer_config_asdict_def)
  let ?d = "filter (\<lambda>(name, _). name \<noteq> ''credentials'') d"
  have doc: "full_document c = plain_fields ?d" by (simp add: full_document_sections d)
  have "has_type installer_config_ty (PDict d)" using installer_config_class.asdict_typed [of c] d by simp
  then have typed: "fields_have_type (class_fields installer_config_ty) d"
    by (simp add: installer_config_ty_def del: fields_have_type.simps)
  have "fields_have_type fs d \<Longrightarrow> fields_have_type (filter (\<lambda>(name, _). name \<noteq> n) fs) (filter (\<lambda>(name, _). name \<noteq> n) d)"
    for fs n and d :: "(string, pyval) dict"
    by (induction fs arbitrary: d) (auto split: list.splits)
  from this [OF typed] have part: "fields_have_type file_fields ?d" by (simp add: file_fields_def)
  show "complete file_fields (full_document c)"
    unfolding doc by (rule typed_complete(2) [OF part]) (simp_all add: file_fields_ok)
  show ks: "keys (full_document c) = keys file_fields"
    unfolding doc keys_plain by (rule fields_have_type_keys [OF part])
  show "names_ok (keys (full_document c))"
    unfolding ks by (simp add: file_fields_def installer_config_ty_def names_ok_def dot_free_def)
qed

lemma build_given_fields:
  "fields_have_type fs args \<Longrightarrow> well_formed_fields fs \<Longrightarrow>
   (\<And>k v. (k, v) \<in> set args \<Longrightarrow> map_of d k = (if k \<in> given then Some (plain_yaml_value v) else None)) \<Longrightarrow>
   build_fields fs d path = Inr (filter (\<lambda>(k, v). k \<in> given) args,
     map (subpath path) (filter (\<lambda>k. k \<notin> given) (keys args)))"
proof (induction fs arbitrary: args)
  case Nil
  then show ?case by simp
next
  case (Cons field fs)
  obtain name t where field: "field = (name, t)" by fastforce
  with Cons.prems(1) obtain v rest where args: "args = (name, v) # rest" and v: "has_type t v"
    and rest: "fields_have_type fs rest"
    by (auto split: list.splits)
  have ok: "well_formed t" "well_formed_fields fs" using Cons.prems(2) field by simp_all
  have "map_of d name = (if name \<in> given then Some (plain_yaml_value v) else None)"
    using Cons.prems(3) args by simp
  moreover have "build_fields fs d path = Inr (filter (\<lambda>(k, v). k \<in> given) rest,
      map (subpath path) (filter (\<lambda>k. k \<notin> given) (keys rest)))"
    using Cons.prems(3) args by (intro Cons.IH [OF rest ok(2)]) simp
  ultimately show ?case
    using convert_plain(1) [OF v ok(1)] field args by simp
qed

definition no_passwords :: "(string, pyval) dict" where
  "no_passwords = [(''credentials'', credentials_asdict \<lparr>luks_password = [], user_password = [], source_luks_password = []\<rparr>)]"

abbreviation all_fields :: "(string \<times> ty) list" where
  "all_fields \<equiv> class_fields installer_config_ty"

lemma complete_append: "complete fs (d @ e) \<longleftrightarrow> complete fs d \<and> complete fs e"
  by (induction fs d rule: complete.induct) auto

lemma complete_filter: "complete fs d \<Longrightarrow> complete fs (filter P d)"
  by (induction fs d rule: complete.induct) auto

lemma top_fields_cong:
  assumes "\<And>k. k \<in> set (keys d) \<Longrightarrow> map_of fs k = map_of fs' k"
  shows "flat fs d = flat fs' d"
  using assms
proof (induction d)
  case (Cons item d)
  obtain k v where "item = (k, v)" by fastforce
  with Cons show ?case by simp
qed simp

lemma complete_cong:
  assumes "\<And>k. k \<in> set (keys d) \<Longrightarrow> map_of fs k = map_of fs' k"
  shows "complete fs d \<Longrightarrow> complete fs' d"
  using assms
proof (induction d)
  case (Cons item d)
  obtain k v where item: "item = (k, v)" by fastforce
  with Cons.prems(2) [of k] have "map_of fs k = map_of fs' k" by simp
  moreover from this have "k \<in> set (keys fs) \<longleftrightarrow> k \<in> set (keys fs')" by (metis map_of_eq_None_iff set_map)
  ultimately show ?case using Cons item by simp
qed simp

lemma map_of_other: "k \<noteq> n \<Longrightarrow> map_of (filter (\<lambda>(name, _). name \<noteq> n) fs) k = map_of fs k"
  by (induction fs) auto

lemma names_ok_filter: "names_ok (keys d) \<Longrightarrow> names_ok (keys (filter P d))"
  by (auto simp: names_ok_def dot_free_def list_all_iff distinct_map_filter)

lemma credentials_flat:
  "dotted_under [] (flat all_fields no_passwords) = map (\<lambda>path. (path, PStr [])) CREDENTIAL_PATHS"
  "complete all_fields no_passwords" "keys no_passwords = [''credentials'']"
  by (simp_all add: no_passwords_def credentials_asdict_def installer_config_ty_def credentials_ty_def dotted_under_def
      CREDENTIAL_PATHS_def names_ok_def dot_free_def)

text \<open>A part \<open>d\<close> of the sections of a written configuration, and the credentials the builder adds.\<close>

lemma written_part:
  assumes d: "d = filter (\<lambda>(k, v). k \<in> given) (full_document c)" and "''credentials'' \<notin> given"
  shows "config_file_setting_values d = Inr (dotted_under [] (flat file_fields d))"
    and "nested (dict_merge (map (\<lambda>path. (path, PStr [])) CREDENTIAL_PATHS) (dotted_under [] (flat file_fields d)))
      = Inr (no_passwords @ d)"
proof -
  have complete: "complete file_fields d" and names: "names_ok (keys d)"
    unfolding d by (rule complete_filter names_ok_filter, rule full_document_ok)+
  show "config_file_setting_values d = Inr (dotted_under [] (flat file_fields d))"
    using fields_document(1) [OF complete names] refuse_nothing [OF complete_keys [OF complete]]
    by (simp add: config_file_setting_values_def flatten_def flip: file_fields_def)
  have same: "map_of file_fields k = map_of all_fields k" if "k \<in> set (keys d)" for k
    using that assms(2) unfolding file_fields_def by (intro map_of_other) (auto simp: d)
  have complete_all: "complete all_fields (no_passwords @ d)"
    using complete_cong [OF same complete] credentials_flat(2) by (simp add: complete_append)
  have names_all: "names_ok (keys (no_passwords @ d))"
    using names assms(2) by (auto simp: credentials_flat(3) names_ok_def dot_free_def d)
  let ?all = "dotted_under [] (flat all_fields (no_passwords @ d))"
  have flat_all: "flat all_fields (no_passwords @ d) = flat all_fields no_passwords @ flat file_fields d"
    using top_fields_cong [OF same] by (simp add: no_passwords_def)
  then have all: "?all = map (\<lambda>path. (path, PStr [])) CREDENTIAL_PATHS @ dotted_under [] (flat file_fields d)"
    by (simp add: dotted_under_def flip: credentials_flat(1))
  have "distinct (keys ?all)" by (rule fields_document(2) [OF complete_all names_all])
  then have "dict_merge (map (\<lambda>path. (path, PStr [])) CREDENTIAL_PATHS) (dotted_under [] (flat file_fields d)) = ?all"
    unfolding all by (intro dict_merge_append) simp
  moreover have "nested ?all = Inr (no_passwords @ d)"
    using fields_document(3) [OF complete_all names_all, of "[]"] by (simp add: nested_def)
  ultimately show "nested (dict_merge (map (\<lambda>path. (path, PStr [])) CREDENTIAL_PATHS) (dotted_under [] (flat file_fields d)))
      = Inr (no_passwords @ d)" by simp
qed

lemma map_of_given: "map_of (filter (\<lambda>(k, v). k \<in> given) d) k = (if k \<in> given then map_of d k else None)"
  by (induction d) auto

text \<open>The fields of a configuration without its passwords, and the sections written of them.\<close>

lemma written_args:
  obtains args where "installer_config_asdict (without_credentials c) = PDict args" and "fields_have_type all_fields args"
    and "full_document c = plain_fields (filter (\<lambda>(name, _). name \<noteq> ''credentials'') args)"
proof -
  let ?c = "without_credentials c"
  obtain args where args: "installer_config_asdict ?c = PDict args" by (simp add: installer_config_asdict_def)
  then have "fields_have_type all_fields args"
    using installer_config_class.asdict_typed [of ?c] by (simp add: installer_config_ty_def del: fields_have_type.simps)
  moreover have "full_document ?c = full_document c"
    by (simp add: full_document_def exportable_config_without_credentials)
  then have "full_document c = plain_fields (filter (\<lambda>(name, _). name \<noteq> ''credentials'') args)"
    using full_document_sections [of ?c] args by simp
  ultimately show thesis using args that by blast
qed

lemma written_entry:
  assumes "installer_config_asdict (without_credentials c) = PDict args" and "fields_have_type all_fields args"
    and "full_document c = plain_fields (filter (\<lambda>(name, _). name \<noteq> ''credentials'') args)"
    and "''credentials'' \<notin> given" and "(k, v) \<in> set args"
  shows "map_of (no_passwords @ filter (\<lambda>(k, v). k \<in> given) (full_document c)) k =
    (if k \<in> insert ''credentials'' given then Some (plain_yaml_value v) else None)"
proof (cases "k = ''credentials''")
  case True
  then show ?thesis
    using assms(1,5) by (auto simp: no_passwords_def installer_config_asdict_def without_credentials_def credentials_asdict_def)
next
  case False
  have "map_of args k = Some v"
    using assms(5) fields_have_type_keys [OF assms(2)] by (intro map_of_is_SomeI) (simp_all add: installer_config_ty_def)
  with False have "map_of (full_document c) k = Some (plain_yaml_value v)"
    using map_of_other [of k "''credentials''" args] by (simp add: assms(3) map_of_plain)
  with False show ?thesis by (simp add: no_passwords_def map_of_given)
qed

text \<open>Building from some of the written sections: the configuration, or the sections that miss.\<close>

lemma written_sections_build:
  assumes given: "''credentials'' \<notin> given"
  shows "bindE (config_file_setting_values (filter (\<lambda>(k, v). k \<in> given) (full_document c))) build_installer_config =
    (let missing = filter (\<lambda>k. k \<notin> insert ''credentials'' given) (keys all_fields)
     in if missing = [] then Inr (without_credentials c) else Inl (Missing_Settings_Error missing))"
proof -
  let ?d = "filter (\<lambda>(k, v). k \<in> given) (full_document c)" and ?given = "insert ''credentials'' given"
  let ?raw = "no_passwords @ ?d"
  obtain args where args: "installer_config_asdict (without_credentials c) = PDict args"
    and typed: "fields_have_type all_fields args"
    and document: "full_document c = plain_fields (filter (\<lambda>(name, _). name \<noteq> ''credentials'') args)"
    by (rule written_args)
  have all_fields: "installer_config_ty = TClass all_fields" by (simp add: installer_config_ty_def)
  have same_keys: "keys args = keys all_fields" by (rule fields_have_type_keys [OF typed])
  from build_given_fields [OF typed well_formed_class_fields [OF installer_config_well_formed]
    written_entry [OF args typed document given], where path = "[]"]
  have fields: "build_fields all_fields ?raw [] =
      Inr (filter (\<lambda>(k, v). k \<in> ?given) args, filter (\<lambda>k. k \<notin> ?given) (keys args))"
    by (simp add: subpath_def [abs_def])
  have "set (keys ?d) \<subseteq> set (keys file_fields)"
    using full_document_ok(3) [of c] by (metis (no_types, lifting) filter_is_subset image_mono set_map)
  then have known: "set (keys ?raw) \<subseteq> set (keys all_fields)"
    by (auto simp: no_passwords_def file_fields_def installer_config_ty_def)
  then have "filter (\<lambda>key. key \<notin> set (keys all_fields)) (keys ?raw) = []"
    unfolding filter_empty_conv by blast
  with fields have converted: "convert (TClass all_fields) (PDict ?raw) [] =
      Inr (if length (filter (\<lambda>(k, v). k \<in> ?given) args) < length all_fields then PNone
        else PDict (filter (\<lambda>(k, v). k \<in> ?given) args), filter (\<lambda>k. k \<notin> ?given) (keys args))"
    by (simp add: sorted_set_def Let_def del: class_fields.simps)
  have "filter (\<lambda>(k, v). k \<in> ?given) args = args" if "filter (\<lambda>k. k \<notin> ?given) (keys args) = []"
    using that by (intro filter_True) (auto simp: filter_empty_conv)
  moreover have "length args = length all_fields" using same_keys by (metis length_map)
  moreover have "installer_config_of (PDict args) = without_credentials c"
    using installer_config_class.instance_of_asdict [of "without_credentials c"] args by simp
  ultimately show ?thesis
    unfolding same_keys [symmetric]
    by (simp add: written_part [OF refl given] build_installer_config_def build_value_def Let_def
        converted [folded all_fields])
qed

text \<open>
  C27: A configuration written with all its sections loads to the same configuration without the
  passwords. The file the installer leaves behind holds no \<^verbatim>\<open>secrets\<close> section, and loading it as it
  is reports exactly that section as missing.
\<close>

theorem written_configuration_loads:
  "load_config_file (\<lambda>_. Loaded (PDict (full_document c))) path = Inr (without_credentials c) \<and>
   load_config_file (\<lambda>_. Loaded (exportable_config c)) path = Inl (Missing_Settings_Error [''secrets''])"
proof (rule conjI)
  have "''credentials'' \<notin> set (keys (full_document c))"
    unfolding full_document_ok(3) by (auto simp: file_fields_def)
  then have "filter (\<lambda>(k, v). k \<in> {k. k \<noteq> ''credentials''}) (full_document c) = full_document c"
    by (intro filter_True) force
  with written_sections_build [of "{k. k \<noteq> ''credentials''}" c]
  show "load_config_file (\<lambda>_. Loaded (PDict (full_document c))) path = Inr (without_credentials c)"
    by (simp add: load_config_file_def read_config_file_def bindE_def)
  let ?given = "{k. k \<noteq> ''credentials'' \<and> k \<noteq> ''secrets''}"
  have exported: "exportable_config c = PDict (filter (\<lambda>(k, v). k \<in> ?given) (full_document c))"
    by (simp add: exportable_config_sections full_document_def)
  have "filter (\<lambda>k. k \<notin> insert ''credentials'' ?given) (keys all_fields) = [''secrets'']"
    by (simp add: installer_config_ty_def)
  with written_sections_build [of ?given c]
  show "load_config_file (\<lambda>_. Loaded (exportable_config c)) path = Inl (Missing_Settings_Error [''secrets''])"
    by (simp add: load_config_file_def read_config_file_def exported bindE_def)
qed

end
