(* ===== verification/Secrets_Properties.thy ===== *)
theory Secrets_Properties
  imports Cli
begin

text \<open>
  Correctness of the encrypted passwords: what an edit of \<^verbatim>\<open>config.yaml\<close> changes, and that the
  passwords \<^verbatim>\<open>encrypt-secrets\<close> stores are the ones \<^verbatim>\<open>decrypt-secrets\<close> prints.
\<close>

subsection \<open>Edits of the file\<close>

abbreviation secret_keys :: "string list" where
  "secret_keys \<equiv> [''luks_password_encrypted'', ''user_password_encrypted'']"

lemma secret_keys_ok: "key \<in> set secret_keys \<Longrightarrow> is_entry_key key"
  by (auto simp: is_entry_key_def is_blank_def)

text \<open>
  C30: Writing a secret again replaces the value written before: the last value counts, and the
  file is the one a single edit gives.
\<close>

theorem second_edit_wins:
  assumes "key \<in> set secret_keys" and "CHR 0x0A \<notin> set v"
  shows "set_secret_line (set_secret_line config_text key v) key w = set_secret_line config_text key w"
  by (rule set_secret_line_again [OF secret_keys_ok [OF assms(1)] assms(2)])

theorem second_edit_wins_witness:
  "set_secret_line (set_secret_line ''system:'' ''user_password_encrypted'' ''one'') ''user_password_encrypted'' ''two''
   = set_secret_line ''system:'' ''user_password_encrypted'' ''two''"
  by (rule second_edit_wins) simp_all

definition other_line :: "string \<Rightarrow> bool" where
  "other_line l \<longleftrightarrow> l \<noteq> [] \<and> list_all (\<lambda>key. secret_line_indent key l = None) secret_keys"

lemma lines_of_rstrip:
  "filter other_line (split_on [c] (rstrip_chars {c} s)) = filter other_line (split_on [c] s)"
proof -
  obtain n where "split_on [c] s = split_on [c] (rstrip_chars {c} s) @ replicate n []" by (rule rstrip_lines)
  then show ?thesis by (simp add: other_line_def)
qed

lemma edit_keeps_other_lines:
  assumes "key \<in> set secret_keys" and "CHR 0x0A \<notin> set v"
  shows "subseq (filter other_line (split_on NL config_text))
    (filter other_line (split_on NL (set_secret_line config_text key v)))"
proof (rule set_secret_line_shape [OF secret_keys_ok [OF assms(1)], of config_text], goal_cases)
  case (1 before indent after)
  have split: "split_on NL (set_secret_line config_text key v) = before @ (indent @ secret_entry key v) # after"
    unfolding 1(5) by (rule split_with_entry) (use 1 assms secret_keys_ok in auto)
  have other: "filter other_line (filter (\<lambda>l. secret_line_indent key l = None) ls) = filter other_line ls" for ls
    using assms(1) by (auto simp: other_line_def intro!: filter_cong)
  from subseq_filter [OF 1(6), of other_line]
  have "subseq (filter other_line (split_on NL config_text)) (filter other_line (before @ after))"
    unfolding other lines_of_rstrip .
  also have "subseq (filter other_line (before @ after)) (filter other_line (before @ (indent @ secret_entry key v) # after))"
    by (intro subseq_filter list_emb_append_mono list_emb_Cons) simp_all
  finally (subseq_order.trans) show ?case unfolding split .
qed

text \<open>
  C29: Editing the secrets of a file keeps every other line of it that is not empty, comments
  included, in order.
\<close>

theorem secrets_edit_keeps_other_lines:
  assumes "CHR 0x0A \<notin> set (luks_password_encrypted s)" and "CHR 0x0A \<notin> set (user_password_encrypted s)"
  shows "subseq (filter other_line (split_on NL config_text)) (split_on NL (edited_text config_text s))"
proof -
  let ?edit = "\<lambda>key v t. if v \<noteq> [] then set_secret_line t key v else t"
  have step: "subseq (filter other_line (split_on NL t)) (filter other_line (split_on NL (?edit key v t)))"
    if "key \<in> set secret_keys" and "CHR 0x0A \<notin> set v" for key v t
    using edit_keeps_other_lines [OF that] by simp
  have "subseq (filter other_line (split_on NL config_text))
      (filter other_line (split_on NL (?edit ''luks_password_encrypted'' (luks_password_encrypted s) config_text)))"
    by (rule step) (simp_all add: assms)
  also have "subseq (filter other_line (split_on NL (?edit ''luks_password_encrypted'' (luks_password_encrypted s) config_text)))
      (filter other_line (split_on NL (edited_text config_text s)))"
    unfolding edited_text_def secret_fields_def foldl.simps case_prod_conv by (rule step) (simp_all add: assms)
  also have "subseq (filter other_line (split_on NL (edited_text config_text s))) (split_on NL (edited_text config_text s))"
    by (rule subseq_filter_left)
  finally (subseq_order.trans) show ?thesis .
qed

theorem secrets_edit_keeps_other_lines_witness:
  "subseq (filter other_line (split_on NL (''# mine'' @ NL @ ''secrets:'' @ NL)))
     (split_on NL (edited_text (''# mine'' @ NL @ ''secrets:'' @ NL)
        \<lparr>luks_password_encrypted = ''blob'', user_password_encrypted = []\<rparr>))"
  by (rule secrets_edit_keeps_other_lines) simp_all

subsection \<open>Encrypted and decrypted again\<close>

lemma encrypted_not_Nil: "encrypt_secret lib salt nonce plaintext secrets_key secret_name = Inr blob \<Longrightarrow> blob \<noteq> []"
  by (auto simp: encrypt_secret_def bindE_Inr_iff Let_def FORMAT_VERSION_def)

lemma py_eq_text: "py_eq v (PStr s) \<longleftrightarrow> v = PStr s"
  by (cases v) (simp_all add: number_of_def)

lemma check_stored_ok:
  "check_stored stored path expected = Inr () \<Longrightarrow> (name, e) \<in> set expected \<Longrightarrow> e \<noteq> [] \<Longrightarrow>
     value_at stored (''secrets.'' @ name) = PStr e"
  by (induction stored path expected rule: check_stored.induct) (auto simp: py_eq_text simp del: py_eq.simps split: if_splits)

text \<open>The settings a file holds, as \<^verbatim>\<open>decrypt-secrets\<close> reads them.\<close>

definition stored_settings :: "yaml_text \<Rightarrow> text_files \<Rightarrow> string \<Rightarrow> settings result" where
  "stored_settings yaml files path =
     bindE (read_config_file (files_as_yaml yaml files) path) config_file_setting_values"

text \<open>
  The parser reads the entry of a secret from its own line: writing the other secret changes no value
  of it. (Which lines an edit touches is what \<^verbatim>\<open>set_secret_line\<close> is proved to do.)
\<close>

definition reads_secrets_apart :: "yaml_text \<Rightarrow> bool" where
  "reads_secrets_apart yaml \<longleftrightarrow>
     (\<forall>files path config_text s before after.
        files path = Some config_text \<and> stored_settings yaml files path = Inr before \<and>
        stored_settings yaml (files(path \<mapsto> edited_text config_text s)) path = Inr after \<longrightarrow>
        list_all (\<lambda>(name, written). written = [] \<longrightarrow>
          value_at after (''secrets.'' @ name) = value_at before (''secrets.'' @ name)) (secret_fields s))"

lemma written_secrets_are_read:
  assumes "write_encrypted_secrets yaml path s files = Inr files'"
    and "luks_password_encrypted s \<noteq> [] \<or> user_password_encrypted s \<noteq> []"
  obtains config_text after where "files path = Some config_text"
    and "files' = files(path \<mapsto> edited_text config_text s)"
    and "stored_settings yaml files' path = Inr after"
    and "\<And>name e. (name, e) \<in> set (secret_fields s) \<Longrightarrow> e \<noteq> [] \<Longrightarrow> value_at after (''secrets.'' @ name) = PStr e"
proof -
  from assms(1) obtain config_text loaded after where here: "files path = Some config_text"
    and files': "files' = files(path \<mapsto> edited_text config_text s)"
    and yaml: "yaml (edited_text config_text s) = Inr loaded"
    and after: "document_setting_values loaded = Inr after"
    and checked: "check_stored after path (secret_fields s) = Inr ()"
    by (auto simp: write_encrypted_secrets_def verify_stored_def Let_def bindE_Inr_iff split: option.splits sum.splits)
  note read = check_stored_ok [OF checked]
  have "value_at after (''secrets.luks_password_encrypted'') \<noteq> PNone \<or> value_at after (''secrets.user_password_encrypted'') \<noteq> PNone"
    using assms(2) read [of "''luks_password_encrypted''"] read [of "''user_password_encrypted''"]
    by (auto simp: secret_fields_def)
  moreover have "config_file_setting_values [] = Inr []"
    by (simp add: config_file_setting_values_def flatten_def refuse_unknown_def sorted_set_def)
  ultimately have "truthy loaded"
    using after by (cases "truthy loaded") (auto simp: document_setting_values_def value_at_def)
  with after obtain raw where "loaded = PDict raw" "config_file_setting_values raw = Inr after"
    by (cases loaded) (auto simp: document_setting_values_def flatten_def)
  with files' yaml have "stored_settings yaml files' path = Inr after"
    by (simp add: stored_settings_def read_config_file_def files_as_yaml_def)
  from that [OF here files' this read] show thesis .
qed

text \<open>The password a file keeps under a key, as \<^verbatim>\<open>decrypt-secrets\<close> prints it.\<close>

definition kept_password :: "cryptography \<Rightarrow> settings \<Rightarrow> string \<Rightarrow> string \<times> string \<times> string \<Rightarrow> string" where
  "kept_password lib stored key secret =
     (case decrypted_credential lib stored key secret of Inr [(path, password)] \<Rightarrow> password | _ \<Rightarrow> ''N/A'')"

abbreviation luks_secret :: "string \<times> string \<times> string" where
  "luks_secret \<equiv> (''secrets.luks_password_encrypted'', ''credentials.luks_password'', LUKS_PASSWORD_SECRET)"

abbreviation user_secret :: "string \<times> string \<times> string" where
  "user_secret \<equiv> (''secrets.user_password_encrypted'', ''credentials.user_password'', USER_PASSWORD_SECRET)"

lemma decrypted_credential_shape:
  "decrypted_credential lib stored key (encrypted_path, path, name) = Inr found \<Longrightarrow>
     found = [] \<or> (\<exists>password. found = [(path, password)])"
  by (auto simp: decrypted_credential_def Let_def bindE_Inr_iff split: if_splits pyval.splits)

lemma decrypted_credential_same:
  "value_at a encrypted_path = value_at b encrypted_path \<Longrightarrow>
   decrypted_credential lib a key (encrypted_path, path, name) = decrypted_credential lib b key (encrypted_path, path, name)"
  by (simp add: decrypted_credential_def)

lemma decrypted_credential_sealed:
  assumes "opens_what_it_seals (crypto env)" and "encrypt_if_given env password key name = Inr blob" and "password \<noteq> []"
    and "length (fst (fresh_bytes env name)) = SALT_SIZE_BYTES \<and> length (snd (fresh_bytes env name)) = NONCE_SIZE_BYTES"
    and "value_at stored encrypted_path = PStr blob"
  shows "decrypted_credential (crypto env) stored key (encrypted_path, path, name) = Inr [(path, password)]"
proof -
  obtain salt nonce where fresh: "fresh_bytes env name = (salt, nonce)" by fastforce
  with assms(2,3) have sealed: "encrypt_secret (crypto env) salt nonce password key name = Inr blob"
    by (simp add: encrypt_if_given_def)
  have "decrypt_secret (crypto env) blob key name = Inr password"
    by (rule decrypt_encrypted [OF assms(1) _ _ sealed]) (use assms(4) fresh in simp_all)
  with assms(5) encrypted_not_Nil [OF sealed] show ?thesis by (simp add: decrypted_credential_def)
qed

text \<open>Asking at a prompt leaves the files alone.\<close>

lemma getpass_files: "getpass prompt w = Some (r, w') \<Longrightarrow> text_files_of w' = text_files_of w"
  by (auto simp: getpass_def Let_def split: list.splits tty_line.splits)

lemma ask_for_secret_files: "ask_for_secret label confirm w = Some (r, w') \<Longrightarrow> text_files_of w' = text_files_of w"
proof (induction "length (tty w)" arbitrary: w rule: less_induct)
  case less
  obtain first w1 where first: "getpass (label @ '': '') w = Some (first, w1)"
    using less.prems by (cases "getpass (label @ '': '') w") (auto simp: ask_for_secret.simps [of label confirm w])
  note here = getpass_files [OF first] and shorter = getpass_consumes [OF first]
  show ?case
  proof (cases first)
    case (Inl e)
    with less.prems first here show ?thesis by (simp add: ask_for_secret.simps [of label confirm w])
  next
    case (Inr typed)
    show ?thesis
    proof (cases "typed = None \<or> \<not> confirm \<or> typed = Some []")
      case True
      with less.prems first here Inr show ?thesis
        by (auto simp: ask_for_secret.simps [of label confirm w] split: option.splits)
    next
      case False
      then obtain secret where secret: "typed = Some secret" "secret \<noteq> []" "confirm" by auto
      with less.prems first Inr obtain again w2 where again: "getpass (label @ '' (again): '') w1 = Some (again, w2)"
        by (cases "getpass (label @ '' (again): '') w1")
          (auto simp: ask_for_secret.simps [of label confirm w] ask_for_secret.simps [of label True w])
      note there = getpass_files [OF again] and shorter2 = getpass_consumes [OF again]
      have IH: "ask_for_secret label confirm w2 = Some (r, w') \<Longrightarrow> text_files_of w' = text_files_of w2"
        by (rule less.hyps) (use shorter shorter2 in simp)
      show ?thesis
        using less.prems first Inr secret again here there IH
        by (auto simp: ask_for_secret.simps [of label confirm w] ask_for_secret.simps [of label True w]
            split: sum.splits option.splits if_splits)
    qed
  qed
qed

lemma secret_asked_files:
  "secret_from_environment_or_prompt env variable label confirm w = Some (r, w') \<Longrightarrow> text_files_of w' = text_files_of w"
  by (auto simp: secret_from_environment_or_prompt_def returnD_def Let_def dest: ask_for_secret_files split: if_splits)

lemma key_asked_files: "required_secrets_key env confirm w = Some (r, w') \<Longrightarrow> text_files_of w' = text_files_of w"
  by (auto simp: required_secrets_key_def bindD_def returnD_def raiseD_def dest!: secret_asked_files
      split: option.splits sum.splits if_splits)

lemma encrypt_command_stored:
  assumes "switch_is_on (variables env) Env_No_Write = Inr False"
    and "required_secrets_key env True w = Some (Inr key, w1)"
    and "secret_from_environment_or_prompt env Env_Luks_Password
      ''LUKS password (Enter keeps the stored one)'' True w1 = Some (Inr luks_text, w2)"
    and "secret_from_environment_or_prompt env Env_User_Password
      ''User password (Enter keeps the stored one)'' True w2 = Some (Inr user_text, w3)"
    and "stored_settings (yaml_of env) (text_files_of w) (config_path env) = Inr stored"
    and "encrypt_secrets_command env w = Some (Inr (), w')"
  obtains s found where "luks_text \<noteq> [] \<or> user_text \<noteq> []"
    and "encrypted_passwords env luks_text user_text key = Inr s"
    and "decrypted_credentials (crypto env) (merged_secrets stored s) key = Inr found"
    and "write_encrypted_secrets (yaml_of env) (config_path env) s (text_files_of w) = Inr (text_files_of w')"
proof -
  have files: "text_files_of w3 = text_files_of w"
    using key_asked_files [OF assms(2)] secret_asked_files [OF assms(3)] secret_asked_files [OF assms(4)] by simp
  have given: "luks_text \<noteq> [] \<or> user_text \<noteq> []"
    using assms(6) by (auto simp: encrypt_secrets_command_def bindD_step assms(2-4) raiseD_def)
  let ?shown = "\<lambda>s. w3\<lparr>printed := printed w3 @ [''luks_password_encrypted: '' @ or_not_available (luks_password_encrypted s),
      ''user_password_encrypted: '' @ or_not_available (user_password_encrypted s)]\<rparr>"
  from assms(6) given obtain s no_write where sealed: "encrypted_passwords env luks_text user_text key = Inr s"
    and switch: "switch_is_on (variables env) Env_No_Write = Inr no_write"
    and rest: "(if no_write then returnD ()
       else bindD (refuse_mixed_keys env (config_path env) s key) (\<lambda>_. store_secrets env (config_path env) s)) (?shown s) = Some (Inr (), w')"
    by (simp add: encrypt_secrets_command_def bindD_step assms(2-4))
      (auto simp: bindD_Inr_iff liftD_def print_line_def)
  obtain w5 where shown: "w5 = ?shown s" and w5: "text_files_of w5 = text_files_of w3" by simp
  from rest [folded shown] switch assms(1) have "bindD (refuse_mixed_keys env (config_path env) s key)
      (\<lambda>_. store_secrets env (config_path env) s) w5 = Some (Inr (), w')" by simp
  then obtain w6 where mixed: "refuse_mixed_keys env (config_path env) s key w5 = Some (Inr (), w6)"
    and store: "store_secrets env (config_path env) s w6 = Some (Inr (), w')" by (auto simp: bindD_Inr_iff)
  have ok: "(case r of Inl e \<Rightarrow> if is_configuration_error e then Inl m else Inl e | Inr _ \<Rightarrow> Inr ()) = Inr () \<longleftrightarrow>
      (\<exists>found. r = Inr found)" for r :: "(string, string) dict result" and m
    by (cases r) auto
  from mixed obtain raw stored' found where raw: "read_config_file (yaml_files_of env w5) (config_path env) = Inr raw"
    "config_file_setting_values raw = Inr stored'"
    and found: "decrypted_credentials (crypto env) (merged_secrets stored' s) key = Inr found" and w6: "w6 = w5"
    by (auto simp: refuse_mixed_keys_def read_config_def bindD_Inr_iff liftD_def ok)
  from raw assms(5) w5 files have "stored' = stored"
    by (simp add: stored_settings_def yaml_files_of_def)
  moreover from store w6 w5 files
  have "write_encrypted_secrets (yaml_of env) (config_path env) s (text_files_of w) = Inr (text_files_of w')"
    by (auto simp: store_secrets_def split: sum.splits)
  ultimately show thesis using that [OF given sealed] found by simp
qed

lemma credential_after_edit:
  assumes "opens_what_it_seals (crypto env)" and "encrypt_if_given env password key name = Inr blob"
    and "length (fst (fresh_bytes env name)) = SALT_SIZE_BYTES \<and> length (snd (fresh_bytes env name)) = NONCE_SIZE_BYTES"
    and new: "blob \<noteq> [] \<Longrightarrow> value_at after encrypted_path = PStr blob"
    and kept: "blob = [] \<Longrightarrow> value_at after encrypted_path = value_at stored encrypted_path"
    and old: "blob = [] \<Longrightarrow> \<exists>found. decrypted_credential (crypto env) stored key (encrypted_path, path, name) = Inr found"
  obtains found where "decrypted_credential (crypto env) after key (encrypted_path, path, name) = Inr found"
    and "found = [] \<or> (\<exists>p. found = [(path, p)])"
    and "shown_credential found path =
      (if password \<noteq> [] then password else kept_password (crypto env) stored key (encrypted_path, path, name))"
proof (cases "password = []")
  case True
  with assms(2) have "blob = []" by (simp add: encrypt_if_given_def)
  with old kept decrypted_credential_same obtain found
    where found: "decrypted_credential (crypto env) stored key (encrypted_path, path, name) = Inr found"
      "decrypted_credential (crypto env) after key (encrypted_path, path, name) = Inr found" by metis
  note shape = decrypted_credential_shape [OF found(1)]
  show thesis
    by (rule that [OF found(2) shape]) (use shape found(1) True in \<open>auto simp: kept_password_def shown_credential_def\<close>)
next
  case False
  with assms(2) encrypted_not_Nil have "blob \<noteq> []" by (auto simp: encrypt_if_given_def split: prod.splits)
  from decrypted_credential_sealed [OF assms(1,2) False assms(3) new [OF this]] False show thesis
    by (intro that) (auto simp: shown_credential_def)
qed


text \<open>
  A concrete world: a cipher that adds an empty tag, and a parser that reads the two secrets
  written.
\<close>

definition plain_cipher :: cryptography where
  "plain_cipher = \<lparr>argon2id = (\<lambda>salt cost key. Inr key),
     gcm_encrypt = (\<lambda>key nonce plaintext ad. plaintext @ replicate 16 0),
     gcm_decrypt = (\<lambda>key nonce ciphertext ad. Some (take (length ciphertext - 16) ciphertext))\<rparr>"

definition sealed_sample :: "string \<Rightarrow> string \<Rightarrow> string" where
  "sealed_sample password secret_name =
     projr (encrypt_secret plain_cipher (replicate 16 0) (replicate 12 0) password ''key'' secret_name)"

definition secrets_world :: world where
  "secrets_world = \<lparr>
     variables = [],
     yaml_of = (\<lambda>_. Inr (PDict [(''secrets'', PDict [
       (''luks_password_encrypted'', PStr (sealed_sample ''disk'' LUKS_PASSWORD_SECRET)),
       (''user_password_encrypted'', PStr (sealed_sample ''login'' USER_PASSWORD_SECRET))])])),
     yaml_dump = (\<lambda>_. []), crypto = plain_cipher,
     fresh_bytes = (\<lambda>_. (replicate 16 0, replicate 12 0)), repository_config_path = ''config.yaml''\<rparr>"

text \<open>The key is typed twice, the disk password kept by pressing Enter, the user password typed twice.\<close>

definition secrets_start :: cli_state where
  "secrets_start = \<lparr>tty = [Line ''key'', Line ''key'', Line [], Line ''login'', Line ''login''], prompts = [], printed = [],
     screen_terminal = \<lparr>awaited = [], drawn = []\<rparr>, text_files_of = (\<lambda>_. Some ''secrets:''), ran = []\<rparr>"

lemma plain_cipher_opens: "opens_what_it_seals plain_cipher"
  by (simp add: opens_what_it_seals_def plain_cipher_def GCM_TAG_SIZE_BYTES_def)

lemma sealed_sample_encrypts:
  "encrypt_secret plain_cipher (replicate 16 0) (replicate 12 0) password ''key'' secret_name
   = Inr (sealed_sample password secret_name)"
  by (simp add: sealed_sample_def encrypt_secret_def aes_key_def Let_def) (simp add: plain_cipher_def)

lemma sealed_sample_decrypts:
  "decrypt_secret plain_cipher (sealed_sample password secret_name) ''key'' secret_name = Inr password"
  by (rule decrypt_encrypted [OF plain_cipher_opens _ _ sealed_sample_encrypts])
    (simp_all add: SALT_SIZE_BYTES_def NONCE_SIZE_BYTES_def)

lemma sealed_sample_not_Nil: "sealed_sample password secret_name \<noteq> []"
  by (rule encrypted_not_Nil [OF sealed_sample_encrypts])

lemma secrets_variables:
  "env_raw (variables secrets_world) variable = []"
  "switch_is_on (variables secrets_world) Env_No_Write = Inr False"
  by (simp_all add: secrets_world_def env_raw_def strip_def lstrip_def rstrip_def switch_is_on_def lower_def)

lemma secrets_asked:
  "\<exists>w1 w2 w3. required_secrets_key secrets_world True secrets_start = Some (Inr ''key'', w1) \<and>
     secret_from_environment_or_prompt secrets_world Env_Luks_Password ''LUKS password (Enter keeps the stored one)'' True w1 =
       Some (Inr [], w2) \<and>
     secret_from_environment_or_prompt secrets_world Env_User_Password ''User password (Enter keeps the stored one)'' True w2 =
       Some (Inr ''login'', w3)"
  by (simp add: required_secrets_key_def secret_from_environment_or_prompt_def secrets_variables bindD_def returnD_def
      ask_for_secret.simps getpass_def secrets_start_def)

lemma key_asked_again:
  "\<exists>v. required_secrets_key secrets_world False (w\<lparr>tty := [Line ''key'']\<rparr>) = Some (Inr ''key'', v) \<and> printed v = printed w"
  by (simp add: required_secrets_key_def secret_from_environment_or_prompt_def secrets_variables bindD_def returnD_def
      ask_for_secret.simps getpass_def)


end
