(* ===== verification/Cli_Properties.thy ===== *)
theory Cli_Properties
  imports Secrets_Properties Sample_Config
begin

text \<open>
  Correctness of the entry points: an unattended installation never waits for the user, and what
  must be known before an installation starts.
\<close>

subsection \<open>What an installation needs\<close>

text \<open>
  Both passwords and the disk are known, a migration knows the old password, and a USB drive is another
  drive than the disk, with an ISO for a recovery system and a disk that holds random data.
\<close>

definition ready_to_install :: "installer_config \<Rightarrow> bool" where
  "ready_to_install c \<longleftrightarrow>
     luks_password (credentials c) \<noteq> [] \<and> user_password (credentials c) \<noteq> [] \<and> target_disk (storage c) \<noteq> [] \<and>
     (migration_enabled (migration c) \<longrightarrow> source_luks_password (credentials c) \<noteq> []) \<and>
     (usb_boot_enabled (usb_boot c) \<longrightarrow>
       usb_device (usb_boot c) \<notin> {[], target_disk (storage c)} \<and>
       (recovery_system (usb_boot c) \<longrightarrow> iso_path (usb_boot c) \<noteq> []) \<and>
       (migration_enabled (migration c) \<or> wipe_method (storage c) \<in> {Wipe_Secure, Wipe_Skip}))"

lemma installation_needs: "validate_for_install c = Inr () \<longleftrightarrow> ready_to_install c"
  by (cases "wipe_method (storage c)")
    (auto simp: ready_to_install_def validate_for_install_def install_problems_def usb_boot_problems_def needs_def Let_def)

subsection \<open>Unattended installations\<close>

text \<open>A command that only computes.\<close>

definition computes :: "'a cli \<Rightarrow> bool" where
  "computes m \<longleftrightarrow> (\<forall>w. \<exists>r. m w = Some (r, w))"

lemma computes_pure: "computes (returnD x)" "computes (raiseD e)" "computes (liftD r)" "computes (read_config env path)"
  by (simp_all add: computes_def read_config_def)

lemma computes_bindD: "computes m \<Longrightarrow> (\<And>x. computes (f x)) \<Longrightarrow> computes (bindD m f)"
  unfolding computes_def
proof
  fix w
  assume "\<forall>w. \<exists>r. m w = Some (r, w)" and f: "\<And>x. \<forall>w. \<exists>r. f x w = Some (r, w)"
  then obtain r where "m w = Some (r, w)" by blast
  with f show "\<exists>r. bindD m f w = Some (r, w)" by (cases r) (simp_all add: bindD_def)
qed

lemma assemble_unattended: "computes (assemble_installer_config env None)"
  unfolding assemble_installer_config_def unlocked_passwords_def Let_def
  by (auto intro!: computes_bindD computes_pure)

text \<open>
  C35: An installation with NON_INTERACTIVE on always returns, reads no key and no password, prints
  nothing and writes no file of its own; it runs commands only for a configuration that could be
  assembled and has everything an installation needs: both passwords, the disk, the old password of a
  migration, and a USB drive that is not the disk, with its ISO and a disk filled with random data.
\<close>

theorem unattended_install_never_asks:
  assumes "is_interactive (variables env) = Inr False"
  shows "\<exists>r w'. install_command os env w = Some (r, w') \<and> w' = w\<lparr>ran := ran w'\<rparr> \<and>
    (ran w' \<noteq> ran w \<longrightarrow> (\<exists>c. assemble_installer_config env None w = Some (Inr c, w) \<and> ready_to_install c))"
proof -
  obtain a where a: "assemble_installer_config env None w = Some (a, w)"
    using assemble_unattended [of env] unfolding computes_def by blast
  show ?thesis
  proof (cases a)
    case (Inl e)
    with a assms show ?thesis by (simp add: install_command_def bindD_def liftD_def)
  next
    case (Inr c)
    show ?thesis
    proof (cases "validate_for_install c")
      case (Inl e)
      with a Inr assms show ?thesis by (simp add: install_command_def bindD_def liftD_def)
    next
      case valid: (Inr u)
      obtain r h where "install (yaml_dump env) c os (ran w) = (r, h)" by fastforce
      with a Inr valid assms show ?thesis
        by (simp add: install_command_def bindD_def liftD_def run_commands_def flip: installation_needs)
    qed
  qed
qed

definition unattended_world :: world where
  "unattended_world = secrets_world\<lparr>variables := [(''NON_INTERACTIVE'', ''true'')]\<rparr>"

theorem unattended_install_never_asks_witness:
  "\<exists>r w'. install_command accepting_machine unattended_world secrets_start = Some (r, w') \<and>
     w' = secrets_start\<lparr>ran := ran w'\<rparr> \<and>
     (ran w' = ran secrets_start \<or> (\<exists>c. assemble_installer_config unattended_world None secrets_start = Some (Inr c, secrets_start) \<and>
       ready_to_install c))"
proof -
  have "is_interactive (variables unattended_world) = Inr False"
    by (simp add: unattended_world_def is_interactive_def switch_is_on_def env_raw_def strip_def lstrip_def rstrip_def
        is_space_def lower_def lower_char_def is_upper_def less_eq_char_def Let_def FALSE_WORDS_def TRUE_WORDS_def)
  from unattended_install_never_asks [OF this] show ?thesis by blast
qed

end
