(* ===== verification/Widget_Properties.thy ===== *)
theory Widget_Properties
  imports Tui_Frontend
begin

text \<open>
  Correctness of the widgets: the list engine, the text field, the passwords and the last screen.
\<close>

subsection \<open>The list engine\<close>

text \<open>A row drawn as the one under the cursor.\<close>

definition is_cursor_row :: "screen_write \<Rightarrow> bool" where
  "is_cursor_row w \<longleftrightarrow> shown_with w = attrs 6 True"

definition one_cursor_between :: "int \<Rightarrow> screen \<Rightarrow> bool" where
  "one_cursor_between row scr \<longleftrightarrow>
     length (filter is_cursor_row scr) = 1 \<and> list_all (\<lambda>w. is_cursor_row w \<longrightarrow> row \<le> at_row w) scr"

lemma row_attributes_not_cursor: "row_attributes style \<noteq> attrs 6 True"
  by (cases style) simp_all

lemma shown_rows_cursor:
  assumes "show_cursor menu" and "0 \<le> c" and "c < int (row_count menu)"
  shows "c \<in> set (shown_rows menu win c)" and "distinct (shown_rows menu win c)"
  using assms by (auto simp: shown_rows_def scroll_def visible_rows_def)

lemma draw_list_cursor:
  assumes "show_cursor menu" and "0 \<le> c" and "c < int (row_count menu)"
  shows "one_cursor_between (first_row menu) (draw_list menu s c win)"
proof -
  let ?rows = "map (draw_list_row menu s win c) (shown_rows menu win c)"
  have cursor: "is_cursor_row (draw_list_row menu s win c i) \<longleftrightarrow> i = c" for i
    using assms(1) row_attributes_not_cursor
    by (auto simp: is_cursor_row_def draw_list_row_def put_def Let_def)
  from split_list [OF shown_rows_cursor(1) [OF assms, of win]] obtain before after
    where split: "shown_rows menu win c = before @ c # after" by blast
  with shown_rows_cursor(2) [OF assms, of win] have "c \<notin> set before" "c \<notin> set after" by auto
  then have "filter (\<lambda>i. i = c) before = []" "filter (\<lambda>i. i = c) after = []" by (auto simp: filter_empty_conv)
  then have rows: "filter is_cursor_row ?rows = [draw_list_row menu s win c c]"
    unfolding split by (simp add: filter_map comp_def cursor)
  have others: "filter is_cursor_row (draw_list menu s c win) = filter is_cursor_row ?rows"
    by (simp add: draw_list_def draw_title_def draw_help_def put_def Let_def is_cursor_row_def)
  have "scroll menu win c \<le> c" using assms by (simp add: scroll_def visible_rows_def)
  then have below: "first_row menu \<le> at_row (draw_list_row menu s win c c)"
    by (simp add: draw_list_row_def put_def Let_def)
  have "w = draw_list_row menu s win c c" if "w \<in> set (draw_list menu s c win)" "is_cursor_row w" for w
  proof -
    have "w \<in> set (filter is_cursor_row (draw_list menu s c win))" using that by simp
    then show ?thesis unfolding others rows by simp
  qed
  with below have "list_all (\<lambda>w. is_cursor_row w \<longrightarrow> first_row menu \<le> at_row w) (draw_list menu s c win)"
    by (auto simp: list_all_iff)
  then show ?thesis unfolding one_cursor_between_def others rows by simp
qed

lemma list_step_cursor:
  assumes "list_step menu (c, s, t) (c1, s1, t1)" and "show_cursor menu" and "0 \<le> c" and "c < int (row_count menu)"
  shows "0 \<le> c1 \<and> c1 < int (row_count menu)"
  using assms by (auto simp: last_position_def elim!: list_stepE)

lemma run_list_screens:
  assumes "run_list menu c s t = Some (r, t')" and "show_cursor menu" and "0 \<le> c" and "c < int (row_count menu)"
  shows "\<exists>new. drawn t' = drawn t @ new \<and> new \<noteq> [] \<and> list_all (one_cursor_between (first_row menu)) new"
  using assms
proof (induction "length (awaited t)" arbitrary: c s t rule: less_induct)
  case less
  from less.prems(1) obtain k t1 where read: "read_key (draw_list menu s c) t = Some (k, t1)"
    by (subst (asm) run_list.simps) (auto split: option.splits)
  from read_key_Some [OF this] obtain win where shorter: "length (awaited t1) < length (awaited t)"
    and first: "drawn t1 = drawn t @ [draw_list menu s c win]" by blast
  note shown = draw_list_cursor [OF less.prems(2-4), of s win]
  have go_on: ?case if "run_list menu c1 s1 t1 = Some (r, t')" and "0 \<le> c1" and "c1 < int (row_count menu)" for c1 s1
    using less.hyps [OF shorter that(1) less.prems(2) that(2,3)] first shown by auto
  have stop: ?case if "t' = t1" using that first shown by simp
  show ?case
  proof (cases k)
    case (Inl e)
    have "t' = t1" using less.prems(1) by (subst (asm) run_list.simps) (simp add: read Inl)
    then show ?thesis by (rule stop)
  next
    case (Inr wk)
    obtain win' key where wk: "wk = (win', key)" by fastforce
    consider "key = KEY_UP" | "key = KEY_DOWN" "key \<noteq> KEY_UP" | "key \<notin> {KEY_UP, KEY_DOWN}" by auto
    then show ?thesis
    proof cases
      case 1
      with less.prems(1) read Inr wk have "run_list menu (max (c - 1) 0) s t1 = Some (r, t')"
        by (subst (asm) run_list.simps) simp
      with less.prems(3,4) show ?thesis by (intro go_on [of "max (c - 1) 0" s]) auto
    next
      case 2
      with less.prems(1) read Inr wk have "run_list menu (min (c + 1) (last_position menu win')) s t1 = Some (r, t')"
        by (subst (asm) run_list.simps) simp
      with less.prems(2-4) show ?thesis
        by (intro go_on [of "min (c + 1) (last_position menu win')" s]) (auto simp: last_position_def)
    next
      case 3
      with less.prems(1) read Inr wk consider "t' = t1" | s1 where "run_list menu c s1 t1 = Some (r, t')"
        by (subst (asm) run_list.simps) (auto split: sum.splits if_splits)
      then show ?thesis using go_on less.prems(3,4) stop by cases auto
    qed
  qed
qed

text \<open>
  C40: While a list with a cursor is open the cursor stays on a row of the list, and every screen
  drawn highlights exactly one row, below the title: the view always follows the cursor.
\<close>

theorem cursor_stays_visible:
  assumes "run_list menu c s t = Some (Inr (c', s'), t')" and "show_cursor menu"
    and "0 \<le> c" and "c < int (row_count menu)"
  shows "0 \<le> c' \<and> c' < int (row_count menu) \<and>
    (\<exists>new. drawn t' = drawn t @ new \<and> list_all (one_cursor_between (first_row menu)) new)"
proof -
  have "\<exists>s0 t0. (0 \<le> c' \<and> c' < int (row_count menu)) \<and> list_accepts menu (c', s0, t0) (c', s', t')"
  proof (rule run_list_invariant [OF assms(1)])
    show "0 \<le> c \<and> c < int (row_count menu)" using assms(3,4) by simp
  next
    fix c s t c1 s1 t1
    assume range: "0 \<le> c \<and> c < int (row_count menu)" and step: "list_step menu (c, s, t) (c1, s1, t1)"
    show "0 \<le> c1 \<and> c1 < int (row_count menu)"
      by (rule list_step_cursor [OF step assms(2)]) (use range in simp_all)
  qed
  with run_list_screens [OF assms] show ?thesis by blast
qed

definition sample_window :: window_size where
  "sample_window = \<lparr>max_y = 24, max_x = 80\<rparr>"

definition sample_options :: "menu_option list" where
  "sample_options = [menu_item ''off'' ''Off'', menu_item ''on'' ''On'']"

theorem cursor_stays_visible_witness:
  "\<exists>t'. run_list (radio_list ''Firewall'' sample_options None []) 0 ()
       \<lparr>awaited = [(sample_window, Key KEY_DOWN), (sample_window, Key KEY_ENTER)], drawn = []\<rparr> = Some (Inr (1, ()), t') \<and>
     (\<exists>new. drawn t' = new \<and> list_all (one_cursor_between 4) new)"
proof -
  let ?menu = "radio_list ''Firewall'' sample_options None []"
  let ?start = "\<lparr>awaited = [(sample_window, Key KEY_DOWN), (sample_window, Key KEY_ENTER)], drawn = []\<rparr>"
  have menu: "show_cursor ?menu" "row_count ?menu = 2" "first_row ?menu = 4" "last_position ?menu win = 1"
    "handle_key ?menu key c s = Inr (key \<in> set ENTER_KEYS, s)" for win key c s
    by (simp_all add: radio_list_def sample_options_def first_row_def glyphs_of_def CONTENT_START_def last_position_def)
  have "\<exists>t'. run_list ?menu 0 () ?start = Some (Inr (1, ()), t')"
    by (subst run_list.simps, simp add: menu KEY_UP_def KEY_DOWN_def,
      subst run_list.simps, simp add: menu KEY_UP_def KEY_DOWN_def KEY_ENTER_def ENTER_KEYS_def)
  then obtain t' where run: "run_list ?menu 0 () ?start = Some (Inr (1, ()), t')" by blast
  from cursor_stays_visible [OF run] run show ?thesis by (simp add: menu)
qed

subsection \<open>The text field\<close>

definition typing :: "window_size \<Rightarrow> string \<Rightarrow> (window_size \<times> stroke) list" where
  "typing win s = map (\<lambda>ch. (win, Key (int (of_char ch)))) s"

definition printable :: "string \<Rightarrow> bool" where
  "printable s \<longleftrightarrow> list_all (\<lambda>ch. printable_key (int (of_char ch))) s"

lemma press_printable:
  "printable_key (int (of_char ch)) \<Longrightarrow>
     press (int (of_char ch)) entry = (None, entry\<lparr>typed := typed entry @ [ch], entry_error := []\<rparr>)"
  by (auto simp: press_def printable_key_def ENTER_KEYS_def BACKSPACE_KEYS_def KEY_ENTER_def KEY_ESCAPE_def KEY_BACKSPACE_def)

lemma press_not_enter: "key \<notin> set ENTER_KEYS \<Longrightarrow> fst (press key entry) = None"
  by (simp add: press_def)

lemma edit_entry_goes_on:
  "press key entry = (None, entry') \<Longrightarrow>
     edit_entry draw entry \<lparr>awaited = (win, Key key) # rest, drawn = d\<rparr>
     = edit_entry draw entry' \<lparr>awaited = rest, drawn = d @ [draw entry win]\<rparr>"
  by (subst edit_entry.simps) simp

lemma edit_entry_skips:
  "list_all (\<lambda>(_, s). \<exists>key. s = Key key \<and> key \<notin> set ENTER_KEYS) ks \<Longrightarrow>
     \<exists>entry' d'. edit_entry draw entry \<lparr>awaited = ks @ later, drawn = d\<rparr>
       = edit_entry draw entry' \<lparr>awaited = later, drawn = d'\<rparr> \<and> entry_required entry' = entry_required entry"
proof (induction ks arbitrary: entry d)
  case Nil
  then show ?case by auto
next
  case (Cons k ks)
  then obtain win key where k: "k = (win, Key key)" and "key \<notin> set ENTER_KEYS" by (cases k) auto
  then obtain entry1 where pressed: "press key entry = (None, entry1)"
    using press_not_enter [of key entry] by (cases "press key entry") auto
  from Cons.IH [of entry1 "d @ [draw entry win]"] Cons.prems obtain entry' d' where
    "edit_entry draw entry1 \<lparr>awaited = ks @ later, drawn = d @ [draw entry win]\<rparr> = edit_entry draw entry' \<lparr>awaited = later, drawn = d'\<rparr>"
    "entry_required entry' = entry_required entry1" by auto
  with press_keeps [OF pressed] edit_entry_goes_on [OF pressed, of draw win "ks @ later" d] k show ?case by auto
qed

lemma edit_entry_types:
  "printable s \<Longrightarrow> \<exists>entry' d'. edit_entry draw entry \<lparr>awaited = typing win s @ later, drawn = d\<rparr>
     = edit_entry draw entry' \<lparr>awaited = later, drawn = d'\<rparr> \<and> typed entry' = typed entry @ s"
proof (induction s arbitrary: entry d)
  case Nil
  then show ?case by (auto simp: typing_def)
next
  case (Cons ch s)
  then have ch: "printable_key (int (of_char ch))" and s: "printable s" by (simp_all add: printable_def)
  note go = edit_entry_goes_on [OF press_printable [OF ch, of entry], of draw win "typing win s @ later" d]
  from Cons.IH [OF s, of "entry\<lparr>typed := typed entry @ [ch], entry_error := []\<rparr>" "d @ [draw entry win]"] go
  show ?case by (auto simp: typing_def)
qed

text \<open>A text typed into an empty field and entered is the field's value.\<close>

lemma edit_entry_enters:
  assumes "typed entry = []" and "s \<noteq> []" and "printable s"
  shows "\<exists>d'. edit_entry draw entry \<lparr>awaited = typing win s @ (win, Key KEY_ENTER) # rest, drawn = d\<rparr>
    = Some (Inr s, \<lparr>awaited = rest, drawn = d'\<rparr>)"
proof -
  from edit_entry_types [OF assms(3)] obtain entry' d1 where
    typing: "edit_entry draw entry \<lparr>awaited = typing win s @ (win, Key KEY_ENTER) # rest, drawn = d\<rparr>
      = edit_entry draw entry' \<lparr>awaited = (win, Key KEY_ENTER) # rest, drawn = d1\<rparr>"
    and typed: "typed entry' = s" using assms(1) by (metis append_Nil)
  have "fst (press KEY_ENTER entry') = Some s"
    using assms(2) typed by (simp add: press_def ENTER_KEYS_def submit_def Let_def)
  then have "edit_entry draw entry' \<lparr>awaited = (win, Key KEY_ENTER) # rest, drawn = d1\<rparr>
      = Some (Inr s, \<lparr>awaited = rest, drawn = d1 @ [draw entry' win]\<rparr>)"
    by (subst edit_entry.simps) (auto split: prod.splits)
  with typing show ?thesis by simp
qed

text \<open>
  C39: Whatever was done in a text field before, Escape and then a text end with that text when
  Enter is pressed: the field returns exactly what was typed.
\<close>

theorem typed_text_is_submitted:
  assumes "s \<noteq> []" and "printable s"
    and "list_all (\<lambda>(_, s). \<exists>key. s = Key key \<and> key \<notin> set ENTER_KEYS) earlier"
    and "awaited t = earlier @ (win, Key KEY_ESCAPE) # typing win s @ (win, Key KEY_ENTER) # rest"
  shows "\<exists>t'. text_input title prompt inh required masked t = Some (Inr s, t') \<and> awaited t' = rest"
proof -
  let ?draw = "draw_text_entry title prompt masked"
  obtain d where t: "t = \<lparr>awaited = earlier @ (win, Key KEY_ESCAPE) # typing win s @ (win, Key KEY_ENTER) # rest, drawn = d\<rparr>"
    using assms(4) by (cases t) simp
  from edit_entry_skips [OF assms(3)] obtain entry1 d1 where first: "edit_entry ?draw (new_entry inh required) t
      = edit_entry ?draw entry1 \<lparr>awaited = (win, Key KEY_ESCAPE) # typing win s @ (win, Key KEY_ENTER) # rest, drawn = d1\<rparr>"
    unfolding t by blast
  have "press KEY_ESCAPE entry1 = (None, entry1\<lparr>typed := [], entry_error := []\<rparr>)"
    by (simp add: press_def ENTER_KEYS_def KEY_ENTER_def KEY_ESCAPE_def)
  note second = edit_entry_goes_on [OF this]
  from edit_entry_enters [OF _ assms(1,2), of "entry1\<lparr>typed := [], entry_error := []\<rparr>"] obtain d2 where
    "edit_entry ?draw (entry1\<lparr>typed := [], entry_error := []\<rparr>)
      \<lparr>awaited = typing win s @ (win, Key KEY_ENTER) # rest, drawn = d1 @ [?draw entry1 win]\<rparr>
      = Some (Inr s, \<lparr>awaited = rest, drawn = d2\<rparr>)" by fastforce
  with first second show ?thesis by (simp add: text_input_def)
qed

theorem typed_text_is_submitted_witness:
  "\<exists>t'. text_input ''System: Hostname'' ''Hostname:'' None True False
     \<lparr>awaited = (sample_window, Key KEY_ESCAPE) # typing sample_window ''arch'' @ [(sample_window, Key KEY_ENTER)],
       drawn = []\<rparr> = Some (Inr ''arch'', t') \<and> awaited t' = []"
  by (rule typed_text_is_submitted [where earlier = "[]" and win = sample_window])
    (simp_all add: printable_def printable_key_def)

subsection \<open>Passwords\<close>

text \<open>
  C38: A new password is not empty and was typed twice in a row, the same both times: the dialogue
  starts with any number of rounds whose two texts differ, each ended by a key, and its last round,
  from the state those leave, reads the password at the prompt and the same password again at the
  confirmation, after which the dialogue ends.
\<close>

theorem password_is_confirmed:
  assumes "password_input_with_confirm title prompt t = Some (Inr p, t')"
  shows "p \<noteq> [] \<and> (\<exists>t0 t1. (mismatched title prompt)\<^sup>*\<^sup>* t t0 \<and>
    text_input title prompt None True True t0 = Some (Inr p, t1) \<and>
    text_input title ''Confirm password:'' None True True t1 = Some (Inr p, t'))"
  using password_rounds [OF assms] text_input_required by blast

definition typed_password :: terminal where
  "typed_password = \<lparr>awaited = typing sample_window ''pw'' @ (sample_window, Key KEY_ENTER) #
     typing sample_window ''Pw'' @ (sample_window, Key KEY_ENTER) # (sample_window, Key KEY_ENTER) #
     typing sample_window ''pw'' @ (sample_window, Key KEY_ENTER) #
     typing sample_window ''pw'' @ [(sample_window, Key KEY_ENTER)], drawn = []\<rparr>"

lemma password_entered:
  assumes "printable s" "s \<noteq> []"
  shows "\<exists>d'. text_input title prompt None True True
      \<lparr>awaited = typing win s @ (win, Key KEY_ENTER) # rest, drawn = d\<rparr> = Some (Inr s, \<lparr>awaited = rest, drawn = d'\<rparr>)"
  using edit_entry_enters [of "new_entry None True" s, unfolded new_entry_def, simplified, folded new_entry_def] assms
  unfolding text_input_def by blast

lemma password_mistyped:
  assumes "printable s" "s \<noteq> []" "printable s'" "s' \<noteq> []" "s \<noteq> s'"
    and "awaited t = typing win s @ (win, Key KEY_ENTER) # typing win s' @ (win, Key KEY_ENTER) # (win, Key key) # rest"
  shows "\<exists>d'. password_input_with_confirm title prompt t
    = password_input_with_confirm title prompt \<lparr>awaited = rest, drawn = d'\<rparr>"
proof -
  obtain d where t: "t = \<lparr>awaited = typing win s @ (win, Key KEY_ENTER) # typing win s' @ (win, Key KEY_ENTER) #
      (win, Key key) # rest, drawn = d\<rparr>" using assms(6) by (cases t) simp
  from password_entered [OF assms(1,2)] obtain d1 where first: "text_input title prompt None True True t
      = Some (Inr s, \<lparr>awaited = typing win s' @ (win, Key KEY_ENTER) # (win, Key key) # rest, drawn = d1\<rparr>)"
    unfolding t by blast
  from password_entered [OF assms(3,4)] obtain d2 where second: "text_input title ''Confirm password:'' None True True
      \<lparr>awaited = typing win s' @ (win, Key KEY_ENTER) # (win, Key key) # rest, drawn = d1\<rparr>
      = Some (Inr s', \<lparr>awaited = (win, Key key) # rest, drawn = d2\<rparr>)" by blast
  have "password_input_with_confirm title prompt t = password_input_with_confirm title prompt
      \<lparr>awaited = rest, drawn = d2 @ [draw_mismatch title win]\<rparr>"
    by (subst password_input_with_confirm.simps) (simp add: first second assms(5))
  then show ?thesis by blast
qed

lemma password_retyped:
  assumes "printable s" "s \<noteq> []"
    and "awaited t = typing win s @ (win, Key KEY_ENTER) # typing win s @ (win, Key KEY_ENTER) # rest"
  shows "\<exists>d'. password_input_with_confirm title prompt t = Some (Inr s, \<lparr>awaited = rest, drawn = d'\<rparr>)"
proof -
  obtain d where t: "t = \<lparr>awaited = typing win s @ (win, Key KEY_ENTER) # typing win s @ (win, Key KEY_ENTER) # rest,
      drawn = d\<rparr>" using assms(3) by (cases t) simp
  from password_entered [OF assms(1,2)] obtain d1 where first: "text_input title prompt None True True t
      = Some (Inr s, \<lparr>awaited = typing win s @ (win, Key KEY_ENTER) # rest, drawn = d1\<rparr>)" unfolding t by blast
  from password_entered [OF assms(1,2)] obtain d2 where second: "text_input title ''Confirm password:'' None True True
      \<lparr>awaited = typing win s @ (win, Key KEY_ENTER) # rest, drawn = d1\<rparr>
      = Some (Inr s, \<lparr>awaited = rest, drawn = d2\<rparr>)" by blast
  show ?thesis by (subst password_input_with_confirm.simps) (simp add: first second)
qed

theorem password_is_confirmed_witness:
  "\<exists>t'. password_input_with_confirm ''Storage: LUKS password'' ''Password:'' typed_password = Some (Inr ''pw'', t') \<and>
     awaited t' = [] \<and>
     (\<exists>t0 t1. (mismatched ''Storage: LUKS password'' ''Password:'')\<^sup>*\<^sup>* typed_password t0 \<and>
       text_input ''Storage: LUKS password'' ''Password:'' None True True t0 = Some (Inr ''pw'', t1) \<and>
       text_input ''Storage: LUKS password'' ''Confirm password:'' None True True t1 = Some (Inr ''pw'', t'))"
proof -
  let ?dialogue = "password_input_with_confirm ''Storage: LUKS password'' ''Password:''"
  have printable: "printable ''pw''" "printable ''Pw''" by (simp_all add: printable_def printable_key_def)
  let ?retyped = "typing sample_window ''pw'' @ (sample_window, Key KEY_ENTER) #
    typing sample_window ''pw'' @ [(sample_window, Key KEY_ENTER)]"
  have "awaited typed_password = typing sample_window ''pw'' @ (sample_window, Key KEY_ENTER) #
      typing sample_window ''Pw'' @ (sample_window, Key KEY_ENTER) # (sample_window, Key KEY_ENTER) # ?retyped"
    by (simp add: typed_password_def)
  from password_mistyped [OF printable(1) _ printable(2) _ _ this] obtain d
    where mistyped: "?dialogue typed_password = ?dialogue \<lparr>awaited = ?retyped, drawn = d\<rparr>" by auto
  from password_retyped [OF printable(1), of "\<lparr>awaited = ?retyped, drawn = d\<rparr>" sample_window "[]"] obtain d'
    where "?dialogue \<lparr>awaited = ?retyped, drawn = d\<rparr> = Some (Inr ''pw'', \<lparr>awaited = [], drawn = d'\<rparr>)" by auto
  with mistyped have run: "?dialogue typed_password = Some (Inr ''pw'', \<lparr>awaited = [], drawn = d'\<rparr>)" by simp
  from password_is_confirmed [OF this] run show ?thesis by auto
qed

subsection \<open>The last screen\<close>

definition undecided :: "window_size \<times> stroke \<Rightarrow> bool" where
  "undecided = (\<lambda>(win, s). case s of Key key \<Rightarrow> key \<notin> {121, 89, 110, 78, KEY_Q} | Ctrl_C \<Rightarrow> False)"

lemma confirm_list_decides:
  "run_list (confirm_list title rows) c s t = Some (Inr (c', b), t') \<Longrightarrow>
     \<exists>before win key. awaited t = before @ (win, Key key) # awaited t' \<and> list_all undecided before \<and>
       key \<in> {121, 89, 110, 78, KEY_Q} \<and> (b \<longleftrightarrow> key \<in> {121, 89})"
proof (induction "length (awaited t)" arbitrary: c s t rule: less_induct)
  case less
  let ?menu = "confirm_list title rows"
  from less.prems obtain win key t1 where read: "read_key (draw_list ?menu s c) t = Some (Inr (win, key), t1)"
    by (subst (asm) run_list.simps) (auto split: option.splits sum.splits)
  then have t: "awaited t = (win, Key key) # awaited t1"
    by (auto simp: read_key_def Let_def split: list.splits stroke.splits)
  have go_on: ?case if "run_list ?menu c1 s1 t1 = Some (Inr (c', b), t')" and "undecided (win, Key key)" for c1 s1
  proof -
    have "length (awaited t1) < length (awaited t)" using t by simp
    from less.hyps [OF this that(1)] obtain before win' key' where "awaited t1 = before @ (win', Key key') # awaited t'"
      "list_all undecided before" "key' \<in> {121, 89, 110, 78, KEY_Q}" "b \<longleftrightarrow> key' \<in> {121, 89}" by blast
    with t that(2) show ?thesis
      by (intro exI [of _ "(win, Key key) # before"] exI [of _ win'] exI [of _ key']) simp
  qed
  have handle: "handle_key ?menu = confirm_key" by (simp add: confirm_list_def)
  show ?case
  proof (cases "key \<in> {121, 89, 110, 78, KEY_Q}")
    case True
    then have "key \<noteq> KEY_UP" "key \<noteq> KEY_DOWN" by (auto simp: KEY_UP_def KEY_DOWN_def KEY_Q_def)
    with less.prems read True have "t' = t1 \<and> (b \<longleftrightarrow> key \<in> {121, 89})"
      by (subst (asm) run_list.simps) (auto simp: handle confirm_key_def Let_def)
    with t True show ?thesis by (intro exI [of _ "[]"] exI [of _ win] exI [of _ key]) simp
  next
    case False
    then have "undecided (win, Key key)" by (simp add: undecided_def)
    moreover from less.prems read False obtain c1 s1 where "run_list ?menu c1 s1 t1 = Some (Inr (c', b), t')"
      by (subst (asm) run_list.simps) (auto simp: handle confirm_key_def Let_def split: if_splits)
    ultimately show ?thesis by (intro go_on)
  qed
qed

text \<open>
  C37: The first of the keys y, Y, n, N and q decides the last screen, and only y and Y start the
  installation.
\<close>

theorem only_yes_confirms:
  assumes "confirm_screen title items t = Some (Inr b, t')"
  shows "\<exists>before win key. awaited t = before @ (win, Key key) # awaited t' \<and> list_all undecided before \<and>
    key \<in> {121, 89, 110, 78, KEY_Q} \<and> (b \<longleftrightarrow> key \<in> {121, 89})"
  using assms confirm_list_decides by (fastforce simp: confirm_screen_def mapD_Inr_iff)

theorem only_yes_confirms_witness:
  "\<exists>t'. confirm_screen ''Configuration Summary'' [] \<lparr>awaited = [(sample_window, Key 121)], drawn = []\<rparr> = Some (Inr True, t') \<and>
     (\<exists>before win key. [(sample_window, Key 121)] = before @ (win, Key key) # awaited t' \<and> list_all undecided before \<and>
       key \<in> {121, 89, 110, 78, KEY_Q} \<and> key \<in> {121, 89})"
proof -
  have "\<exists>t'. run_list (confirm_list ''Configuration Summary'' []) 0 False \<lparr>awaited = [(sample_window, Key 121)], drawn = []\<rparr>
      = Some (Inr (0, True), t')"
    by (subst run_list.simps) (simp add: KEY_UP_def KEY_DOWN_def confirm_list_def confirm_key_def)
  then obtain t' where run: "confirm_screen ''Configuration Summary'' [] \<lparr>awaited = [(sample_window, Key 121)], drawn = []\<rparr>
      = Some (Inr True, t')" by (auto simp: confirm_screen_def mapD_Inr_iff)
  from only_yes_confirms [OF run] run show ?thesis by auto
qed

end
