(* ===== verification/Setup_Keys.thy ===== *)
theory Setup_Keys
  imports Tui_Frontend
begin

text \<open>
  What single keys do to the interactive setup: Ctrl+C leaves it wherever it is, and Enter accepts
  what a screen starts on. The laws are stated for dialogues and used on every widget.
\<close>

subsection \<open>Leaving\<close>

text \<open>
  A dialogue can be left: from a user who may press Ctrl+C it returns, and either that
  interruption ended it or the user may still press the keys.
\<close>

definition leaves :: "('u \<Rightarrow> bool) \<Rightarrow> ('u, 'a) dialogue \<Rightarrow> bool" where
  "leaves may m \<longleftrightarrow> (\<forall>u. may u \<longrightarrow>
     (\<exists>r u'. m u = Some (r, u') \<and> (may u' \<or> r = Inl (Keyboard_Interrupt []))))"

definition interruptible :: "terminal \<Rightarrow> bool" where
  "interruptible t \<longleftrightarrow> Ctrl_C \<in> snd ` set (awaited t)"

named_theorems leaving

lemma leaves_pure [leaving]:
  "leaves may (returnD x)" "leaves may (raiseD e)" "leaves may (liftD r)"
  by (simp_all add: leaves_def)

lemma leaves_bindD [leaving]:
  assumes "leaves may m" and "\<And>x. leaves may (f x)"
  shows "leaves may (bindD m f)"
  unfolding leaves_def
proof (intro allI impI)
  fix u
  assume "may u"
  with assms(1) obtain r u1 where m: "m u = Some (r, u1)" and on: "may u1 \<or> r = Inl (Keyboard_Interrupt [])"
    unfolding leaves_def by blast
  show "\<exists>r u'. bindD m f u = Some (r, u') \<and> (may u' \<or> r = Inl (Keyboard_Interrupt []))"
  proof (cases r)
    case (Inl e)
    with m on show ?thesis by (auto simp: bindD_def)
  next
    case (Inr x)
    with m on have "bindD m f u = f x u1" "may u1" by (auto simp: bindD_def)
    with assms(2) [of x] show ?thesis by (auto simp: leaves_def)
  qed
qed

lemma leaves_mapD [leaving]: "leaves may m \<Longrightarrow> leaves may (mapD g m)"
  unfolding mapD_def by (intro leaving)

lemma leaves_foldD [leaving]: "(\<And>x s. leaves may (f x s)) \<Longrightarrow> leaves may (foldD f xs s)"
  by (induction xs arbitrary: s) (auto intro!: leaving)

lemma leaves_talk [leaving]: "leaves may m \<Longrightarrow> leaves (may \<circ> fst) (talk m)"
  unfolding leaves_def by (fastforce simp: talk_def)

lemma leaves_act [leaving]: "leaves (may \<circ> fst) (act os m)"
  by (auto simp: leaves_def act_def split: prod.splits)

lemma read_key_interruptible:
  assumes "interruptible t"
  obtains (interrupted) t1 where "read_key draw t = Some (Inl (Keyboard_Interrupt []), t1)"
  | (pressed) win key t1 where "read_key draw t = Some (Inr (win, key), t1)" and "interruptible t1"
      and "length (awaited t1) < length (awaited t)"
proof (cases "awaited t")
  case Nil
  with assms show ?thesis by (simp add: interruptible_def)
next
  case (Cons k ks)
  obtain win s where k: "k = (win, s)" by fastforce
  show ?thesis
  proof (cases s)
    case (Key key)
    with Cons k assms show ?thesis by (intro pressed) (auto simp: interruptible_def read_key_def Let_def)
  next
    case Ctrl_C
    with Cons k show ?thesis by (intro interrupted) (simp add: read_key_def Let_def)
  qed
qed

lemma leaves_read [leaving]: "leaves interruptible (read_key draw)"
  unfolding leaves_def
proof (intro allI impI)
  fix t
  assume "interruptible t"
  then show "\<exists>r t'. read_key draw t = Some (r, t') \<and> (interruptible t' \<or> r = Inl (Keyboard_Interrupt []))"
    by (cases rule: read_key_interruptible [where draw = draw]) simp_all
qed

lemma leaves_run_list [leaving]: "leaves interruptible (run_list menu c s)"
proof -
  have "interruptible t \<Longrightarrow> \<exists>r t'. run_list menu c s t = Some (r, t') \<and>
      (interruptible t' \<or> r = Inl (Keyboard_Interrupt []))" for t
  proof (induction "length (awaited t)" arbitrary: c s t rule: less_induct)
    case less
    from less.prems show ?case
    proof (cases rule: read_key_interruptible [where draw = "draw_list menu s c"])
      case (interrupted t1)
      then show ?thesis by (subst run_list.simps) simp
    next
      case (pressed win key t1)
      note again = less.hyps [OF pressed(3,2)]
      from pressed again show ?thesis
        by (subst run_list.simps) (auto split: sum.splits)
    qed
  qed
  then show ?thesis by (simp add: leaves_def)
qed

lemma leaves_edit_entry [leaving]: "leaves interruptible (edit_entry draw entry)"
proof -
  have "interruptible t \<Longrightarrow> \<exists>r t'. edit_entry draw entry t = Some (r, t') \<and>
      (interruptible t' \<or> r = Inl (Keyboard_Interrupt []))" for t
  proof (induction "length (awaited t)" arbitrary: entry t rule: less_induct)
    case less
    from less.prems show ?case
    proof (cases rule: read_key_interruptible [where draw = "draw entry"])
      case (interrupted t1)
      then show ?thesis by (subst edit_entry.simps) simp
    next
      case (pressed win key t1)
      note again = less.hyps [OF pressed(3,2)]
      from pressed again show ?thesis
        by (subst edit_entry.simps) (auto split: prod.splits option.splits)
    qed
  qed
  then show ?thesis by (simp add: leaves_def)
qed

lemma leaves_text_input [leaving]: "leaves interruptible (text_input title prompt inh required masked)"
  unfolding text_input_def by (rule leaving)

lemma leaves_password [leaving]: "leaves interruptible (password_input_with_confirm title prompt)"
proof -
  have "interruptible t \<Longrightarrow> \<exists>r t'. password_input_with_confirm title prompt t = Some (r, t') \<and>
      (interruptible t' \<or> r = Inl (Keyboard_Interrupt []))" for t
  proof (induction "length (awaited t)" arbitrary: t rule: less_induct)
    case less
    let ?second = "text_input title ''Confirm password:'' None True True"
    from less.prems leaves_text_input obtain r1 t1 where first: "text_input title prompt None True True t = Some (r1, t1)"
      and on1: "interruptible t1 \<or> r1 = Inl (Keyboard_Interrupt [])" unfolding leaves_def by meson
    show ?case
    proof (cases r1)
      case (Inl e)
      with first on1 show ?thesis by (subst password_input_with_confirm.simps) auto
    next
      case r1: (Inr p1)
      with on1 have "interruptible t1" by simp
      with leaves_text_input obtain r2 t2 where second: "?second t1 = Some (r2, t2)"
        and on2: "interruptible t2 \<or> r2 = Inl (Keyboard_Interrupt [])" unfolding leaves_def by meson
      show ?thesis
      proof (cases r2)
        case (Inl e)
        with first r1 second on2 show ?thesis by (subst password_input_with_confirm.simps) auto
      next
        case r2: (Inr p2)
        with on2 have "interruptible t2" by simp
        then show ?thesis
        proof (cases rule: read_key_interruptible [where draw = "draw_mismatch title"])
          case (interrupted t3)
          with first r1 second r2 \<open>interruptible t2\<close> show ?thesis by (subst password_input_with_confirm.simps) auto
        next
          case (pressed win key t3)
          with edit_entry_consumes [OF first [unfolded text_input_def]] edit_entry_consumes [OF second [unfolded text_input_def]]
          have "length (awaited t3) < length (awaited t)" by simp
          from less.hyps [OF this pressed(2)] first r1 second r2 pressed \<open>interruptible t2\<close> show ?thesis
            by (subst password_input_with_confirm.simps) auto
        qed
      qed
    qed
  qed
  then show ?thesis by (simp add: leaves_def)
qed

text \<open>A front-end whose every screen can be left.\<close>

locale leaving_frontend =
  fixes frontend :: "'u frontend" and may :: "'u \<Rightarrow> bool"
  assumes switch_leaves: "leaves may (ask_switch frontend step q switch_state)"
    and choose_one_leaves: "leaves may (choose_one frontend step q choices shown)"
    and choose_many_leaves: "leaves may (choose_many frontend step q selected)"
    and text_leaves: "leaves may (enter_text frontend step q shown_text)"
    and keep_leaves: "leaves may (keep_secret frontend step q source)"
    and secret_leaves: "leaves may (enter_secret frontend step q)"
    and review_leaves: "leaves may (review frontend rows)"
begin

lemmas screens_leave = switch_leaves choose_one_leaves choose_many_leaves text_leaves keep_leaves secret_leaves review_leaves

lemma answer_leaves: "leaves (may \<circ> fst) (answer os machine inh frontend step st s)"
proof -
  have if_leaves: "(b \<Longrightarrow> leaves (may \<circ> fst) m) \<Longrightarrow> (\<not> b \<Longrightarrow> leaves (may \<circ> fst) m') \<Longrightarrow> leaves (may \<circ> fst) (if b then m else m')"
    for b and m m' :: "('u, 'x) setup_dialogue" by simp
  show ?thesis
    unfolding answer_def ask_choose_one_def ask_choose_many_def ask_secret_def Let_def
    by (auto intro!: leaving screens_leave if_leaves split: option.split question.split sum.split)
qed

lemma run_setup_leaves: "leaves (may \<circ> fst) (run_setup os machine inh frontend)"
proof -
  have "leaves (may \<circ> fst) (ask_if_wanted os machine inh frontend item s)" for item s
    by (cases item) (auto simp: ask_if_wanted_def ask_def intro!: leaving answer_leaves)
  then show ?thesis unfolding run_setup_def
    by (intro leaving) (auto intro!: leaving screens_leave split: if_split)
qed

end

interpretation tui: leaving_frontend curses_frontend interruptible
proof
  fix step q source rows and switch_state :: "bool inherited option" and choices :: "choice list"
    and shown :: "pyval inherited option" and selected :: "pyval list inherited option" and shown_text :: "string inherited option"
  show "leaves interruptible (ask_switch curses_frontend step q switch_state)"
    by (cases q) (auto simp: curses_frontend_def wrong_question_def radio_menu_def Let_def intro!: leaving split: prod.split)
  show "leaves interruptible (choose_one curses_frontend step q choices shown)"
    by (cases q) (auto simp: curses_frontend_def wrong_question_def radio_menu_def Let_def intro!: leaving split: prod.split)
  show "leaves interruptible (choose_many curses_frontend step q selected)"
    by (cases q) (auto simp: curses_frontend_def wrong_question_def checkbox_menu_def Let_def intro!: leaving)
  show "leaves interruptible (enter_text curses_frontend step q shown_text)"
    by (cases q) (auto simp: curses_frontend_def wrong_question_def intro!: leaving)
  show "leaves interruptible (keep_secret curses_frontend step q source)"
    by (cases q) (auto simp: curses_frontend_def wrong_question_def radio_menu_def intro!: leaving split: prod.split)
  show "leaves interruptible (enter_secret curses_frontend step q)"
    by (cases q) (auto simp: curses_frontend_def wrong_question_def intro!: leaving)
  show "leaves interruptible (review curses_frontend rows)"
    by (auto simp: curses_frontend_def curses_review_def confirm_screen_def intro!: leaving)
qed

subsection \<open>Accepting\<close>

text \<open>A dialogue that Enter, pressed once, ends with a value.\<close>

definition accepts :: "window_size \<Rightarrow> (terminal, 'a) dialogue \<Rightarrow> 'a \<Rightarrow> bool" where
  "accepts win m x \<longleftrightarrow> (\<forall>rest d. \<exists>d'. m \<lparr>awaited = (win, Key KEY_ENTER) # rest, drawn = d\<rparr>
     = Some (Inr x, \<lparr>awaited = rest, drawn = d'\<rparr>))"

named_theorems accepting

lemma accepts_mapD [accepting]: "accepts win m x \<Longrightarrow> y = g x \<Longrightarrow> accepts win (mapD g m) y"
  unfolding accepts_def by (metis mapD_step)

lemma accepts_bindD [accepting]: "accepts win m x \<Longrightarrow> (\<And>u. f x u = Some (Inr y, u)) \<Longrightarrow> accepts win (bindD m f) y"
  unfolding accepts_def by (metis bindD_step)

lemma accepts_lifted [accepting]: "accepts win m x \<Longrightarrow> f x = Inr y \<Longrightarrow> accepts win (bindD m (\<lambda>x. liftD (f x))) y"
  by (rule accepts_bindD) (auto simp: liftD_def)

lemma accepts_run_list [accepting]:
  "handle_key menu KEY_ENTER c s = Inr (True, s') \<Longrightarrow> accepts win (run_list menu c s) (c, s')"
  unfolding accepts_def
  by (subst run_list.simps) (simp add: KEY_ENTER_def KEY_UP_def KEY_DOWN_def)

lemma enter_is_enter [simp]: "KEY_ENTER \<in> set ENTER_KEYS"
  by (simp add: ENTER_KEYS_def)

lemma item_at_nth: "i < length xs \<Longrightarrow> item_at xs (int i) = Inr (xs ! i)"
  by (simp add: item_at_def)

lemma first_hit: "list_ex p xs \<Longrightarrow> length (takeWhile (\<lambda>x. \<not> p x) xs) < length xs \<and> p (xs ! length (takeWhile (\<lambda>x. \<not> p x) xs))"
  by (induction xs) auto

lemma position_or_first_bound: "xs \<noteq> [] \<Longrightarrow> position_or_first p xs < length xs"
  using first_hit [of p xs] by (simp add: position_or_first_def)

lemma position_or_first_hits: "list_ex p xs \<Longrightarrow> p (xs ! position_or_first p xs)"
  using first_hit [of p xs] by (simp add: position_or_first_def)

lemma accepts_radio [accepting]:
  assumes "opts \<noteq> []"
  shows "accepts win (radio_menu title opts inh description) (option_value (opts ! radio_start opts inh))"
proof -
  have "handle_key (radio_list title opts inh description) KEY_ENTER (int (radio_start opts inh)) () = Inr (True, ())"
    by (simp add: radio_list_def)
  note run = accepts_run_list [OF this, of win]
  show ?thesis
    unfolding radio_menu_def
    by (rule accepts_bindD [OF run])
      (simp add: item_at_nth radio_start_def liftD_def position_or_first_bound [OF assms])
qed

lemma accepts_radio_inherited:
  assumes "inherited_value i \<in> option_value ` set opts"
  shows "accepts win (radio_menu title opts (Some i) description) (inherited_value i)"
proof -
  let ?p = "\<lambda>opt. Some (option_value opt) = map_option inherited_value (Some i)"
  from assms have opts: "opts \<noteq> []" and "list_ex ?p opts" by (auto simp: list_ex_iff)
  from position_or_first_hits [OF this(2)] have "option_value (opts ! radio_start opts (Some i)) = inherited_value i"
    by (simp add: radio_start_def)
  with accepts_radio [OF opts, of win title "Some i" description] show ?thesis by simp
qed

text \<open>A text field that is shown a text, and a switch.\<close>

lemma accepts_text_input:
  assumes "inherited_value i \<noteq> []"
  shows "accepts win (text_input title prompt (Some i) required masked) (inherited_value i)"
  unfolding accepts_def text_input_def
  by (subst edit_entry.simps) (simp add: press_def submit_def new_entry_def assms)

lemma accepts_switch:
  "accepts win (curses_switch step (Switch label on_label off_label description) (Some \<lparr>inherited_value = b, inherited_source = src\<rparr>)) b"
proof -
  let ?opts = "[menu_item ''off'' off_label, menu_item ''on'' on_label]"
  let ?shown = "\<lparr>inherited_value = (if b then ''on'' else ''off''), inherited_source = src\<rparr>"
  have "accepts win (radio_menu (screen_title step label) ?opts (Some ?shown) description) (inherited_value ?shown)"
    by (rule accepts_radio_inherited) (simp add: menu_item_def)
  then show ?thesis by (cases b) (simp_all add: Let_def, (rule accepts_mapD, assumption, simp)+)
qed

text \<open>A password that is inherited: Enter keeps it.\<close>

lemma accepts_keep: "accepts win (curses_keep_secret step (Enter_Secret label prompt confirm) source) True"
proof -
  have "accepts win (radio_menu (screen_title step label) SECRET_OPTIONS None (label @ '': inherited from '' @ source @ ''.''))
      (option_value (SECRET_OPTIONS ! radio_start SECRET_OPTIONS None))"
    by (rule accepts_radio) (simp add: SECRET_OPTIONS_def)
  also have "option_value (SECRET_OPTIONS ! radio_start SECRET_OPTIONS None) = KEEP_SECRET"
    by (simp add: SECRET_OPTIONS_def radio_start_def position_or_first_def menu_item_def)
  finally show ?thesis by simp (rule accepts_mapD, assumption, simp)
qed

text \<open>A choice that is offered stays chosen; one that is not offered gives way to the first.\<close>

lemma positions_first:
  "positions_of choices [v] =
     map string_of_nat (filter (\<lambda>i. py_eq (choice_value (choices ! i)) v) [0..<length choices])"
proof -
  have "enumerate 0 choices = map (\<lambda>i. (i, choices ! i)) [0..<length choices]"
    by (rule nth_equalityI) (simp_all add: nth_enumerate_eq)
  then show ?thesis by (simp add: positions_of_def filter_map comp_def)
qed

lemma accepts_choose_one:
  assumes "List.find (\<lambda>ch. py_eq (choice_value ch) v) choices = Some ch"
  shows "accepts win (curses_choose_one step (Choose_One label source description prompt) choices
    (Some \<lparr>inherited_value = v, inherited_source = src\<rparr>)) (choice_value ch)"
proof -
  let ?p = "\<lambda>i. py_eq (choice_value (choices ! i)) v"
  from assms obtain i where i: "i < length choices" "?p i" "ch = choices ! i" and first: "\<forall>j < i. \<not> ?p j"
    by (auto simp: find_Some_iff)
  have "[0..<length choices] = [0..<i] @ i # [Suc i..<length choices]"
    using i(1) upt_add_eq_append [of 0 i "length choices - i"] by (simp add: upt_conv_Cons)
  with i(2) first have "filter ?p [0..<length choices] = i # filter ?p [Suc i..<length choices]"
    by (simp add: filter_empty_conv)
  then have positions: "positions_of choices [v] = string_of_nat i # map string_of_nat (filter ?p [Suc i..<length choices])"
    by (simp add: positions_first)
  let ?shown = "\<lparr>inherited_value = string_of_nat i, inherited_source = src\<rparr>"
  have "set (map option_value (options_of choices)) = string_of_nat ` {0..<length choices}"
    by (simp add: option_values)
  then have "inherited_value ?shown \<in> option_value ` set (options_of choices)" using i(1) by auto
  from accepts_radio_inherited [OF this] have
    "accepts win (radio_menu (screen_title step label) (options_of choices) (Some ?shown) description) (string_of_nat i)"
    by simp
  then show ?thesis
    using i by (simp add: positions Let_def) (rule accepts_lifted, assumption, simp add: choice_at_position)
qed

lemma enter_takes_first_choice:
  assumes "choices \<noteq> []" and "List.find (\<lambda>ch. py_eq (choice_value ch) v) choices = None"
  shows "accepts win (curses_choose_one step (Choose_One label source description prompt) choices
    (Some \<lparr>inherited_value = v, inherited_source = src\<rparr>)) (choice_value (hd choices))"
proof -
  let ?opts = "options_of choices"
  have positions: "positions_of choices [v] = []"
    using assms(2) by (auto simp: positions_first find_None_iff filter_empty_conv)
  have "map option_value ?opts = map string_of_nat [0..<length choices]" by (rule option_values)
  with assms(1) have opts: "?opts \<noteq> []" "option_value (?opts ! 0) = string_of_nat 0"
    by (auto simp: upt_rec [of 0] neq_Nil_conv)
  have "radio_start ?opts None = 0" by (simp add: radio_start_def position_or_first_def list_ex_iff)
  with accepts_radio [OF opts(1), of win _ None] opts(2)
  have "accepts win (radio_menu (screen_title step label) ?opts None description) (string_of_nat 0)" by simp
  then show ?thesis using assms(1)
    by (simp add: positions Let_def) (rule accepts_lifted, assumption, simp add: choice_at_position hd_conv_nth)
qed

text \<open>A selection keeps the offered choices that were selected.\<close>

lemma accepts_choose_many:
  "accepts win (curses_choose_many step (Choose_Many label choices description)
       (Some \<lparr>inherited_value = items, inherited_source = src\<rparr>))
     (map choice_value (filter (\<lambda>ch. list_ex (py_eq (choice_value ch)) items) choices))"
proof -
  let ?p = "\<lambda>i. list_ex (py_eq (choice_value (choices ! i))) items"
  let ?ps = "filter ?p [0..<length choices]"
  have enum: "enumerate 0 choices = map (\<lambda>i. (i, choices ! i)) [0..<length choices]"
    by (rule nth_equalityI) (simp_all add: nth_enumerate_eq)
  then have positions: "positions_of choices items = map string_of_nat ?ps"
    by (simp add: positions_of_def filter_map comp_def)
  let ?shown = "\<lparr>inherited_value = positions_of choices items, inherited_source = src\<rparr>"
  let ?menu = "checkbox_list (screen_title step label) (options_of choices) (Some ?shown) description"
  have "handle_key ?menu KEY_ENTER 0 s = Inr (True, s)" for s
    by (simp add: checkbox_list_def checkbox_key_def KEY_ENTER_def KEY_SPACE_def ENTER_KEYS_def)
  from accepts_run_list [OF this] have run: "accepts win (run_list ?menu 0 s) (0, s)" for s .
  have "filter (\<lambda>v. v \<in> set (map string_of_nat ?ps)) (map string_of_nat [0..<length choices]) = map string_of_nat ?ps"
    by (auto simp: filter_map comp_def string_of_nat_inject intro!: arg_cong [of _ _ "map string_of_nat"] filter_cong)
  then have "accepts win (checkbox_menu (screen_title step label) (options_of choices) (Some ?shown) description) (map string_of_nat ?ps)"
    unfolding checkbox_menu_def by (intro accepts_mapD [OF run]) (simp add: option_values positions)
  moreover have "mapE (choice_at choices) (map string_of_nat ?ps) = Inr (map (\<lambda>i. choice_value (choices ! i)) ?ps)"
    by (auto simp: mapE_Inr_iff list_all2_conv_all_nth choice_at_position dest: nth_mem)
  moreover have "map choice_value (filter (\<lambda>ch. list_ex (py_eq (choice_value ch)) items) choices)
      = map (\<lambda>i. choice_value (choices ! i)) ?ps"
    using filter_map [of "\<lambda>ch. list_ex (py_eq (choice_value ch)) items" "\<lambda>i. choices ! i" "[0..<length choices]"]
    by (simp only: map_nth) (simp add: comp_def)
  ultimately show ?thesis by (simp add: Let_def) (rule accepts_lifted, assumption, simp)
qed

end
