(* ===== verification/Setup_Properties.thy ===== *)
theory Setup_Properties
  imports Setup_Keys Config_Properties Sample_Config
begin

text \<open>
  Correctness of the interactive setup: it can always be left, it asks what applies, its answers
  are values the builder takes, and accepting every screen keeps what was inherited.
\<close>

subsection \<open>Leaving\<close>

text \<open>
  C34: The interactive setup can be left at every screen: when the user may press Ctrl+C it ends,
  either interrupted by that key or before it was pressed.
\<close>

theorem setup_can_be_left:
  assumes "Ctrl_C \<in> snd ` set (awaited t)"
  shows "\<exists>r t' h'. run_tui_setup os inh (t, h) = Some (r, t', h') \<and>
    (r = Inl (Keyboard_Interrupt []) \<or> Ctrl_C \<in> snd ` set (awaited t'))"
proof -
  have "leaves (interruptible \<circ> fst) (run_tui_setup os inh)"
    unfolding run_tui_setup_def info_screen_def by (intro leaving tui.run_setup_leaves)
  then have "interruptible t \<Longrightarrow> \<exists>r u. run_tui_setup os inh (t, h) = Some (r, u) \<and>
      (interruptible (fst u) \<or> r = Inl (Keyboard_Interrupt []))"
    by (simp add: leaves_def)
  with assms show ?thesis by (auto simp: interruptible_def)
qed

definition interrupted_setup :: terminal where
  "interrupted_setup = \<lparr>awaited = [(\<lparr>max_y = 24, max_x = 80\<rparr>, Key KEY_ENTER), (\<lparr>max_y = 24, max_x = 80\<rparr>, Ctrl_C)], drawn = []\<rparr>"

theorem setup_can_be_left_witness:
  "\<exists>r t' h'. run_tui_setup refusing_machine [] (interrupted_setup, []) = Some (r, t', h') \<and>
    (r = Inl (Keyboard_Interrupt []) \<or> Ctrl_C \<in> snd ` set (awaited t'))"
  by (rule setup_can_be_left) (simp add: interrupted_setup_def)

subsection \<open>Accepting every screen\<close>

text \<open>
  An inherited value that its question shows as it is: a switch shows a truth value, a text field a
  text, a menu a value it offers. The drives offered depend on the machine; where it lists none,
  the path is entered.
\<close>

definition offers_choice :: "choice list \<Rightarrow> pyval \<Rightarrow> bool" where
  "offers_choice choices v \<longleftrightarrow>
     (if choices = [] then is_entered v
      else case List.find (\<lambda>ch. py_eq (choice_value ch) v) choices of None \<Rightarrow> False | Some ch \<Rightarrow> choice_value ch = v)"

fun acceptable :: "os \<Rightarrow> setting_value \<Rightarrow> question \<Rightarrow> bool" where
  "acceptable os sv (Switch label on_label off_label description) = (given_value sv \<in> {PBool True, PBool False})"
| "acceptable os sv (Choose_One label source description prompt) =
     (py_eq (given_value sv) (given_value sv) \<and> given_value sv \<noteq> PNone \<and>
      (\<forall>h. case choices_from source (Some sv) machine_disks os h of
           (Inl e, h') \<Rightarrow> False
         | (Inr choices, h') \<Rightarrow> offers_choice choices (given_value sv)))"
| "acceptable os sv (Choose_Many label choices description) =
     (\<exists>ss. given_value sv \<in> {PList (map PStr ss), PTuple (map PStr ss)} \<and>
        list_all (\<lambda>s. PStr s \<in> choice_value ` set choices) ss)"
| "acceptable os sv (Enter_Text label prompt) = is_entered (given_value sv)"
| "acceptable os sv (Enter_Secret label prompt confirm) = is_entered (given_value sv)"

declare acceptable.simps [simp del]

definition acceptable_setting :: "os \<Rightarrow> sourced_settings \<Rightarrow> step_setting \<Rightarrow> bool" where
  "acceptable_setting os inh st =
     (case (setting_question st, map_of inh (setting_path st)) of
        (Some q, Some sv) \<Rightarrow> acceptable os sv q
      | _ \<Rightarrow> False)"

lemma py_eq_texts: "py_eq v (PStr s) \<longleftrightarrow> v = PStr s"
  by (cases v) (auto simp: number_of_def)

lemma py_eq_list_texts: "py_eq_list (map PStr ss) (map PStr ss)"
  by (induction ss) (simp_all del: py_eq.simps add: py_eq_texts)

lemma is_entered_iff: "is_entered v \<longleftrightarrow> (\<exists>s. v = PStr s \<and> s \<noteq> [])"
  by (cases v) (simp_all add: is_entered_def)

lemma acceptable_same: "acceptable os sv q \<Longrightarrow> py_eq (given_value sv) (given_value sv) \<and> given_value sv \<noteq> PNone"
  by (cases q) (auto simp: acceptable.simps is_entered_iff py_eq_list_texts number_of_def)

lemma talk_accepts:
  "accepts win m x \<Longrightarrow> \<exists>d'. talk m (\<lparr>awaited = (win, Key KEY_ENTER) # rest, drawn = d\<rparr>, h) = Some (Inr x, \<lparr>awaited = rest, drawn = d'\<rparr>, h)"
  unfolding accepts_def talk_def by (auto dest!: spec [of _ rest] spec [of _ d])

definition setup_accepts :: "window_size \<Rightarrow> (terminal, 'a) setup_dialogue \<Rightarrow> ('a \<Rightarrow> bool) \<Rightarrow> bool" where
  "setup_accepts win m P \<longleftrightarrow> (\<forall>rest d h. \<exists>x d' h'. P x \<and>
     m (\<lparr>awaited = (win, Key KEY_ENTER) # rest, drawn = d\<rparr>, h) = Some (Inr x, \<lparr>awaited = rest, drawn = d'\<rparr>, h'))"

lemma setup_acceptsD: "setup_accepts win m P \<Longrightarrow> \<exists>x d' h'. P x \<and>
     m (\<lparr>awaited = (win, Key KEY_ENTER) # rest, drawn = d\<rparr>, h) = Some (Inr x, \<lparr>awaited = rest, drawn = d'\<rparr>, h')"
  by (simp add: setup_accepts_def)

lemma setup_accepts_talk: "accepts win m x \<Longrightarrow> P x \<Longrightarrow> setup_accepts win (talk m) P"
  unfolding setup_accepts_def by (meson talk_accepts)

lemma setup_accepts_mapD: "setup_accepts win m (\<lambda>x. P (g x)) \<Longrightarrow> setup_accepts win (mapD g m) P"
  unfolding setup_accepts_def mapD_Inr_iff by metis

lemma setup_accepts_before:
  "(\<And>u. m u = Some (Inr x, u)) \<Longrightarrow> setup_accepts win (f x) P \<Longrightarrow> setup_accepts win (bindD m f) P"
  unfolding setup_accepts_def by (simp add: bindD_def)

lemma setup_accepts_after:
  "setup_accepts win m (\<lambda>x. \<exists>y. P y \<and> (\<forall>u. f x u = Some (Inr y, u))) \<Longrightarrow> setup_accepts win (bindD m f) P"
  unfolding setup_accepts_def by (metis bindD_step)

lemma inherited_as_shown:
  "given_value sv \<noteq> PNone \<Longrightarrow> convert_to (given_value sv) = Inr x \<Longrightarrow>
     liftD (inherited_as convert_to (Some sv)) u =
       Some (Inr (Some \<lparr>inherited_value = x, inherited_source = value_source_text (given_by sv)\<rparr>), u)"
  by (simp add: inherited_as_def liftD_def)

lemma inherited_text_shown:
  "is_entered (given_value sv) \<Longrightarrow> \<exists>s. given_value sv = PStr s \<and> s \<noteq> [] \<and>
     inherited_text (Some sv) = Some \<lparr>inherited_value = s, inherited_source = value_source_text (given_by sv)\<rparr>"
  by (auto simp: is_entered_iff inherited_text_def)

lemma text_accepted:
  assumes "is_entered (given_value sv)"
  shows "setup_accepts win (mapD (\<lambda>typed. (PStr typed, s))
    (talk (enter_text curses_frontend step (Enter_Text label prompt) (inherited_text (Some sv))))) (\<lambda>(v, _). v = given_value sv)"
proof -
  from inherited_text_shown [OF assms] obtain shown_text where shown_text: "given_value sv = PStr shown_text" "shown_text \<noteq> []"
    and shown: "inherited_text (Some sv) = Some \<lparr>inherited_value = shown_text, inherited_source = value_source_text (given_by sv)\<rparr>" by blast
  have "accepts win (enter_text curses_frontend step (Enter_Text label prompt) (inherited_text (Some sv))) shown_text"
    using accepts_text_input [of "\<lparr>inherited_value = shown_text, inherited_source = value_source_text (given_by sv)\<rparr>"] shown_text(2)
    by (simp add: curses_frontend_def shown)
  from setup_accepts_talk [OF this] shown_text(1) show ?thesis by (intro setup_accepts_mapD) simp
qed

lemma choose_one_accepted:
  assumes "acceptable os sv (Choose_One label source description prompt)"
  shows "setup_accepts win (ask_choose_one os machine_disks curses_frontend step path
      (Choose_One label source description prompt) source label prompt (Some sv) s) (\<lambda>(v, _). v = given_value sv)"
  unfolding setup_accepts_def
proof (intro allI)
  fix rest d h
  let ?q = "Choose_One label source description prompt"
  have source: "(case source of Inl choices \<Rightarrow> returnD choices
      | Inr compute \<Rightarrow> act os (compute (case Some sv of None \<Rightarrow> PNone | Some v \<Rightarrow> given_value v) machine_disks))
    = act os (choices_from source (Some sv) machine_disks)"
    by (cases source) (auto simp: choices_from_def act_def returnD_def returnA_apply)
  from assms obtain choices h1 where choices: "choices_from source (Some sv) machine_disks os h = (Inr choices, h1)"
    and v: "offers_choice choices (given_value sv)" and not_none: "given_value sv \<noteq> PNone"
    unfolding acceptable.simps by (cases "choices_from source (Some sv) machine_disks os h") (auto split: sum.splits dest!: spec [of _ h])
  let ?start = "(\<lparr>awaited = (win, Key KEY_ENTER) # rest, drawn = d\<rparr>, h1)"
  let ?s = "s\<lparr>offered_choices := AList.update path choices (offered_choices s)\<rparr>"
  let ?ask = "if choices = []
    then mapD (\<lambda>typed. (PStr typed, s)) (talk (enter_text curses_frontend step (Enter_Text label prompt) (inherited_text (Some sv))))
    else bindD (liftD (inherited_as Inr (Some sv))) (\<lambda>shown. mapD (\<lambda>chosen. (chosen, ?s))
      (talk (choose_one curses_frontend step ?q choices shown)))"
  have "setup_accepts win ?ask (\<lambda>(v, _). v = given_value sv)"
  proof (cases "choices = []")
    case True
    with v text_accepted show ?thesis by (simp add: offers_choice_def)
  next
    case False
    with v obtain ch where ch: "List.find (\<lambda>ch. py_eq (choice_value ch) (given_value sv)) choices = Some ch"
      "choice_value ch = given_value sv" by (auto simp: offers_choice_def split: option.splits)
    from accepts_choose_one [OF ch(1)] ch(2) have "accepts win (choose_one curses_frontend step ?q choices
        (Some \<lparr>inherited_value = given_value sv, inherited_source = value_source_text (given_by sv)\<rparr>)) (given_value sv)"
      by (simp add: curses_frontend_def)
    from setup_accepts_talk [OF this] False show ?thesis
      by simp (rule setup_accepts_before [OF inherited_as_shown [OF not_none]], rule refl, intro setup_accepts_mapD, simp)
  qed
  then obtain x d' h' where "(\<lambda>(v, _). v = given_value sv) x" "?ask ?start = Some (Inr x, \<lparr>awaited = rest, drawn = d'\<rparr>, h')"
    unfolding setup_accepts_def by blast
  with choices show "\<exists>x d' h'. (\<lambda>(v, _). v = given_value sv) x \<and>
      ask_choose_one os machine_disks curses_frontend step path ?q source label prompt (Some sv) s
        (\<lparr>awaited = (win, Key KEY_ENTER) # rest, drawn = d\<rparr>, h) = Some (Inr x, \<lparr>awaited = rest, drawn = d'\<rparr>, h')"
    unfolding ask_choose_one_def source Let_def by (intro exI conjI) (assumption, subst bindD_step, auto simp: act_Some)
qed

lemma choose_many_accepted:
  assumes "acceptable os sv (Choose_Many label choices description)"
  shows "setup_accepts win (ask_choose_many curses_frontend step (Choose_Many label choices description) (Some sv))
    (\<lambda>v. v = given_value sv)"
proof -
  from assms obtain ss where v: "given_value sv = PList (map PStr ss) \<or> given_value sv = PTuple (map PStr ss)"
    and offered: "\<forall>s \<in> set ss. PStr s \<in> choice_value ` set choices"
    by (auto simp: acceptable.simps list_all_iff)
  let ?items = "map PStr ss"
  let ?chosen = "map choice_value (filter (\<lambda>ch. list_ex (py_eq (choice_value ch)) ?items) choices)"
  have items: "iterated (given_value sv) = Inr ?items" and not_none: "given_value sv \<noteq> PNone" using v by auto
  have "set ?chosen = set ?items"
  proof (intro equalityI subsetI)
    fix v
    assume "v \<in> set ?chosen"
    then show "v \<in> set ?items" by (auto simp: list_ex_iff py_eq_texts simp del: py_eq.simps)
  next
    fix v
    assume "v \<in> set ?items"
    then obtain s ch where "s \<in> set ss" "v = PStr s" "ch \<in> set choices" "choice_value ch = PStr s" using offered by fastforce
    moreover from this have "list_ex (py_eq (choice_value ch)) ?items"
      by (auto simp: list_ex_iff py_eq_texts simp del: py_eq.simps)
    ultimately show "v \<in> set ?chosen" by force
  qed
  then have same: "as_texts ?chosen = as_texts ?items" by (simp only: as_texts_def set_map)
  have "accepts win (choose_many curses_frontend step (Choose_Many label choices description)
      (Some \<lparr>inherited_value = ?items, inherited_source = value_source_text (given_by sv)\<rparr>)) ?chosen"
    using accepts_choose_many by (simp add: curses_frontend_def del: curses_choose_many.simps)
  note talked = setup_accepts_talk [OF this]
  show ?thesis
    unfolding ask_choose_many_def
    by (rule setup_accepts_before [OF inherited_as_shown [where convert_to = iterated, OF not_none items]], rule setup_accepts_after, rule talked)
      (simp add: items same bindD_def liftD_def returnD_def)
qed

lemma secret_accepted:
  assumes "acceptable os sv (Enter_Secret label prompt confirm)"
  shows "setup_accepts win (ask_secret curses_frontend step (Enter_Secret label prompt confirm) (Some sv)) (\<lambda>v. v = given_value sv)"
proof -
  from assms have "truthy (given_value sv)" by (auto simp: acceptable.simps is_entered_iff)
  moreover have "accepts win (keep_secret curses_frontend step (Enter_Secret label prompt confirm) source) True" for source
    using accepts_keep by (simp add: curses_frontend_def)
  ultimately show ?thesis
    unfolding ask_secret_def by simp (rule setup_accepts_after, rule setup_accepts_talk, assumption, simp add: returnD_def)
qed

lemma answer_accepted:
  assumes "setting_question st = Some q" and "map_of inh (setting_path st) = Some sv" and "acceptable os sv q"
  shows "setup_accepts win (answer os machine_disks inh curses_frontend step st s) (\<lambda>(v, s'). v = given_value sv)"
proof (cases q)
  case (Switch label on_label off_label description)
  with assms(3) obtain b where b: "given_value sv = PBool b" by (auto simp: acceptable.simps)
  let ?shown = "\<lparr>inherited_value = b, inherited_source = value_source_text (given_by sv)\<rparr>"
  have "accepts win (ask_switch curses_frontend step q (Some ?shown)) b"
    using accepts_switch by (simp add: curses_frontend_def Switch del: curses_switch.simps)
  from setup_accepts_talk [OF this] have "setup_accepts win (mapD (\<lambda>on. (PBool on, s)) (talk (ask_switch curses_frontend step q (Some ?shown))))
      (\<lambda>(v, s'). v = given_value sv)" by (intro setup_accepts_mapD) (simp add: b)
  then show ?thesis
    by (simp add: answer_def assms(1,2) Switch) (rule setup_accepts_before, rule inherited_as_shown, simp_all add: b)
next
  case (Choose_One label source description prompt)
  with assms choose_one_accepted show ?thesis by (simp add: answer_def)
next
  case (Choose_Many label choices description)
  with assms choose_many_accepted show ?thesis by (simp add: answer_def setup_accepts_mapD)
next
  case (Enter_Text label prompt)
  with assms text_accepted show ?thesis by (simp add: answer_def acceptable.simps)
next
  case (Enter_Secret label prompt confirm)
  with assms secret_accepted show ?thesis by (simp add: answer_def setup_accepts_mapD)
qed

text \<open>What holds of the session while every screen is accepted.\<close>

definition inherited_answer :: "sourced_settings \<Rightarrow> string \<times> pyval \<Rightarrow> bool" where
  "inherited_answer inh = (\<lambda>(p, v). py_eq v v \<and> map_option given_value (map_of inh p) = Some v)"

definition inherits_all :: "os \<Rightarrow> sourced_settings \<Rightarrow> session \<Rightarrow> bool" where
  "inherits_all os inh s \<longleftrightarrow> list_all (inherited_answer inh) (answers s) \<and>
     list_all (\<lambda>(step, st). acceptable_setting os inh st) (asked s)"

lemma inherits_all_values: "inherits_all os inh s \<Longrightarrow> session_value inh s = session_value inh new_session"
  by (rule ext) (fastforce simp: session_value_def inherits_all_def new_session_def inherited_answer_def list_all_iff
      dest: map_of_SomeD split: option.split)

lemma ask_accepted:
  assumes "acceptable_setting os inh st" and "inherits_all os inh s"
  shows "setup_accepts win (ask os machine_disks inh curses_frontend step st s) (inherits_all os inh)"
proof -
  from assms(1) obtain q sv where q: "setting_question st = Some q" and sv: "map_of inh (setting_path st) = Some sv"
    and ok: "acceptable os sv q"
    by (auto simp: acceptable_setting_def split: option.splits)
  have updated: "set (AList.update k v xs) \<subseteq> insert (k, v) (set xs)" for k v and xs :: settings
    by (induction xs) auto
  show ?thesis
    unfolding setup_accepts_def
  proof (intro allI)
    fix rest d h
    from setup_acceptsD [OF answer_accepted [OF q sv ok, of win step s], of rest d h] obtain x d' h' where "case x of (v, s') \<Rightarrow> v = given_value sv"
      and "answer os machine_disks inh curses_frontend step st s (\<lparr>awaited = (win, Key KEY_ENTER) # rest, drawn = d\<rparr>, h)
        = Some (Inr x, \<lparr>awaited = rest, drawn = d'\<rparr>, h')" by blast
    then obtain s1 where answered: "answer os machine_disks inh curses_frontend step st s
        (\<lparr>awaited = (win, Key KEY_ENTER) # rest, drawn = d\<rparr>, h) = Some (Inr (given_value sv, s1), \<lparr>awaited = rest, drawn = d'\<rparr>, h')"
      by (cases x) simp
    let ?s = "s1\<lparr>answers := AList.update (setting_path st) (given_value sv) (answers s1), asked := asked s1 @ [(step, st)]\<rparr>"
    note kept = answer_keeps [OF answered]
    have "inherited_answer inh (setting_path st, given_value sv)"
      using sv acceptable_same [OF ok] by (simp add: inherited_answer_def del: py_eq.simps)
    with updated [of "setting_path st" "given_value sv" "answers s"] assms have "inherits_all os inh ?s"
      unfolding inherits_all_def list_all_iff by (auto simp: kept)
    moreover from answered have "ask os machine_disks inh curses_frontend step st s (\<lparr>awaited = (win, Key KEY_ENTER) # rest, drawn = d\<rparr>, h)
        = Some (Inr ?s, \<lparr>awaited = rest, drawn = d'\<rparr>, h')"
      by (auto simp: ask_def mapD_Inr_iff)
    ultimately show "\<exists>x d' h'. inherits_all os inh x \<and>
        ask os machine_disks inh curses_frontend step st s (\<lparr>awaited = (win, Key KEY_ENTER) # rest, drawn = d\<rparr>, h)
        = Some (Inr x, \<lparr>awaited = rest, drawn = d'\<rparr>, h')" by blast
  qed
qed

definition entering :: "window_size \<Rightarrow> nat \<Rightarrow> (window_size \<times> stroke) list" where
  "entering win n = replicate n (win, Key KEY_ENTER)"

lemma settings_accepted:
  assumes "list_all (\<lambda>(step, st). applies inh [] st \<longrightarrow> acceptable_setting os inh st) sts" and "inherits_all os inh s"
  shows "\<exists>s' d' h'. inherits_all os inh s' \<and>
    foldD (ask_if_wanted os machine_disks inh curses_frontend) sts s
      (\<lparr>awaited = entering win (length (filter (\<lambda>(step, st). applies inh [] st) sts)) @ rest, drawn = d\<rparr>, h)
    = Some (Inr s', \<lparr>awaited = rest, drawn = d'\<rparr>, h')"
  using assms
proof (induction sts arbitrary: s d h)
  case Nil
  then show ?case by (auto simp: entering_def)
next
  case (Cons item sts)
  obtain step st where item: "item = (step, st)" by fastforce
  have wanted: "ask_if_wanted os machine_disks inh curses_frontend item s =
      (if applies inh [] st then ask os machine_disks inh curses_frontend step st s else returnD s)"
    using inherits_all_values [OF Cons.prems(2)] by (simp add: ask_if_wanted_def item applies_def new_session_def)
  let ?later = "entering win (length (filter (\<lambda>(step, st). applies inh [] st) sts)) @ rest"
  show ?case
  proof (cases "applies inh [] st")
    case True
    with Cons.prems(1) item have "acceptable_setting os inh st" by simp
    from ask_accepted [OF this Cons.prems(2), of win step] obtain s1 d1 h1 where kept: "inherits_all os inh s1"
      and asked: "ask os machine_disks inh curses_frontend step st s (\<lparr>awaited = (win, Key KEY_ENTER) # ?later, drawn = d\<rparr>, h)
        = Some (Inr s1, \<lparr>awaited = ?later, drawn = d1\<rparr>, h1)"
      unfolding setup_accepts_def by blast
    from Cons.IH [OF _ kept, of d1 h1] Cons.prems(1) asked wanted True item show ?thesis
      by (simp add: entering_def bindD_def)
  next
    case False
    with Cons.IH [OF _ Cons.prems(2), of d h] Cons.prems(1) wanted item show ?thesis
      by (simp add: bindD_def returnD_def)
  qed
qed

lemma accepted_answers_change_nothing:
  "inherits_all os inh s \<Longrightarrow> apply_tui_choices inh (answers s) = inh"
proof -
  assume "inherits_all os inh s"
  then have "\<forall>(p, v) \<in> set (answers s). \<not> tui_choice_counts inh p v"
    by (fastforce simp: inherits_all_def inherited_answer_def list_all_iff tui_choice_counts_def simp del: py_eq.simps)
  moreover have "\<forall>(p, v) \<in> set ans. \<not> tui_choice_counts inh p v \<Longrightarrow> foldl (\<lambda>d (path, value).
      if tui_choice_counts inh path value then AList.update path \<lparr>given_value = value, given_by = From_Tui\<rparr> d else d) d ans = d" for ans d
    by (induction ans) auto
  ultimately show ?thesis by (simp add: apply_tui_choices_def)
qed

lemma accepted_summary:
  assumes "inherits_all os inh s"
  shows "\<exists>rows. summary inh s = Inr rows"
proof -
  have "\<exists>row. summary_entry s inh (step, st) = Inr row" if asked: "(step, st) \<in> set (asked s)" for step st
  proof -
    from asked assms have "acceptable_setting os inh st" by (auto simp: inherits_all_def list_all_iff)
    then obtain q sv where q: "setting_question st = Some q" and sv: "map_of inh (setting_path st) = Some sv"
      and ok: "acceptable os sv q" by (auto simp: acceptable_setting_def split: option.splits)
    from ok have "\<exists>shown. shown_answer s st (given_value sv) = Inr shown"
      by (cases q) (auto simp: shown_answer_def q acceptable.simps Let_def split: option.split)
    with q sv show ?thesis by (auto simp: summary_entry_def)
  qed
  then have "\<exists>row. summary_entry s inh item = Inr row" if "item \<in> set (asked s)" for item
    using that by (cases item) blast
  then have "mapE (summary_entry s inh) (filter (\<lambda>(step, st). setting_question st \<noteq> None) (asked s)) =
      Inr (map (\<lambda>item. SOME row. summary_entry s inh item = Inr row) (filter (\<lambda>(step, st). setting_question st \<noteq> None) (asked s)))"
    by (intro mapE_all_Inr) (metis (mono_tags, lifting) filter_is_subset someI_ex subsetD)
  then show ?thesis unfolding summary_def accepted_answers_change_nothing [OF assms] by blast
qed

lemma yes_confirms: "\<exists>d'. curses_review rows \<lparr>awaited = (win, Key 121) # rest, drawn = d\<rparr> = Some (Inr True, \<lparr>awaited = rest, drawn = d'\<rparr>)"
proof -
  have "\<exists>d'. run_list (confirm_list title lines) 0 False \<lparr>awaited = (win, Key 121) # rest, drawn = d\<rparr>
      = Some (Inr (0, True), \<lparr>awaited = rest, drawn = d'\<rparr>)" for title lines
    by (subst run_list.simps) (simp add: confirm_list_def confirm_key_def KEY_UP_def KEY_DOWN_def)
  then show ?thesis by (simp add: curses_review_def confirm_screen_def mapD_Inr_iff) blast
qed

lemma accepting_run:
  assumes "list_all (\<lambda>(step, st). applies inh [] st \<longrightarrow> acceptable_setting os inh st) setup_settings"
    and "awaited t = (win, Key key) # entering win (length (filter (\<lambda>(step, st). applies inh [] st) setup_settings)) @
      (win, Key 121) # rest"
  shows "\<exists>ans t' h'. run_tui_setup os inh (t, h) = Some (Inr ans, t', h') \<and> awaited t' = rest \<and>
    apply_tui_choices inh ans = inh"
proof -
  let ?asked = "entering win (length (filter (\<lambda>(step, st). applies inh [] st) setup_settings)) @ (win, Key 121) # rest"
  obtain d where t: "t = \<lparr>awaited = (win, Key key) # ?asked, drawn = d\<rparr>" using assms(2) by (cases t) simp
  have "inherits_all os inh new_session" by (simp add: inherits_all_def new_session_def)
  from settings_accepted [OF assms(1) this] obtain s d1 h1 where kept: "inherits_all os inh s"
    and asked: "foldD (ask_if_wanted os machine_disks inh curses_frontend) setup_settings new_session
      (\<lparr>awaited = ?asked, drawn = d @ [draw_info ''DALI - Declarative Arch Linux Installer'' WELCOME_TEXT win]\<rparr>, h)
      = Some (Inr s, \<lparr>awaited = (win, Key 121) # rest, drawn = d1\<rparr>, h1)" by blast
  from accepted_summary [OF kept] obtain rows where rows: "summary inh s = Inr rows" by blast
  from yes_confirms obtain d2 where reviewed: "curses_review rows \<lparr>awaited = (win, Key 121) # rest, drawn = d1\<rparr>
      = Some (Inr True, \<lparr>awaited = rest, drawn = d2\<rparr>)" by blast
  have "run_tui_setup os inh (t, h) = run_setup os machine_disks inh curses_frontend
      (\<lparr>awaited = ?asked, drawn = d @ [draw_info ''DALI - Declarative Arch Linux Installer'' WELCOME_TEXT win]\<rparr>, h)"
    unfolding run_tui_setup_def by (rule bindD_step) (simp add: talk_Some t info_screen_def mapD_Inr_iff)
  also have "\<dots> = Some (Inr (answers s), \<lparr>awaited = rest, drawn = d2\<rparr>, h1)"
    using asked rows reviewed
    by (simp add: run_setup_def bindD_def liftD_def talk_def returnD_def) (simp add: curses_frontend_def)
  finally show ?thesis using accepted_answers_change_nothing [OF kept] by simp
qed

text \<open>
  C31: Accepting every screen keeps everything: with inherited values their questions can show, a key
  at the welcome, Enter once for each setting that applies and y at the summary finish the setup,
  and the settings and their sources are the inherited ones.
\<close>

theorem accepting_keeps_inherited:
  assumes "list_all (\<lambda>(step, st). applies inh [] st \<longrightarrow> acceptable_setting os inh st) setup_settings"
    and "awaited t = (win, Key key) # entering win (length (filter (\<lambda>(step, st). applies inh [] st) setup_settings)) @
      (win, Key 121) # rest"
  shows "\<exists>ans t' h'. run_tui_setup os inh (t, h) = Some (Inr ans, t', h') \<and> awaited t' = rest \<and>
    apply_tui_choices inh ans = inh"
  using assms by (rule accepting_run)

definition sample_inherited :: sourced_settings where
  "sample_inherited = map (\<lambda>(p, v). (p, \<lparr>given_value = v, given_by = From_Config_File\<rparr>)) [
     (''migration.enabled'', PBool False), (''usb_boot.enabled'', PBool False),
     (''storage.target_disk'', PStr ''/dev/sda''), (''storage.wipe_method'', PStr ''secure''),
     (''storage.swap.enabled'', PBool True), (''storage.swap.size_mb'', PInt 8192),
     (''storage.swap.hibernation'', PBool False), (''credentials.luks_password'', PStr ''disk''),
     (''system.cpu_vendor'', PStr ''amd''), (''gpu.vendor'', PStr ''none''),
     (''packages.selected_desktops'', PTuple [PStr ''gnome'']), (''system.hostname'', PStr ''arch''),
     (''system.user.name'', PStr ''ada''), (''system.timezone'', PStr ''UTC''),
     (''system.locale.keymap'', PStr ''us''), (''credentials.user_password'', PStr ''login''),
     (''docker.enabled'', PBool False), (''boot.enable_snapshot_boot'', PBool True),
     (''notifications.enabled'', PBool True), (''firewall.enabled'', PBool True)]"

definition sample_size :: window_size where
  "sample_size = \<lparr>max_y = 24, max_x = 80\<rparr>"

definition accepting_user :: terminal where
  "accepting_user = \<lparr>awaited = (sample_size, Key KEY_ENTER) # entering sample_size 20 @ [(sample_size, Key 121)], drawn = []\<rparr>"

lemma sample_applies: "length (filter (\<lambda>(step, st). applies sample_inherited [] st) setup_settings) = 20"
  by (simp add: setup_settings_def INSTALL_STEPS_def wiring_simps setting_def applies_def sample_inherited_def
      session_value_def new_session_def always_def when_set_def when_equal_def recovery_system_wanted_def text_simps
      number_of_def)

lemma no_drives_listed: "\<exists>h'. machine_disks refusing_machine h = (Inr [], h')"
  by (simp add: machine_disks_def bindA_def run_def returnA_apply refusing_machine_def success_def)

lemma sample_acceptable_cases:
  "acceptable os sv (Choose_One label (Inl choices) description prompt) \<longleftrightarrow>
     py_eq (given_value sv) (given_value sv) \<and> given_value sv \<noteq> PNone \<and> offers_choice choices (given_value sv)"
  "acceptable os sv (Choose_One label (Inr swap_size_choices) description prompt) \<longleftrightarrow>
     py_eq (given_value sv) (given_value sv) \<and> given_value sv \<noteq> PNone \<and>
     offers_choice (map (\<lambda>mb. \<lparr>choice_value = PInt mb, choice_label = swap_label mb\<rparr>) (swap_sizes (given_value sv))) (given_value sv)"
  "acceptable refusing_machine sv (Choose_One label (Inr detected_disk_choices) description prompt) \<longleftrightarrow>
     py_eq (given_value sv) (given_value sv) \<and> given_value sv \<noteq> PNone \<and> is_entered (given_value sv)"
proof -
  have "(case detected_disk_choices v machine_disks refusing_machine h of (Inl e, h') \<Rightarrow> False
      | (Inr choices, h') \<Rightarrow> offers_choice choices w) \<longleftrightarrow> is_entered w" for v w h
    using no_drives_listed [of h] by (auto simp: detected_disk_choices_def bindA_def returnA_apply offers_choice_def)
  then show "acceptable refusing_machine sv (Choose_One label (Inr detected_disk_choices) description prompt) \<longleftrightarrow>
     py_eq (given_value sv) (given_value sv) \<and> given_value sv \<noteq> PNone \<and> is_entered (given_value sv)"
    by (simp add: acceptable.simps choices_from_def del: py_eq.simps)
qed (simp_all add: acceptable.simps choices_from_def returnA_apply swap_size_choices_def del: py_eq.simps)

lemma sample_acceptable_desktops:
  "PStr s \<in> choice_value ` set choices \<Longrightarrow>
     acceptable os \<lparr>given_value = PTuple [PStr s], given_by = src\<rparr> (Choose_Many label choices description)"
  by (auto simp: acceptable.simps intro!: exI [of _ "[s]"])

lemma sample_offered:
  "offers_choice WIPE_CHOICES (PStr ''secure'')" "offers_choice CPU_CHOICES (PStr ''amd'')"
  "offers_choice GPU_CHOICES (PStr ''none'')" "PStr ''gnome'' \<in> choice_value ` set DESKTOP_CHOICES"
  by (simp_all add: offers_choice_def py_eq_texts WIPE_CHOICES_def CPU_CHOICES_def GPU_CHOICES_def DESKTOP_CHOICES_def
      plain_choice_def text_simps del: py_eq.simps)

lemma sample_swap_offered:
  "offers_choice (map (\<lambda>mb. \<lparr>choice_value = PInt mb, choice_label = swap_label mb\<rparr>) (swap_sizes (PInt 8192))) (PInt 8192)"
  by (simp add: offers_choice_def swap_sizes_def SWAP_PRESETS_MB_def number_of_def sorted_set_def)

lemma sample_acceptable:
  "list_all (\<lambda>(step, st). applies sample_inherited [] st \<longrightarrow> acceptable_setting refusing_machine sample_inherited st) setup_settings"
  by (simp add: setup_settings_def INSTALL_STEPS_def wiring_simps setting_def applies_def sample_inherited_def
      session_value_def new_session_def always_def when_set_def when_equal_def recovery_system_wanted_def text_simps
      number_of_def acceptable_setting_def sample_acceptable_cases sample_acceptable_desktops sample_offered
      sample_swap_offered on_off_switch_def acceptable.simps(1,4,5) is_entered_iff)

theorem accepting_keeps_inherited_witness:
  "\<exists>ans t' h'. run_tui_setup refusing_machine sample_inherited (accepting_user, []) = Some (Inr ans, t', h') \<and>
     awaited t' = [] \<and> apply_tui_choices sample_inherited ans = sample_inherited"
  by (rule accepting_keeps_inherited [OF sample_acceptable, where win = sample_size and key = KEY_ENTER])
    (simp add: sample_applies accepting_user_def)

subsection \<open>What is asked\<close>

lemma ask_if_wanted_keys:
  assumes "ask_if_wanted os machine inh F (step, st) s u = Some (Inr s', u')" and "setting_path st \<notin> set (keys (answers s))"
  shows "keys (answers s') = keys (answers s) @ (if applies inh (answers s) st then [setting_path st] else [])"
proof -
  have "k \<notin> set (keys d) \<Longrightarrow> keys (AList.update k v d) = keys d @ [k]" for k v and d :: settings
    by (induction d) auto
  with assms show ?thesis
    by (auto simp: ask_if_wanted_def applies_def session_value_answers dest!: ask_answers split: if_splits)
qed

lemma asked_in_order:
  assumes "foldD (ask_if_wanted os machine inh F) sts s u = Some (Inr s', u')" and "settled sts"
    and "set (setting_paths sts) \<inter> set (keys (answers s)) = {}"
  shows "keys (answers s') = keys (answers s) @ setting_paths (filter (\<lambda>(step, st). applies inh (answers s') st) sts)"
  using assms
proof (induction sts arbitrary: s u)
  case Nil
  then show ?case by simp
next
  case (Cons item sts)
  obtain step st where item: "item = (step, st)" by fastforce
  from Cons.prems(1) item obtain s1 u1 where first: "ask_if_wanted os machine inh F (step, st) s u = Some (Inr s1, u1)"
    and rest: "foldD (ask_if_wanted os machine inh F) sts s1 u1 = Some (Inr s', u')"
    by (auto simp: bindD_Inr_iff)
  have fresh: "setting_path st \<notin> set (keys (answers s))" "setting_path st \<notin> set (setting_paths sts)" and settled: "settled sts"
    using Cons.prems(2,3) item by auto
  note keys1 = ask_if_wanted_keys [OF first fresh(1)]
  have apart: "set (setting_paths sts) \<inter> set (keys (answers s1)) = {}"
    using Cons.prems(3) fresh(2) keys1 item by (auto split: if_splits)
  have unanswered: "\<forall>p \<in> set (setting_paths sts'). map_of (answers s') p = None"
    if "set (setting_paths sts') \<inter> set (keys (answers s')) = {}" for sts' s'
    using that by (auto simp: map_of_eq_None_iff image_iff disjoint_iff)
  from asked_settings [OF Cons.prems(1,2) unanswered [OF Cons.prems(3)]] item
  have "map_of (answers s') (setting_path st) \<noteq> None \<longleftrightarrow> applies inh (answers s') st" by auto
  moreover from asked_settings [OF rest settled unanswered [OF apart]] fresh(2)
  have "map_of (answers s') (setting_path st) = map_of (answers s1) (setting_path st)" by blast
  moreover have "map_of (answers s1) (setting_path st) \<noteq> None \<longleftrightarrow> setting_path st \<in> set (keys (answers s1))"
    by (simp add: map_of_eq_None_iff)
  ultimately have "applies inh (answers s') st \<longleftrightarrow> applies inh (answers s) st"
    using keys1 fresh(1) by (auto split: if_splits)
  with Cons.IH [OF rest settled apart] keys1 item show ?case by simp
qed

text \<open>
  What a setting is worth in the end, read off the answers and the inherited settings alone: the
  answer to it comes first, then what was inherited, and without either it has no value. A setting
  applies when it has a question and its condition holds of these values.
\<close>

definition final_value :: "sourced_settings \<Rightarrow> settings \<Rightarrow> string \<Rightarrow> pyval" where
  "final_value inh ans path =
     (case map_of (ans @ map (\<lambda>(p, v). (p, given_value v)) inh) path of None \<Rightarrow> PNone | Some v \<Rightarrow> v)"

definition applies_finally :: "sourced_settings \<Rightarrow> settings \<Rightarrow> step_setting \<Rightarrow> bool" where
  "applies_finally inh ans st \<longleftrightarrow> setting_question st \<noteq> None \<and> asked_when st (final_value inh ans)"

lemma session_reads_final_values: "session_value inh (new_session\<lparr>answers := ans\<rparr>) = final_value inh ans"
proof
  fix path
  have "map_of (map (\<lambda>(p, v). (p, given_value v)) inh) path = map_option given_value (map_of inh path)"
    by (induction inh) auto
  then show "session_value inh (new_session\<lparr>answers := ans\<rparr>) path = final_value inh ans path"
    by (simp add: session_value_def final_value_def map_add_def split: option.split)
qed

lemma applies_in_the_end: "applies inh ans st \<longleftrightarrow> applies_finally inh ans st"
  by (simp add: applies_def applies_finally_def session_reads_final_values)

text \<open>
  C32: The interactive setup asks each setting that applies and no other, once and in the order of
  the steps, whatever the front-end and the machine. Whether a setting applies is judged by all the
  answers together, an answer counting before the inherited value of the same setting.
\<close>

theorem setup_asks_what_applies:
  assumes "run_setup os machine inh F u = Some (Inr ans, u')"
  shows "keys ans = setting_paths (filter (\<lambda>(step, st). applies_finally inh ans st) setup_settings)"
proof -
  from assms obtain s u1 where s: "foldD (ask_if_wanted os machine inh F) setup_settings new_session u = Some (Inr s, u1)"
    and ans: "answers s = ans" by (rule run_setup_session)
  from asked_in_order [OF s setup_settings_settled] ans show ?thesis
    by (simp add: new_session_def applies_in_the_end)
qed

lemma sample_setup_run:
  "\<exists>ans u u'. run_setup refusing_machine machine_disks sample_inherited curses_frontend u = Some (Inr ans, u') \<and>
     apply_tui_choices sample_inherited ans = sample_inherited"
  using accepting_run [OF sample_acceptable, where win = sample_size and key = KEY_ENTER, of accepting_user "[]" "[]"]
  by (simp add: sample_applies accepting_user_def run_tui_setup_def bindD_Inr_iff) blast

theorem setup_asks_what_applies_witness:
  "\<exists>ans u u'. run_setup refusing_machine machine_disks sample_inherited curses_frontend u = Some (Inr ans, u') \<and>
     keys ans = setting_paths (filter (\<lambda>(step, st). applies_finally sample_inherited ans st) setup_settings)"
  using sample_setup_run setup_asks_what_applies by blast

subsection \<open>What the answers are\<close>

text \<open>
  C33: Every answer of the interactive setup is the inherited value it was shown, or a value the
  builder takes for its setting: no choice offered by a step and no text typed is refused later.
\<close>

theorem setup_answers_are_taken:
  assumes "run_tui_setup os inh (t, h) = Some (Inr ans, t', h')"
  shows "list_all (\<lambda>(path, v). Some v = map_option given_value (map_of inh path) \<or> taken_by_builder path v) ans"
proof -
  have "Some v = map_option given_value (map_of inh path) \<or> taken_by_builder path v" if "(path, v) \<in> set ans" for path v
  proof -
    from assms obtain t1 h1 where "run_setup os machine_disks inh curses_frontend (t1, h1) = Some (Inr ans, t', h')"
      by (auto simp: run_tui_setup_def bindD_Inr_iff)
    from tui.run_setup_fits [OF this that] obtain step st q where st: "(step, st) \<in> set setup_settings"
      and path: "setting_path st = path" and q: "setting_question st = Some q"
      and fits: "answer_fits os machine_disks (map_of inh path) q v" by blast
    from registry_questions_suit st have "question_suits st" by (auto simp: list_all_iff)
    with path q obtain ty where "setting_type path = Some ty" "suits_type ty q"
      by (auto simp: question_suits_def split: option.splits)
    from fitting_answer_taken [OF fits this] show ?thesis .
  qed
  then show ?thesis by (auto simp: list_all_iff)
qed

theorem setup_answers_are_taken_witness:
  "\<exists>ans t' h'. run_tui_setup refusing_machine sample_inherited (accepting_user, []) = Some (Inr ans, t', h') \<and>
     list_all (\<lambda>(path, v). Some v = map_option given_value (map_of sample_inherited path) \<or> taken_by_builder path v) ans"
proof -
  from accepting_run [OF sample_acceptable, where win = sample_size and key = KEY_ENTER, of accepting_user "[]" "[]"]
  obtain ans t' h' where run: "run_tui_setup refusing_machine sample_inherited (accepting_user, []) = Some (Inr ans, t', h')"
    by (auto simp: sample_applies accepting_user_def)
  from setup_answers_are_taken [OF this] run show ?thesis by blast
qed

subsection \<open>Choices that are not offered\<close>

text \<open>
  The welcome says that Enter keeps the inherited value. In a menu that does not offer the
  inherited value, Enter takes the first choice instead, for example another drive.
\<close>

lemma enter_replaces_unlisted_drive:
  "accepts win (curses_choose_one ''Storage'' (Choose_One ''Disk'' source description prompt)
      [plain_choice ''/dev/nvme0n1'' ''first'', plain_choice ''/dev/sda'' ''second'']
      (Some \<lparr>inherited_value = PStr ''/dev/disk/by-id/ata-1'', inherited_source = ''config.yaml''\<rparr>))
    (PStr ''/dev/nvme0n1'')"
  using enter_takes_first_choice [of "[plain_choice ''/dev/nvme0n1'' ''first'', plain_choice ''/dev/sda'' ''second'']"
      "PStr ''/dev/disk/by-id/ata-1''"]
  by (simp add: py_eq_texts plain_choice_def del: py_eq.simps curses_choose_one.simps)

text \<open>A switch without an inherited value starts on its first option, off, and Enter takes it.\<close>

lemma unset_switch_is_off:
  "accepts win (curses_switch step (Switch label on_label off_label description) None) False"
proof -
  let ?opts = "[menu_item ''off'' off_label, menu_item ''on'' on_label]"
  have "option_value (?opts ! radio_start ?opts None) = ''off''"
    by (simp add: radio_start_def position_or_first_def menu_item_def)
  with accepts_radio [of ?opts win "screen_title step label" None description]
  have "accepts win (radio_menu (screen_title step label) ?opts None description) ''off''" by simp
  then show ?thesis by (simp add: Let_def) (rule accepts_mapD, assumption, simp)
qed

text \<open>A selection inherited as no value is shown as none, and ends in an error once it was made.\<close>

lemma unset_selection_is_an_error:
  assumes "given_value sv = PNone"
    and "choose_many F step q None u = Some (Inr chosen, u')"
  shows "ask_choose_many F step q (Some sv) (u, h) = Some (Inl (Type_Error ''NoneType''), u', h)"
  using assms by (simp add: ask_choose_many_def inherited_as_def bindD_def liftD_def talk_def)

lemma foldD_each:
  "foldD f xs s u = Some (Inr s', u') \<Longrightarrow> x \<in> set xs \<Longrightarrow> \<exists>s1 u1 s2 u2. f x s1 u1 = Some (Inr s2, u2)"
  by (induction xs arbitrary: s u) (auto simp: bindD_Inr_iff)

abbreviation "SELECTED_DESKTOPS \<equiv> ''packages.selected_desktops''"

definition desktops_question :: question where
  "desktops_question = Choose_Many ''Desktops'' DESKTOP_CHOICES ''Select desktop environments to install (Space to toggle):''"

definition desktops_setting :: step_setting where
  "desktops_setting = setting SELECTED_DESKTOPS (Some Env_Selected_Desktops) (Some desktops_question) always"

text \<open>The settings that are asked before the desktops.\<close>

definition before_desktops :: "(string \<times> step_setting) list" where
  "before_desktops = takeWhile (\<lambda>(step, st). setting_path st \<noteq> SELECTED_DESKTOPS) setup_settings"

lemma desktops_in_order: "\<exists>later. setup_settings = before_desktops @ (''Packages'', desktops_setting) # later"
  unfolding before_desktops_def
  by (simp add: setup_settings_def INSTALL_STEPS_def wiring_simps desktops_setting_def desktops_question_def setting_def text_simps)

lemma foldD_append: "foldD f (xs @ ys) s u = bindD (foldD f xs s) (foldD f ys) u"
  by (induction xs arbitrary: s u) (auto simp: bindD_def returnD_def split: option.split sum.split)

lemma foldD_raises: "f x s u = Some (Inl e, u') \<Longrightarrow> foldD f (x # xs) s u = Some (Inl e, u')"
  by (simp add: bindD_def)

lemma accepts_no_choice:
  "accepts win (curses_choose_many step (Choose_Many label choices description) None) []"
proof -
  let ?menu = "checkbox_list (screen_title step label) (options_of choices) None description"
  have "handle_key ?menu KEY_ENTER 0 {} = Inr (True, {})"
    by (simp add: checkbox_list_def checkbox_key_def KEY_ENTER_def KEY_SPACE_def ENTER_KEYS_def)
  from accepts_run_list [OF this]
  have "accepts win (checkbox_menu (screen_title step label) (options_of choices) None description) []"
    unfolding checkbox_menu_def option.case by (rule accepts_mapD) simp
  then show ?thesis by simp (rule accepts_lifted, assumption, simp)
qed

lemma null_selection_raises:
  assumes "map_of inh SELECTED_DESKTOPS = Some sv" and "given_value sv = PNone"
  shows "\<exists>d'. ask_if_wanted os machine inh curses_frontend (''Packages'', desktops_setting) s
      (\<lparr>awaited = (win, Key KEY_ENTER) # rest, drawn = d\<rparr>, h)
    = Some (Inl (Type_Error ''NoneType''), \<lparr>awaited = rest, drawn = d'\<rparr>, h)"
proof -
  have "accepts win (choose_many curses_frontend ''Packages'' desktops_question None) []"
    using accepts_no_choice by (simp add: curses_frontend_def desktops_question_def del: curses_choose_many.simps)
  then obtain d' where "choose_many curses_frontend ''Packages'' desktops_question None
      \<lparr>awaited = (win, Key KEY_ENTER) # rest, drawn = d\<rparr> = Some (Inr [], \<lparr>awaited = rest, drawn = d'\<rparr>)"
    unfolding accepts_def by blast
  from unset_selection_is_an_error [OF assms(2) this] assms(1) show ?thesis
    by (auto simp: ask_if_wanted_def ask_def answer_def desktops_setting_def desktops_question_def setting_def
        always_def mapD_def bindD_def)
qed

lemma null_selection_never_answered:
  assumes "map_of inh SELECTED_DESKTOPS = Some sv" and "given_value sv = PNone"
  shows "run_setup os machine inh F u \<noteq> Some (Inr ans, u')"
proof
  assume "run_setup os machine inh F u = Some (Inr ans, u')"
  then obtain s w where run: "foldD (ask_if_wanted os machine inh F) setup_settings new_session u = Some (Inr s, w)"
    by (rule run_setup_session)
  from desktops_in_order have "(''Packages'', desktops_setting) \<in> set setup_settings"
    by (metis in_set_conv_decomp)
  from foldD_each [OF run this] obtain s1 u1 s2 u2 where
    "ask_if_wanted os machine inh F (''Packages'', desktops_setting) s1 u1 = Some (Inr s2, u2)" by blast
  then have "ask os machine inh F ''Packages'' desktops_setting s1 u1 = Some (Inr s2, u2)"
    by (simp add: ask_if_wanted_def desktops_setting_def setting_def always_def desktops_question_def)
  from ask_answers [OF this] obtain v s3
    where "answer os machine inh F ''Packages'' desktops_setting s1 u1 = Some (Inr (v, s3), u2)" by blast
  then have "ask_choose_many F ''Packages'' desktops_question (Some sv) u1 = Some (Inr v, u2)"
    using assms(1) by (auto simp: answer_def desktops_setting_def setting_def desktops_question_def mapD_Inr_iff)
  then show False
    using assms(2) by (auto simp: ask_choose_many_def bindD_Inr_iff)
qed

lemma null_selection_run:
  assumes "map_of inh SELECTED_DESKTOPS = Some sv" and "given_value sv = PNone"
    and "list_all (\<lambda>(step, st). applies inh [] st \<longrightarrow> acceptable_setting os inh st) before_desktops"
    and "awaited t = (win, Key key) # entering win (length (filter (\<lambda>(step, st). applies inh [] st) before_desktops)) @
      (win, Key KEY_ENTER) # rest"
  shows "\<exists>t' h'. run_tui_setup os inh (t, h) = Some (Inl (Type_Error ''NoneType''), t', h') \<and> awaited t' = rest"
proof -
  let ?asked = "entering win (length (filter (\<lambda>(step, st). applies inh [] st) before_desktops)) @ (win, Key KEY_ENTER) # rest"
  let ?step = "ask_if_wanted os machine_disks inh curses_frontend"
  obtain d where t: "t = \<lparr>awaited = (win, Key key) # ?asked, drawn = d\<rparr>" using assms(4) by (cases t) simp
  let ?welcomed = "(\<lparr>awaited = ?asked, drawn = d @ [draw_info ''DALI - Declarative Arch Linux Installer'' WELCOME_TEXT win]\<rparr>, h)"
  have "inherits_all os inh new_session" by (simp add: inherits_all_def new_session_def)
  from settings_accepted [OF assms(3) this] obtain s d1 h1 where before: "foldD ?step before_desktops new_session ?welcomed
      = Some (Inr s, \<lparr>awaited = (win, Key KEY_ENTER) # rest, drawn = d1\<rparr>, h1)" by blast
  from null_selection_raises [OF assms(1,2)] obtain d2 where raises: "?step (''Packages'', desktops_setting) s
      (\<lparr>awaited = (win, Key KEY_ENTER) # rest, drawn = d1\<rparr>, h1)
      = Some (Inl (Type_Error ''NoneType''), \<lparr>awaited = rest, drawn = d2\<rparr>, h1)" by blast
  from desktops_in_order obtain later where settings: "setup_settings = before_desktops @ (''Packages'', desktops_setting) # later"
    by blast
  have "run_tui_setup os inh (t, h) = run_setup os machine_disks inh curses_frontend ?welcomed"
    unfolding run_tui_setup_def by (rule bindD_step) (simp add: talk_Some t info_screen_def mapD_Inr_iff)
  also have "\<dots> = Some (Inl (Type_Error ''NoneType''), \<lparr>awaited = rest, drawn = d2\<rparr>, h1)"
    by (simp add: run_setup_def settings foldD_append bindD_def before raises)
  finally show ?thesis by simp
qed

text \<open>
  C36: With \<^verbatim>\<open>packages.selected_desktops\<close> present in \<^verbatim>\<open>config.yaml\<close> and left without a value (null) the
  interactive setup cannot be completed: no answers, on whatever front-end and machine, make it
  return. On the curses screens, where the settings asked before the desktops can be kept, a key at
  the welcome and Enter at each question reach the desktops, and the Enter that answers them ends the
  run there with a \<^verbatim>\<open>TypeError\<close>, all later keys unread. (A selection given as an empty list is a
  value, and no error.)
\<close>

theorem null_selection_never_completes:
  assumes "map_of inh SELECTED_DESKTOPS = Some sv" and "given_value sv = PNone"
  shows "run_setup os machine inh F u \<noteq> Some (Inr ans, u') \<and>
    (list_all (\<lambda>(step, st). applies_finally inh [] st \<longrightarrow> acceptable_setting os inh st) before_desktops \<longrightarrow>
     awaited t = (win, Key key) # entering win (length (filter (\<lambda>(step, st). applies_finally inh [] st) before_desktops)) @
       (win, Key KEY_ENTER) # rest \<longrightarrow>
     (\<exists>t' h'. run_tui_setup os inh (t, h) = Some (Inl (Type_Error ''NoneType''), t', h') \<and> awaited t' = rest))"
  using null_selection_never_answered [OF assms] null_selection_run [OF assms, unfolded applies_in_the_end] by blast

definition null_inherited :: sourced_settings where
  "null_inherited = AList.update SELECTED_DESKTOPS \<lparr>given_value = PNone, given_by = From_Config_File\<rparr> sample_inherited"

definition desktops_user :: terminal where
  "desktops_user = \<lparr>awaited = (sample_size, Key KEY_ENTER) # entering sample_size 11 @ [(sample_size, Key 121)], drawn = []\<rparr>"

lemma null_before_desktops:
  "length (filter (\<lambda>(step, st). applies_finally null_inherited [] st) before_desktops) = 10"
  "list_all (\<lambda>(step, st). applies_finally null_inherited [] st \<longrightarrow> acceptable_setting refusing_machine null_inherited st) before_desktops"
  unfolding applies_in_the_end [symmetric]
  by (simp_all add: before_desktops_def setup_settings_def INSTALL_STEPS_def wiring_simps setting_def applies_def
      null_inherited_def sample_inherited_def
      session_value_def new_session_def always_def when_set_def when_equal_def recovery_system_wanted_def text_simps
      number_of_def acceptable_setting_def sample_acceptable_cases sample_offered
      sample_swap_offered on_off_switch_def acceptable.simps(1,4,5) is_entered_iff)

theorem null_selection_never_completes_witness:
  "\<exists>t' h'. run_tui_setup refusing_machine null_inherited (desktops_user, []) = Some (Inl (Type_Error ''NoneType''), t', h') \<and>
     awaited t' = [(sample_size, Key 121)]"
proof -
  let ?null = "\<lparr>given_value = PNone, given_by = From_Config_File\<rparr>"
  have "map_of null_inherited SELECTED_DESKTOPS = Some ?null" by (simp add: null_inherited_def update_conv)
  note run = null_selection_never_completes [OF this setting_value.select_convs(1), where os = refusing_machine and t = desktops_user and win = sample_size
      and key = KEY_ENTER and rest = "[(sample_size, Key 121)]" and h = "[]" and machine = machine_disks
      and F = curses_frontend and u = "(desktops_user, [])"]
  have "awaited desktops_user = (sample_size, Key KEY_ENTER) # entering sample_size 10 @
      (sample_size, Key KEY_ENTER) # [(sample_size, Key 121)]"
    by (simp add: desktops_user_def entering_def eval_nat_numeral)
  with run show ?thesis unfolding null_before_desktops(1) using null_before_desktops(2) by blast
qed

end
