(* ===== verification/Spec2Isabelle.thy ===== *)
theory Spec2Isabelle
  imports Storage_Properties Usb_Boot_Properties Executor_Properties Install_Properties Essential_Commands
    Config_Properties Config_Roundtrip Secrets_Properties Cli_Properties Widget_Properties Setup_Properties
    Machine
begin

text \<open>
  A model of DALI, the declarative Arch Linux installer (\<^verbatim>\<open>src/src/arch_installer\<close>), and its
  correctness properties. Paths below are relative to that directory.

  \<^bold>\<open>The program.\<close> \<^verbatim>\<open>cli.py\<close> assembles a frozen configuration from the environment, \<^verbatim>\<open>config.yaml\<close> and,
  unless the installation is unattended, an interactive setup; it validates the configuration and
  runs the installer, which executes the wanted steps of the registry in order. Each step is an
  executor that acts on the machine through shell commands only. Other entry points back data up to
  a USB drive, clone a USB boot drive, and encrypt or decrypt the passwords in \<^verbatim>\<open>config.yaml\<close>.

  \<^bold>\<open>How code becomes definitions.\<close> A definition keeps the name of its Python function where Isabelle
  allows it. Classes are records, enums and tagged unions are datatypes, dictionaries are
  association lists in insertion order, and text is a list of characters.

    \<^item> \<^bold>\<open>Actions\<close> (\<open>Command_Runner\<close>): code that runs commands is a function of the machine \<open>os\<close> and the
      history of commands, and gives an exception or a value with the longer history. The machine is
      any function from the history and a command to an answer, so a property that holds for every
      \<open>os\<close> holds for every machine, failing and lying ones included. \<^verbatim>\<open>time.sleep\<close> is an event.
    \<^item> \<^bold>\<open>Dialogues\<close> (\<open>Setup_Frontend\<close>): code that talks to a user is a function of the user's state; it may
      raise, and it does not return (\<open>None\<close>) when it waits for a key that never comes. The widgets
      run on a terminal with the keys still to be pressed, which is what their loops decrease.
    \<^item> \<^bold>\<open>Results\<close> (\<open>Errors\<close>): code without effects gives an exception or a value. Every \<^verbatim>\<open>raise\<close> and every
      exception of the built-in operations in the modelled code is such a branch.

  \<^bold>\<open>Foundations.\<close> \<open>Prelude\<close> holds the text operations of Python's \<^verbatim>\<open>str\<close>, dictionaries, the interface
  \<open>codec\<close> and the collections of rules; \<open>Errors\<close> the exceptions (\<^verbatim>\<open>errors.py\<close>); \<open>Log\<close> the console output
  of a log record (\<^verbatim>\<open>core/log.py\<close>); \<open>Command_Runner\<close> the actions (\<^verbatim>\<open>core/command.py\<close>). Three theories give the
  rules for them: \<open>Action_Logic\<close> what an action may run and that it does not depend on the passwords,
  \<open>Cleanup\<close> what is released on every way out of \<^verbatim>\<open>try ... finally\<close>, \<open>Checked_Commands\<close> which failures
  an action that ends normally has not overlooked.

  \<^bold>\<open>Configuration.\<close> \<open>Config_Models\<close> has the dataclasses, enums and derived attributes of \<^verbatim>\<open>config/models.py\<close>;
  \<open>Config_Schema\<close> the same classes as the builder sees them, each an interpretation of the interface
  \<open>dataclass\<close> of \<open>Plain_Values\<close> (\<^verbatim>\<open>asdict\<close> and the constructor are inverse, \<^verbatim>\<open>asdict\<close> has the declared
  type). \<open>Config_Builder\<close>, \<open>Config_File\<close>, \<open>Environment\<close> and \<open>Value_Precedence\<close> are the modules of the same
  names. \<open>Secrets\<close> is \<^verbatim>\<open>core/secrets.py\<close>: UTF-8, base64 and the cost parameters are interpretations of \<open>codec\<close>.
  \<open>Secrets_File\<close> is the line editor of \<^verbatim>\<open>config/secrets_file.py\<close>.

  \<^bold>\<open>Executors.\<close> \<open>Executor_Base\<close> has the helpers of \<^verbatim>\<open>executors/base.py\<close> and the interface \<open>step_executor\<close>: the
  history only grows, and nothing a command shows depends on a password. \<open>Storage\<close>, \<open>Usb_Boot\<close>,
  \<open>Migration\<close>, \<open>Recovery\<close>, \<open>Boot\<close>, \<open>Gpu\<close>, \<open>Mirrors\<close>, \<open>Packages\<close>, \<open>System_Setup\<close> (also \<^verbatim>\<open>docker.py\<close>), \<open>Firewall\<close>,
  \<open>Snapper\<close> and \<open>Usb_Backup\<close> model the files of \<^verbatim>\<open>executors/\<close>, one definition per method, and interpret
  the interface. \<open>Install_Steps\<close> is \<^verbatim>\<open>install_steps/\<close>, one wiring per entry of the registry; \<open>Installer\<close> is
  \<^verbatim>\<open>installer.py\<close>, which has the contract because every step has it; \<open>Expected_State\<close> is
  \<^verbatim>\<open>expected_state.py\<close> together with the shell that reads the file back.

  \<^bold>\<open>Interactive setup.\<close> \<open>Setup_Frontend\<close> is the port of \<^verbatim>\<open>setup/frontend.py\<close> with the contract \<open>setup_frontend\<close>
  the session relies on (a choice is one that was offered, a text is not empty). \<open>Session\<close> is
  \<^verbatim>\<open>setup/session.py\<close> for any front-end, with its properties proved in the contract. \<open>Machine\<close> lists the
  drives (\<^verbatim>\<open>setup/machine.py\<close>). \<open>Widgets\<close> is \<^verbatim>\<open>tui/widgets.py\<close>, with every screen as the list of its writes
  and the list engine also as a step relation. \<open>Tui_Frontend\<close> is \<^verbatim>\<open>tui/curses_frontend.py\<close> and interprets the
  contract. \<open>Setup_Keys\<close> adds the contract \<open>leaving_frontend\<close>, every screen can be left, and what Enter
  does on each. \<open>Cli\<close> composes all of it as the entry points do.

  \<^bold>\<open>What is shown.\<close>

    \<^item> \<open>Storage_Properties\<close>: resuming overwrites nothing that was provisioned, a USB boot installation
      leaves the disk without a partition table and keeps its random fill, the waits are bounded.
    \<^item> \<open>Usb_Boot_Properties\<close>: preparing and cloning write their drive only and after every check; a finished
      clone is complete; \<^verbatim>\<open>/efi\<close> is mounted once; the size of the recovery partition; drive names.
    \<^item> \<open>Executor_Properties\<close>: mounts, mappings and the signing key are released on every way out, staged data
      outlives a failed copy, the firewall is enabled last, the package list is exact.
    \<^item> \<open>Install_Properties\<close> and \<open>Essential_Commands\<close>: no command line shows a password, the first failure
      ends the installation, a failed staging touches nothing, a normal end has overlooked no failure
      of an essential command, only two steps destroy data, the expected state is read back.
    \<^item> \<open>Config_Properties\<close>, \<open>Config_Roundtrip\<close>, \<open>Secrets_Properties\<close>: which source wins, that values read
      are typed, that a written configuration loads, that stored passwords are read back and an edit of the
      secrets keeps the other lines.
    \<^item> \<open>Widget_Properties\<close>, \<open>Setup_Properties\<close>, \<open>Cli_Properties\<close>: what the keys do; the setup asks what applies,
      its answers are taken by the builder, it can be left, accepting it keeps what was inherited, and it
      never completes on a selection without a value; an unattended installation never waits, and runs
      nothing unless everything an installation needs is known.

  \<open>Sample_Config\<close> has the configurations and machines on which witnesses evaluate the model.

  \<^bold>\<open>Loops and bounds.\<close> The loops of the code are over lists, or consume a key or a line of the terminal, or
  wait a bounded number of times (20 and 15 looks, the constants of the code); each is a total function. The
  one fuel is that of the shell reader in \<open>Expected_State\<close>, which is not code of the installer; the
  round trip proves it enough. Python's integers are unbounded and are \<open>int\<close>; bytes are 8-bit words.

  \<^bold>\<open>Parameters.\<close> What a command answers; the YAML parser and writer, each a function of the text or value;
  Argon2id and AES-GCM with the one law that opening a sealed text under the same key, nonce and data
  gives it back; the random bytes. The properties that use such a law name it as a hypothesis and have a
  witness on a concrete instance.

  \<^bold>\<open>Decisions.\<close> White space, case and digits of \<^verbatim>\<open>str\<close> are those of ASCII; the keys of a mapping
  are text; a member of a \<^verbatim>\<open>StrEnum\<close> is its text; floating point occurs only in a quotient rounded up,
  exact below 2 to the 53; paths are not normalised; files are read with universal newlines.

  \<^bold>\<open>Not modelled.\<close> Which records the code logs (\<open>Log\<close> has how they are written); starting and ending curses,
  and its refusal to draw outside a window that is too small; the shell scripts under \<^verbatim>\<open>src/scripts\<close>, which
  run on the installed system; the tests and the example configurations.
\<close>

end
